(* ===== verification/Prelude.thy ===== *)
theory Prelude
  imports Complex_Main "HOL-Library.Word" "HOL-Library.Product_Lexorder"
begin

text \<open>
  Prelude of the development: the types the Go code shares between its packages
  (UUIDs, instants, durations, 64-bit integers), the textual form of integers that
  the Redis values and the request hash are built from, the fact collections the
  component theories extend, and the generic lemmas on lists, strings and results
  they rely on.

  Instants (\<open>time.Time\<close>, always in UTC in this code base) are nanoseconds since
  the Unix epoch; durations (\<open>time.Duration\<close>) are nanoseconds. Both are \<open>int\<close>;
  where the Go code narrows them to \<open>int64\<close> the narrowing is written out.
\<close>

section \<open>Fact collections\<close>

text \<open>
  \<open>frame\<close>: an operation leaves a field of the world unchanged.
  \<open>op_defs\<close>: the definitions of the operations of a component, unfolded when an
  operation is analysed branch by branch.
  \<open>key_simps\<close>: Redis keys of different kinds or owners differ.
\<close>

named_theorems frame \<open>operations that leave a field of the world unchanged\<close>
named_theorems op_defs \<open>definitions of operations\<close>
named_theorems key_simps \<open>distinctness of Redis keys\<close>

section \<open>Types shared by the services\<close>

type_synonym uuid = "128 word"
type_synonym instant = int
type_synonym duration = int
type_synonym bytes = string

abbreviation nil_uuid :: uuid where
  "nil_uuid \<equiv> 0"

text \<open>The zero \<open>time.Time\<close>: January 1, year 1, 00:00:00 UTC.\<close>

definition zero_time :: instant where
  "zero_time = - 62135596800000000000"

definition millisecond :: duration where
  "millisecond = 1000000"

text \<open>
  \<open>time.Time.UnixMilli\<close> and \<open>time.Duration.Milliseconds\<close>. Go keeps the
  nanosecond part of an instant nonnegative, so the former rounds down; the latter is
  an integer division, which truncates towards zero.
\<close>

definition UnixMilli :: "instant \<Rightarrow> int" where
  "UnixMilli t = t div millisecond"

definition Milliseconds :: "duration \<Rightarrow> int" where
  "Milliseconds d = (if d < 0 then - ((- d) div millisecond) else d div millisecond)"

text \<open>A \<open>timestamptz\<close> column keeps microseconds; pgx drops the rest on the way in.\<close>

definition pg_timestamp :: "instant \<Rightarrow> instant" where
  "pg_timestamp t = t div 1000 * 1000"

lemma UnixMilli_mono: "s \<le> t \<Longrightarrow> UnixMilli s \<le> UnixMilli t"
  by (simp add: UnixMilli_def millisecond_def zdiv_mono1)

lemma pg_timestamp_mono: "s \<le> t \<Longrightarrow> pg_timestamp s \<le> pg_timestamp t"
  by (simp add: pg_timestamp_def zdiv_mono1)

lemma pg_timestamp_idem [simp]: "pg_timestamp (pg_timestamp t) = pg_timestamp t"
  by (simp add: pg_timestamp_def)

lemma pg_timestamp_le: "pg_timestamp t \<le> t"
  by (simp add: pg_timestamp_def minus_mod_eq_div_mult [symmetric])

section \<open>Integers as decimal text\<close>

text \<open>
  \<open>show_int\<close> is \<open>strconv.FormatInt (n, 10)\<close> (and the verb \<open>%d\<close>);
  \<open>ParseInt64\<close> is \<open>strconv.ParseInt (s, 10, 64)\<close>: an optional sign, at least one
  digit, and a value within the range of \<open>int64\<close>.
\<close>

text \<open>For evaluation: the character of a code, without the bit operations of its definition.\<close>

definition nat_char :: "nat \<Rightarrow> char" where
  "nat_char n = Char (n mod 2 = 1) (n div 2 mod 2 = 1) (n div 4 mod 2 = 1) (n div 8 mod 2 = 1)
     (n div 16 mod 2 = 1) (n div 32 mod 2 = 1) (n div 64 mod 2 = 1) (n div 128 mod 2 = 1)"

lemma char_of_nat_char [code_unfold]: "char_of = nat_char"
  by (simp add: fun_eq_iff nat_char_def char_of_def bit_iff_odd odd_iff_mod_2_eq_one)

definition digit_char :: "nat \<Rightarrow> char" where
  "digit_char d = char_of (48 + d)"

definition char_digit :: "char \<Rightarrow> nat option" where
  "char_digit c =
     (let n = (of_char c :: nat) in if 48 \<le> n \<and> n \<le> 57 then Some (n - 48) else None)"

fun show_nat :: "nat \<Rightarrow> string" where
  "show_nat n = (if n < 10 then [digit_char n] else show_nat (n div 10) @ [digit_char (n mod 10)])"

declare show_nat.simps [simp del]

definition show_int :: "int \<Rightarrow> string" where
  "show_int i = (if i < 0 then CHR ''-'' # show_nat (nat (- i)) else show_nat (nat i))"

fun parse_digits :: "nat \<Rightarrow> string \<Rightarrow> nat option" where
  "parse_digits acc [] = Some acc"
| "parse_digits acc (c # cs) =
     (case char_digit c of None \<Rightarrow> None | Some d \<Rightarrow> parse_digits (10 * acc + d) cs)"

definition parse_nat :: "string \<Rightarrow> nat option" where
  "parse_nat s = (if s = [] then None else parse_digits 0 s)"

definition min_int64 :: int where "min_int64 = - 9223372036854775808"
definition max_int64 :: int where "max_int64 = 9223372036854775807"

text \<open>Arithmetic on \<open>int64\<close> (and on \<open>int\<close> and \<open>time.Duration\<close>) wraps around.\<close>

definition wrap64 :: "int \<Rightarrow> int" where
  "wrap64 i = sint (word_of_int i :: 64 word)"

lemma wrap64_id: "min_int64 \<le> i \<Longrightarrow> i \<le> max_int64 \<Longrightarrow> wrap64 i = i"
  by (simp add: wrap64_def min_int64_def max_int64_def int_word_sint)

lemma wrap64_range: "min_int64 \<le> wrap64 i \<and> wrap64 i \<le> max_int64"
  using sint_range_size [of "word_of_int i :: 64 word"]
  by (simp add: wrap64_def min_int64_def max_int64_def word_size)

definition ParseInt64 :: "string \<Rightarrow> int option" where
  "ParseInt64 s =
     (let v = (case s of
          [] \<Rightarrow> None
        | c # cs \<Rightarrow>
            if c = CHR ''-'' then map_option (\<lambda>n. - int n) (parse_nat cs)
            else if c = CHR ''+'' then map_option int (parse_nat cs)
            else map_option int (parse_nat s))
      in case v of None \<Rightarrow> None
       | Some i \<Rightarrow> if min_int64 \<le> i \<and> i \<le> max_int64 then Some i else None)"

lemma of_char_digit: "d < 10 \<Longrightarrow> (of_char (digit_char d) :: nat) = 48 + d"
  by (simp add: digit_char_def)

lemma char_digit_digit_char [simp]: "d < 10 \<Longrightarrow> char_digit (digit_char d) = Some d"
  by (simp add: char_digit_def of_char_digit)

lemma parse_digits_append:
  "parse_digits acc (s @ t) =
     (case parse_digits acc s of None \<Rightarrow> None | Some n \<Rightarrow> parse_digits n t)"
  by (induction s arbitrary: acc) (auto split: option.splits)

lemma show_nat_not_Nil [simp]: "show_nat n \<noteq> []"
  by (subst show_nat.simps) simp

lemma parse_digits_show_nat: "parse_digits 0 (show_nat n) = Some n"
proof (induction n rule: show_nat.induct)
  case (1 n)
  show ?case
  proof (cases "n < 10")
    case True
    then show ?thesis by (simp add: show_nat.simps [of n])
  next
    case False
    with 1 have "parse_digits 0 (show_nat (n div 10)) = Some (n div 10)" by simp
    with False show ?thesis
      by (simp add: show_nat.simps [of n] parse_digits_append)
  qed
qed

lemma parse_nat_show_nat [simp]: "parse_nat (show_nat n) = Some n"
  by (simp add: parse_nat_def parse_digits_show_nat)

text \<open>The characters of a number: digits, and a sign in front.\<close>

definition is_digit :: "char \<Rightarrow> bool" where
  "is_digit c \<longleftrightarrow> char_digit c \<noteq> None"

lemma show_nat_digits: "c \<in> set (show_nat n) \<Longrightarrow> is_digit c"
proof (induction n rule: show_nat.induct)
  case (1 n)
  then show ?case
    by (cases "n < 10") (auto simp: show_nat.simps [of n] is_digit_def)
qed

lemma show_int_chars: "c \<in> set (show_int i) \<Longrightarrow> is_digit c \<or> c = CHR ''-''"
  by (auto simp: show_int_def show_nat_digits split: if_splits)

lemma sign_not_digit [simp]: "\<not> is_digit CHR ''-''" "\<not> is_digit CHR ''+''"
  "\<not> is_digit CHR '':''" "\<not> is_digit CHR ''|''"
  by (simp_all add: is_digit_def char_digit_def)

lemma show_nat_hd: "is_digit (hd (show_nat n))"
  by (rule show_nat_digits [of _ n]) simp

lemma show_nat_Cons_digit: "show_nat n = c # cs \<Longrightarrow> is_digit c"
  using show_nat_hd [of n] by simp

lemma ParseInt64_show_int:
  assumes "min_int64 \<le> i" "i \<le> max_int64"
  shows "ParseInt64 (show_int i) = Some i"
proof (cases "i < 0")
  case True
  with assms show ?thesis by (simp add: ParseInt64_def show_int_def)
next
  case False
  obtain c cs where s: "show_nat (nat i) = c # cs"
    by (cases "show_nat (nat i)") auto
  then have "c \<noteq> CHR ''-''" "c \<noteq> CHR ''+''"
    using show_nat_Cons_digit [OF s] by auto
  moreover have "parse_nat (c # cs) = Some (nat i)"
    using parse_nat_show_nat [of "nat i"] s by simp
  ultimately show ?thesis
    using False assms by (simp add: ParseInt64_def show_int_def s)
qed

lemma show_int_no_colon: "CHR '':'' \<notin> set (show_int i)"
  using show_int_chars [of "CHR '':''" i] by auto

lemma show_int_no_bar: "CHR ''|'' \<notin> set (show_int i)"
  using show_int_chars [of "CHR ''|''" i] by auto

lemma show_nat_inject: "show_nat m = show_nat n \<Longrightarrow> m = n"
  by (metis option.inject parse_nat_show_nat)

lemma show_int_inject: "show_int i = show_int j \<longleftrightarrow> i = j"
proof
  assume eq: "show_int i = show_int j"
  have neq: "CHR ''-'' # s \<noteq> show_nat n" for s n
    using show_nat_Cons_digit [of n "CHR ''-''" s] by auto
  show "i = j"
    using eq neq [of _ "nat i"] neq [of _ "nat j"]
    by (auto simp: show_int_def split: if_splits dest: show_nat_inject)
qed simp

text \<open>The same computations on \<open>int\<close>, which evaluates in binary.\<close>

function show_pos :: "int \<Rightarrow> string" where
  "show_pos i =
     (if i < 10 then [digit_char (nat i)] else show_pos (i div 10) @ [digit_char (nat (i mod 10))])"
  by pat_completeness auto
termination
  by (relation "measure nat") auto

declare show_pos.simps [simp del]

lemma show_nat_show_pos: "show_nat n = show_pos (int n)"
proof (induction n rule: show_nat.induct)
  case (1 n)
  show ?case
  proof (cases "n < 10")
    case False
    have "nat (int n mod 10) = n mod 10" by (simp add: nat_mod_distrib)
    with 1 False show ?thesis
      by (simp add: show_nat.simps [of n] show_pos.simps [of "int n"] zdiv_int)
  qed (simp add: show_nat.simps [of n] show_pos.simps [of "int n"])
qed

lemma show_int_code [code]:
  "show_int i = (if i < 0 then CHR ''-'' # show_pos (- i) else show_pos i)"
  by (simp add: show_int_def show_nat_show_pos)

fun parse_int_digits :: "int \<Rightarrow> string \<Rightarrow> int option" where
  "parse_int_digits acc [] = Some acc"
| "parse_int_digits acc (c # cs) =
     (case char_digit c of None \<Rightarrow> None | Some d \<Rightarrow> parse_int_digits (10 * acc + int d) cs)"

lemma parse_int_digits: "map_option int (parse_digits acc s) = parse_int_digits (int acc) s"
  by (induction s arbitrary: acc) (auto split: option.splits)

definition parse_natural :: "string \<Rightarrow> int option" where
  "parse_natural s = (if s = [] then None else parse_int_digits 0 s)"

lemma parse_natural: "map_option int (parse_nat s) = parse_natural s"
  using parse_int_digits [of 0 s] by (simp add: parse_nat_def parse_natural_def)

lemma ParseInt64_code [code]:
  "ParseInt64 s =
     (let v = (case s of
          [] \<Rightarrow> None
        | c # cs \<Rightarrow>
            if c = CHR ''-'' then map_option uminus (parse_natural cs)
            else if c = CHR ''+'' then parse_natural cs
            else parse_natural s)
      in case v of None \<Rightarrow> None
       | Some i \<Rightarrow> if min_int64 \<le> i \<and> i \<le> max_int64 then Some i else None)"
  by (simp add: ParseInt64_def parse_natural [symmetric] option.map_comp comp_def
      split: list.splits)

lemma digit_char_code [code]:
  "digit_char d =
     (if d = 0 then CHR ''0'' else if d = 1 then CHR ''1'' else if d = 2 then CHR ''2''
      else if d = 3 then CHR ''3'' else if d = 4 then CHR ''4'' else if d = 5 then CHR ''5''
      else if d = 6 then CHR ''6'' else if d = 7 then CHR ''7'' else if d = 8 then CHR ''8''
      else if d = 9 then CHR ''9'' else char_of (48 + d))"
  by (simp add: digit_char_def char_of_def bit_0)

section \<open>Strings split at a separator\<close>

text \<open>\<open>strings.Split (s, sep)\<close> for a separator of one character.\<close>

fun split_on :: "char \<Rightarrow> string \<Rightarrow> string list" where
  "split_on sep [] = [[]]"
| "split_on sep (c # cs) =
     (if c = sep then [] # split_on sep cs
      else case split_on sep cs of [] \<Rightarrow> [[c]] | p # ps \<Rightarrow> (c # p) # ps)"

lemma split_on_not_Nil [simp]: "split_on sep s \<noteq> []"
  by (induction s) (auto split: list.splits)

lemma split_on_none: "sep \<notin> set s \<Longrightarrow> split_on sep s = [s]"
  by (induction s) auto

lemma split_on_append:
  "sep \<notin> set s \<Longrightarrow> split_on sep (s @ sep # t) = s # split_on sep t"
  by (induction s) auto

text \<open>Two texts in front of the same separator are equal when neither contains it.\<close>

lemma sep_append_inject:
  assumes "sep \<notin> set s" "sep \<notin> set s'" "s @ sep # t = s' @ sep # t'"
  shows "s = s' \<and> t = t'"
proof -
  have "takeWhile (\<lambda>c. c \<noteq> sep) (s @ sep # t) = s"
    and "takeWhile (\<lambda>c. c \<noteq> sep) (s' @ sep # t') = s'"
    using assms(1,2) by (induction s, auto) (induction s', auto)
  with assms(3) show ?thesis by simp
qed

section \<open>Lists\<close>

lemma filter_map_upd_id:
  "(\<And>x. x \<in> set xs \<Longrightarrow> P x \<Longrightarrow> f x = x) \<Longrightarrow> map (\<lambda>x. if P x then f x else x) xs = xs"
  by (induction xs) auto

lemma length_filter_unique:
  assumes "distinct (map f xs)" "x \<in> set xs" "f x = k"
  shows "filter (\<lambda>y. f y = k) xs = [x]"
  using assms by (induction xs) (auto simp: filter_empty_conv image_iff)

lemma find_distinct:
  assumes "distinct (map f xs)" "x \<in> set xs"
  shows "find (\<lambda>y. f y = f x) xs = Some x"
  using assms by (induction xs) (auto simp: image_iff)

lemma find_Some_mem: "find P xs = Some x \<Longrightarrow> x \<in> set xs \<and> P x"
  by (induction xs) (auto split: if_splits)

lemma set_map_if:
  "set (map (\<lambda>x. if P x then f x else x) xs) = f ` {x \<in> set xs. P x} \<union> {x \<in> set xs. \<not> P x}"
  by (induction xs) auto

text \<open>\<open>UPDATE .. SET .. WHERE\<close> on a table, which is a list of rows.\<close>

definition upd_where :: "('r \<Rightarrow> bool) \<Rightarrow> ('r \<Rightarrow> 'r) \<Rightarrow> 'r list \<Rightarrow> 'r list" where
  "upd_where P f rows = map (\<lambda>r. if P r then f r else r) rows"

lemma upd_where_simps [simp]:
  "upd_where P f [] = []"
  "upd_where P f (r # rows) = (if P r then f r else r) # upd_where P f rows"
  "upd_where P f (rows @ rows') = upd_where P f rows @ upd_where P f rows'"
  "length (upd_where P f rows) = length rows"
  by (simp_all add: upd_where_def)

lemma set_upd_where:
  "set (upd_where P f rows) = f ` {r \<in> set rows. P r} \<union> {r \<in> set rows. \<not> P r}"
  by (simp add: upd_where_def set_map_if del: set_map)

lemma map_upd_where:
  "(\<And>r. r \<in> set rows \<Longrightarrow> P r \<Longrightarrow> k (f r) = k r) \<Longrightarrow> map k (upd_where P f rows) = map k rows"
  by (induction rows) auto

lemma list_all_upd_where:
  "list_all Q rows \<Longrightarrow> (\<And>r. r \<in> set rows \<Longrightarrow> P r \<Longrightarrow> Q r \<Longrightarrow> Q (f r)) \<Longrightarrow>
     list_all Q (upd_where P f rows)"
  by (auto simp: upd_where_def list_all_iff)

lemma upd_where_none: "(\<And>r. r \<in> set rows \<Longrightarrow> \<not> P r) \<Longrightarrow> upd_where P f rows = rows"
  by (induction rows) auto

section \<open>Results\<close>

text \<open>
  A fallible operation returns \<open>'e + 'a\<close>: \<open>Inl\<close> is the error, \<open>Inr\<close> the value.
\<close>

abbreviation is_ok :: "'e + 'a \<Rightarrow> bool" where
  "is_ok r \<equiv> (case r of Inl _ \<Rightarrow> False | Inr _ \<Rightarrow> True)"

lemma is_ok_iff: "is_ok r \<longleftrightarrow> (\<exists>x. r = Inr x)"
  by (cases r) auto

text \<open>
  Operations return a result and the new world. A property of the world that every branch
  of an operation keeps is kept by the operation: one rule for each construct the operations
  are written with.
\<close>

lemma pres_result:
  assumes "P (snd m)" and "\<And>e w. P w \<Longrightarrow> P (snd (f e w))" and "\<And>x w. P w \<Longrightarrow> P (snd (g x w))"
  shows "P (snd (case m of (Inl e, w) \<Rightarrow> f e w | (Inr x, w) \<Rightarrow> g x w))"
  using assms by (cases m) (auto split: sum.splits)

lemma pres_plain:
  assumes "P (snd m)" and "\<And>x w. P w \<Longrightarrow> P (snd (f x w))"
  shows "P (snd (case m of (x, w) \<Rightarrow> f x w))"
  using assms by (cases m) auto

lemma pres_option:
  assumes "P (snd a)" and "\<And>x. P (snd (f x))"
  shows "P (snd (case m of None \<Rightarrow> a | Some x \<Rightarrow> f x))"
  using assms by (cases m) auto

lemma pres_sum:
  assumes "\<And>e. P (snd (f e))" and "\<And>x. P (snd (g x))"
  shows "P (snd (case m of Inl e \<Rightarrow> f e | Inr x \<Rightarrow> g x))"
  using assms by (cases m) auto

lemma pres_prod:
  assumes "\<And>x y. P (snd (f x y))"
  shows "P (snd (case m of (x, y) \<Rightarrow> f x y))"
  using assms by (cases m) auto

lemma pres_list:
  assumes "P (snd a)" and "\<And>x xs. P (snd (f x xs))"
  shows "P (snd (case m of [] \<Rightarrow> a | x # xs \<Rightarrow> f x xs))"
  using assms by (cases m) auto

lemma pres_if: "P (snd a) \<Longrightarrow> P (snd b) \<Longrightarrow> P (snd (if c then a else b))"
  by simp

lemma pres_let: "P (snd (f a)) \<Longrightarrow> P (snd (let x = a in f x))"
  by simp

lemma pres_return: "P w \<Longrightarrow> P (snd (r, w))"
  by simp

lemmas pres_intros = pres_return pres_let pres_if pres_result pres_option

lemmas result_splits = prod.splits sum.splits option.splits if_splits

end
