(* ===== verification/Go_Errors.thy ===== *)
theory Go_Errors
  imports Prelude
begin

text \<open>
  The error values of the two services (\<open>shared/errors\<close>, \<open>shared/errors/service\<close>,
  \<open>shared/errors/repository\<close>), the operations of Go's \<open>errors\<close> package the code
  uses on them, and the mapping of errors to gRPC statuses
  (\<open>shared/interceptors/errors/grpc_error_interceptor.go\<close>).

  A Go error is a tree: sentinel values made by \<open>errors.New\<close> and compared by
  identity, struct errors that carry data and an \<open>Is\<close> method, and wrappers made by
  \<open>fmt.Errorf\<close> with the verb \<open>%w\<close> or by \<open>errors.Join\<close>. \<open>errors_Is\<close> and
  \<open>find_status\<close> walk the tree in the order of \<open>errors.Is\<close> and \<open>errors.As\<close>.
\<close>

section \<open>Error values\<close>

datatype grpc_code =
    Code_OK | Code_Canceled | Code_Unknown | Code_InvalidArgument | Code_DeadlineExceeded
  | Code_NotFound | Code_AlreadyExists | Code_PermissionDenied | Code_ResourceExhausted
  | Code_FailedPrecondition | Code_Aborted | Code_OutOfRange | Code_Unimplemented
  | Code_Internal | Code_Unavailable | Code_DataLoss | Code_Unauthenticated

text \<open>The sentinels of \<open>shared/errors/service/errors.go\<close>.\<close>

datatype service_sentinel =
    ErrOrderProcessing | ErrMarketsNotFound | ErrMarketsUnavailable
  | ErrNilContext | ErrInvalidPagination | ErrUserRoleNotSpecified
  | ErrSpotUnavailable | ErrSpotUnauthenticated | ErrSpotPermissionDenied
  | ErrSpotRateLimited | ErrSpotInternalFailure

text \<open>The sentinels of \<open>shared/errors/service/auth.go\<close>.\<close>

datatype auth_sentinel =
    ErrMissingMetadata | ErrMissingAuthToken | ErrInvalidToken | ErrTokenExpired
  | ErrInvalidTokenType | ErrMissingTokenSubject | ErrInvalidSubject | ErrMissingTokenSessionID
  | ErrInternalAuthContext | ErrSignAccessTokenFailed | ErrBuildTokenClaimsFailed
  | ErrSessionValidationFailed | ErrMissingUserRoles | ErrInvalidUserRoles
  | ErrInvalidUserIDInToken | ErrInvalidJTI | ErrTokenRevoked | ErrSaveTokenFailed
  | ErrSignRefreshTokenFailed

text \<open>The sentinels of \<open>shared/errors/repository/errors.go\<close>.\<close>

datatype repository_sentinel =
    ErrMarketStoreIsEmpty | RepoErrMarketsNotFound | ErrMarketCacheCorrupted

text \<open>
  The sentinels of \<open>shared/infrastructure/kafka/consumer/errors.go\<close> and of the Kafka producer, and
  the one of the client library that the consumer compares with.
\<close>

datatype consumer_sentinel =
    ErrMessageHandledByDLQ | ErrRestartConsumerSession | ErrSkipMessage | ErrStopConsumeClaim
  | ErrProducerUnavailable | ErrClosedConsumerGroup

text \<open>
  The errors of the drivers and of the standard library that the code compares with:
  context errors, \<open>pgx.ErrNoRows\<close>, \<open>redis.Nil\<close>, the breaker's two errors, an error
  reply of a Redis script, a PostgreSQL error with its code and constraint, a gRPC status.
  \<open>NewError\<close> is an error built where it is returned, which nothing compares with.
\<close>

datatype go_error =
    CtxCanceled
  | CtxDeadlineExceeded
  | NetError string
  | PgError string string string
  | PgNoRows
  | RedisNil
  | RedisReply string
  | BreakerOpenState
  | BreakerTooManyRequests
  | StatusError grpc_code string
  | NewError string
  | ErrCacheNotFound
  | Service service_sentinel
  | Auth auth_sentinel
  | Repository repository_sentinel
  | ErrNotFound uuid
  | ErrAlreadyExists uuid
  | ErrMarketNotFound uuid
  | ErrLimitExceeded int duration
  | ErrUnavailable uuid
  | ErrDisabled uuid
  | Kafka consumer_sentinel
  | MessageTooLargeError int int
  | NonRetryableError go_error
  | RetryExhaustedError go_error int
  | Errorf string go_error string
  | Errorf2 go_error go_error
  | Joined "go_error list"

text \<open>A method of a server returns a result or an error, or panics.\<close>

datatype 'r served = Returned "go_error + 'r" | Panics string

section \<open>Walking the tree\<close>

text \<open>
  \<open>unwrap\<close> gives the errors one level down (\<open>Unwrap\<close> of a wrapper). The \<open>Is\<close> method
  of each struct error accepts any target of its own struct type.
\<close>

fun unwrap :: "go_error \<Rightarrow> go_error list" where
  "unwrap (Errorf _ e _) = [e]"
| "unwrap (Errorf2 e1 e2) = [e1, e2]"
| "unwrap (Joined es) = es"
| "unwrap (NonRetryableError e) = [e]"
| "unwrap (RetryExhaustedError e n) = [e]"
| "unwrap _ = []"

fun is_ErrNotFound :: "go_error \<Rightarrow> bool" where
  "is_ErrNotFound (ErrNotFound _) = True"
| "is_ErrNotFound (Errorf _ e _) = is_ErrNotFound e"
| "is_ErrNotFound (NonRetryableError e) = is_ErrNotFound e"
| "is_ErrNotFound (RetryExhaustedError e n) = is_ErrNotFound e"
| "is_ErrNotFound (Errorf2 e1 e2) = (is_ErrNotFound e1 \<or> is_ErrNotFound e2)"
| "is_ErrNotFound (Joined es) = (\<exists>e \<in> set es. is_ErrNotFound e)"
| "is_ErrNotFound _ = False"

fun is_ErrAlreadyExists :: "go_error \<Rightarrow> bool" where
  "is_ErrAlreadyExists (ErrAlreadyExists _) = True"
| "is_ErrAlreadyExists (Errorf _ e _) = is_ErrAlreadyExists e"
| "is_ErrAlreadyExists (NonRetryableError e) = is_ErrAlreadyExists e"
| "is_ErrAlreadyExists (RetryExhaustedError e n) = is_ErrAlreadyExists e"
| "is_ErrAlreadyExists (Errorf2 e1 e2) = (is_ErrAlreadyExists e1 \<or> is_ErrAlreadyExists e2)"
| "is_ErrAlreadyExists (Joined es) = (\<exists>e \<in> set es. is_ErrAlreadyExists e)"
| "is_ErrAlreadyExists _ = False"

fun is_ErrMarketNotFound :: "go_error \<Rightarrow> bool" where
  "is_ErrMarketNotFound (ErrMarketNotFound _) = True"
| "is_ErrMarketNotFound (Errorf _ e _) = is_ErrMarketNotFound e"
| "is_ErrMarketNotFound (NonRetryableError e) = is_ErrMarketNotFound e"
| "is_ErrMarketNotFound (RetryExhaustedError e n) = is_ErrMarketNotFound e"
| "is_ErrMarketNotFound (Errorf2 e1 e2) = (is_ErrMarketNotFound e1 \<or> is_ErrMarketNotFound e2)"
| "is_ErrMarketNotFound (Joined es) = (\<exists>e \<in> set es. is_ErrMarketNotFound e)"
| "is_ErrMarketNotFound _ = False"

fun is_ErrLimitExceeded :: "go_error \<Rightarrow> bool" where
  "is_ErrLimitExceeded (ErrLimitExceeded _ _) = True"
| "is_ErrLimitExceeded (Errorf _ e _) = is_ErrLimitExceeded e"
| "is_ErrLimitExceeded (NonRetryableError e) = is_ErrLimitExceeded e"
| "is_ErrLimitExceeded (RetryExhaustedError e n) = is_ErrLimitExceeded e"
| "is_ErrLimitExceeded (Errorf2 e1 e2) = (is_ErrLimitExceeded e1 \<or> is_ErrLimitExceeded e2)"
| "is_ErrLimitExceeded (Joined es) = (\<exists>e \<in> set es. is_ErrLimitExceeded e)"
| "is_ErrLimitExceeded _ = False"

fun is_ErrUnavailable :: "go_error \<Rightarrow> bool" where
  "is_ErrUnavailable (ErrUnavailable _) = True"
| "is_ErrUnavailable (Errorf _ e _) = is_ErrUnavailable e"
| "is_ErrUnavailable (NonRetryableError e) = is_ErrUnavailable e"
| "is_ErrUnavailable (RetryExhaustedError e n) = is_ErrUnavailable e"
| "is_ErrUnavailable (Errorf2 e1 e2) = (is_ErrUnavailable e1 \<or> is_ErrUnavailable e2)"
| "is_ErrUnavailable (Joined es) = (\<exists>e \<in> set es. is_ErrUnavailable e)"
| "is_ErrUnavailable _ = False"

fun is_ErrDisabled :: "go_error \<Rightarrow> bool" where
  "is_ErrDisabled (ErrDisabled _) = True"
| "is_ErrDisabled (Errorf _ e _) = is_ErrDisabled e"
| "is_ErrDisabled (NonRetryableError e) = is_ErrDisabled e"
| "is_ErrDisabled (RetryExhaustedError e n) = is_ErrDisabled e"
| "is_ErrDisabled (Errorf2 e1 e2) = (is_ErrDisabled e1 \<or> is_ErrDisabled e2)"
| "is_ErrDisabled (Joined es) = (\<exists>e \<in> set es. is_ErrDisabled e)"
| "is_ErrDisabled _ = False"

fun is_method :: "go_error \<Rightarrow> go_error \<Rightarrow> bool" where
  "is_method (ErrNotFound _) target = is_ErrNotFound target"
| "is_method (ErrAlreadyExists _) target = is_ErrAlreadyExists target"
| "is_method (ErrMarketNotFound _) target = is_ErrMarketNotFound target"
| "is_method (ErrLimitExceeded _ _) target = is_ErrLimitExceeded target"
| "is_method (ErrUnavailable _) target = is_ErrUnavailable target"
| "is_method (ErrDisabled _) target = is_ErrDisabled target"
| "is_method _ target = False"

fun errors_Is :: "go_error \<Rightarrow> go_error \<Rightarrow> bool" where
  "errors_Is (Errorf pre e post) target = (Errorf pre e post = target \<or> errors_Is e target)"
| "errors_Is (NonRetryableError e) target = (NonRetryableError e = target \<or> errors_Is e target)"
| "errors_Is (RetryExhaustedError e n) target =
     (RetryExhaustedError e n = target \<or> errors_Is e target)"
| "errors_Is (Errorf2 e1 e2) target =
     (Errorf2 e1 e2 = target \<or> errors_Is e1 target \<or> errors_Is e2 target)"
| "errors_Is (Joined es) target = (Joined es = target \<or> (\<exists>e \<in> set es. errors_Is e target))"
| "errors_Is e target = (e = target \<or> is_method e target)"

text \<open>
  On a struct target \<open>errors.Is\<close> asks whether the tree holds an error of that struct
  type, whatever data it carries: this is what the \<open>Is\<close> methods are for.
\<close>

lemma errors_Is_struct:
  shows errors_Is_ErrNotFound: "errors_Is e (ErrNotFound i) = is_ErrNotFound e"
    and errors_Is_ErrAlreadyExists: "errors_Is e (ErrAlreadyExists i) = is_ErrAlreadyExists e"
    and errors_Is_ErrMarketNotFound: "errors_Is e (ErrMarketNotFound i) = is_ErrMarketNotFound e"
    and errors_Is_ErrLimitExceeded: "errors_Is e (ErrLimitExceeded n d) = is_ErrLimitExceeded e"
    and errors_Is_ErrUnavailable: "errors_Is e (ErrUnavailable i) = is_ErrUnavailable e"
    and errors_Is_ErrDisabled: "errors_Is e (ErrDisabled i) = is_ErrDisabled e"
  by (induction e) auto

section \<open>Error texts\<close>

text \<open>
  \<open>err.Error()\<close>. The rendering of a UUID and of a duration belong to other packages and
  are arguments.
\<close>

fun service_text :: "service_sentinel \<Rightarrow> string" where
  "service_text ErrOrderProcessing = ''order is already being processed''"
| "service_text ErrMarketsNotFound = ''markets not found''"
| "service_text ErrMarketsUnavailable = ''markets are temporarily unavailable''"
| "service_text ErrNilContext = ''outbox worker: nil context''"
| "service_text ErrInvalidPagination = ''invalid pagination parameters''"
| "service_text ErrUserRoleNotSpecified = ''user role not specified''"
| "service_text ErrSpotUnavailable = ''spot service unavailable''"
| "service_text ErrSpotUnauthenticated = ''spot service unauthenticated''"
| "service_text ErrSpotPermissionDenied = ''spot service permission denied''"
| "service_text ErrSpotRateLimited = ''spot service rate limited''"
| "service_text ErrSpotInternalFailure = ''spot service internal failure''"

fun auth_text :: "auth_sentinel \<Rightarrow> string" where
  "auth_text ErrMissingMetadata = ''missing metadata''"
| "auth_text ErrMissingAuthToken = ''missing authorization token''"
| "auth_text ErrInvalidToken = ''invalid token''"
| "auth_text ErrTokenExpired = ''token expired''"
| "auth_text ErrInvalidTokenType = ''invalid token type''"
| "auth_text ErrMissingTokenSubject = ''subject not found in token''"
| "auth_text ErrInvalidSubject = ''invalid subject in token''"
| "auth_text ErrMissingTokenSessionID = ''session_id not found in token''"
| "auth_text ErrInternalAuthContext = ''internal auth context error''"
| "auth_text ErrSignAccessTokenFailed = ''failed to sign access token''"
| "auth_text ErrBuildTokenClaimsFailed = ''failed to build token claims''"
| "auth_text ErrSessionValidationFailed = ''failed to validate session''"
| "auth_text ErrMissingUserRoles = ''user_roles not found in token''"
| "auth_text ErrInvalidUserRoles = ''invalid user_roles in token''"
| "auth_text ErrInvalidUserIDInToken = ''invalid user_id in token''"
| "auth_text ErrInvalidJTI = ''invalid refresh token jti''"
| "auth_text ErrTokenRevoked = ''refresh token revoked or not found''"
| "auth_text ErrSaveTokenFailed = ''failed to save refresh token''"
| "auth_text ErrSignRefreshTokenFailed = ''failed to sign refresh token''"

fun repository_text :: "repository_sentinel \<Rightarrow> string" where
  "repository_text ErrMarketStoreIsEmpty = ''market store is empty''"
| "repository_text RepoErrMarketsNotFound = ''markets cache not found''"
| "repository_text ErrMarketCacheCorrupted = ''market cache corrupted''"

fun consumer_text :: "consumer_sentinel \<Rightarrow> string" where
  "consumer_text ErrMessageHandledByDLQ = ''message handled by dlq''"
| "consumer_text ErrRestartConsumerSession = ''restart consumer session''"
| "consumer_text ErrSkipMessage = ''skip message''"
| "consumer_text ErrStopConsumeClaim = ''stop consume claim''"
| "consumer_text ErrProducerUnavailable = ''kafka producer unavailable''"
| "consumer_text ErrClosedConsumerGroup = ''kafka: tried to use a consumer group that was closed''"

fun join_lines :: "string list \<Rightarrow> string" where
  "join_lines [] = []"
| "join_lines [s] = s"
| "join_lines (s # ss) = s @ CHR 0x0A # join_lines ss"

fun error_text :: "(uuid \<Rightarrow> string) \<Rightarrow> (duration \<Rightarrow> string) \<Rightarrow> go_error \<Rightarrow> string" where
  "error_text us ds CtxCanceled = ''context canceled''"
| "error_text us ds CtxDeadlineExceeded = ''context deadline exceeded''"
| "error_text us ds (NetError s) = s"
| "error_text us ds (PgError code constr s) = s"
| "error_text us ds PgNoRows = ''no rows in result set''"
| "error_text us ds RedisNil = ''redis: nil''"
| "error_text us ds (RedisReply s) = s"
| "error_text us ds BreakerOpenState = ''circuit breaker is open''"
| "error_text us ds BreakerTooManyRequests = ''too many requests''"
| "error_text us ds (StatusError c s) = s"
| "error_text us ds (NewError s) = s"
| "error_text us ds ErrCacheNotFound = ''cache not found''"
| "error_text us ds (Service x) = service_text x"
| "error_text us ds (Auth x) = auth_text x"
| "error_text us ds (Repository x) = repository_text x"
| "error_text us ds (ErrNotFound i) = ''resource with id='' @ us i @ '' not found''"
| "error_text us ds (ErrAlreadyExists i) = ''resource with id='' @ us i @ '' already exists''"
| "error_text us ds (ErrMarketNotFound i) = ''market with id='' @ us i @ '' not found''"
| "error_text us ds (ErrLimitExceeded n d) =
     ''rate limit exceeded: '' @ show_int n @ '' requests per '' @ ds d"
| "error_text us ds (ErrUnavailable i) =
     ''market with id='' @ us i @ '' is temporarily unavailable''"
| "error_text us ds (ErrDisabled i) = ''market with id='' @ us i @ '' is disabled''"
| "error_text us ds (Kafka x) = consumer_text x"
| "error_text us ds (MessageTooLargeError n m) =
     ''kafka message too large: '' @ show_int n @ '' > '' @ show_int m"
| "error_text us ds (NonRetryableError e) = error_text us ds e"
| "error_text us ds (RetryExhaustedError e n) = error_text us ds e"
| "error_text us ds (Errorf pre e post) = pre @ error_text us ds e @ post"
| "error_text us ds (Errorf2 e1 e2) = error_text us ds e1 @ '': '' @ error_text us ds e2"
| "error_text us ds (Joined es) = join_lines (map (error_text us ds) es)"

section \<open>gRPC statuses\<close>

text \<open>
  \<open>status.FromError\<close>: the first status in the tree in the order of \<open>errors.As\<close>; an
  error that holds none has the code \<open>Unknown\<close> and is no status.
\<close>

fun find_status :: "go_error \<Rightarrow> grpc_code option" where
  "find_status (StatusError c _) = Some c"
| "find_status (Errorf _ e _) = find_status e"
| "find_status (NonRetryableError e) = find_status e"
| "find_status (RetryExhaustedError e n) = find_status e"
| "find_status (Errorf2 e1 e2) =
     (case find_status e1 of Some c \<Rightarrow> Some c | None \<Rightarrow> find_status e2)"
| "find_status (Joined es) =
     (case filter (\<lambda>r. r \<noteq> None) (map find_status es) of [] \<Rightarrow> None | r # _ \<Rightarrow> r)"
| "find_status _ = None"

definition status_Code :: "go_error \<Rightarrow> grpc_code" where
  "status_Code e = (case find_status e of Some c \<Rightarrow> c | None \<Rightarrow> Code_Unknown)"

definition FromContextError :: "go_error \<Rightarrow> grpc_code" where
  "FromContextError e =
     (if errors_Is e CtxDeadlineExceeded then Code_DeadlineExceeded
      else if errors_Is e CtxCanceled then Code_Canceled
      else Code_Unknown)"

definition isNotFoundError :: "go_error \<Rightarrow> bool" where
  "isNotFoundError e \<longleftrightarrow>
     errors_Is e (Service ErrMarketsNotFound) \<or>
     errors_Is e (ErrMarketNotFound nil_uuid) \<or>
     errors_Is e (ErrNotFound nil_uuid)"

definition isSpotDependencyError :: "go_error \<Rightarrow> bool" where
  "isSpotDependencyError e \<longleftrightarrow>
     errors_Is e (Service ErrSpotUnavailable) \<or>
     errors_Is e (Service ErrSpotRateLimited) \<or>
     errors_Is e (Service ErrSpotUnauthenticated) \<or>
     errors_Is e (Service ErrSpotPermissionDenied) \<or>
     errors_Is e (Service ErrSpotInternalFailure)"

definition isBreakerError :: "go_error \<Rightarrow> bool" where
  "isBreakerError e \<longleftrightarrow> errors_Is e BreakerOpenState \<or> errors_Is e BreakerTooManyRequests"

definition isAuthFailure :: "go_error \<Rightarrow> bool" where
  "isAuthFailure e \<longleftrightarrow>
     errors_Is e (Service ErrUserRoleNotSpecified) \<or>
     list_ex (\<lambda>a. errors_Is e (Auth a))
       [ErrMissingMetadata, ErrMissingAuthToken, ErrInvalidToken, ErrTokenExpired,
        ErrInvalidTokenType, ErrMissingTokenSubject, ErrMissingTokenSessionID,
        ErrMissingUserRoles, ErrInvalidUserRoles, ErrInvalidUserIDInToken,
        ErrInvalidSubject, ErrInvalidJTI, ErrTokenRevoked]"

definition isAuthInternalFailure :: "go_error \<Rightarrow> bool" where
  "isAuthInternalFailure e \<longleftrightarrow>
     list_ex (\<lambda>a. errors_Is e (Auth a))
       [ErrSessionValidationFailed, ErrSaveTokenFailed, ErrSignAccessTokenFailed,
        ErrSignRefreshTokenFailed, ErrBuildTokenClaimsFailed, ErrInternalAuthContext]"

text \<open>
  \<open>mapError\<close> of the server's error interceptor. The text of a mapped error is fixed but
  for a rate-limit error, whose own text is returned. A context error becomes the status of
  \<open>status.FromContextError\<close>, whose text is the error's.
\<close>

definition mapError ::
  "(uuid \<Rightarrow> string) \<Rightarrow> (duration \<Rightarrow> string) \<Rightarrow> go_error \<Rightarrow> go_error" where
  "mapError us ds err =
     (if errors_Is err CtxCanceled \<or> errors_Is err CtxDeadlineExceeded
        then StatusError (FromContextError err) (error_text us ds err)
      else if find_status err \<noteq> None \<and> status_Code err \<noteq> Code_Unknown then err
      else if isNotFoundError err then StatusError Code_NotFound ''resource not found''
      else if errors_Is err (ErrUnavailable nil_uuid)
        then StatusError Code_Unavailable ''market temporarily unavailable''
      else if errors_Is err (Service ErrMarketsUnavailable)
        then StatusError Code_Unavailable ''markets are temporarily unavailable''
      else if isSpotDependencyError err
        then StatusError Code_Unavailable ''market service temporarily unavailable''
      else if errors_Is err (ErrAlreadyExists nil_uuid)
        then StatusError Code_AlreadyExists ''order already exists''
      else if errors_Is err (Service ErrInvalidPagination)
        then StatusError Code_InvalidArgument ''invalid pagination parameters''
      else if errors_Is err (ErrLimitExceeded 0 0)
        then StatusError Code_ResourceExhausted (error_text us ds err)
      else if isBreakerError err
        then StatusError Code_Unavailable ''service temporarily unavailable''
      else if errors_Is err (ErrDisabled nil_uuid)
        then StatusError Code_FailedPrecondition ''market is disabled''
      else if errors_Is err (Service ErrOrderProcessing)
        then StatusError Code_FailedPrecondition ''order is already being processed, wait please''
      else if isAuthFailure err then StatusError Code_Unauthenticated ''authentication failed''
      else if isAuthInternalFailure err then StatusError Code_Internal ''internal error''
      else StatusError Code_Internal ''internal error'')"

definition CodeFromError :: "go_error option \<Rightarrow> grpc_code" where
  "CodeFromError r =
     (case r of
        None \<Rightarrow> Code_OK
      | Some err \<Rightarrow>
          if errors_Is err CtxCanceled \<or> errors_Is err CtxDeadlineExceeded
          then FromContextError err else status_Code err)"

text \<open>
  The error interceptor around a handler's result, and the breaker's notion of a call that
  does not count as a failure (\<open>isSuccessfulCall\<close> of the client's circuit breaker).
\<close>

definition errors_UnaryServerInterceptor ::
  "(uuid \<Rightarrow> string) \<Rightarrow> (duration \<Rightarrow> string) \<Rightarrow> go_error + 'a \<Rightarrow> go_error + 'a" where
  "errors_UnaryServerInterceptor us ds r =
     (case r of Inl err \<Rightarrow> Inl (mapError us ds err) | Inr response \<Rightarrow> Inr response)"

definition isSuccessfulCall :: "go_error option \<Rightarrow> bool" where
  "isSuccessfulCall r =
     (case r of
        None \<Rightarrow> True
      | Some err \<Rightarrow>
          CodeFromError (Some err) \<in>
            {Code_Canceled, Code_InvalidArgument, Code_NotFound, Code_AlreadyExists,
             Code_PermissionDenied, Code_Unauthenticated, Code_FailedPrecondition,
             Code_ResourceExhausted, Code_OutOfRange})"

section \<open>Every error leaves the server as a status\<close>

lemma FromContextError_known:
  "errors_Is e CtxCanceled \<or> errors_Is e CtxDeadlineExceeded \<Longrightarrow>
     FromContextError e \<in> {Code_Canceled, Code_DeadlineExceeded}"
  by (auto simp: FromContextError_def)

lemma status_Code_StatusError [simp]: "status_Code (StatusError c s) = c"
  by (simp add: status_Code_def)

text \<open>
  Wrapping an error with \<open>fmt.Errorf\<close> changes none of the tests of the interceptor, so
  the status a client sees does not depend on how often an error was wrapped on its way up.
\<close>

lemma errors_Is_Errorf:
  "target \<noteq> Errorf pre e post \<Longrightarrow> errors_Is (Errorf pre e post) target = errors_Is e target"
  by auto

lemma status_Code_Errorf [simp]: "status_Code (Errorf pre e post) = status_Code e"
  by (simp add: status_Code_def)

lemma interceptor_tests_Errorf [simp]:
  "isNotFoundError (Errorf pre e post) = isNotFoundError e"
  "isSpotDependencyError (Errorf pre e post) = isSpotDependencyError e"
  "isBreakerError (Errorf pre e post) = isBreakerError e"
  "isAuthFailure (Errorf pre e post) = isAuthFailure e"
  "isAuthInternalFailure (Errorf pre e post) = isAuthInternalFailure e"
  "FromContextError (Errorf pre e post) = FromContextError e"
  by (simp_all add: isNotFoundError_def isSpotDependencyError_def isBreakerError_def
      isAuthFailure_def isAuthInternalFailure_def FromContextError_def)

lemma status_Code_mapError_Errorf:
  "status_Code (mapError us ds (Errorf pre e post)) = status_Code (mapError us ds e)"
  by (simp add: mapError_def)

text \<open>The interceptor is total: its output is always a status other than OK and Unknown.\<close>

lemma mapError_is_status:
  assumes "status_Code err \<noteq> Code_OK"
  shows "find_status (mapError us ds err) \<noteq> None \<and>
    status_Code (mapError us ds err) \<noteq> Code_OK \<and>
    status_Code (mapError us ds err) \<noteq> Code_Unknown"
  using assms FromContextError_known [of err] by (auto simp: mapError_def)

end
