(* ===== verification/Domain.thy ===== *)
theory Domain
  imports Prelude
begin

text \<open>
  The data model of the two services: \<open>orderService/internal/domain/models\<close>,
  \<open>shared/models\<close>, \<open>spotService/internal/domain/models\<close>, and the pure conversions
  between a value and its textual, wire or storage form.

  \<open>OrderType\<close>, \<open>OrderStatus\<close> and \<open>UserRole\<close> are \<open>uint16\<close> in Go, so any 16-bit value
  can occur and the \<open>String\<close> methods have a default branch; they are \<open>16 word\<close> here. A
  decimal of the library \<open>shopspring/decimal\<close> is a coefficient and an exponent of ten; the
  library's operations on it are parameters of the model (theory \<open>Environment\<close>).
\<close>

section \<open>Orders\<close>

type_synonym OrderType = "16 word"
type_synonym OrderStatus = "16 word"

definition OrderTypeUnspecified :: OrderType where "OrderTypeUnspecified = 0"
definition OrderTypeLimit :: OrderType where "OrderTypeLimit = 1"
definition OrderTypeMarket :: OrderType where "OrderTypeMarket = 2"
definition OrderTypeStopLoss :: OrderType where "OrderTypeStopLoss = 3"
definition OrderTypeTakeProfit :: OrderType where "OrderTypeTakeProfit = 4"

definition OrderStatusUnspecified :: OrderStatus where "OrderStatusUnspecified = 0"
definition OrderStatusCreated :: OrderStatus where "OrderStatusCreated = 1"
definition OrderStatusPending :: OrderStatus where "OrderStatusPending = 2"
definition OrderStatusFilled :: OrderStatus where "OrderStatusFilled = 3"
definition OrderStatusCancelled :: OrderStatus where "OrderStatusCancelled = 4"

lemmas OrderType_defs = OrderTypeUnspecified_def OrderTypeLimit_def OrderTypeMarket_def
  OrderTypeStopLoss_def OrderTypeTakeProfit_def

lemmas OrderStatus_defs = OrderStatusUnspecified_def OrderStatusCreated_def
  OrderStatusPending_def OrderStatusFilled_def OrderStatusCancelled_def

definition OrderStatus_String :: "OrderStatus \<Rightarrow> string" where
  "OrderStatus_String s =
     (if s = OrderStatusCreated then ''created''
      else if s = OrderStatusPending then ''pending''
      else if s = OrderStatusFilled then ''filled''
      else if s = OrderStatusCancelled then ''cancelled''
      else ''unspecified'')"

definition OrderStatus_FromString :: "string \<Rightarrow> OrderStatus" where
  "OrderStatus_FromString s =
     (if s = ''created'' then OrderStatusCreated
      else if s = ''pending'' then OrderStatusPending
      else if s = ''filled'' then OrderStatusFilled
      else if s = ''cancelled'' then OrderStatusCancelled
      else OrderStatusUnspecified)"

definition OrderType_String :: "OrderType \<Rightarrow> string" where
  "OrderType_String t =
     (if t = OrderTypeLimit then ''limit''
      else if t = OrderTypeMarket then ''market''
      else if t = OrderTypeStopLoss then ''stop_loss''
      else if t = OrderTypeTakeProfit then ''take_profit''
      else ''unspecified'')"

text \<open>The statuses an order row can have (the table's check constraint).\<close>

definition valid_status :: "OrderStatus \<Rightarrow> bool" where
  "valid_status s \<longleftrightarrow>
     s \<in> {OrderStatusCreated, OrderStatusPending, OrderStatusFilled, OrderStatusCancelled}"

lemma OrderStatus_String_roundtrip [simp]:
  "valid_status s \<Longrightarrow> OrderStatus_FromString (OrderStatus_String s) = s"
  by (auto simp: valid_status_def OrderStatus_String_def OrderStatus_FromString_def OrderStatus_defs)

lemma OrderStatus_FromString_String:
  "OrderStatus_String (OrderStatus_FromString s) =
     (if s \<in> {''created'', ''pending'', ''filled'', ''cancelled''} then s else ''unspecified'')"
  by (simp add: OrderStatus_String_def OrderStatus_FromString_def OrderStatus_defs)

lemma OrderType_String_no_bar: "CHR ''|'' \<notin> set (OrderType_String t)"
  by (simp add: OrderType_String_def)

datatype decimal = Decimal int int

record Order =
  Order_ID :: uuid
  Order_UserID :: uuid
  Order_MarketID :: uuid
  Order_Type :: OrderType
  Order_Price :: decimal
  Order_Quantity :: int
  Order_Status :: OrderStatus
  Order_CreatedAt :: instant

section \<open>Events of the order service\<close>

datatype OutboxEventStatus =
  OutboxEventStatusPending | OutboxEventStatusProcessing | OutboxEventStatusPublished
| OutboxEventStatusFailed

datatype InboxEventStatus =
  InboxEventStatusProcessing | InboxEventStatusProcessed | InboxEventStatusFailed

definition OrderCreatedEventType :: string where
  "OrderCreatedEventType = ''order.created''"

definition OrderStatusUpdatedEventType :: string where
  "OrderStatusUpdatedEventType = ''order.status.updated''"

record OrderCreatedEvent =
  OC_EventID :: uuid
  OC_OrderID :: uuid
  OC_UserID :: uuid
  OC_MarketID :: uuid
  OC_Type :: OrderType
  OC_Price :: decimal
  OC_Quantity :: int
  OC_Status :: OrderStatus
  OC_CreatedAt :: instant

record OrderStatusUpdatedEvent =
  OS_EventID :: uuid
  OS_OrderID :: uuid
  OS_NewStatus :: OrderStatus
  OS_Reason :: string
  OS_CorrelationID :: uuid
  OS_UpdatedAt :: instant

record InboxEvent =
  In_ID :: uuid
  In_EventID :: uuid
  In_Topic :: string
  In_ConsumerGroup :: string
  In_Payload :: bytes
  In_Status :: InboxEventStatus
  In_ReceivedAt :: instant
  In_ProcessedAt :: "instant option"
  In_FailedAt :: "instant option"
  In_ErrorMessage :: "string option"

record OutboxEvent =
  Out_ID :: uuid
  Out_EventID :: uuid
  Out_EventType :: string
  Out_AggregateID :: uuid
  Out_Payload :: bytes
  Out_Status :: OutboxEventStatus
  Out_RetryCount :: int
  Out_AvailableAt :: instant
  Out_CreatedAt :: instant
  Out_PublishedAt :: "instant option"
  Out_FailedAt :: "instant option"
  Out_LockedAt :: "instant option"
  Out_LastError :: "string option"

section \<open>Markets\<close>

record Market =
  Market_ID :: uuid
  Market_Name :: string
  Market_Enabled :: bool
  Market_DeletedAt :: "instant option"
  Market_UpdatedAt :: instant

definition MarketStateChangedEventType :: string where
  "MarketStateChangedEventType = ''market.state.changed''"

record MarketStateChangedEvent =
  MS_EventID :: uuid
  MS_MarketID :: uuid
  MS_Enabled :: bool
  MS_DeletedAt :: "instant option"
  MS_UpdatedAt :: instant

record PollerCursor =
  Cursor_PollerName :: string
  Cursor_LastSeenAt :: instant
  Cursor_LastSeenID :: uuid

section \<open>User roles\<close>

type_synonym UserRole = "16 word"

definition UserRoleUnspecified :: UserRole where "UserRoleUnspecified = 0"
definition UserRoleUser :: UserRole where "UserRoleUser = 1"
definition UserRoleAdmin :: UserRole where "UserRoleAdmin = 2"
definition UserRoleViewer :: UserRole where "UserRoleViewer = 3"

lemmas UserRole_defs = UserRoleUnspecified_def UserRoleUser_def UserRoleAdmin_def
  UserRoleViewer_def

definition UserRole_String :: "UserRole \<Rightarrow> string" where
  "UserRole_String r =
     (if r = UserRoleUser then ''ROLE_USER''
      else if r = UserRoleAdmin then ''ROLE_ADMIN''
      else if r = UserRoleViewer then ''ROLE_VIEWER''
      else ''ROLE_UNSPECIFIED'')"

section \<open>Messages of Kafka\<close>

text \<open>
  \<open>shared/infrastructure/kafka/message.go\<close>. A Go map is an association list with one entry
  for each key; nothing the code computes depends on the order in which a map is iterated.
  \<open>ProducerMessage\<close> is what the client library is handed for sending.
\<close>

type_synonym headers = "(string \<times> bytes) list"

record Message =
  Msg_Headers :: headers
  Msg_Timestamp :: instant
  Msg_BlockTimestamp :: instant
  Msg_Key :: bytes
  Msg_Value :: bytes
  Msg_Topic :: string
  Msg_Partition :: int
  Msg_Offset :: int

record ProducerMessage =
  PM_Topic :: string
  PM_Key :: bytes
  PM_Value :: bytes
  PM_Headers :: headers

end
