(* ===== verification/Go_Strings.thy ===== *)
theory Go_Strings
  imports Prelude "HOL-Library.Sublist"
begin

text \<open>
  What the code uses of Go's packages \<open>strings\<close>, \<open>strconv\<close> and \<open>net\<close>. A Go string is a
  sequence of bytes, here a list of characters. White space is that of Unicode in UTF-8. Letter
  case and quoting are written out for ASCII; what they do on other texts comes from tables of
  Unicode and is an argument.
\<close>

section \<open>White space\<close>

text \<open>The encodings of the runes of \<open>unicode.IsSpace\<close>.\<close>

definition space_runes :: "string list" where
  "space_runes =
    [[CHR 0x09], [CHR 0x0A], [CHR 0x0B], [CHR 0x0C], [CHR 0x0D], [CHR 0x20],
     [CHR 0xC2, CHR 0x85], [CHR 0xC2, CHR 0xA0], [CHR 0xE1, CHR 0x9A, CHR 0x80],
     [CHR 0xE2, CHR 0x80, CHR 0x80], [CHR 0xE2, CHR 0x80, CHR 0x81],
     [CHR 0xE2, CHR 0x80, CHR 0x82], [CHR 0xE2, CHR 0x80, CHR 0x83],
     [CHR 0xE2, CHR 0x80, CHR 0x84], [CHR 0xE2, CHR 0x80, CHR 0x85],
     [CHR 0xE2, CHR 0x80, CHR 0x86], [CHR 0xE2, CHR 0x80, CHR 0x87],
     [CHR 0xE2, CHR 0x80, CHR 0x88], [CHR 0xE2, CHR 0x80, CHR 0x89],
     [CHR 0xE2, CHR 0x80, CHR 0x8A], [CHR 0xE2, CHR 0x80, CHR 0xA8],
     [CHR 0xE2, CHR 0x80, CHR 0xA9], [CHR 0xE2, CHR 0x80, CHR 0xAF],
     [CHR 0xE2, CHR 0x81, CHR 0x9F], [CHR 0xE3, CHR 0x80, CHR 0x80]]"

lemma space_runes_not_Nil: "[] \<notin> set space_runes"
  by (simp add: space_runes_def)

text \<open>\<open>drop_runes rs s\<close> drops the runes \<open>rs\<close> from the front of \<open>s\<close> as long as it starts with one.\<close>

function drop_runes :: "string list \<Rightarrow> string \<Rightarrow> string" where
  "drop_runes rs s =
     (case find (\<lambda>r. r \<noteq> [] \<and> prefix r s) rs of
        None \<Rightarrow> s
      | Some r \<Rightarrow> drop_runes rs (drop (length r) s))"
  by pat_completeness auto

termination
  by (relation "measure (\<lambda>(rs, s). length s)") (auto simp: find_Some_iff elim!: prefixE)

declare drop_runes.simps [simp del]

definition strings_TrimSpace :: "string \<Rightarrow> string" where
  "strings_TrimSpace s =
     rev (drop_runes (map rev space_runes) (rev (drop_runes space_runes s)))"

lemma drop_runes_idem: "drop_runes rs (drop_runes rs s) = drop_runes rs s"
proof (induction rs s rule: drop_runes.induct)
  case (1 rs s)
  show ?case
  proof (cases "find (\<lambda>r. r \<noteq> [] \<and> prefix r s) rs")
    case None
    then show ?thesis by (simp add: drop_runes.simps)
  next
    case (Some r)
    then have "drop_runes rs s = drop_runes rs (drop (length r) s)"
      by (subst drop_runes.simps) simp
    with 1 [OF Some] show ?thesis by simp
  qed
qed

lemma drop_runes_suffix: "suffix (drop_runes rs s) s"
proof (induction rs s rule: drop_runes.induct)
  case (1 rs s)
  show ?case
  proof (cases "find (\<lambda>r. r \<noteq> [] \<and> prefix r s) rs")
    case (Some r)
    then have "suffix (drop (length r) s) s" by (simp add: suffix_drop)
    with 1 [OF Some] Some show ?thesis
      by (subst drop_runes.simps) (auto intro: suffix_order.trans)
  qed (simp add: drop_runes.simps)
qed

section \<open>Letter case and quoting\<close>

record unicode_tables =
  uc_ToUpper :: "string \<Rightarrow> string"
  uc_ToLower :: "string \<Rightarrow> string"
  uc_Quote :: "string \<Rightarrow> string"

definition ascii :: "string \<Rightarrow> bool" where
  "ascii s \<longleftrightarrow> list_all (\<lambda>c. (of_char c :: nat) < 128) s"

definition ascii_upper :: "char \<Rightarrow> char" where
  "ascii_upper c = (let n = (of_char c :: nat) in if 97 \<le> n \<and> n \<le> 122 then char_of (n - 32) else c)"

definition ascii_lower :: "char \<Rightarrow> char" where
  "ascii_lower c = (let n = (of_char c :: nat) in if 65 \<le> n \<and> n \<le> 90 then char_of (n + 32) else c)"

definition strings_ToUpper :: "unicode_tables \<Rightarrow> string \<Rightarrow> string" where
  "strings_ToUpper U s = (if ascii s then map ascii_upper s else uc_ToUpper U s)"

definition strings_ToLower :: "unicode_tables \<Rightarrow> string \<Rightarrow> string" where
  "strings_ToLower U s = (if ascii s then map ascii_lower s else uc_ToLower U s)"

text \<open>\<open>strconv.Quote\<close> (the verb \<open>%q\<close>): a backslash before a quote and a backslash.\<close>

fun quote_char :: "char \<Rightarrow> string" where
  "quote_char c = (if c = CHR 0x22 \<or> c = CHR 0x5C then [CHR 0x5C, c] else [c])"

definition printable :: "string \<Rightarrow> bool" where
  "printable s \<longleftrightarrow> list_all (\<lambda>c. 32 \<le> (of_char c :: nat) \<and> (of_char c :: nat) < 127) s"

definition strconv_Quote :: "unicode_tables \<Rightarrow> string \<Rightarrow> string" where
  "strconv_Quote U s =
     (if printable s then CHR 0x22 # concat (map quote_char s) @ [CHR 0x22] else uc_Quote U s)"

lemma ascii_lower_idem [simp]: "ascii_lower (ascii_lower c) = ascii_lower c"
  by (auto simp: ascii_lower_def Let_def)

section \<open>Host and port\<close>

text \<open>\<open>strings.LastIndexByte\<close> and \<open>strings.IndexByte\<close>.\<close>

fun index_byte :: "char \<Rightarrow> string \<Rightarrow> nat option" where
  "index_byte c [] = None"
| "index_byte c (x # xs) = (if x = c then Some 0 else map_option Suc (index_byte c xs))"

fun last_index_byte :: "char \<Rightarrow> string \<Rightarrow> nat option" where
  "last_index_byte c [] = None"
| "last_index_byte c (x # xs) =
     (case last_index_byte c xs of
        Some i \<Rightarrow> Some (Suc i)
      | None \<Rightarrow> if x = c then Some 0 else None)"

text \<open>\<open>net.SplitHostPort\<close>: the host and the port of an address, or why it has none.\<close>

definition split_tail :: "string \<Rightarrow> nat \<Rightarrow> nat \<Rightarrow> string \<Rightarrow> nat \<Rightarrow> string + string \<times> string" where
  "split_tail hostport j k host i =
     (if CHR ''['' \<in> set (drop j hostport) then Inl (''unexpected '' @ [CHR 0x27] @ ''['' @ [CHR 0x27] @ '' in address'')
      else if CHR '']'' \<in> set (drop k hostport) then Inl (''unexpected '' @ [CHR 0x27] @ '']'' @ [CHR 0x27] @ '' in address'')
      else Inr (host, drop (Suc i) hostport))"

definition SplitHostPort :: "string \<Rightarrow> string + string \<times> string" where
  "SplitHostPort hostport =
     (case last_index_byte (CHR '':'') hostport of
        None \<Rightarrow> Inl ''missing port in address''
      | Some i \<Rightarrow>
          if hd hostport = CHR ''['' then
            (case index_byte (CHR '']'') hostport of
               None \<Rightarrow> Inl (''missing '' @ [CHR 0x27] @ '']'' @ [CHR 0x27] @ '' in address'')
             | Some e \<Rightarrow>
                 if Suc e = length hostport then Inl ''missing port in address''
                 else if Suc e = i then split_tail hostport 1 (Suc e) (drop 1 (take e hostport)) i
                 else if hostport ! Suc e = CHR '':'' then Inl ''too many colons in address''
                 else Inl ''missing port in address'')
          else
            (let host = take i hostport in
             if CHR '':'' \<in> set host then Inl ''too many colons in address''
             else split_tail hostport 0 0 host i))"

section \<open>UTF-8\<close>

text \<open>
  \<open>utf8.Valid\<close>: the well-formed sequences of the Unicode standard, with neither overlong
  forms nor surrogates.
\<close>

definition utf8_cont :: "char \<Rightarrow> nat \<Rightarrow> nat \<Rightarrow> bool" where
  "utf8_cont c lo hi \<longleftrightarrow> lo \<le> of_char c \<and> of_char c \<le> hi"

fun utf8_rune :: "bytes \<Rightarrow> nat option" where
  "utf8_rune [] = None"
| "utf8_rune (a # s) =
     (let x = (of_char a :: nat) in
      if x < 128 then Some 1
      else if 194 \<le> x \<and> x \<le> 223 then
        (case s of b # _ \<Rightarrow> if utf8_cont b 128 191 then Some 2 else None | _ \<Rightarrow> None)
      else if 224 \<le> x \<and> x \<le> 239 then
        (case s of b # c # _ \<Rightarrow>
            if utf8_cont b (if x = 224 then 160 else 128) (if x = 237 then 159 else 191) \<and>
               utf8_cont c 128 191 then Some 3 else None
         | _ \<Rightarrow> None)
      else if 240 \<le> x \<and> x \<le> 244 then
        (case s of b # c # d # _ \<Rightarrow>
            if utf8_cont b (if x = 240 then 144 else 128) (if x = 244 then 143 else 191) \<and>
               utf8_cont c 128 191 \<and> utf8_cont d 128 191 then Some 4 else None
         | _ \<Rightarrow> None)
      else None)"

lemma utf8_rune_pos: "utf8_rune s = Some n \<Longrightarrow> 0 < n \<and> n \<le> length s \<and> n \<le> 4"
  by (cases s) (auto simp: Let_def split: if_splits list.splits)

function utf8_Valid :: "bytes \<Rightarrow> bool" where
  "utf8_Valid s =
     (if s = [] then True
      else case utf8_rune s of None \<Rightarrow> False | Some n \<Rightarrow> utf8_Valid (drop n s))"
  by pat_completeness auto
termination
  by (relation "measure length") (auto dest: utf8_rune_pos)

declare utf8_Valid.simps [simp del]

text \<open>
  What \<open>encoding/json\<close> makes of a string that is written and read back: every byte that is not part
  of a well-formed sequence becomes U+FFFD, and a valid text stays as it is.
\<close>

function json_text :: "bytes \<Rightarrow> bytes" where
  "json_text s =
     (if s = [] then []
      else case utf8_rune s of
          None \<Rightarrow> [CHR 0xEF, CHR 0xBF, CHR 0xBD] @ json_text (tl s)
        | Some n \<Rightarrow> take n s @ json_text (drop n s))"
  by pat_completeness auto
termination
  by (relation "measure length") (auto dest: utf8_rune_pos)

declare json_text.simps [simp del]

lemma json_text_valid: "utf8_Valid s \<Longrightarrow> json_text s = s"
proof (induction s rule: utf8_Valid.induct)
  case (1 s)
  then show ?case
    by (subst json_text.simps) (auto simp: utf8_Valid.simps [of s] split: option.splits)
qed

lemma utf8_Valid_ascii: "ascii s \<Longrightarrow> utf8_Valid s"
  unfolding ascii_def
proof (induction s)
  case (Cons c s)
  then show ?case by (subst utf8_Valid.simps) (simp add: Let_def)
qed (simp add: utf8_Valid.simps)

section \<open>Floating-point numbers\<close>

text \<open>A \<open>float64\<close> is a rational, an infinity or not a number.\<close>

datatype float64 = Finite rat | PosInf | NegInf | NaN

text \<open>Comparisons with a finite number; every comparison with \<open>NaN\<close> is false.\<close>

definition float_less_rat :: "float64 \<Rightarrow> rat \<Rightarrow> bool" where
  "float_less_rat f q = (case f of Finite r \<Rightarrow> r < q | PosInf \<Rightarrow> False | NegInf \<Rightarrow> True | NaN \<Rightarrow> False)"

definition float_greater_rat :: "float64 \<Rightarrow> rat \<Rightarrow> bool" where
  "float_greater_rat f q = (case f of Finite r \<Rightarrow> q < r | PosInf \<Rightarrow> True | NegInf \<Rightarrow> False | NaN \<Rightarrow> False)"

end
