(* ===== verification/Environment.thy ===== *)
theory Environment
  imports Go_Errors Domain Go_Strings
begin

text \<open>
  What the services are run in: clocks, fresh UUIDs, the outcome of every call that leaves
  the process, the text form of UUIDs and durations, and the Redis keyspace with the
  commands the Go code and its Lua scripts issue (\<open>shared/infrastructure/cache\<close>).

  Everything the environment decides is read from an \<open>env\<close> at the number of the current
  step, \<open>tick\<close>, which every such reading advances. A theorem that holds for every \<open>env\<close>
  holds for every order of failures, every clock and every supply of UUIDs. Contexts and
  their timeouts appear as outcomes: a call may fail with a context error at any step.
\<close>

section \<open>The environment and the part of the world shared by both services\<close>

text \<open>
  An external call succeeds, fails before it takes effect (\<open>Lost\<close>), or takes effect while
  its answer is lost (\<open>Applied\<close>): a timeout does not tell the caller which.
\<close>

datatype fault = FaultCanceled | FaultDeadline | FaultNet string | FaultPg string string string

datatype outcome = Success | Lost fault | Applied fault

fun fault_error :: "fault \<Rightarrow> go_error" where
  "fault_error FaultCanceled = CtxCanceled"
| "fault_error FaultDeadline = CtxDeadlineExceeded"
| "fault_error (FaultNet s) = NetError s"
| "fault_error (FaultPg code constr s) = PgError code constr s"

text \<open>
  Publishing a message is two \<open>select\<close> statements of the producer's client: one hands the
  message over, one waits for the verdict of the broker. Each takes one of its cases. A
  message for which no success was reported may still have reached the broker.
\<close>

datatype ack = AckSuccess | AckError fault

datatype enqueue_case = EnqueueCtxDone fault | EnqueueClosing | EnqueueInput

datatype wait_case = WaitDone ack | WaitCtxDone fault | WaitClosed "ack option"

record env =
  env_outcome :: "nat \<Rightarrow> outcome"            \<comment> \<open>the outcome of the external call at a step\<close>
  env_ctx :: "nat \<Rightarrow> fault option"           \<comment> \<open>\<open>ctx.Err()\<close> when it is checked at a step\<close>
  env_now :: "nat \<Rightarrow> instant"                \<comment> \<open>\<open>time.Now().UTC()\<close> of the process\<close>
  env_redis_ms :: "nat \<Rightarrow> int"               \<comment> \<open>the clock of the Redis server, in milliseconds\<close>
  env_db_now :: "nat \<Rightarrow> instant"             \<comment> \<open>\<open>NOW()\<close> of the PostgreSQL server\<close>
  env_uuid :: "nat \<Rightarrow> uuid"                  \<comment> \<open>\<open>uuid.New()\<close>\<close>
  env_rank :: "nat \<Rightarrow> uuid \<Rightarrow> nat"           \<comment> \<open>the order in which a statement returns rows\<close>
  env_locked :: "nat \<Rightarrow> uuid \<Rightarrow> bool"        \<comment> \<open>rows other transactions hold locked\<close>
  env_enqueue :: "nat \<Rightarrow> enqueue_case"        \<comment> \<open>the case taken when a message is handed over\<close>
  env_wait :: "nat \<Rightarrow> wait_case"              \<comment> \<open>the case taken when its verdict is awaited\<close>
  env_accepted :: "nat \<Rightarrow> bool"               \<comment> \<open>the broker took the message without saying so\<close>
  env_inject :: "nat \<Rightarrow> headers \<Rightarrow> headers"   \<comment> \<open>the trace propagator's \<open>Inject\<close>\<close>
  env_rand :: "nat \<Rightarrow> rat \<times> bool"             \<comment> \<open>\<open>rand.Float64()\<close> and a coin\<close>
  env_float_duration :: duration              \<comment> \<open>a \<open>float64\<close> that is no \<open>int64\<close>, converted to one\<close>
  uuid_String :: "uuid \<Rightarrow> string"
  uuid_Parse :: "string \<Rightarrow> uuid option"
  duration_String :: "duration \<Rightarrow> string"

text \<open>What the code relies on of \<open>google/uuid\<close>: hexadecimal digits and dashes, and \<open>Parse\<close> reads \<open>String\<close> back.\<close>

definition uuid_ok :: "'a env_scheme \<Rightarrow> bool" where
  "uuid_ok E \<longleftrightarrow>
     (\<forall>u. uuid_Parse E (uuid_String E u) = Some u \<and> uuid_String E u \<noteq> [] \<and>
          set (uuid_String E u) \<subseteq> set ''0123456789abcdef-'')"

lemma ascii_uuid_String: "uuid_ok E \<Longrightarrow> ascii (uuid_String E u)"
proof -
  have "ascii ''0123456789abcdef-''" by code_simp
  then show "uuid_ok E \<Longrightarrow> ascii (uuid_String E u)"
    unfolding uuid_ok_def ascii_def list_all_iff by blast
qed

lemma uuid_String_inject: "uuid_ok E \<Longrightarrow> uuid_String E u = uuid_String E v \<longleftrightarrow> u = v"
  unfolding uuid_ok_def by (metis option.inject)

lemma uuid_String_no_colon: "uuid_ok E \<Longrightarrow> CHR '':'' \<notin> set (uuid_String E u)"
  unfolding uuid_ok_def by (auto dest!: spec [of _ u])

lemma uuid_String_no_bar: "uuid_ok E \<Longrightarrow> CHR ''|'' \<notin> set (uuid_String E u)"
  unfolding uuid_ok_def by (auto dest!: spec [of _ u])

text \<open>
  A run in which no call takes effect while reporting an error, and one in which every
  call succeeds and no context is cancelled.
\<close>

definition unambiguous :: "'a env_scheme \<Rightarrow> bool" where
  "unambiguous E \<longleftrightarrow> (\<forall>n f. env_outcome E n \<noteq> Applied f)"

definition all_success :: "'a env_scheme \<Rightarrow> bool" where
  "all_success E \<longleftrightarrow> (\<forall>n. env_outcome E n = Success \<and> env_ctx E n = None)"

lemma all_success_unambiguous: "all_success E \<Longrightarrow> unambiguous E"
  by (simp add: all_success_def unambiguous_def)

section \<open>The Redis keyspace\<close>

text \<open>
  A key holds a string and, if it has a time to live, the instant (in milliseconds of the
  server's clock) at which it expires. An expired key is as good as absent.
\<close>

type_synonym keyspace = "string \<rightharpoonup> string \<times> int option"

definition key_live :: "int \<Rightarrow> int option \<Rightarrow> bool" where
  "key_live t x = (case x of None \<Rightarrow> True | Some e \<Rightarrow> t < e)"

definition redis_GET :: "int \<Rightarrow> keyspace \<Rightarrow> string \<Rightarrow> string option" where
  "redis_GET t ks k =
     (case ks k of None \<Rightarrow> None | Some (v, x) \<Rightarrow> if key_live t x then Some v else None)"

definition redis_SET :: "keyspace \<Rightarrow> string \<Rightarrow> string \<Rightarrow> keyspace" where
  "redis_SET ks k v = ks(k \<mapsto> (v, None))"

definition redis_SET_PX :: "int \<Rightarrow> keyspace \<Rightarrow> string \<Rightarrow> string \<Rightarrow> int \<Rightarrow> keyspace" where
  "redis_SET_PX t ks k v ttlMs = ks(k \<mapsto> (v, Some (t + ttlMs)))"

text \<open>\<open>SET\<close> with the option \<open>KEEPTTL\<close>: a key that lives keeps its expiry, another one gets none.\<close>

definition redis_SET_KEEPTTL :: "int \<Rightarrow> keyspace \<Rightarrow> string \<Rightarrow> string \<Rightarrow> keyspace" where
  "redis_SET_KEEPTTL t ks k v =
     ks(k \<mapsto> (v, case ks k of Some (_, x) \<Rightarrow> if key_live t x then x else None | None \<Rightarrow> None))"

definition redis_DEL :: "keyspace \<Rightarrow> string \<Rightarrow> keyspace" where
  "redis_DEL ks k = ks(k := None)"

definition redis_PTTL :: "int \<Rightarrow> keyspace \<Rightarrow> string \<Rightarrow> int" where
  "redis_PTTL t ks k =
     (case ks k of
        None \<Rightarrow> - 2
      | Some (v, None) \<Rightarrow> - 1
      | Some (v, Some x) \<Rightarrow> if t < x then x - t else - 2)"

definition redis_EXISTS :: "int \<Rightarrow> keyspace \<Rightarrow> string \<Rightarrow> bool" where
  "redis_EXISTS t ks k = (redis_GET t ks k \<noteq> None)"

definition redis_PEXPIRE :: "int \<Rightarrow> keyspace \<Rightarrow> string \<Rightarrow> int \<Rightarrow> keyspace" where
  "redis_PEXPIRE t ks k ms =
     (case redis_GET t ks k of None \<Rightarrow> ks | Some v \<Rightarrow> ks(k \<mapsto> (v, Some (t + ms))))"

text \<open>The error replies of the server that the code can meet.\<close>

definition invalid_expire :: go_error where
  "invalid_expire = RedisReply ''ERR invalid expire time''"

definition not_an_integer :: go_error where
  "not_an_integer = RedisReply ''ERR value is not an integer or out of range''"

definition redis_INCR :: "int \<Rightarrow> keyspace \<Rightarrow> string \<Rightarrow> go_error + int \<times> keyspace" where
  "redis_INCR t ks k =
     (case redis_GET t ks k of
        None \<Rightarrow> Inr (1, ks(k \<mapsto> (show_int 1, None)))
      | Some v \<Rightarrow>
          (case ParseInt64 v of
             None \<Rightarrow> Inl not_an_integer
           | Some n \<Rightarrow>
               if n = max_int64 then Inl not_an_integer
               else Inr (n + 1, ks(k \<mapsto> (show_int (n + 1), snd (the (ks k)))))))"

lemma redis_GET_SET [simp]:
  "redis_GET t (redis_SET ks k v) k' = (if k' = k then Some v else redis_GET t ks k')"
  by (simp add: redis_GET_def redis_SET_def key_live_def)

lemma redis_GET_SET_PX [simp]:
  "redis_GET t' (redis_SET_PX t ks k v ms) k' =
     (if k' = k then if t' < t + ms then Some v else None else redis_GET t' ks k')"
  by (simp add: redis_GET_def redis_SET_PX_def key_live_def)

lemma redis_GET_DEL [simp]:
  "redis_GET t (redis_DEL ks k) k' = (if k' = k then None else redis_GET t ks k')"
  by (simp add: redis_GET_def redis_DEL_def)

lemma redis_other [simp]:
  "k' \<noteq> k \<Longrightarrow> redis_SET ks k v k' = ks k'"
  "k' \<noteq> k \<Longrightarrow> redis_SET_PX t ks k v ms k' = ks k'"
  "k' \<noteq> k \<Longrightarrow> redis_SET_KEEPTTL t ks k v k' = ks k'"
  "k' \<noteq> k \<Longrightarrow> redis_DEL ks k k' = ks k'"
  by (simp_all add: redis_SET_def redis_SET_PX_def redis_SET_KEEPTTL_def redis_DEL_def)

lemma redis_GET_cong: "ks k = ks' k \<Longrightarrow> redis_GET t ks k = redis_GET t ks' k"
  by (simp add: redis_GET_def)

section \<open>External calls\<close>

record base =
  tick :: nat
  kv :: keyspace
  kafka :: "ProducerMessage list"    \<comment> \<open>what the broker has accepted, in order\<close>

definition step :: "'a base_scheme \<Rightarrow> 'a base_scheme" where
  "step w = w\<lparr>tick := Suc (tick w)\<rparr>"

text \<open>
  An external call runs an action against the state of a server. The action itself may
  answer with an error of the server, which it reports as \<open>Inl\<close>.
\<close>

definition external ::
  "'e env_scheme \<Rightarrow> 'a base_scheme \<Rightarrow>
   ('a base_scheme \<Rightarrow> (go_error + 'r) \<times> 'a base_scheme) \<Rightarrow>
   (go_error + 'r) \<times> 'a base_scheme" where
  "external E w act =
     (case env_outcome E (tick w) of
        Success \<Rightarrow> (case act w of (r, w') \<Rightarrow> (r, step w'))
      | Lost f \<Rightarrow> (Inl (fault_error f), step w)
      | Applied f \<Rightarrow> (case act w of (_, w') \<Rightarrow> (Inl (fault_error f), step w')))"

lemma step_simps [simp]:
  "tick (step w) = Suc (tick w)" "kv (step w) = kv w" "kafka (step w) = kafka w"
  "more (step w) = more w"
  by (simp_all add: step_def)

text \<open>An answer without an error is the answer of an action that took effect.\<close>

lemma external_Inr:
  "external E w act = (Inr x, w') \<longleftrightarrow>
     env_outcome E (tick w) = Success \<and> (\<exists>w1. act w = (Inr x, w1) \<and> w' = step w1)"
  by (auto simp: external_def split: outcome.splits prod.splits)

lemma external_Success:
  "env_outcome E (tick w) = Success \<Longrightarrow>
     external E w act = (fst (act w), step (snd (act w)))"
  by (simp add: external_def split: prod.splits)

text \<open>Whatever the outcome, the world after the call is the old one or the action's, a step on.\<close>

lemma external_world:
  "snd (external E w act) \<in> {step w, step (snd (act w))}"
  by (auto simp: external_def split: outcome.splits prod.splits)

lemma external_frame:
  assumes "\<And>v. P (step v) = P v" and "P (snd (act w)) = P w"
  shows "P (snd (external E w act)) = P w"
  using external_world [of E w act] assms by auto

lemma external_preserves:
  assumes "P w" and "P (snd (act w))" and "\<And>v. P v \<Longrightarrow> P (step v)"
  shows "P (snd (external E w act))"
  using external_world [of E w act] assms by auto

text \<open>An error of an unambiguous run comes from a call without effect or from the server.\<close>

lemma external_Inl_unambiguous:
  assumes "unambiguous E" and "external E w act = (Inl e, w')"
  shows "w' = step w \<or> (\<exists>w1. act w = (Inl e, w1) \<and> w' = step w1)"
proof (cases "env_outcome E (tick w)")
  case Success
  with assms(2) show ?thesis by (simp add: external_def split: prod.splits)
next
  case (Lost f)
  with assms(2) show ?thesis by (simp add: external_def)
next
  case (Applied f)
  with assms(1) show ?thesis by (simp add: unambiguous_def)
qed

section \<open>The cache store\<close>

text \<open>
  \<open>shared/infrastructure/cache/redis_cache_client.go\<close>: one command of the server each,
  the error wrapped with the key, and \<open>redis.Nil\<close> turned into \<open>ErrCacheNotFound\<close>. A positive
  duration becomes a whole number of milliseconds for \<open>SET\<close> and of seconds for \<open>EXPIRE\<close>, at least
  one; for \<open>SET\<close> the duration of one nanosecond below zero is \<open>KeepTTL\<close>, and the others set no expiry.
\<close>

definition ttl_ms :: "duration \<Rightarrow> int" where
  "ttl_ms d = (if d < millisecond then 1 else d div millisecond)"

definition KeepTTL :: duration where "KeepTTL = - 1"

definition ttl_sec :: "duration \<Rightarrow> int" where
  "ttl_sec d = (if 0 < d \<and> d < 1000 * millisecond then 1
     else if d < 0 then - (- d div (1000 * millisecond)) else d div (1000 * millisecond))"

definition cache_Set ::
  "'e env_scheme \<Rightarrow> 'a base_scheme \<Rightarrow> string \<Rightarrow> string \<Rightarrow> (go_error + unit) \<times> 'a base_scheme" where
  "cache_Set E w key val =
     (case external E w (\<lambda>w. (Inr (), w\<lparr>kv := redis_SET (kv w) key val\<rparr>)) of
        (Inl err, w') \<Rightarrow> (Inl (Errorf (''failed to set key '' @ key @ '': '') err ''''), w')
      | (Inr _, w') \<Rightarrow> (Inr (), w'))"

definition cache_SetWithTTL ::
  "'e env_scheme \<Rightarrow> 'a base_scheme \<Rightarrow> string \<Rightarrow> string \<Rightarrow> duration \<Rightarrow>
   (go_error + unit) \<times> 'a base_scheme" where
  "cache_SetWithTTL E w key val ttl =
     (case external E w (\<lambda>w. (Inr (), w\<lparr>kv :=
            (if 0 < ttl then redis_SET_PX (env_redis_ms E (tick w)) (kv w) key val (ttl_ms ttl)
             else if ttl = KeepTTL then redis_SET_KEEPTTL (env_redis_ms E (tick w)) (kv w) key val
             else redis_SET (kv w) key val)\<rparr>)) of
        (Inl err, w') \<Rightarrow>
          (Inl (Errorf (''failed to set key '' @ key @ '' with ttl: '') err ''''), w')
      | (Inr _, w') \<Rightarrow> (Inr (), w'))"

definition cache_Get ::
  "'e env_scheme \<Rightarrow> 'a base_scheme \<Rightarrow> string \<Rightarrow> (go_error + bytes) \<times> 'a base_scheme" where
  "cache_Get E w key =
     (case external E w (\<lambda>w. (case redis_GET (env_redis_ms E (tick w)) (kv w) key of
            None \<Rightarrow> Inl RedisNil | Some v \<Rightarrow> Inr v, w)) of
        (Inl err, w') \<Rightarrow>
          if errors_Is err RedisNil then (Inl ErrCacheNotFound, w')
          else (Inl (Errorf (''failed to get key '' @ key @ '': '') err ''''), w')
      | (Inr v, w') \<Rightarrow> (Inr v, w'))"

definition cache_Delete ::
  "'e env_scheme \<Rightarrow> 'a base_scheme \<Rightarrow> string \<Rightarrow> (go_error + unit) \<times> 'a base_scheme" where
  "cache_Delete E w key =
     (case external E w (\<lambda>w. (Inr (), w\<lparr>kv := redis_DEL (kv w) key\<rparr>)) of
        (Inl err, w') \<Rightarrow> (Inl (Errorf (''failed to delete key '' @ key @ '': '') err ''''), w')
      | (Inr _, w') \<Rightarrow> (Inr (), w'))"

definition cache_Exists ::
  "'e env_scheme \<Rightarrow> 'a base_scheme \<Rightarrow> string \<Rightarrow> (go_error + bool) \<times> 'a base_scheme" where
  "cache_Exists E w key =
     (case external E w (\<lambda>w. (Inr (redis_EXISTS (env_redis_ms E (tick w)) (kv w) key), w)) of
        (Inl err, w') \<Rightarrow>
          (Inl (Errorf (''failed to check if key '' @ key @ '' exists: '') err ''''), w')
      | (Inr b, w') \<Rightarrow> (Inr b, w'))"

definition cache_Expire ::
  "'e env_scheme \<Rightarrow> 'a base_scheme \<Rightarrow> string \<Rightarrow> duration \<Rightarrow> (go_error + unit) \<times> 'a base_scheme" where
  "cache_Expire E w key ttl =
     (case external E w (\<lambda>w. (Inr (), w\<lparr>kv :=
            redis_PEXPIRE (env_redis_ms E (tick w)) (kv w) key (1000 * ttl_sec ttl)\<rparr>)) of
        (Inl err, w') \<Rightarrow>
          (Inl (Errorf (''failed to set expiration for key '' @ key @ '': '') err ''''), w')
      | (Inr _, w') \<Rightarrow> (Inr (), w'))"

text \<open>A failed call is never mistaken for an answer of the server or of the application.\<close>

lemma fault_error_plain [simp]:
  "errors_Is (fault_error f) RedisNil = False"
  "errors_Is (fault_error f) ErrCacheNotFound = False"
  "errors_Is (fault_error f) PgNoRows = False"
  "errors_Is (fault_error f) (Service s) = False"
  "errors_Is (fault_error f) (Repository r) = False"
  "is_ErrNotFound (fault_error f) = False"
  "is_ErrAlreadyExists (fault_error f) = False"
  "is_ErrMarketNotFound (fault_error f) = False"
  by (cases f; simp)+

lemma cache_Get_world: "snd (cache_Get E w key) = step w"
  by (auto simp: cache_Get_def external_def split: outcome.splits option.splits)

lemma cache_Get_Success:
  assumes "env_outcome E (tick w) = Success"
  shows "cache_Get E w key =
    (case redis_GET (env_redis_ms E (tick w)) (kv w) key of
       None \<Rightarrow> Inl ErrCacheNotFound | Some v \<Rightarrow> Inr v, step w)"
  using assms by (simp add: cache_Get_def external_Success split: option.splits)

text \<open>A read that succeeds returns what is stored, a miss means that nothing live is stored.\<close>

lemma cache_Get_Inr:
  "cache_Get E w key = (Inr v, w') \<Longrightarrow>
     redis_GET (env_redis_ms E (tick w)) (kv w) key = Some v \<and> w' = step w"
  by (auto simp: cache_Get_def external_def split: outcome.splits option.splits if_splits)

lemma cache_Get_miss:
  "cache_Get E w key = (Inl e, w') \<Longrightarrow> errors_Is e ErrCacheNotFound \<Longrightarrow>
     redis_GET (env_redis_ms E (tick w)) (kv w) key = None \<and> e = ErrCacheNotFound"
  by (auto simp: cache_Get_def external_def split: outcome.splits option.splits if_splits)

text \<open>
  A property of the world that survives the passing of time and writes to one key survives
  every command of the cache store on that key.
\<close>

definition only_key :: "string \<Rightarrow> ('a base_scheme \<Rightarrow> bool) \<Rightarrow> bool" where
  "only_key key P \<longleftrightarrow> (\<forall>v. P v \<longrightarrow> P (step v)) \<and>
     (\<forall>v ks. P v \<longrightarrow> (\<forall>k. k \<noteq> key \<longrightarrow> ks k = kv v k) \<longrightarrow> P (v\<lparr>kv := ks\<rparr>))"

lemma only_keyD:
  "only_key key P \<Longrightarrow> P v \<Longrightarrow> P (step v)"
  "only_key key P \<Longrightarrow> P v \<Longrightarrow> (\<And>k. k \<noteq> key \<Longrightarrow> ks k = kv v k) \<Longrightarrow> P (v\<lparr>kv := ks\<rparr>)"
  by (simp_all add: only_key_def)

lemma only_key_frame:
  "only_key key (\<lambda>v. kafka v = kafka w \<and> base.more v = base.more w \<and>
     (\<forall>k. k \<noteq> key \<longrightarrow> kv v k = kv w k))"
  by (simp add: only_key_def)

text \<open>The same for a script, which computes a reply and a new keyspace from the old one.\<close>

lemma script_preserves:
  assumes "only_key key P" and "P w"
    and "\<And>t ks k. k \<noteq> key \<Longrightarrow> snd (script t ks) k = ks k"
  shows "P (snd (external E w (\<lambda>v. case script (env_redis_ms E (tick v)) (kv v) of
            (r, ks) \<Rightarrow> (r, v\<lparr>kv := ks\<rparr>))))"
  using assms
  by (intro external_preserves [where P = P]) (auto simp: split_beta intro: only_keyD)

lemma cache_Delete_preserves:
  assumes "only_key key P" and "P w"
  shows "P (snd (cache_Delete E w key))"
  unfolding cache_Delete_def using assms
  by (intro pres_intros [where P = P] external_preserves [where P = P]) (auto intro: only_keyD)

lemma cache_SetWithTTL_preserves:
  assumes "only_key key P" and "P w"
  shows "P (snd (cache_SetWithTTL E w key v ttl))"
  unfolding cache_SetWithTTL_def using assms
  by (intro pres_intros [where P = P] external_preserves [where P = P]) (auto intro: only_keyD)

lemma cache_Set_preserves:
  assumes "only_key key P" and "P w"
  shows "P (snd (cache_Set E w key v))"
  unfolding cache_Set_def using assms
  by (intro pres_intros [where P = P] external_preserves [where P = P]) (auto intro: only_keyD)

lemma cache_Expire_preserves:
  assumes "only_key key P" and "P w"
  shows "P (snd (cache_Expire E w key ttl))"
  unfolding cache_Expire_def using assms
  by (intro pres_intros [where P = P] external_preserves [where P = P])
    (auto simp: redis_PEXPIRE_def intro: only_keyD split: option.splits)

text \<open>What the operations on one key leave alone.\<close>

lemma cache_Delete_frame [frame]:
  "kafka (snd (cache_Delete E w key)) = kafka w"
  "base.more (snd (cache_Delete E w key)) = base.more w"
  "k \<noteq> key \<Longrightarrow> kv (snd (cache_Delete E w key)) k = kv w k"
  using cache_Delete_preserves [OF only_key_frame [of key w], of w E] by simp_all

lemma cache_SetWithTTL_frame [frame]:
  "kafka (snd (cache_SetWithTTL E w key v ttl)) = kafka w"
  "base.more (snd (cache_SetWithTTL E w key v ttl)) = base.more w"
  "k \<noteq> key \<Longrightarrow> kv (snd (cache_SetWithTTL E w key v ttl)) k = kv w k"
  using cache_SetWithTTL_preserves [OF only_key_frame [of key w], of w E] by simp_all

end
