(* ===== verification/Idempotency_Store.thy ===== *)
theory Idempotency_Store
  imports Environment
begin

text \<open>
  The Redis idempotency store of \<open>CreateOrder\<close>
  (\<open>orderService/internal/infrastructure/redis/idempotency/idempotency_store.go\<close>) and the
  adapter in front of it (\<open>application/order/idempotency_adapter.go\<close>).

  A request is identified by its user and the hash of its parameters. The store keeps one
  JSON entry per request: \<open>processing\<close> while the request that acquired the key runs,
  \<open>completed\<close> with the order's identifier and status afterwards. The theory shows what an
  acquired key, a completed entry and a cleaned-up key guarantee, and that the operations
  implement an abstract three-state machine per request (\<open>idem_view\<close>).
\<close>

section \<open>Entries and keys\<close>

record Entry =
  Entry_Status :: string
  Entry_RequestHash :: string
  Entry_StartedAt :: instant
  Entry_OrderID :: uuid
  Entry_OrderStatus :: string

definition statusProcessing :: string where "statusProcessing = ''processing''"
definition statusCompleted :: string where "statusCompleted = ''completed''"

definition Entry_IsCompleted :: "Entry \<Rightarrow> bool" where
  "Entry_IsCompleted e \<longleftrightarrow> Entry_Status e = statusCompleted"

definition Entry_IsProcessing :: "Entry \<Rightarrow> bool" where
  "Entry_IsProcessing e \<longleftrightarrow> Entry_Status e = statusProcessing"

definition zero_Entry :: Entry where
  "zero_Entry = \<lparr>Entry_Status = '''', Entry_RequestHash = '''', Entry_StartedAt = zero_time,
     Entry_OrderID = nil_uuid, Entry_OrderStatus = ''''\<rparr>"

text \<open>
  The JSON codec of entries is a parameter. \<open>json.Marshal\<close> can fail (on an instant whose
  year has more than four digits); what it writes is never empty, and \<open>json.Unmarshal\<close>
  reads it back for entries whose texts are ASCII, which all texts of this store are.
\<close>

record idem_env = env +
  entry_Marshal :: "Entry \<Rightarrow> string option"
  entry_Unmarshal :: "string \<Rightarrow> Entry option"

definition ascii_Entry :: "Entry \<Rightarrow> bool" where
  "ascii_Entry e \<longleftrightarrow>
     ascii (Entry_Status e) \<and> ascii (Entry_RequestHash e) \<and> ascii (Entry_OrderStatus e)"

definition entry_codec_ok :: "'e idem_env_scheme \<Rightarrow> bool" where
  "entry_codec_ok E \<longleftrightarrow>
     (\<forall>e v. ascii_Entry e \<longrightarrow> entry_Marshal E e = Some v \<longrightarrow>
        v \<noteq> [] \<and> entry_Unmarshal E v = Some e)"

definition buildKey :: "'e env_scheme \<Rightarrow> uuid \<Rightarrow> string \<Rightarrow> string" where
  "buildKey E userID requestHash =
     ''idem:order:create'' @ '':'' @ uuid_String E userID @ '':'' @ requestHash"

lemma buildKey_inject:
  assumes "uuid_ok E"
  shows "buildKey E u h = buildKey E u' h' \<longleftrightarrow> u = u' \<and> h = h'"
proof
  assume "buildKey E u h = buildKey E u' h'"
  then have "uuid_String E u @ CHR '':'' # h = uuid_String E u' @ CHR '':'' # h'"
    by (simp add: buildKey_def)
  then have "uuid_String E u = uuid_String E u' \<and> h = h'"
    using assms by (intro sep_append_inject) (auto dest: uuid_String_no_colon)
  with assms show "u = u' \<and> h = h'" by (simp add: uuid_String_inject)
qed simp

section \<open>The two Lua scripts\<close>

definition acquireScript ::
  "int \<Rightarrow> keyspace \<Rightarrow> string \<Rightarrow> string \<Rightarrow> int \<Rightarrow> (go_error + string) \<times> keyspace" where
  "acquireScript t ks key val ttlMs =
     (case redis_GET t ks key of
        Some existing \<Rightarrow> (Inr existing, ks)
      | None \<Rightarrow>
          if ttlMs \<le> 0 then (Inl invalid_expire, ks)
          else (Inr '''', redis_SET_PX t ks key val ttlMs))"

definition completeScript ::
  "int \<Rightarrow> keyspace \<Rightarrow> string \<Rightarrow> string \<Rightarrow> (go_error + int) \<times> keyspace" where
  "completeScript t ks key newValue =
     (let pttl = redis_PTTL t ks key in
      if pttl = - 2 then (Inr 0, ks)
      else if pttl = - 1 then (Inr 1, redis_SET ks key newValue)
      else (Inr 1, redis_SET_PX t ks key newValue pttl))"

section \<open>Acquire, Complete, FailCleanup\<close>

text \<open>
  \<open>acquire\<close> calls itself at most once, after it has deleted an entry it could not parse.
\<close>

function acquire ::
  "'e idem_env_scheme \<Rightarrow> 'a base_scheme \<Rightarrow> duration \<Rightarrow> uuid \<Rightarrow> string \<Rightarrow> bool \<Rightarrow>
   (go_error + Entry \<times> bool) \<times> 'a base_scheme" where
  "acquire E w ttl userID requestHash retriedAfterCleanup =
     (let key = buildKey E userID requestHash;
          newEntry = \<lparr>Entry_Status = statusProcessing, Entry_RequestHash = requestHash,
             Entry_StartedAt = env_now E (tick w), Entry_OrderID = nil_uuid,
             Entry_OrderStatus = ''''\<rparr>;
          w0 = step w
      in case entry_Marshal E newEntry of
           None \<Rightarrow> (Inl (NewError ''IdempotencyStore.Acquire: marshal''), w0)
         | Some newValue \<Rightarrow>
      (case external E w0 (\<lambda>v. case acquireScript (env_redis_ms E (tick v)) (kv v) key newValue
                (Milliseconds ttl) of (r, ks) \<Rightarrow> (r, v\<lparr>kv := ks\<rparr>)) of
         (Inl err, w1) \<Rightarrow>
           if errors_Is err RedisNil then (Inr (zero_Entry, True), w1)
           else (Inl (Errorf ''IdempotencyStore.Acquire: script: '' err ''''), w1)
       | (Inr raw, w1) \<Rightarrow>
           if raw = '''' then (Inr (zero_Entry, True), w1)
           else (case entry_Unmarshal E raw of
              Some existing \<Rightarrow> (Inr (existing, False), w1)
            | None \<Rightarrow>
                (case cache_Delete E w1 key of
                   (Inl deleteErr, w2) \<Rightarrow>
                     if \<not> errors_Is deleteErr ErrCacheNotFound then
                       (Inl (Errorf ''IdempotencyStore.Acquire: delete corrupted entry: ''
                          deleteErr ''''), w2)
                     else if retriedAfterCleanup then
                       (Inl (NewError
                          ''IdempotencyStore.Acquire: corrupted entry after cleanup retry''), w2)
                     else acquire E w2 ttl userID requestHash True
                 | (Inr _, w2) \<Rightarrow>
                     if retriedAfterCleanup then
                       (Inl (NewError
                          ''IdempotencyStore.Acquire: corrupted entry after cleanup retry''), w2)
                     else acquire E w2 ttl userID requestHash True))))"
  by pat_completeness auto
termination
  by (relation "measure (\<lambda>(E, w, ttl, u, h, retried). if retried then 0 else 1)") auto

declare acquire.simps [simp del]

definition Acquire ::
  "'e idem_env_scheme \<Rightarrow> 'a base_scheme \<Rightarrow> duration \<Rightarrow> uuid \<Rightarrow> string \<Rightarrow>
   (go_error + Entry \<times> bool) \<times> 'a base_scheme" where
  "Acquire E w ttl userID requestHash = acquire E w ttl userID requestHash False"

definition Complete ::
  "'e idem_env_scheme \<Rightarrow> 'a base_scheme \<Rightarrow> duration \<Rightarrow> uuid \<Rightarrow> string \<Rightarrow> uuid \<Rightarrow> string \<Rightarrow>
   (go_error + unit) \<times> 'a base_scheme" where
  "Complete E w ttl userID requestHash orderID orderStatus =
     (let key = buildKey E userID requestHash;
          entry = \<lparr>Entry_Status = statusCompleted, Entry_RequestHash = requestHash,
             Entry_StartedAt = zero_time, Entry_OrderID = orderID,
             Entry_OrderStatus = orderStatus\<rparr>
      in case entry_Marshal E entry of
           None \<Rightarrow> (Inl (NewError ''IdempotencyStore.Complete: marshal''), w)
         | Some val \<Rightarrow>
      (case external E w (\<lambda>v. case completeScript (env_redis_ms E (tick v)) (kv v) key val of
                (r, ks) \<Rightarrow> (r, v\<lparr>kv := ks\<rparr>)) of
         (Inl err, w1) \<Rightarrow> (Inl (Errorf ''IdempotencyStore.Complete: script: '' err ''''), w1)
       | (Inr result, w1) \<Rightarrow>
           if result = 0 then
             (case cache_SetWithTTL E w1 key val ttl of
                (Inl err, w2) \<Rightarrow>
                  (Inl (Errorf ''IdempotencyStore.Complete: restore expired key: '' err ''''), w2)
              | (Inr _, w2) \<Rightarrow> (Inr (), w2))
           else (Inr (), w1)))"

definition FailCleanup ::
  "'e idem_env_scheme \<Rightarrow> 'a base_scheme \<Rightarrow> uuid \<Rightarrow> string \<Rightarrow> (go_error + unit) \<times> 'a base_scheme" where
  "FailCleanup E w userID requestHash =
     (case cache_Delete E w (buildKey E userID requestHash) of
        (Inl err, w1) \<Rightarrow> (Inl (Errorf ''IdempotencyStore.FailCleanup: '' err ''''), w1)
      | (Inr _, w1) \<Rightarrow> (Inr (), w1))"

section \<open>The adapter\<close>

record IdempotencyResult =
  IsCompleted :: bool
  IsProcessing :: bool
  StartedAt :: instant
  Idem_OrderID :: uuid
  Idem_OrderStatus :: string

definition adapter_Acquire ::
  "'e idem_env_scheme \<Rightarrow> 'a base_scheme \<Rightarrow> duration \<Rightarrow> uuid \<Rightarrow> string \<Rightarrow>
   (go_error + IdempotencyResult \<times> bool) \<times> 'a base_scheme" where
  "adapter_Acquire E w ttl userID requestHash =
     (case Acquire E w ttl userID requestHash of
        (Inl err, w1) \<Rightarrow> (Inl err, w1)
      | (Inr (entry, acquired), w1) \<Rightarrow>
          (Inr (\<lparr>IsCompleted = Entry_IsCompleted entry, IsProcessing = Entry_IsProcessing entry,
                 StartedAt = Entry_StartedAt entry, Idem_OrderID = Entry_OrderID entry,
                 Idem_OrderStatus = Entry_OrderStatus entry\<rparr>, acquired), w1))"

definition adapter_Complete ::
  "'e idem_env_scheme \<Rightarrow> 'a base_scheme \<Rightarrow> duration \<Rightarrow> uuid \<Rightarrow> string \<Rightarrow> uuid \<Rightarrow> string \<Rightarrow>
   (go_error + unit) \<times> 'a base_scheme" where
  "adapter_Complete E w ttl userID requestHash orderID orderStatus =
     Complete E w ttl userID requestHash orderID orderStatus"

definition adapter_FailCleanup ::
  "'e idem_env_scheme \<Rightarrow> 'a base_scheme \<Rightarrow> uuid \<Rightarrow> string \<Rightarrow> (go_error + unit) \<times> 'a base_scheme" where
  "adapter_FailCleanup E w userID requestHash = FailCleanup E w userID requestHash"

section \<open>Frames\<close>

text \<open>No operation touches anything but the entry of its own request.\<close>

lemma acquireScript_other:
  "k \<noteq> key \<Longrightarrow> snd (acquireScript t ks key v ms) k = ks k"
  by (simp add: acquireScript_def split: option.splits)

lemma completeScript_other:
  "k \<noteq> key \<Longrightarrow> snd (completeScript t ks key v) k = ks k"
  by (simp add: completeScript_def Let_def)

lemma acquire_preserves:
  assumes P: "only_key (buildKey E u h) P"
  shows "P w \<Longrightarrow> P (snd (acquire E w ttl u h r))"
proof (induction "if r then 0 else (1::nat)" arbitrary: w r rule: less_induct)
  case less
  have IH: "P w' \<Longrightarrow> P (snd (if r then (x, w') else acquire E w' ttl u h True))" for w' x
    using less.hyps [of True w'] by simp
  show ?case
    by (subst acquire.simps)
      (intro pres_intros [where P = P] IH script_preserves [OF P] cache_Delete_preserves [OF P]
        only_keyD(1) [OF P] less.prems acquireScript_other)
qed

lemma Complete_preserves:
  assumes P: "only_key (buildKey E u h) P"
  shows "P w \<Longrightarrow> P (snd (Complete E w ttl u h i st))"
  unfolding Complete_def
  by (intro pres_intros [where P = P] script_preserves [OF P] cache_SetWithTTL_preserves [OF P]
      completeScript_other)

lemma FailCleanup_preserves:
  assumes P: "only_key (buildKey E u h) P"
  shows "P w \<Longrightarrow> P (snd (FailCleanup E w u h))"
  unfolding FailCleanup_def
  by (intro pres_intros [where P = P] cache_Delete_preserves [OF P])

section \<open>What is stored for a request\<close>

text \<open>
  The abstract state of a request, as the store shows it at an instant of the server's
  clock: nobody works on it, somebody started to at some time, it was completed with an
  order, or the stored text is not an entry.
\<close>

datatype idem_state = Free | InProgress instant | Done uuid string | Unknown Entry | Corrupted

definition entry_state :: "Entry \<Rightarrow> idem_state" where
  "entry_state e =
     (if Entry_IsCompleted e then Done (Entry_OrderID e) (Entry_OrderStatus e)
      else if Entry_IsProcessing e then InProgress (Entry_StartedAt e)
      else Unknown e)"

definition idem_view ::
  "'e idem_env_scheme \<Rightarrow> int \<Rightarrow> keyspace \<Rightarrow> uuid \<Rightarrow> string \<Rightarrow> idem_state" where
  "idem_view E t ks u h =
     (case redis_GET t ks (buildKey E u h) of
        None \<Rightarrow> Free
      | Some raw \<Rightarrow> (case entry_Unmarshal E raw of None \<Rightarrow> Corrupted | Some e \<Rightarrow> entry_state e))"

text \<open>The script answers with the empty text when it has set the key, so no entry is empty.\<close>

definition no_empty_entry :: "'e env_scheme \<Rightarrow> uuid \<Rightarrow> string \<Rightarrow> keyspace \<Rightarrow> bool" where
  "no_empty_entry E u h ks \<longleftrightarrow> (case ks (buildKey E u h) of Some ([], x) \<Rightarrow> False | _ \<Rightarrow> True)"

definition processing_entry :: "string \<Rightarrow> instant \<Rightarrow> Entry" where
  "processing_entry h s = \<lparr>Entry_Status = statusProcessing, Entry_RequestHash = h,
     Entry_StartedAt = s, Entry_OrderID = nil_uuid, Entry_OrderStatus = ''''\<rparr>"

definition completed_entry :: "string \<Rightarrow> uuid \<Rightarrow> string \<Rightarrow> Entry" where
  "completed_entry h i st = \<lparr>Entry_Status = statusCompleted, Entry_RequestHash = h,
     Entry_StartedAt = zero_time, Entry_OrderID = i, Entry_OrderStatus = st\<rparr>"

lemma entry_state_simps [simp]:
  "entry_state (processing_entry h s) = InProgress s"
  "entry_state (completed_entry h i st) = Done i st"
  by (simp_all add: entry_state_def processing_entry_def completed_entry_def
      Entry_IsCompleted_def Entry_IsProcessing_def statusProcessing_def statusCompleted_def)

lemma ascii_entries [simp]:
  "ascii_Entry (processing_entry h s) = ascii h"
  "ascii_Entry (completed_entry h i st) = (ascii h \<and> ascii st)"
  by (simp_all add: ascii_Entry_def processing_entry_def completed_entry_def ascii_def
      statusProcessing_def statusCompleted_def)

lemma entry_codecD:
  assumes "entry_codec_ok E" "ascii_Entry e" "entry_Marshal E e = Some v"
  shows "v \<noteq> []" "entry_Unmarshal E v = Some e"
  using assms by (auto simp: entry_codec_ok_def)

text \<open>The one round of \<open>acquire\<close>, by the answer of the script.\<close>

definition acquire_round ::
  "'e idem_env_scheme \<Rightarrow> 'a base_scheme \<Rightarrow> duration \<Rightarrow> uuid \<Rightarrow> string \<Rightarrow> string \<Rightarrow>
   (go_error + string) \<times> 'a base_scheme" where
  "acquire_round E w ttl u h v =
     external E w (\<lambda>x. case acquireScript (env_redis_ms E (tick x)) (kv x) (buildKey E u h) v
        (Milliseconds ttl) of (r, ks) \<Rightarrow> (r, x\<lparr>kv := ks\<rparr>))"

lemma acquire_round_Inr:
  "acquire_round E w ttl u h v = (Inr raw, w') \<Longrightarrow>
     (case redis_GET (env_redis_ms E (tick w)) (kv w) (buildKey E u h) of
        None \<Rightarrow> raw = [] \<and> 0 < Milliseconds ttl \<and>
          w' = step (w\<lparr>kv := redis_SET_PX (env_redis_ms E (tick w)) (kv w) (buildKey E u h) v
            (Milliseconds ttl)\<rparr>)
      | Some existing \<Rightarrow> raw = existing \<and> w' = step w)"
  by (auto simp: acquire_round_def external_Inr acquireScript_def
      split: option.splits prod.splits if_splits)

lemma acquire_round_not_Nil:
  "acquire_round E w ttl u h v = (Inl err, w') \<Longrightarrow> \<not> errors_Is err RedisNil"
  by (auto simp: acquire_round_def external_def acquireScript_def invalid_expire_def
      split: outcome.splits option.splits prod.splits if_splits)

lemma acquire_unfold:
  "acquire E w ttl u h r =
     (case entry_Marshal E (processing_entry h (env_now E (tick w))) of
        None \<Rightarrow> (Inl (NewError ''IdempotencyStore.Acquire: marshal''), step w)
      | Some v \<Rightarrow>
     (case acquire_round E (step w) ttl u h v of
        (Inl err, w1) \<Rightarrow> (Inl (Errorf ''IdempotencyStore.Acquire: script: '' err ''''), w1)
      | (Inr raw, w1) \<Rightarrow>
          if raw = [] then (Inr (zero_Entry, True), w1)
          else (case entry_Unmarshal E raw of
             Some existing \<Rightarrow> (Inr (existing, False), w1)
           | None \<Rightarrow>
               (case cache_Delete E w1 (buildKey E u h) of
                  (Inl deleteErr, w2) \<Rightarrow>
                    (Inl (Errorf ''IdempotencyStore.Acquire: delete corrupted entry: ''
                      deleteErr ''''), w2)
                | (Inr _, w2) \<Rightarrow>
                    if r then (Inl (NewError
                      ''IdempotencyStore.Acquire: corrupted entry after cleanup retry''), w2)
                    else acquire E w2 ttl u h True))))"
proof -
  have del: "cache_Delete E x k = (Inl e, y) \<Longrightarrow> \<not> errors_Is e ErrCacheNotFound" for x k e y
    by (auto simp: cache_Delete_def external_def split: outcome.splits)
  show ?thesis
    by (subst acquire.simps)
      (auto simp: Let_def processing_entry_def [symmetric] acquire_round_def [symmetric]
        dest: acquire_round_not_Nil del split: result_splits)
qed

text \<open>What a successful \<open>Acquire\<close> has stored, and what an unsuccessful one has found.\<close>

lemma acquire_round_codec:
  assumes "acquire_round E w ttl u h v = (Inr raw, w')" "raw \<noteq> []"
  shows "redis_GET (env_redis_ms E (tick w)) (kv w) (buildKey E u h) = Some raw" "w' = step w"
  using acquire_round_Inr [OF assms(1)] assms(2) by (auto split: option.splits)

lemma acquire_acquired:
  assumes codec: "entry_codec_ok E" "ascii h"
  shows "acquire E w ttl u h r = (Inr (e, True), w') \<Longrightarrow> no_empty_entry E u h (kv w) \<Longrightarrow>
    \<exists>s t v. kv w' (buildKey E u h) = Some (v, Some (env_redis_ms E t + Milliseconds ttl)) \<and> v \<noteq> [] \<and>
      entry_Unmarshal E v = Some (processing_entry h s) \<and> e = zero_Entry"
proof (induction "if r then 0 else (1::nat)" arbitrary: w r rule: less_induct)
  case less
  let ?s = "env_now E (tick w)"
  obtain v where v: "entry_Marshal E (processing_entry h ?s) = Some v"
    using less.prems by (auto simp: acquire_unfold [of E w] split: option.splits)
  obtain raw w1 where round: "acquire_round E (step w) ttl u h v = (Inr raw, w1)"
    using less.prems v by (auto simp: acquire_unfold [of E w] split: result_splits)
  show ?case
  proof (cases "raw = []")
    case True
    have "redis_GET t (kv w) (buildKey E u h) \<noteq> Some []" for t
      using less.prems(2) by (auto simp: no_empty_entry_def redis_GET_def split: option.splits list.splits if_splits)
    then have "w1 = step ((step w)\<lparr>kv := redis_SET_PX (env_redis_ms E (Suc (tick w))) (kv w)
        (buildKey E u h) v (Milliseconds ttl)\<rparr>)"
      using acquire_round_Inr [OF round] True by (auto split: option.splits)
    moreover have "w' = w1" "e = zero_Entry"
      using less.prems(1) v round True by (auto simp: acquire_unfold [of E w])
    ultimately show ?thesis
      using entry_codecD [OF codec(1) _ v] codec(2) by (auto simp: redis_SET_PX_def)
  next
    case False
    then obtain w2 where w2: "cache_Delete E w1 (buildKey E u h) = (Inr (), w2)" "\<not> r"
      and rest: "acquire E w2 ttl u h True = (Inr (e, True), w')"
      using less.prems(1) v round
      by (auto simp: acquire_unfold [of E w] split: result_splits)
    have "kv w1 = kv w" using acquire_round_codec(2) [OF round False] by simp
    moreover have "kv w2 = redis_DEL (kv w1) (buildKey E u h)"
      using w2(1) by (auto simp: cache_Delete_def external_def split: outcome.splits)
    ultimately have "no_empty_entry E u h (kv w2)"
      using less.prems(2) by (auto simp: no_empty_entry_def redis_DEL_def)
    with less.hyps [OF _ rest] w2(2) show ?thesis by simp
  qed
qed

lemma acquire_found:
  "acquire E w ttl u h r = (Inr (e, False), w') \<Longrightarrow>
     \<exists>t raw. redis_GET t (kv w') (buildKey E u h) = Some raw \<and> entry_Unmarshal E raw = Some e"
proof (induction "if r then 0 else (1::nat)" arbitrary: w r rule: less_induct)
  case less
  obtain v where v: "entry_Marshal E (processing_entry h (env_now E (tick w))) = Some v"
    using less.prems by (auto simp: acquire_unfold [of E w] split: option.splits)
  obtain raw w1 where round: "acquire_round E (step w) ttl u h v = (Inr raw, w1)" "raw \<noteq> []"
    using less.prems v by (auto simp: acquire_unfold [of E w] split: result_splits)
  show ?case
  proof (cases "entry_Unmarshal E raw")
    case None
    then show ?thesis
      using less.prems v round less.hyps [of True]
      by (auto simp: acquire_unfold [of E w] split: result_splits)
  next
    case (Some e')
    then show ?thesis
      using less.prems v round acquire_round_codec [OF round]
      by (auto simp: acquire_unfold [of E w] intro!: exI split: result_splits)
  qed
qed

text \<open>Whoever finds a live entry gets that entry, whatever else happens, or an error.\<close>

lemma acquire_live:
  assumes "redis_GET (env_redis_ms E (Suc (tick w))) (kv w) (buildKey E u h) = Some raw"
    and "raw \<noteq> []" and "entry_Unmarshal E raw = Some e"
  shows "(\<exists>err. fst (acquire E w ttl u h r) = Inl err) \<or>
         acquire E w ttl u h r = (Inr (e, False), step (step w))"
  using assms acquire_round_Inr [of E "step w" ttl u h]
  by (auto simp: acquire_unfold [of E w] split: result_splits)

lemma acquire_live_success:
  assumes "redis_GET (env_redis_ms E (Suc (tick w))) (kv w) (buildKey E u h) = Some raw"
    and "raw \<noteq> []" and "entry_Unmarshal E raw = Some e"
    and "env_outcome E (Suc (tick w)) = Success"
    and "entry_Marshal E (processing_entry h (env_now E (tick w))) \<noteq> None"
  shows "acquire E w ttl u h r = (Inr (e, False), step (step w))"
  using assms
  by (auto simp: acquire_unfold [of E w] acquire_round_def external_def acquireScript_def step_def
      split: option.splits)

lemma acquire_free_success:
  assumes "redis_GET (env_redis_ms E (Suc (tick w))) (kv w) (buildKey E u h) = None"
    and "0 < Milliseconds ttl" and "env_outcome E (Suc (tick w)) = Success"
    and "entry_Marshal E (processing_entry h (env_now E (tick w))) = Some v"
  shows "acquire E w ttl u h r = (Inr (zero_Entry, True),
    step ((step w)\<lparr>kv := redis_SET_PX (env_redis_ms E (Suc (tick w))) (kv w) (buildKey E u h) v
      (Milliseconds ttl)\<rparr>))"
  using assms
  by (auto simp: acquire_unfold [of E w] acquire_round_def external_def acquireScript_def)

section \<open>Completion and cleanup\<close>

definition complete_round ::
  "'e idem_env_scheme \<Rightarrow> 'a base_scheme \<Rightarrow> uuid \<Rightarrow> string \<Rightarrow> string \<Rightarrow>
   (go_error + int) \<times> 'a base_scheme" where
  "complete_round E w u h v =
     external E w (\<lambda>x. case completeScript (env_redis_ms E (tick x)) (kv x) (buildKey E u h) v of
        (r, ks) \<Rightarrow> (r, x\<lparr>kv := ks\<rparr>))"

lemma Complete_unfold:
  "Complete E w ttl u h i st =
     (case entry_Marshal E (completed_entry h i st) of
        None \<Rightarrow> (Inl (NewError ''IdempotencyStore.Complete: marshal''), w)
      | Some v \<Rightarrow>
     (case complete_round E w u h v of
        (Inl err, w1) \<Rightarrow> (Inl (Errorf ''IdempotencyStore.Complete: script: '' err ''''), w1)
      | (Inr n, w1) \<Rightarrow>
          if n = 0 then
            (case cache_SetWithTTL E w1 (buildKey E u h) v ttl of
               (Inl err, w2) \<Rightarrow>
                 (Inl (Errorf ''IdempotencyStore.Complete: restore expired key: '' err ''''), w2)
             | (Inr _, w2) \<Rightarrow> (Inr (), w2))
          else (Inr (), w1)))"
  by (simp add: Complete_def completed_entry_def [symmetric] complete_round_def [symmetric] Let_def
      split: option.splits)

text \<open>
  A completed request is stored as such. Its entry expires when the acquired one would
  have, or after a whole time to live if that one was gone already.
\<close>

lemma Complete_stored:
  assumes "Complete E w ttl u h i st = (Inr (), w')"
  shows "\<exists>v x. entry_Marshal E (completed_entry h i st) = Some v \<and>
    kv w' (buildKey E u h) = Some (v, x) \<and>
    (0 < ttl \<longrightarrow> x = (case kv w (buildKey E u h) of
           Some (_, None) \<Rightarrow> None
         | Some (_, Some e) \<Rightarrow>
             if env_redis_ms E (tick w) < e then Some e else Some (env_redis_ms E (Suc (tick w)) + ttl_ms ttl)
         | None \<Rightarrow> Some (env_redis_ms E (Suc (tick w)) + ttl_ms ttl)))"
  using assms
  by (cases "0 < ttl")
    (auto simp: Complete_unfold complete_round_def external_Inr completeScript_def Let_def
      redis_PTTL_def redis_SET_def redis_SET_PX_def redis_SET_KEEPTTL_def cache_SetWithTTL_def
      split: result_splits)

lemma FailCleanup_freed:
  "FailCleanup E w u h = (Inr (), w') \<Longrightarrow> kv w' = redis_DEL (kv w) (buildKey E u h)"
  by (auto simp: FailCleanup_def cache_Delete_def external_Inr split: result_splits)

lemma FailCleanup_all_success:
  "all_success E \<Longrightarrow>
     FailCleanup E w u h = (Inr (), step (w\<lparr>kv := redis_DEL (kv w) (buildKey E u h)\<rparr>))"
  by (simp add: FailCleanup_def cache_Delete_def external_def all_success_def)

section \<open>Mutual exclusion of requests\<close>

text \<open>
  The contract between the store and its clients. A client wins a request by \<open>acquire\<close>,
  reports its end by \<open>complete\<close> or gives it up by \<open>cleanup\<close>; meanwhile anybody may act on
  other requests. \<open>held\<close> says that the request is taken.
\<close>

datatype ('j, 'w) guard_op = AcquireOp | CompleteOp 'j | CleanupOp | OtherOp "'w \<Rightarrow> 'w"

fun guard_run ::
  "('w \<Rightarrow> (go_error + 'i \<times> bool) \<times> 'w) \<Rightarrow> ('j \<Rightarrow> 'w \<Rightarrow> (go_error + unit) \<times> 'w) \<Rightarrow>
   ('w \<Rightarrow> (go_error + unit) \<times> 'w) \<Rightarrow> ('j, 'w) guard_op list \<Rightarrow> 'w \<Rightarrow> nat \<times> 'w" where
  "guard_run acq cmp cln [] w = (0, w)"
| "guard_run acq cmp cln (AcquireOp # ops) w =
     (case acq w of
        (Inr (i, True), w1) \<Rightarrow>
          (case guard_run acq cmp cln ops w1 of (n, w2) \<Rightarrow> (Suc n, w2))
      | (_, w1) \<Rightarrow> guard_run acq cmp cln ops w1)"
| "guard_run acq cmp cln (CompleteOp j # ops) w = guard_run acq cmp cln ops (snd (cmp j w))"
| "guard_run acq cmp cln (CleanupOp # ops) w = guard_run acq cmp cln ops (snd (cln w))"
| "guard_run acq cmp cln (OtherOp f # ops) w = guard_run acq cmp cln ops (f w)"

definition cleanups :: "('j, 'w) guard_op list \<Rightarrow> nat" where
  "cleanups ops = length (filter (\<lambda>x. case x of CleanupOp \<Rightarrow> True | _ \<Rightarrow> False) ops)"

lemma cleanups_simps [simp]:
  "cleanups [] = 0" "cleanups (AcquireOp # ops) = cleanups ops"
  "cleanups (CompleteOp j # ops) = cleanups ops" "cleanups (CleanupOp # ops) = Suc (cleanups ops)"
  "cleanups (OtherOp f # ops) = cleanups ops"
  by (simp_all add: cleanups_def)

locale request_guard =
  fixes ok :: "'c \<Rightarrow> bool"
    and sane :: "'c \<Rightarrow> 'w \<Rightarrow> bool"
    and held :: "'c \<Rightarrow> 'w \<Rightarrow> bool"
    and acq :: "'c \<Rightarrow> 'w \<Rightarrow> (go_error + 'i \<times> bool) \<times> 'w"
    and cmp :: "'c \<Rightarrow> 'j \<Rightarrow> 'w \<Rightarrow> (go_error + unit) \<times> 'w"
    and cln :: "'c \<Rightarrow> 'w \<Rightarrow> (go_error + unit) \<times> 'w"
    and others :: "'c \<Rightarrow> ('w \<Rightarrow> 'w) \<Rightarrow> bool"
  assumes acq_wins: "ok c \<Longrightarrow> sane c w \<Longrightarrow> acq c w = (Inr (i, True), w') \<Longrightarrow> held c w'"
    and acq_loses: "ok c \<Longrightarrow> held c w \<Longrightarrow> acq c w \<noteq> (Inr (i, True), w')"
    and acq_held: "ok c \<Longrightarrow> held c w \<Longrightarrow> held c (snd (acq c w))"
    and cmp_held: "ok c \<Longrightarrow> held c w \<Longrightarrow> held c (snd (cmp c j w))"
    and other_held: "ok c \<Longrightarrow> others c f \<Longrightarrow> held c w \<Longrightarrow> held c (f w)"
    and held_sane: "ok c \<Longrightarrow> held c w \<Longrightarrow> sane c w"
    and acq_sane: "ok c \<Longrightarrow> sane c w \<Longrightarrow> sane c (snd (acq c w))"
    and cmp_sane: "ok c \<Longrightarrow> sane c w \<Longrightarrow> sane c (snd (cmp c j w))"
    and cln_sane: "ok c \<Longrightarrow> sane c w \<Longrightarrow> sane c (snd (cln c w))"
    and other_sane: "ok c \<Longrightarrow> others c f \<Longrightarrow> sane c w \<Longrightarrow> sane c (f w)"
begin

lemma wins_bounded:
  assumes "ok c" and "sane c w" and "\<And>f. OtherOp f \<in> set ops \<Longrightarrow> others c f"
  shows "fst (guard_run (acq c) (cmp c) (cln c) ops w) \<le>
    cleanups ops + (if held c w then 0 else 1)"
  using assms(2,3)
proof (induction ops arbitrary: w)
  case Nil
  show ?case by simp
next
  case (Cons op ops)
  note IH = Cons.IH [OF _ Cons.prems(2)]
  show ?case
  proof (cases op)
    case AcquireOp
    obtain r w1 where acq: "acq c w = (r, w1)" by fastforce
    have sane: "sane c w1" using acq_sane [OF assms(1) Cons.prems(1)] acq by simp
    show ?thesis
    proof (cases "\<exists>i. r = Inr (i, True)")
      case True
      then obtain i where r: "r = Inr (i, True)" by blast
      then have "held c w1" "\<not> held c w"
        using acq acq_wins [OF assms(1) Cons.prems(1)] acq_loses [OF assms(1)] by auto
      with IH [of w1] sane show ?thesis
        by (auto simp: AcquireOp acq r split: prod.splits)
    next
      case False
      then have "fst (guard_run (acq c) (cmp c) (cln c) (op # ops) w) =
          fst (guard_run (acq c) (cmp c) (cln c) ops w1)"
        by (auto simp: AcquireOp acq split: sum.splits prod.splits bool.splits)
      moreover have "held c w \<Longrightarrow> held c w1"
        using acq_held [OF assms(1)] acq by force
      ultimately show ?thesis using IH [of w1] sane by (auto simp: AcquireOp split: if_splits)
    qed
  next
    case (CompleteOp j)
    then show ?thesis
      using IH [of "snd (cmp c j w)"] cmp_sane [OF assms(1) Cons.prems(1)] cmp_held [OF assms(1)]
      by (auto split: if_splits)
  next
    case CleanupOp
    then show ?thesis
      using IH [of "snd (cln c w)"] cln_sane [OF assms(1) Cons.prems(1)]
      by (auto split: if_splits)
  next
    case (OtherOp f)
    then show ?thesis
      using IH [of "f w"] Cons.prems other_sane [OF assms(1)] other_held [OF assms(1)]
      by (auto split: if_splits)
  qed
qed

end

text \<open>
  The store as a guard. The run is shorter than the time to live: no reading of the
  server's clock is a whole time to live after another. Other requests, and everything
  else that uses Redis, may do anything that leaves this request's key alone.
\<close>

definition within_ttl :: "'e env_scheme \<Rightarrow> duration \<Rightarrow> bool" where
  "within_ttl E ttl \<longleftrightarrow> (\<forall>m n. env_redis_ms E m < env_redis_ms E n + Milliseconds ttl)"

lemma within_ttl_pos:
  assumes "within_ttl E ttl"
  shows "0 < Milliseconds ttl" "0 < ttl" "Milliseconds ttl \<le> ttl_ms ttl"
proof -
  show ms: "0 < Milliseconds ttl" using assms by (auto simp: within_ttl_def dest!: spec [of _ 0])
  then show "0 < ttl" by (auto simp: Milliseconds_def millisecond_def split: if_splits)
  with ms show "Milliseconds ttl \<le> ttl_ms ttl"
    by (auto simp: Milliseconds_def ttl_ms_def)
qed

definition guard_ok :: "'e idem_env_scheme \<times> duration \<times> uuid \<times> string \<Rightarrow> bool" where
  "guard_ok = (\<lambda>(E, ttl, u, h). entry_codec_ok E \<and> ascii h \<and> within_ttl E ttl)"

definition guard_sane ::
  "'e idem_env_scheme \<times> duration \<times> uuid \<times> string \<Rightarrow> 'a base_scheme \<Rightarrow> bool" where
  "guard_sane = (\<lambda>(E, ttl, u, h) w. no_empty_entry E u h (kv w))"

definition guard_held ::
  "'e idem_env_scheme \<times> duration \<times> uuid \<times> string \<Rightarrow> 'a base_scheme \<Rightarrow> bool" where
  "guard_held = (\<lambda>(E, ttl, u, h) w. \<exists>v x e. kv w (buildKey E u h) = Some (v, x) \<and> v \<noteq> [] \<and>
     entry_Unmarshal E v = Some e \<and> (\<forall>n. key_live (env_redis_ms E n) x))"

definition guard_others ::
  "'e idem_env_scheme \<times> duration \<times> uuid \<times> string \<Rightarrow> ('a base_scheme \<Rightarrow> 'a base_scheme) \<Rightarrow> bool" where
  "guard_others = (\<lambda>(E, ttl, u, h) f. \<forall>w. kv (f w) (buildKey E u h) = kv w (buildKey E u h))"

lemma ascii_OrderStatus_String [simp]: "ascii (OrderStatus_String s)"
  by (simp add: ascii_def OrderStatus_String_def)

lemma no_empty_entry_upd:
  "no_empty_entry E u h ks \<Longrightarrow> v \<noteq> [] \<Longrightarrow> no_empty_entry E u h (redis_SET_PX t ks (buildKey E u h) v x)"
  "no_empty_entry E u h ks \<Longrightarrow> v \<noteq> [] \<Longrightarrow> no_empty_entry E u h (redis_SET ks (buildKey E u h) v)"
  "no_empty_entry E u h ks \<Longrightarrow> v \<noteq> [] \<Longrightarrow> no_empty_entry E u h (redis_SET_KEEPTTL t ks (buildKey E u h) v)"
  "no_empty_entry E u h ks \<Longrightarrow> no_empty_entry E u h (redis_DEL ks (buildKey E u h))"
  by (auto simp: no_empty_entry_def redis_SET_PX_def redis_SET_def redis_SET_KEEPTTL_def redis_DEL_def
      split: list.splits)

text \<open>Every write of the store to a request's key is a marshalled entry.\<close>

lemma acquire_no_empty:
  assumes codec: "entry_codec_ok E" "ascii h"
  shows "no_empty_entry E u h (kv w) \<Longrightarrow> no_empty_entry E u h (kv (snd (acquire E w ttl u h r)))"
proof (induction "if r then 0 else (1::nat)" arbitrary: w r rule: less_induct)
  case less
  let ?P = "\<lambda>w::'b base_scheme. no_empty_entry E u h (kv w)"
  have round: "?P x \<Longrightarrow> ?P (snd (acquire_round E x ttl u h v))" if "v \<noteq> []" for x v
    unfolding acquire_round_def using that
    by (intro external_preserves [where P = ?P])
      (auto simp: acquireScript_def no_empty_entry_upd split: option.splits)
  have del: "?P x \<Longrightarrow> ?P (snd (cache_Delete E x (buildKey E u h)))" for x
    by (auto simp: cache_Delete_def external_def no_empty_entry_upd split: outcome.splits)
  have IH: "?P x \<Longrightarrow> ?P (snd (if r then (y, x) else acquire E x ttl u h True))" for x y
    using less.hyps [of True x] by simp
  show ?case
  proof (cases "entry_Marshal E (processing_entry h (env_now E (tick w)))")
    case None
    then show ?thesis using less.prems by (simp add: acquire_unfold [of E w])
  next
    case (Some v)
    then have "v \<noteq> []" using entry_codecD [OF codec(1) _ Some] codec(2) by simp
    then show ?thesis
      unfolding acquire_unfold [of E w] Some option.case using less.prems
      by (intro pres_intros [where P = ?P] round del IH) simp_all
  qed
qed

lemma Complete_no_empty:
  assumes codec: "entry_codec_ok E" "ascii h" "ascii st"
    and "no_empty_entry E u h (kv w)"
  shows "no_empty_entry E u h (kv (snd (Complete E w ttl u h i st)))"
proof (cases "entry_Marshal E (completed_entry h i st)")
  case None
  then show ?thesis using assms by (simp add: Complete_unfold)
next
  case (Some v)
  let ?P = "\<lambda>w::'b base_scheme. no_empty_entry E u h (kv w)"
  have "v \<noteq> []" using entry_codecD [OF codec(1) _ Some] codec by simp
  then have "?P (snd (complete_round E w u h v))"
    unfolding complete_round_def using assms(4)
    by (intro external_preserves [where P = ?P])
      (auto simp: completeScript_def Let_def no_empty_entry_upd)
  moreover have "?P (snd (cache_SetWithTTL E x (buildKey E u h) v ttl))" if "?P x" for x
    using that \<open>v \<noteq> []\<close>
    by (auto simp: cache_SetWithTTL_def external_def no_empty_entry_upd split: outcome.splits)
  ultimately show ?thesis
    unfolding Complete_unfold Some option.case
    by (intro pres_intros [where P = ?P])
qed

text \<open>A held request keeps its entry's expiry when it is completed.\<close>

lemma Complete_held:
  assumes "entry_codec_ok E" "ascii h" "ascii st" and "guard_held (E, ttl, u, h) w"
  shows "guard_held (E, ttl, u, h) (snd (Complete E w ttl u h i st))"
proof (cases "entry_Marshal E (completed_entry h i st)")
  case None
  then show ?thesis using assms(4) by (simp add: Complete_unfold)
next
  case (Some v)
  have v: "v \<noteq> []" "entry_Unmarshal E v = Some (completed_entry h i st)"
    using entry_codecD [OF assms(1) _ Some] assms(2,3) by simp_all
  obtain v0 x e0 where old: "kv w (buildKey E u h) = Some (v0, x)" "v0 \<noteq> []"
    "entry_Unmarshal E v0 = Some e0" "\<And>n. key_live (env_redis_ms E n) x"
    using assms(4) by (auto simp: guard_held_def)
  obtain ks where script: "completeScript (env_redis_ms E (tick w)) (kv w) (buildKey E u h) v =
      (Inr 1, ks)" and ks: "ks (buildKey E u h) = Some (v, x)"
    using old(4) [of "tick w"]
    by (auto simp: completeScript_def redis_PTTL_def old(1) Let_def key_live_def
        redis_SET_def redis_SET_PX_def split: option.splits)
  show ?thesis
    unfolding Complete_unfold Some option.case
    using old v ks
    by (auto simp: complete_round_def external_def script guard_held_def split: outcome.splits)
qed

lemma acquire_held:
  assumes "guard_held (E, ttl, u, h) w"
  shows "guard_held (E, ttl, u, h) (snd (acquire E w ttl u h r)) \<and>
    fst (acquire E w ttl u h r) \<noteq> Inr (i, True)"
proof -
  obtain v x e where old: "kv w (buildKey E u h) = Some (v, x)" "v \<noteq> []"
    "entry_Unmarshal E v = Some e" "\<And>n. key_live (env_redis_ms E n) x"
    using assms by (auto simp: guard_held_def)
  have script: "acquireScript (env_redis_ms E n) (kv w) (buildKey E u h) y ms = (Inr v, kv w)" for n y ms
    by (simp add: acquireScript_def redis_GET_def old)
  have "acquire_round E (step w) ttl u h y = (q, w1) \<Longrightarrow> kv w1 = kv w \<and> (\<forall>raw. q = Inr raw \<longrightarrow> raw = v)"
    for y q w1
    by (auto simp: acquire_round_def external_def script split: outcome.splits)
  then show ?thesis
    using old by (auto simp: acquire_unfold [of E w] guard_held_def split: result_splits)
qed

lemma adapter_Acquire_snd: "snd (adapter_Acquire E w ttl u h) = snd (acquire E w ttl u h False)"
  by (auto simp: adapter_Acquire_def Acquire_def split: result_splits)

lemma adapter_Acquire_True:
  "adapter_Acquire E w ttl u h = (Inr (i, True), w') \<Longrightarrow>
     \<exists>e. acquire E w ttl u h False = (Inr (e, True), w')"
  by (auto simp: adapter_Acquire_def Acquire_def split: result_splits)

lemma adapter_Acquire_wins:
  assumes "guard_ok (E, ttl, u, h)" and "guard_sane (E, ttl, u, h) w"
    and "adapter_Acquire E w ttl u h = (Inr (i, True), w')"
  shows "guard_held (E, ttl, u, h) w'"
proof -
  obtain e where "acquire E w ttl u h False = (Inr (e, True), w')"
    using adapter_Acquire_True [OF assms(3)] by blast
  then obtain s t v where "kv w' (buildKey E u h) = Some (v, Some (env_redis_ms E t + Milliseconds ttl))"
    "v \<noteq> []" "entry_Unmarshal E v = Some (processing_entry h s)"
    using acquire_acquired [of E h w ttl u False e w'] assms
    by (auto simp: guard_ok_def guard_sane_def)
  then show ?thesis using assms(1) by (auto simp: guard_held_def guard_ok_def within_ttl_def key_live_def)
qed

lemma FailCleanup_no_empty:
  "no_empty_entry E u h (kv w) \<Longrightarrow> no_empty_entry E u h (kv (snd (FailCleanup E w u h)))"
  by (auto simp: FailCleanup_def cache_Delete_def external_def no_empty_entry_upd
      split: outcome.splits)

interpretation idem: request_guard
  guard_ok guard_sane guard_held
  "\<lambda>(E, ttl, u, h) w. adapter_Acquire E w ttl u h"
  "\<lambda>(E, ttl, u, h) (i, s) w. adapter_Complete E w ttl u h i (OrderStatus_String s)"
  "\<lambda>(E, ttl, u, h) w. adapter_FailCleanup E w u h"
  guard_others
proof ((unfold_locales; (simp only: split_paired_all prod.case)?), goal_cases)
  case 1
  then show ?case by (rule adapter_Acquire_wins)
next
  case 2
  then show ?case using acquire_held by (metis adapter_Acquire_True fst_conv)
next
  case 3
  then show ?case by (simp add: adapter_Acquire_snd acquire_held)
next
  case 4
  then show ?case by (simp add: adapter_Complete_def guard_ok_def Complete_held)
next
  case 5
  then show ?case by (simp add: guard_others_def guard_held_def)
next
  case 6
  then show ?case by (auto simp: guard_held_def guard_sane_def no_empty_entry_def split: list.splits)
next
  case 7
  then show ?case by (simp add: adapter_Acquire_snd guard_ok_def guard_sane_def acquire_no_empty)
next
  case 8
  then show ?case
    by (simp add: adapter_Complete_def guard_ok_def guard_sane_def Complete_no_empty)
next
  case 9
  then show ?case by (simp add: adapter_FailCleanup_def guard_sane_def FailCleanup_no_empty)
next
  case 10
  then show ?case by (simp add: guard_others_def guard_sane_def no_empty_entry_def)
qed

section \<open>The calls to Redis one by one\<close>

text \<open>
  Concurrent requests interleave at every call to Redis. As long as the stored text is an entry,
  \<open>Acquire\<close> makes one such call, and so does \<open>FailCleanup\<close>; \<open>Complete\<close> makes one or two, which are
  operations of their own here: the script, and the restoring of an entry that was gone.
\<close>

definition readable_entry :: "'e idem_env_scheme \<Rightarrow> uuid \<Rightarrow> string \<Rightarrow> keyspace \<Rightarrow> bool" where
  "readable_entry E u h ks \<longleftrightarrow>
     (case ks (buildKey E u h) of None \<Rightarrow> True | Some (v, x) \<Rightarrow> v \<noteq> [] \<and> entry_Unmarshal E v \<noteq> None)"

lemma readable_no_empty: "readable_entry E u h ks \<Longrightarrow> no_empty_entry E u h ks"
  by (auto simp: readable_entry_def no_empty_entry_def split: option.splits list.splits)

lemma acquire_one_call:
  assumes "readable_entry E u h (kv w)"
  shows "acquire E w ttl u h r =
    (case entry_Marshal E (processing_entry h (env_now E (tick w))) of
       None \<Rightarrow> (Inl (NewError ''IdempotencyStore.Acquire: marshal''), step w)
     | Some v \<Rightarrow>
         (case acquire_round E (step w) ttl u h v of
            (Inl err, w1) \<Rightarrow> (Inl (Errorf ''IdempotencyStore.Acquire: script: '' err ''''), w1)
          | (Inr raw, w1) \<Rightarrow>
              (Inr (if raw = [] then (zero_Entry, True) else (the (entry_Unmarshal E raw), False)), w1)))"
proof -
  have dec: "\<exists>e. entry_Unmarshal E raw = Some e"
    if "acquire_round E (step w) ttl u h v = (Inr raw, w1)" "raw \<noteq> []" for v raw w1
    using acquire_round_codec(1) [OF that] assms
    by (auto simp: readable_entry_def redis_GET_def split: option.splits if_splits)
  show ?thesis
    by (auto simp: acquire_unfold [of E w] split: option.split prod.split sum.split dest: dec)
qed

definition Complete_call ::
  "'e idem_env_scheme \<Rightarrow> duration \<Rightarrow> uuid \<Rightarrow> string \<Rightarrow> bool \<times> uuid \<times> string \<Rightarrow> 'a base_scheme \<Rightarrow>
   (go_error + unit) \<times> 'a base_scheme" where
  "Complete_call E ttl u h = (\<lambda>(restore, i, st) w.
     case entry_Marshal E (completed_entry h i st) of
       None \<Rightarrow> (Inl (NewError ''IdempotencyStore.Complete: marshal''), w)
     | Some v \<Rightarrow>
         if restore then cache_SetWithTTL E w (buildKey E u h) v ttl
         else apfst (map_sum id (\<lambda>_. ())) (complete_round E w u h v))"

lemma Complete_is_calls:
  "snd (Complete E w ttl u h i st) = snd (Complete_call E ttl u h (False, i, st) w) \<or>
   snd (Complete E w ttl u h i st) =
     snd (Complete_call E ttl u h (True, i, st) (snd (Complete_call E ttl u h (False, i, st) w)))"
  by (auto simp: Complete_unfold Complete_call_def split: option.split prod.split sum.split)

definition guard_readable ::
  "'e idem_env_scheme \<times> duration \<times> uuid \<times> string \<Rightarrow> 'a base_scheme \<Rightarrow> bool" where
  "guard_readable = (\<lambda>(E, ttl, u, h) w. readable_entry E u h (kv w))"

lemma readable_entry_upd:
  "v \<noteq> [] \<Longrightarrow> entry_Unmarshal E v \<noteq> None \<Longrightarrow> readable_entry E u h (ks(buildKey E u h \<mapsto> (v, x)))"
  "readable_entry E u h (ks(buildKey E u h := None))"
  by (simp_all add: readable_entry_def)

lemma acquire_readable:
  assumes codec: "entry_codec_ok E" "ascii h" and "readable_entry E u h (kv w)"
  shows "readable_entry E u h (kv (snd (acquire E w ttl u h r)))"
proof (cases "entry_Marshal E (processing_entry h (env_now E (tick w)))")
  case None
  then show ?thesis using assms(3) by (simp add: acquire_one_call [OF assms(3)])
next
  case (Some v)
  let ?P = "\<lambda>w::'b base_scheme. readable_entry E u h (kv w)"
  have v: "v \<noteq> []" "entry_Unmarshal E v \<noteq> None" using entry_codecD [OF codec(1) _ Some] codec(2) by simp_all
  have "?P (snd (acquire_round E (step w) ttl u h v))"
    unfolding acquire_round_def using v assms(3)
    by (intro external_preserves [where P = ?P])
      (auto simp: acquireScript_def redis_SET_PX_def readable_entry_upd split: option.splits)
  then show ?thesis
    unfolding acquire_one_call [OF assms(3)] Some option.case by (auto split: prod.split sum.split)
qed

lemma Complete_call_keeps:
  assumes "guard_ok (E, ttl, u, h)" and "ascii st"
  shows "guard_readable (E, ttl, u, h) w \<Longrightarrow> guard_readable (E, ttl, u, h) (snd (Complete_call E ttl u h (b, i, st) w))"
    and "guard_held (E, ttl, u, h) w \<Longrightarrow> guard_held (E, ttl, u, h) (snd (Complete_call E ttl u h (b, i, st) w))"
proof -
  have ok: "entry_codec_ok E" "ascii h" "within_ttl E ttl" using assms(1) by (simp_all add: guard_ok_def)
  have pos: "0 < ttl" "Milliseconds ttl \<le> ttl_ms ttl" using within_ttl_pos [OF ok(3)] by simp_all
  have live: "env_redis_ms E n < env_redis_ms E m + ttl_ms ttl" for m n
    using ok(3) pos(2) unfolding within_ttl_def by (meson add_left_mono less_le_trans)
  have v: "v \<noteq> [] \<and> entry_Unmarshal E v = Some (completed_entry h i st)"
    if "entry_Marshal E (completed_entry h i st) = Some v" for v
    using entry_codecD [OF ok(1) _ that] ok(2) assms(2) by simp
  note defs = Complete_call_def complete_round_def external_def cache_SetWithTTL_def completeScript_def
    redis_PTTL_def redis_SET_def redis_SET_PX_def Let_def pos(1)
  show "guard_readable (E, ttl, u, h) w \<Longrightarrow> guard_readable (E, ttl, u, h) (snd (Complete_call E ttl u h (b, i, st) w))"
    using v by (auto simp: defs guard_readable_def readable_entry_upd split: option.splits outcome.splits if_splits)
  show "guard_held (E, ttl, u, h) w \<Longrightarrow> guard_held (E, ttl, u, h) (snd (Complete_call E ttl u h (b, i, st) w))"
    using v live
    by (auto simp: defs guard_held_def key_live_def split: option.splits outcome.splits if_splits)
qed

interpretation calls: request_guard
  guard_ok guard_readable guard_held
  "\<lambda>(E, ttl, u, h) w. adapter_Acquire E w ttl u h"
  "\<lambda>(E, ttl, u, h) (restore, i, s) w. Complete_call E ttl u h (restore, i, OrderStatus_String s) w"
  "\<lambda>(E, ttl, u, h) w. adapter_FailCleanup E w u h"
  guard_others
proof ((unfold_locales; (simp only: split_paired_all prod.case)?), goal_cases)
  case 1
  then show ?case
    by (intro adapter_Acquire_wins) (auto simp: guard_readable_def guard_sane_def readable_no_empty)
next
  case 2
  then show ?case using acquire_held by (metis adapter_Acquire_True fst_conv)
next
  case 3
  then show ?case by (simp add: adapter_Acquire_snd acquire_held)
next
  case 4
  then show ?case by (simp add: Complete_call_keeps)
next
  case 5
  then show ?case by (simp add: guard_others_def guard_held_def)
next
  case 6
  then show ?case by (auto simp: guard_held_def guard_readable_def readable_entry_def)
next
  case 7
  then show ?case by (simp add: adapter_Acquire_snd guard_ok_def guard_readable_def acquire_readable)
next
  case 8
  then show ?case by (simp add: Complete_call_keeps)
next
  case 9
  then show ?case
    by (auto simp: adapter_FailCleanup_def FailCleanup_def cache_Delete_def external_def guard_readable_def
        redis_DEL_def readable_entry_upd split: outcome.splits)
next
  case 10
  then show ?case by (simp add: guard_others_def guard_readable_def readable_entry_def)
qed

text \<open>
  The condition on the stored text is needed. \<open>Acquire\<close> deletes a text that is no entry and tries
  again, in calls of their own: of two requests that both found it, the second one's deletion
  removes the entry by which the first one has just acquired the request.
\<close>

lemma corrupted_entry_acquired_twice:
  assumes "all_success E" and "within_ttl E ttl" and "kv w (buildKey E u h) = Some (raw, None)" and "raw \<noteq> []"
    and "acquire_round E w ttl u h a = (r1, w1)" and "acquire_round E w1 ttl u h b = (r2, w2)"
    and "cache_Delete E w2 (buildKey E u h) = (d1, w3)" and "acquire_round E w3 ttl u h a = (r3, w4)"
    and "cache_Delete E w4 (buildKey E u h) = (d2, w5)" and "acquire_round E w5 ttl u h b = (r4, w6)"
  shows "r1 = Inr raw \<and> r2 = Inr raw \<and> r3 = Inr [] \<and> r4 = Inr []"
  using assms within_ttl_pos(1) [OF assms(2)]
  by (auto simp: acquire_round_def cache_Delete_def external_def all_success_def acquireScript_def
      redis_GET_def redis_DEL_def key_live_def)

section \<open>Properties\<close>

text \<open>
  C9. Unless the text stored for a request is corrupted, however the calls of concurrent requests of
  the same user with the same parameters interleave, with whatever failures of Redis, and whatever
  else happens to other keys, within one time to live at most one of them is told that it
  acquired the request, and one more after each cleanup. \<open>Complete\<close> may be interrupted between
  its two calls.
\<close>

theorem idempotency_mutual_exclusion:
  assumes "entry_codec_ok E" and "ascii h" and "within_ttl E ttl"
    and "readable_entry E u h (kv w)"
    and "\<And>f v. OtherOp f \<in> set ops \<Longrightarrow> kv (f v) (buildKey E u h) = kv v (buildKey E u h)"
  shows "fst (guard_run (\<lambda>w. adapter_Acquire E w ttl u h)
      (\<lambda>(restore, i, s) w. Complete_call E ttl u h (restore, i, OrderStatus_String s) w)
      (\<lambda>w. adapter_FailCleanup E w u h) ops w) \<le> cleanups ops + 1"
  using calls.wins_bounded [of "(E, ttl, u, h)" w ops] assms
  by (auto simp: guard_ok_def guard_readable_def guard_others_def split: if_splits)

lemma completed_entry_answers:
  assumes codec: "entry_codec_ok E" "ascii h"
    and complete: "adapter_Complete E w ttl u h i (OrderStatus_String s) = (Inr (), w1)"
    and later: "kv w2 (buildKey E u h) = kv w1 (buildKey E u h)"
      "key_live (env_redis_ms E (Suc (tick w2))) (snd (the (kv w1 (buildKey E u h))))"
      "env_outcome E (Suc (tick w2)) = Success"
      "entry_Marshal E (processing_entry h (env_now E (tick w2))) \<noteq> None"
  shows "adapter_Acquire E w2 ttl u h =
    (Inr (\<lparr>IsCompleted = True, IsProcessing = False, StartedAt = zero_time, Idem_OrderID = i,
       Idem_OrderStatus = OrderStatus_String s\<rparr>, False), step (step w2))"
proof -
  obtain v x where v: "entry_Marshal E (completed_entry h i (OrderStatus_String s)) = Some v"
    "kv w1 (buildKey E u h) = Some (v, x)"
    using Complete_stored [of E w ttl u h i "OrderStatus_String s" w1] complete
    by (auto simp: adapter_Complete_def)
  then have "v \<noteq> []" "entry_Unmarshal E v = Some (completed_entry h i (OrderStatus_String s))"
    using entry_codecD [OF codec(1) _ v(1)] codec(2) by simp_all
  moreover have "redis_GET (env_redis_ms E (Suc (tick w2))) (kv w2) (buildKey E u h) = Some v"
    using v(2) later by (simp add: redis_GET_def)
  ultimately have "acquire E w2 ttl u h False =
      (Inr (completed_entry h i (OrderStatus_String s), False), step (step w2))"
    using later by (intro acquire_live_success)
  then show ?thesis
    by (simp add: adapter_Acquire_def Acquire_def completed_entry_def Entry_IsCompleted_def
        Entry_IsProcessing_def statusCompleted_def statusProcessing_def)
qed

text \<open>
  Once a request has been completed with an order, every later \<open>Acquire\<close> of the same
  request, until the entry expires, is answered with that order's identifier and status and
  does not acquire, as long as Redis answers.
\<close>

theorem completed_request_replayed:
  assumes "entry_codec_ok E" "ascii h"
    and "adapter_Complete E w ttl u h i (OrderStatus_String s) = (Inr (), w1)"
    and "kv w2 (buildKey E u h) = kv w1 (buildKey E u h)"
      "key_live (env_redis_ms E (Suc (tick w2))) (snd (the (kv w1 (buildKey E u h))))"
      "env_outcome E (Suc (tick w2)) = Success"
      "entry_Marshal E (processing_entry h (env_now E (tick w2))) \<noteq> None"
  shows "adapter_Acquire E w2 ttl u h =
    (Inr (\<lparr>IsCompleted = True, IsProcessing = False, StartedAt = zero_time, Idem_OrderID = i,
       Idem_OrderStatus = OrderStatus_String s\<rparr>, False), step (step w2))"
  using assms by (rule completed_entry_answers)

text \<open>
  The abstract machine of a request: who finds it free (or holding a text that is not an
  entry) takes it, everybody else is told what was found.
\<close>

definition abs_acquire :: "instant \<Rightarrow> instant \<Rightarrow> idem_state \<Rightarrow> bool \<times> idem_state" where
  "abs_acquire now now' st =
     (case st of
        Free \<Rightarrow> (True, InProgress now)
      | Corrupted \<Rightarrow> (True, InProgress now')
      | _ \<Rightarrow> (False, st))"

lemma acquire_corrupted_success:
  assumes "all_success E"
    and "redis_GET (env_redis_ms E (Suc (tick w))) (kv w) (buildKey E u h) = Some raw"
    and "raw \<noteq> []" "entry_Unmarshal E raw = None"
    and "entry_Marshal E (processing_entry h (env_now E (tick w))) \<noteq> None"
  shows "acquire E w ttl u h False =
    acquire E (step ((step (step w))\<lparr>kv := redis_DEL (kv w) (buildKey E u h)\<rparr>)) ttl u h True"
  using assms
  by (auto simp: acquire_unfold [of E w] acquire_round_def external_def acquireScript_def
      all_success_def cache_Delete_def step_def split: option.splits)

text \<open>The entry of a request outlives the run.\<close>

definition outlives :: "'e env_scheme \<Rightarrow> keyspace \<Rightarrow> string \<Rightarrow> bool" where
  "outlives E ks key \<longleftrightarrow>
     (case ks key of Some (v, Some e) \<Rightarrow> (\<forall>n. env_redis_ms E n < e) | _ \<Rightarrow> True)"

lemma outlives_GET:
  "outlives E ks key \<Longrightarrow> redis_GET (env_redis_ms E n) ks key = map_option fst (ks key)"
  by (auto simp: outlives_def redis_GET_def key_live_def split: option.splits)

lemma Acquire_refines:
  assumes E: "all_success E" "entry_codec_ok E" "within_ttl E ttl" and h: "ascii h"
    and marshal: "\<And>n. entry_Marshal E (processing_entry h (env_now E n)) \<noteq> None"
    and w: "no_empty_entry E u h (kv w)" "outlives E (kv w) (buildKey E u h)"
  shows "\<exists>e acquired w'. Acquire E w ttl u h = (Inr (e, acquired), w') \<and>
      (acquired, idem_view E (env_redis_ms E n) (kv w') u h) =
        abs_acquire (env_now E (tick w)) (env_now E (tick w + 3))
          (idem_view E (env_redis_ms E m) (kv w) u h) \<and>
      (\<not> acquired \<longrightarrow> entry_state e = idem_view E (env_redis_ms E n) (kv w') u h)"
proof (cases "kv w (buildKey E u h)")
  case None
  obtain v where v: "entry_Marshal E (processing_entry h (env_now E (tick w))) = Some v"
    using marshal by blast
  have "acquire E w ttl u h False = (Inr (zero_Entry, True),
    step ((step w)\<lparr>kv := redis_SET_PX (env_redis_ms E (Suc (tick w))) (kv w) (buildKey E u h) v
      (Milliseconds ttl)\<rparr>))"
    using E v within_ttl_pos [OF E(3)]
    by (intro acquire_free_success) (auto simp: all_success_def redis_GET_def None)
  then show ?thesis
    using E(3) entry_codecD [OF E(2) _ v] h
    by (auto simp: Acquire_def idem_view_def abs_acquire_def redis_GET_def [of _ "kv w"] None
        within_ttl_def)
next
  case (Some p)
  obtain raw x where p: "kv w (buildKey E u h) = Some (raw, x)" using Some by (cases p) auto
  have raw: "raw \<noteq> []" "redis_GET (env_redis_ms E k) (kv w) (buildKey E u h) = Some raw" for k
    using w outlives_GET [OF w(2)] by (auto simp: p no_empty_entry_def split: list.splits)
  show ?thesis
  proof (cases "entry_Unmarshal E raw")
    case None
    let ?w = "step ((step (step w))\<lparr>kv := redis_DEL (kv w) (buildKey E u h)\<rparr>)"
    obtain v where v: "entry_Marshal E (processing_entry h (env_now E (tick w + 3))) = Some v"
      using marshal by blast
    have t: "tick ?w = tick w + 3" by (simp add: step_def)
    have "acquire E w ttl u h False = acquire E ?w ttl u h True"
      using E(1) raw None marshal by (intro acquire_corrupted_success)
    also have "\<dots> = (Inr (zero_Entry, True),
      step ((step ?w)\<lparr>kv := redis_SET_PX (env_redis_ms E (Suc (tick ?w))) (kv ?w) (buildKey E u h) v
        (Milliseconds ttl)\<rparr>))"
      using E v within_ttl_pos [OF E(3)] t
      by (intro acquire_free_success) (auto simp: all_success_def eval_nat_numeral)
    finally show ?thesis
      using E(3) entry_codecD [OF E(2) _ v] h raw None
      by (auto simp: Acquire_def idem_view_def abs_acquire_def within_ttl_def)
  next
    case (Some e)
    then have "acquire E w ttl u h False = (Inr (e, False), step (step w))"
      using E(1) raw marshal by (intro acquire_live_success) (auto simp: all_success_def)
    then show ?thesis
      using raw Some
      by (intro exI [of _ e] exI [of _ False])
        (simp add: Acquire_def idem_view_def abs_acquire_def entry_state_def)
  qed
qed

lemma Complete_refines:
  assumes E: "all_success E" "entry_codec_ok E" "within_ttl E ttl" and h: "ascii h"
    and marshal: "entry_Marshal E (completed_entry h i (OrderStatus_String s)) \<noteq> None"
    and w: "outlives E (kv w) (buildKey E u h)"
  shows "\<exists>w'. Complete E w ttl u h i (OrderStatus_String s) = (Inr (), w') \<and>
      idem_view E (env_redis_ms E n) (kv w') u h = Done i (OrderStatus_String s)"
proof -
  obtain v where v: "entry_Marshal E (completed_entry h i (OrderStatus_String s)) = Some v"
    using marshal by blast
  have v': "v \<noteq> []" "entry_Unmarshal E v = Some (completed_entry h i (OrderStatus_String s))"
    using entry_codecD [OF E(2) _ v] h by simp_all
  have "fst (Complete E w ttl u h i (OrderStatus_String s)) = Inr ()"
    using E(1) v
    by (simp add: Complete_unfold complete_round_def cache_SetWithTTL_def external_def
        all_success_def completeScript_def Let_def)
  then obtain w' where w': "Complete E w ttl u h i (OrderStatus_String s) = (Inr (), w')"
    by (metis prod.collapse)
  have "env_redis_ms E n < env_redis_ms E k + ttl_ms ttl" for k
    using E(3) [unfolded within_ttl_def, rule_format, of n k] within_ttl_pos(3) [OF E(3)] by simp
  then have "redis_GET (env_redis_ms E n) (kv w') (buildKey E u h) = Some v"
    using Complete_stored [OF w'] v w within_ttl_pos [OF E(3)]
    by (auto simp: redis_GET_def key_live_def outlives_def split: result_splits)
  with w' v' show ?thesis by (simp add: idem_view_def)
qed

text \<open>An \<open>Acquire\<close> that does not acquire has only read what is stored.\<close>

lemma acquire_duplicate:
  assumes E: "all_success E" "within_ttl E ttl"
    and marshal: "\<And>n. entry_Marshal E (processing_entry h (env_now E n)) \<noteq> None"
    and w: "no_empty_entry E u h (kv w)" "outlives E (kv w) (buildKey E u h)"
    and dup: "acquire E w ttl u h False = (Inr (e, False), w')"
  shows "w' = step (step w) \<and> idem_view E (env_redis_ms E n) (kv w) u h = entry_state e"
proof -
  obtain v v' where v: "entry_Marshal E (processing_entry h (env_now E (tick w))) = Some v"
    "entry_Marshal E (processing_entry h (env_now E (Suc (Suc (Suc (tick w)))))) = Some v'"
    using marshal by blast
  have ms: "0 < Milliseconds ttl" by (rule within_ttl_pos [OF E(2)])
  have out: "env_outcome E n = Success" for n using E(1) by (simp add: all_success_def)
  have stored: "kv w (buildKey E u h) \<noteq> None"
    using acquire_free_success [OF _ ms out v(1), of u False] dup
    by (cases "kv w (buildKey E u h)") (auto simp: redis_GET_def)
  then obtain raw x where p: "kv w (buildKey E u h) = Some (raw, x)" by auto
  have raw: "raw \<noteq> []" "redis_GET (env_redis_ms E k) (kv w) (buildKey E u h) = Some raw" for k
    using w outlives_GET [OF w(2)] by (auto simp: p no_empty_entry_def split: list.splits)
  have "entry_Unmarshal E raw \<noteq> None"
  proof
    assume "entry_Unmarshal E raw = None"
    then have "acquire E (step ((step (step w))\<lparr>kv := redis_DEL (kv w) (buildKey E u h)\<rparr>)) ttl u h True =
        (Inr (e, False), w')"
      using acquire_corrupted_success [OF E(1) raw(2,1)] dup v(1) by simp
    then show False
      using acquire_free_success [OF _ ms out, of "step ((step (step w))\<lparr>kv := redis_DEL (kv w) (buildKey E u h)\<rparr>)"
          u h v' True] v(2) by simp
  qed
  then obtain e' where "entry_Unmarshal E raw = Some e'" by blast
  with acquire_live_success [OF raw(2,1) this out] v(1) dup raw show ?thesis
    by (simp add: idem_view_def)
qed

text \<open>
  C19. When Redis answers and the run is shorter than the time to live, the store implements
  that machine: \<open>Acquire\<close> takes exactly the free or corrupted requests and reports what it
  found otherwise, \<open>Complete\<close> makes the request done with the given order, and
  \<open>FailCleanup\<close> makes it free, as seen at every instant of the run.
\<close>

theorem idempotency_store_refines:
  assumes "all_success E" and "entry_codec_ok E" and "within_ttl E ttl" and "ascii h"
    and "\<And>n. entry_Marshal E (processing_entry h (env_now E n)) \<noteq> None"
    and "entry_Marshal E (completed_entry h i (OrderStatus_String s)) \<noteq> None"
    and "no_empty_entry E u h (kv w)" and "outlives E (kv w) (buildKey E u h)"
  shows "(\<exists>e acquired w'. Acquire E w ttl u h = (Inr (e, acquired), w') \<and>
      (acquired, idem_view E (env_redis_ms E n) (kv w') u h) =
        abs_acquire (env_now E (tick w)) (env_now E (tick w + 3))
          (idem_view E (env_redis_ms E m) (kv w) u h) \<and>
      (\<not> acquired \<longrightarrow> entry_state e = idem_view E (env_redis_ms E n) (kv w') u h)) \<and>
    (\<exists>w'. Complete E w ttl u h i (OrderStatus_String s) = (Inr (), w') \<and>
      idem_view E (env_redis_ms E n) (kv w') u h = Done i (OrderStatus_String s)) \<and>
    (\<exists>w'. FailCleanup E w u h = (Inr (), w') \<and> idem_view E (env_redis_ms E n) (kv w') u h = Free)"
  using Acquire_refines [OF assms(1-5,7,8)] Complete_refines [OF assms(1-4,6,8)] assms(1)
  by (simp add: FailCleanup_all_success idem_view_def [of E _ "redis_DEL _ _"])

end
