(* ===== verification/Block_Store.thy ===== *)
theory Block_Store
  imports Idempotency_Store
begin

text \<open>
  The Redis store of market states (\<open>orderService/internal/infrastructure/redis/market/
  market_block_store.go\<close>): for every market the order service keeps whether it is blocked
  and since when, as the text \<open>timestamp:flag\<close>. Updates arrive from Kafka and from the order
  service's own lookups, in any order and more than once; the script lets the newest win.

  Lua keeps numbers as doubles. Its conversions between numbers and text are parameters,
  with what the script needs: integers of at most fourteen digits are written in full
  (\<open>%.14g\<close>) and read back.
\<close>

section \<open>Operations\<close>

record block_env = idem_env +
  lua_tostring :: "rat \<Rightarrow> string"
  lua_tonumber :: "string \<Rightarrow> rat option"

definition lua_exact :: "int \<Rightarrow> bool" where
  "lua_exact n \<longleftrightarrow> \<bar>n\<bar> < 100000000000000"

definition lua_ok :: "'e block_env_scheme \<Rightarrow> bool" where
  "lua_ok E \<longleftrightarrow> (\<forall>n. lua_exact n \<longrightarrow>
     lua_tostring E (of_int n) = show_int n \<and> lua_tonumber E (show_int n) = Some (of_int n))"

definition blockedState :: string where "blockedState = ''1''"
definition unblockedState :: string where "unblockedState = ''0''"

definition blockKey :: "'e env_scheme \<Rightarrow> uuid \<Rightarrow> string" where
  "blockKey E marketID = ''market:block'' @ '':'' @ uuid_String E marketID"

fun strings_Contains :: "string \<Rightarrow> string \<Rightarrow> bool" where
  "strings_Contains [] sub = (sub = [])"
| "strings_Contains (c # cs) sub =
     (take (length sub) (c # cs) = sub \<or> strings_Contains cs sub)"

definition invalid_block_state :: go_error where
  "invalid_block_state = RedisReply ''invalid market block state''"

definition invalid_block_timestamp :: go_error where
  "invalid_block_timestamp = RedisReply ''invalid market block timestamp''"

text \<open>\<open>tonumber (nil)\<close> cannot occur: the first argument is always a number.\<close>

definition synchronizeStateScript ::
  "'e block_env_scheme \<Rightarrow> int \<Rightarrow> keyspace \<Rightarrow> string \<Rightarrow> int \<Rightarrow> string \<Rightarrow> int \<Rightarrow>
   (go_error + int) \<times> keyspace" where
  "synchronizeStateScript E t ks key updatedAtMs newState ttlMs =
     (case lua_tonumber E (show_int updatedAtMs) of
        None \<Rightarrow> (Inl (RedisReply ''ERR attempt to compare nil with number''), ks)
      | Some newTs \<Rightarrow>
          (let new = lua_tostring E newTs @ '':'' @ newState;
               write = (if ttlMs \<le> 0 then (Inl invalid_expire, ks)
                        else (Inr 1, redis_SET_PX t ks key new ttlMs))
           in case redis_GET t ks key of
                None \<Rightarrow> write
              | Some current \<Rightarrow>
                  if CHR '':'' \<notin> set current then (Inl invalid_block_state, ks)
                  else
                    (case lua_tonumber E (takeWhile (\<lambda>c. c \<noteq> CHR '':'') current) of
                       None \<Rightarrow> (Inl invalid_block_timestamp, ks)
                     | Some currentTs \<Rightarrow> if newTs < currentTs then (Inr 0, ks) else write)))"

definition invalidateCorruptedState ::
  "'e block_env_scheme \<Rightarrow> 'a base_scheme \<Rightarrow> uuid \<Rightarrow> (go_error + unit) \<times> 'a base_scheme" where
  "invalidateCorruptedState E w marketID = cache_Delete E w (blockKey E marketID)"

definition isCorruptedMarketBlockStateError :: "'e block_env_scheme \<Rightarrow> go_error \<Rightarrow> bool" where
  "isCorruptedMarketBlockStateError E err =
     (let msg = error_text (uuid_String E) (duration_String E) err in
      strings_Contains msg ''invalid market block state'' \<or>
      strings_Contains msg ''invalid market block timestamp'')"

definition SynchronizeState ::
  "'e block_env_scheme \<Rightarrow> 'a base_scheme \<Rightarrow> duration \<Rightarrow> uuid \<Rightarrow> bool \<Rightarrow> instant \<Rightarrow>
   (go_error + bool) \<times> 'a base_scheme" where
  "SynchronizeState E w ttl marketID blocked updatedAt =
     (let op = ''redis.MarketBlockStore.SynchronizeState'';
          state = (if blocked then blockedState else unblockedState)
      in case external E w (\<lambda>v. case synchronizeStateScript E (env_redis_ms E (tick v)) (kv v)
             (blockKey E marketID) (UnixMilli updatedAt) state (Milliseconds ttl) of
             (r, ks) \<Rightarrow> (r, v\<lparr>kv := ks\<rparr>)) of
        (Inl err, w1) \<Rightarrow>
          if isCorruptedMarketBlockStateError E err then
            (case invalidateCorruptedState E w1 marketID of
               (Inl deleteError, w2) \<Rightarrow>
                 (Inl (Errorf (op @ '': '') err (''; invalidate corrupted cache: '' @
                    error_text (uuid_String E) (duration_String E) deleteError)), w2)
             | (Inr _, w2) \<Rightarrow>
                 (Inl (Errorf (op @ '': run synchronize state script: '') err ''''), w2))
          else (Inl (Errorf (op @ '': run synchronize state script: '') err ''''), w1)
      | (Inr result, w1) \<Rightarrow> (Inr (result = 1), w1))"

definition parseBlockedState :: "string \<Rightarrow> go_error + bool \<times> instant" where
  "parseBlockedState raw =
     (case split_on CHR '':'' raw of
        [ts, flag] \<Rightarrow>
          (case ParseInt64 ts of
             None \<Rightarrow> Inl (NewError ''parse blocked state timestamp'')
           | Some tsMs \<Rightarrow>
               if flag = blockedState then Inr (True, tsMs * millisecond)
               else if flag = unblockedState then Inr (False, tsMs * millisecond)
               else Inl (NewError (''invalid blocked state flag: '' @ flag)))
      | _ \<Rightarrow> Inl (NewError (''invalid blocked state format: '' @ raw)))"

definition IsBlocked ::
  "'e block_env_scheme \<Rightarrow> 'a base_scheme \<Rightarrow> uuid \<Rightarrow> (go_error + bool) \<times> 'a base_scheme" where
  "IsBlocked E w marketID =
     (let op = ''redis.MarketBlockStore.IsBlocked'' in
      case cache_Get E w (blockKey E marketID) of
        (Inl err, w1) \<Rightarrow>
          if errors_Is err ErrCacheNotFound then (Inr False, w1)
          else (Inl (Errorf (op @ '': get blocked state: '') err ''''), w1)
      | (Inr raw, w1) \<Rightarrow>
          (case parseBlockedState raw of
             Inl parseErr \<Rightarrow>
               (case invalidateCorruptedState E w1 marketID of
                  (Inl deleteError, w2) \<Rightarrow>
                    (Inl (Errorf (op @ '': parse blocked state: '') parseErr
                      (''; invalidate corrupted cache: '' @
                       error_text (uuid_String E) (duration_String E) deleteError)), w2)
                | (Inr _, w2) \<Rightarrow> (Inl (Errorf (op @ '': parse blocked state: '') parseErr ''''), w2))
           | Inr (blocked, _) \<Rightarrow> (Inr blocked, w1)))"

section \<open>Frames\<close>

lemma synchronizeStateScript_other:
  "k \<noteq> key \<Longrightarrow> snd (synchronizeStateScript E t ks key ms st ttl) k = ks k"
  by (simp add: synchronizeStateScript_def Let_def split: option.splits)

lemma SynchronizeState_preserves:
  assumes P: "only_key (blockKey E m) P"
  shows "P w \<Longrightarrow> P (snd (SynchronizeState E w ttl m b t))"
  unfolding SynchronizeState_def invalidateCorruptedState_def
  by (intro pres_intros [where P = P] script_preserves [OF P] cache_Delete_preserves [OF P]
      synchronizeStateScript_other)

lemma cache_Get_preserves:
  assumes P: "only_key key P"
  shows "P w \<Longrightarrow> P (snd (cache_Get E w k))"
  by (simp add: cache_Get_world only_keyD(1) [OF P])

lemma IsBlocked_preserves:
  assumes P: "only_key (blockKey E m) P"
  shows "P w \<Longrightarrow> P (snd (IsBlocked E w m))"
  unfolding IsBlocked_def invalidateCorruptedState_def
  by (intro pres_intros [where P = P] pres_sum [where P = P] pres_prod [where P = P]
      cache_Get_preserves [OF P] cache_Delete_preserves [OF P])

section \<open>The newest update wins\<close>

text \<open>
  The contract between the store and the consumers of market updates: a register that
  holds a version and a flag; an update with an older version is ignored.
\<close>

fun newer :: "(int \<times> bool) option \<Rightarrow> int \<times> bool \<Rightarrow> (int \<times> bool) option" where
  "newer None e = Some e"
| "newer (Some (t, b)) (t', b') = (if t' < t then Some (t, b) else Some (t', b'))"

fun sync_all :: "(bool \<Rightarrow> instant \<Rightarrow> 'w \<Rightarrow> 'r \<times> 'w) \<Rightarrow> (bool \<times> instant) list \<Rightarrow> 'w \<Rightarrow> 'w" where
  "sync_all sync [] w = w"
| "sync_all sync ((b, t) # evs) w = sync_all sync evs (snd (sync b t w))"

locale latest_wins =
  fixes ok :: "'c \<Rightarrow> bool"
    and fits :: "instant \<Rightarrow> bool"
    and holds :: "'c \<Rightarrow> 'w \<Rightarrow> (int \<times> bool) option \<Rightarrow> bool"
    and sync :: "'c \<Rightarrow> bool \<Rightarrow> instant \<Rightarrow> 'w \<Rightarrow> (go_error + bool) \<times> 'w"
    and read :: "'c \<Rightarrow> 'w \<Rightarrow> (go_error + bool) \<times> 'w"
  assumes sync_newer: "ok c \<Longrightarrow> fits t \<Longrightarrow> holds c w v \<Longrightarrow>
      holds c (snd (sync c b t w)) (newer v (UnixMilli t, b))"
    and sync_reply: "ok c \<Longrightarrow> fits t \<Longrightarrow> holds c w v \<Longrightarrow>
      fst (sync c b t w) = Inr (case v of None \<Rightarrow> True | Some (t', b') \<Rightarrow> t' \<le> UnixMilli t)"
    and read_holds: "ok c \<Longrightarrow> holds c w v \<Longrightarrow>
      fst (read c w) = Inr (case v of None \<Rightarrow> False | Some (t, b) \<Rightarrow> b)"
begin

lemma sync_all_holds:
  assumes "ok c" and "\<And>b t. (b, t) \<in> set evs \<Longrightarrow> fits t" and "holds c w v"
  shows "holds c (sync_all (sync c) evs w) (foldl newer v (map (\<lambda>(b, t). (UnixMilli t, b)) evs))"
  using assms(2,3)
proof (induction evs arbitrary: w v)
  case (Cons e evs)
  obtain b t where e: "e = (b, t)" by (cases e)
  have "holds c (snd (sync c b t w)) (newer v (UnixMilli t, b))"
    using Cons.prems by (intro sync_newer assms(1)) (auto simp: e)
  moreover have "fits t'" if "(b', t') \<in> set evs" for b' t'
    using that Cons.prems(1) [of b' t'] by simp
  ultimately show ?case using Cons.IH by (simp add: e)
qed simp

end

text \<open>What the updates leave: the last of those with the greatest version.\<close>

lemma foldl_newer:
  assumes "evs \<noteq> []"
  shows "\<exists>pre post t b. evs = pre @ (t, b) # post \<and> foldl newer None evs = Some (t, b) \<and>
    (\<forall>(t', b') \<in> set pre. t' \<le> t) \<and> (\<forall>(t', b') \<in> set post. t' < t)"
  using assms
proof (induction evs rule: rev_nonempty_induct)
  case (single x)
  then show ?case by (cases x) (auto intro!: exI [of _ "[]"])
next
  case (snoc x evs)
  obtain t b where x: "x = (t, b)" by (cases x)
  obtain pre post t0 b0 where IH: "evs = pre @ (t0, b0) # post" "foldl newer None evs = Some (t0, b0)"
    "\<forall>(t', b') \<in> set pre. t' \<le> t0" "\<forall>(t', b') \<in> set post. t' < t0"
    using snoc.IH by blast
  show ?case
  proof (cases "t < t0")
    case True
    with IH x show ?thesis
      by (intro exI [of _ pre] exI [of _ "post @ [x]"] exI [of _ t0] exI [of _ b0]) auto
  next
    case False
    with IH x show ?thesis
      by (intro exI [of _ evs] exI [of _ "[]"] exI [of _ t] exI [of _ b]) auto
  qed
qed

definition block_ok :: "'e block_env_scheme \<times> duration \<times> uuid \<Rightarrow> bool" where
  "block_ok = (\<lambda>(E, ttl, m). all_success E \<and> lua_ok E \<and> within_ttl E ttl)"

definition block_fits :: "instant \<Rightarrow> bool" where
  "block_fits t \<longleftrightarrow> lua_exact (UnixMilli t)"

text \<open>The text of a state, and that the store holds it at every instant of the run.\<close>

definition block_text :: "int \<times> bool \<Rightarrow> string" where
  "block_text = (\<lambda>(ts, b). show_int ts @ '':'' @ (if b then blockedState else unblockedState))"

definition block_holds ::
  "'e block_env_scheme \<times> duration \<times> uuid \<Rightarrow> 'a base_scheme \<Rightarrow> (int \<times> bool) option \<Rightarrow> bool" where
  "block_holds = (\<lambda>(E, ttl, m) w v. \<forall>n. redis_GET (env_redis_ms E n) (kv w) (blockKey E m) =
     map_option block_text v \<and> (case v of None \<Rightarrow> True | Some (ts, b) \<Rightarrow> lua_exact ts))"

lemma lua_exact_int64: "lua_exact n \<Longrightarrow> min_int64 \<le> n \<and> n \<le> max_int64"
  by (auto simp: lua_exact_def min_int64_def max_int64_def)

text \<open>The reader of the store reads what the script writes.\<close>

lemma parseBlockedState_block_text:
  "lua_exact ts \<Longrightarrow> parseBlockedState (block_text (ts, b)) = Inr (b, ts * millisecond)"
  by (auto simp: parseBlockedState_def block_text_def split_on_append show_int_no_colon
      split_on_none ParseInt64_show_int lua_exact_int64 blockedState_def unblockedState_def)

lemma synchronizeStateScript_spec:
  assumes "lua_ok E" "lua_exact ms" "0 < ttl"
    and "redis_GET t ks key = map_option block_text v"
    and "case v of None \<Rightarrow> True | Some (ts, b) \<Rightarrow> lua_exact ts"
  shows "synchronizeStateScript E t ks key ms (if b then blockedState else unblockedState) ttl =
    (if (case v of None \<Rightarrow> True | Some (ts, b') \<Rightarrow> ts \<le> ms)
     then (Inr 1, redis_SET_PX t ks key (block_text (ms, b)) ttl) else (Inr 0, ks))"
proof -
  have tw: "takeWhile (\<lambda>c. c \<noteq> CHR '':'') (show_int n @ CHR '':'' # s) = show_int n" for n s
    using show_int_no_colon [of n] by (subst takeWhile_append2) auto
  show ?thesis
    using assms
    by (auto simp: synchronizeStateScript_def lua_ok_def block_text_def Let_def tw
        split: option.splits prod.splits)
qed

lemma SynchronizeState_spec:
  assumes "block_ok (E, ttl, m)" "block_fits t" "block_holds (E, ttl, m) w v"
  shows "SynchronizeState E w ttl m b t =
    (Inr (case v of None \<Rightarrow> True | Some (t', b') \<Rightarrow> t' \<le> UnixMilli t),
     step (if (case v of None \<Rightarrow> True | Some (t', b') \<Rightarrow> t' \<le> UnixMilli t)
       then w\<lparr>kv := redis_SET_PX (env_redis_ms E (tick w)) (kv w) (blockKey E m)
         (block_text (UnixMilli t, b)) (Milliseconds ttl)\<rparr> else w))"
  using assms within_ttl_pos [of E ttl]
    synchronizeStateScript_spec [of E "UnixMilli t" "Milliseconds ttl"
      "env_redis_ms E (tick w)" "kv w" "blockKey E m" v b]
  by (simp add: SynchronizeState_def external_def all_success_def block_ok_def block_fits_def
      block_holds_def Let_def)

lemma IsBlocked_spec:
  assumes "all_success E" "block_holds (E, ttl, m) w v"
  shows "IsBlocked E w m = (Inr (case v of None \<Rightarrow> False | Some (t, b) \<Rightarrow> b), step w)"
  using assms
  by (auto simp: IsBlocked_def cache_Get_Success all_success_def block_holds_def
      parseBlockedState_block_text split: option.splits)

interpretation blocks: latest_wins block_ok block_fits block_holds
  "\<lambda>(E, ttl, m) b t w. SynchronizeState E w ttl m b t"
  "\<lambda>(E, ttl, m) w. IsBlocked E w m"
proof ((unfold_locales; (simp only: split_paired_all prod.case)?), goal_cases)
  case (1 E ttl m t w v b)
  from SynchronizeState_spec [OF 1, of b] 1 show ?case
    by (cases v) (auto simp: block_holds_def block_ok_def within_ttl_def block_fits_def)
next
  case (2 E ttl m t w v b)
  then show ?case by (simp add: SynchronizeState_spec)
next
  case (3 E ttl m w v)
  then show ?case by (simp add: IsBlocked_spec [of E ttl] block_ok_def)
qed

lemma latest_market_state:
  assumes "all_success E" and "lua_ok E" and "within_ttl E ttl"
    and "kv w (blockKey E m) = None"
    and "evs \<noteq> []" and "\<And>b t. (b, t) \<in> set evs \<Longrightarrow> lua_exact (UnixMilli t)"
  shows "\<exists>pre b t post. evs = pre @ (b, t) # post \<and>
    (\<forall>(b', t') \<in> set pre. UnixMilli t' \<le> UnixMilli t) \<and>
    (\<forall>(b', t') \<in> set post. UnixMilli t' < UnixMilli t) \<and>
    fst (IsBlocked E (sync_all (\<lambda>b t w. SynchronizeState E w ttl m b t) evs w) m) = Inr b"
proof -
  let ?f = "\<lambda>(b, t). (UnixMilli t, b)"
  let ?w = "sync_all (\<lambda>b t w. SynchronizeState E w ttl m b t) evs w"
  have "block_holds (E, ttl, m) w None"
    using assms(4) by (simp add: block_holds_def redis_GET_def)
  then have holds: "block_holds (E, ttl, m) ?w (foldl newer None (map ?f evs))"
    using blocks.sync_all_holds [of "(E, ttl, m)" evs w None] assms
    by (auto simp: block_ok_def block_fits_def)
  obtain pre post t b where split: "map ?f evs = pre @ (t, b) # post"
    "foldl newer None (map ?f evs) = Some (t, b)"
    "\<forall>(t', b') \<in> set pre. t' \<le> t" "\<forall>(t', b') \<in> set post. t' < t"
    using foldl_newer [of "map ?f evs"] assms(5) by auto
  obtain pre' x post' where x: "evs = pre' @ x # post'" "pre = map ?f pre'" "?f x = (t, b)"
    "post = map ?f post'"
    using split(1) by (auto simp: map_eq_append_conv)
  have "fst (IsBlocked E ?w m) = Inr b"
    using IsBlocked_spec [OF assms(1) holds] split(2) by simp
  with x split(3,4) show ?thesis
    by (cases x) (rule exI [of _ pre'], rule exI [of _ b], rule exI [of _ "snd x"],
      rule exI [of _ post'], fastforce)
qed

section \<open>Properties\<close>

text \<open>
  C21. After any non-empty sequence of updates of a market, starting from no stored state, the
  market is reported as blocked exactly if the newest of the updates (by its millisecond;
  among equals the one applied last) blocks it.
\<close>

theorem newest_market_state_wins:
  assumes "all_success E" and "lua_ok E" and "within_ttl E ttl"
    and "kv w (blockKey E m) = None"
    and "evs \<noteq> []" and "\<And>b t. (b, t) \<in> set evs \<Longrightarrow> lua_exact (UnixMilli t)"
  shows "\<exists>pre b t post. evs = pre @ (b, t) # post \<and>
    (\<forall>(b', t') \<in> set pre. UnixMilli t' \<le> UnixMilli t) \<and>
    (\<forall>(b', t') \<in> set post. UnixMilli t' < UnixMilli t) \<and>
    fst (IsBlocked E (sync_all (\<lambda>b t w. SynchronizeState E w ttl m b t) evs w) m) = Inr b"
  using assms by (rule latest_market_state)

text \<open>
  Updates may arrive reordered and repeated: two sequences that contain the same
  updates, in whatever order and multiplicity, leave the same answer, provided different
  updates carry different milliseconds.
\<close>

theorem market_state_converges:
  assumes "all_success E" and "lua_ok E" and "within_ttl E ttl"
    and "kv w (blockKey E m) = None" and "set evs' = set evs"
    and "\<And>b t. (b, t) \<in> set evs \<Longrightarrow> lua_exact (UnixMilli t)"
    and "\<And>b t b' t'. (b, t) \<in> set evs \<Longrightarrow> (b', t') \<in> set evs \<Longrightarrow> UnixMilli t = UnixMilli t' \<Longrightarrow> b = b'"
  shows "fst (IsBlocked E (sync_all (\<lambda>b t w. SynchronizeState E w ttl m b t) evs w) m) =
    fst (IsBlocked E (sync_all (\<lambda>b t w. SynchronizeState E w ttl m b t) evs' w) m)"
proof (cases "evs = []")
  case True
  with assms(5) show ?thesis by simp
next
  case False
  then have "evs' \<noteq> []" using assms(5) by auto
  let ?ans = "\<lambda>xs. fst (IsBlocked E (sync_all (\<lambda>b t w. SynchronizeState E w ttl m b t) xs w) m)"
  have greatest: "\<exists>b t. (b, t) \<in> set xs \<and> (\<forall>(b', t') \<in> set xs. UnixMilli t' \<le> UnixMilli t) \<and>
      ?ans xs = Inr b" if ne: "xs \<noteq> []" and eq: "set xs = set evs" for xs
  proof -
    obtain pre b t post where "xs = pre @ (b, t) # post"
      "\<forall>(b', t') \<in> set pre. UnixMilli t' \<le> UnixMilli t"
      "\<forall>(b', t') \<in> set post. UnixMilli t' < UnixMilli t" "?ans xs = Inr b"
      using latest_market_state [OF assms(1-4) ne] eq assms(6) by blast
    then show ?thesis by (intro exI [of _ b] exI [of _ t]) fastforce
  qed
  obtain b t where 1: "(b, t) \<in> set evs" "\<forall>(b', t') \<in> set evs. UnixMilli t' \<le> UnixMilli t"
    "?ans evs = Inr b" using greatest [of evs] False by blast
  obtain b' t' where 2: "(b', t') \<in> set evs" "\<forall>(b', t'') \<in> set evs. UnixMilli t'' \<le> UnixMilli t'"
    "?ans evs' = Inr b'" using greatest [of evs'] \<open>evs' \<noteq> []\<close> assms(5) by blast
  have "UnixMilli t = UnixMilli t'" using 1 2 by fastforce
  then show ?thesis using assms(7) [OF 1(1) 2(1)] 1(3) 2(3) by simp
qed

end
