(* ===== verification/Rate_Limiter.thy ===== *)
theory Rate_Limiter
  imports Block_Store
begin

text \<open>
  The per-user rate limiter of the order service
  (\<open>orderService/internal/infrastructure/redis/order/order_rate_limiter.go\<close>): a counter in
  Redis per user and operation that starts to expire with its first increment. The theory
  bounds the requests allowed within a window, under every failure of Redis.
\<close>

section \<open>Operations\<close>

record OrderRateLimiter =
  RL_limit :: int
  RL_window :: duration
  RL_prefix :: string

definition rateLimitScript ::
  "int \<Rightarrow> keyspace \<Rightarrow> string \<Rightarrow> int \<Rightarrow> (go_error + int) \<times> keyspace" where
  "rateLimitScript t ks key windowMs =
     (case redis_INCR t ks key of
        Inl err \<Rightarrow> (Inl err, ks)
      | Inr (count, ks1) \<Rightarrow>
          (Inr count, if count = 1 then redis_PEXPIRE t ks1 key windowMs else ks1))"

definition Allow ::
  "'e env_scheme \<Rightarrow> 'a base_scheme \<Rightarrow> OrderRateLimiter \<Rightarrow> uuid \<Rightarrow>
   (go_error + bool) \<times> 'a base_scheme" where
  "Allow E w r userID =
     (let op = ''OrderRateLimiter.Allow'';
          key = RL_prefix r @ uuid_String E userID;
          windowMs = Milliseconds (RL_window r)
      in if windowMs \<le> 0 then
           (Inl (NewError (op @ '': window must be greater than 0, got '' @
              duration_String E (RL_window r))), w)
         else
           (case external E w (\<lambda>v. case rateLimitScript (env_redis_ms E (tick v)) (kv v) key windowMs of
                  (res, ks) \<Rightarrow> (res, v\<lparr>kv := ks\<rparr>)) of
              (Inl err, w1) \<Rightarrow> (Inl (Errorf (op @ '': '') err ''''), w1)
            | (Inr count, w1) \<Rightarrow> (Inr (count \<le> RL_limit r), w1)))"

lemma rateLimitScript_other:
  "k \<noteq> key \<Longrightarrow> snd (rateLimitScript t ks key ms) k = ks k"
  by (auto simp: rateLimitScript_def redis_INCR_def redis_PEXPIRE_def
      split: option.splits sum.splits if_splits)

lemma Allow_preserves:
  assumes P: "only_key (RL_prefix r @ uuid_String E u) P"
  shows "P w \<Longrightarrow> P (snd (Allow E w r u))"
  unfolding Allow_def
  by (intro pres_intros [where P = P] script_preserves [OF P] rateLimitScript_other)

section \<open>Counting within a window\<close>

text \<open>
  The requests of one user against one limiter, and how many of them are allowed. Between
  them anything may happen to other keys.
\<close>

fun allow_run ::
  "'e env_scheme \<Rightarrow> OrderRateLimiter \<Rightarrow> uuid \<Rightarrow> ('a base_scheme \<Rightarrow> 'a base_scheme) list \<Rightarrow>
   'a base_scheme \<Rightarrow> nat \<times> 'a base_scheme" where
  "allow_run E r u [] w = (0, w)"
| "allow_run E r u (f # fs) w =
     (case Allow E (f w) r u of
        (Inr True, w1) \<Rightarrow> (case allow_run E r u fs w1 of (n, w2) \<Rightarrow> (Suc n, w2))
      | (_, w1) \<Rightarrow> allow_run E r u fs w1)"

text \<open>The counter has counted \<open>c\<close> requests in a window that outlasts the run.\<close>

definition counted :: "'e env_scheme \<Rightarrow> string \<Rightarrow> nat \<Rightarrow> keyspace \<Rightarrow> bool" where
  "counted E key c ks \<longleftrightarrow>
     (if c = 0 then ks key = None
      else \<exists>x. ks key = Some (show_int (int c), Some x) \<and> (\<forall>n. env_redis_ms E n < x))"

lemma rateLimitScript_counted:
  assumes "counted E key c ks" and "within_ttl E window" and "int c < max_int64"
  shows "\<exists>ks'. rateLimitScript (env_redis_ms E n) ks key (Milliseconds window) = (Inr (int c + 1), ks') \<and>
    counted E key (Suc c) ks'"
proof (cases "c = 0")
  case True
  then show ?thesis
    using assms by (auto simp: counted_def rateLimitScript_def redis_INCR_def redis_PEXPIRE_def
        redis_GET_def key_live_def within_ttl_def)
next
  case False
  then obtain x where x: "ks key = Some (show_int (int c), Some x)" "\<And>n. env_redis_ms E n < x"
    using assms(1) by (auto simp: counted_def)
  have "ParseInt64 (show_int (int c)) = Some (int c)"
    using assms(3) by (intro ParseInt64_show_int) (auto simp: min_int64_def max_int64_def)
  then show ?thesis
    using x False assms(3)
    by (auto simp: counted_def rateLimitScript_def redis_INCR_def redis_GET_def key_live_def
        add.commute)
qed

lemma Allow_counted:
  assumes "counted E (RL_prefix r @ uuid_String E u) c (kv w)"
    and "within_ttl E (RL_window r)" and "int c < max_int64"
  shows "\<exists>c'. counted E (RL_prefix r @ uuid_String E u) c' (kv (snd (Allow E w r u))) \<and>
    c \<le> c' \<and> c' \<le> Suc c \<and>
    (fst (Allow E w r u) = Inr True \<longrightarrow> c' = Suc c \<and> int c < RL_limit r) \<and>
    (env_outcome E (tick w) = Success \<longrightarrow>
       c' = Suc c \<and> fst (Allow E w r u) = Inr (int c < RL_limit r))"
proof -
  obtain ks' where ks': "rateLimitScript (env_redis_ms E (tick w)) (kv w)
      (RL_prefix r @ uuid_String E u) (Milliseconds (RL_window r)) = (Inr (int c + 1), ks')"
    "counted E (RL_prefix r @ uuid_String E u) (Suc c) ks'"
    using rateLimitScript_counted [OF assms] by blast
  show ?thesis
    using ks' assms(1) within_ttl_pos(1) [OF assms(2)]
    by (auto simp: Allow_def external_def Let_def split: outcome.splits)
qed

lemma allow_run_bounded:
  assumes "within_ttl E (RL_window r)"
    and "\<And>f v. f \<in> set fs \<Longrightarrow>
      kv (f v) (RL_prefix r @ uuid_String E u) = kv v (RL_prefix r @ uuid_String E u)"
    and "counted E (RL_prefix r @ uuid_String E u) c (kv w)"
    and "int (c + length fs) < max_int64"
  shows "int (fst (allow_run E r u fs w)) \<le> max 0 (RL_limit r - int c)"
  using assms(2-4)
proof (induction fs arbitrary: c w)
  case (Cons f fs)
  let ?key = "RL_prefix r @ uuid_String E u"
  have "counted E ?key c (kv (f w))"
    using Cons.prems(1,2) by (simp add: counted_def)
  then obtain c' where c': "counted E ?key c' (kv (snd (Allow E (f w) r u)))" "c \<le> c'" "c' \<le> Suc c"
    "fst (Allow E (f w) r u) = Inr True \<longrightarrow> c' = Suc c \<and> int c < RL_limit r"
    using Allow_counted [of E r u c "f w"] assms(1) Cons.prems(3) by auto
  have IH: "int (fst (allow_run E r u fs (snd (Allow E (f w) r u)))) \<le> max 0 (RL_limit r - int c')"
    using Cons.prems c' by (intro Cons.IH) auto
  show ?case
  proof (cases "fst (Allow E (f w) r u) = Inr True")
    case True
    then obtain w1 where w1: "Allow E (f w) r u = (Inr True, w1)" by (metis prod.collapse)
    with IH c' show ?thesis by (auto split: prod.splits)
  next
    case False
    then have "allow_run E r u (f # fs) w = allow_run E r u fs (snd (Allow E (f w) r u))"
      by (auto split: sum.splits prod.splits bool.splits)
    with IH c' show ?thesis by auto
  qed
qed simp

text \<open>
  C31. Within one window a user is allowed at most the limit of requests, whatever calls to
  Redis fail, get lost or are applied without an answer, and whatever happens to other keys
  in between.
\<close>

theorem rate_limit_bounds_window:
  assumes "within_ttl E (RL_window r)"
    and "\<And>f v. f \<in> set fs \<Longrightarrow>
      kv (f v) (RL_prefix r @ uuid_String E u) = kv v (RL_prefix r @ uuid_String E u)"
    and "kv w (RL_prefix r @ uuid_String E u) = None"
    and "int (length fs) < max_int64"
  shows "int (fst (allow_run E r u fs w)) \<le> max 0 (RL_limit r)"
  using allow_run_bounded [of E r fs u 0 w] assms by (simp add: counted_def)

text \<open>
  When Redis answers, exactly the first \<open>limit\<close> requests of a window are allowed.
\<close>

theorem rate_limit_admits_up_to_limit:
  assumes "all_success E" and "within_ttl E (RL_window r)"
    and "kv w (RL_prefix r @ uuid_String E u) = None" and "int n < max_int64"
  shows "int (fst (allow_run E r u (replicate n id) w)) = min (int n) (max 0 (RL_limit r))"
proof -
  let ?key = "RL_prefix r @ uuid_String E u"
  have "int (fst (allow_run E r u (replicate n id) w)) = min (int n) (max 0 (RL_limit r - int c))"
    if "counted E ?key c (kv w)" "int (c + n) < max_int64" for c w
    using that
  proof (induction n arbitrary: c w)
    case (Suc n)
    obtain w1 where w1: "Allow E w r u = (Inr (int c < RL_limit r), w1)"
      "counted E ?key (Suc c) (kv w1)"
      using Allow_counted [OF Suc.prems(1) assms(2)] Suc.prems(2) assms(1)
      by (auto simp: all_success_def) (metis prod.collapse)+
    have "int (fst (allow_run E r u (replicate n id) w1)) = min (int n) (max 0 (RL_limit r - int (Suc c)))"
      using w1 Suc.prems by (intro Suc.IH) auto
    with w1 show ?case by (auto simp: id_def split: prod.splits bool.splits)
  qed simp
  from this [of 0 w] assms show ?thesis by (simp add: counted_def)
qed

end
