(* ===== verification/Order_Tables.thy ===== *)
theory Order_Tables
  imports Rate_Limiter
begin

text \<open>
  The PostgreSQL side of the order service: the tables of \<open>orderService/migrations\<close>, a
  transaction as a working copy of them, and the stores over the tables \<open>orders\<close>, \<open>outbox\<close>
  and \<open>inbox\<close> (\<open>orderService/internal/infrastructure/postgres\<close>, each SQL statement as one
  function on the tables), with the converters between a row and the domain model
  (\<open>application/dto/outbound/postgres\<close>).

  Statements run one after another, as under serialisable isolation; rows that other
  transactions hold locked, which \<open>SKIP LOCKED\<close> passes over, are read from the environment.
  \<open>NOW()\<close> is the time at which the transaction began. The order in which \<open>RETURNING\<close> lists
  rows is unspecified in SQL, so the environment chooses it.
\<close>

section \<open>Parameters: decimals, numerics, protobuf and hashing\<close>

text \<open>
  \<open>shopspring/decimal\<close>, PostgreSQL's \<open>NUMERIC(18,8)\<close> (kept as a number of units of
  \<open>1e-8\<close>), the protobuf encoders, SHA-256 and the client of the spot service.
\<close>

record pb_OrderCreatedEvent =
  pbOC_EventId :: string
  pbOC_OrderId :: string
  pbOC_UserId :: string
  pbOC_MarketId :: string
  pbOC_OrderType :: nat
  pbOC_Price :: string
  pbOC_Quantity :: int
  pbOC_Status :: nat
  pbOC_CreatedAt :: instant

record pb_OrderStatusUpdatedEvent =
  pbOS_EventId :: string
  pbOS_OrderId :: string
  pbOS_NewStatus :: nat
  pbOS_Reason :: string
  pbOS_CorrelationId :: string
  pbOS_UpdatedAt :: instant

record order_env = block_env +
  dec_NewFromString :: "string \<Rightarrow> decimal option"
  dec_String :: "decimal \<Rightarrow> string"
  dec_IsPositive :: "decimal \<Rightarrow> bool"
  numeric_in :: "string \<Rightarrow> int option"          \<comment> \<open>a text stored in a \<open>NUMERIC(18,8)\<close> column\<close>
  numeric_value :: "string \<Rightarrow> rat option"       \<comment> \<open>a text compared with a \<open>NUMERIC\<close>\<close>
  numeric_out :: "int \<Rightarrow> string"
  sha256_hex :: "string \<Rightarrow> string"
  proto_OrderCreated :: "pb_OrderCreatedEvent \<Rightarrow> bytes option"
  proto_OrderStatusUpdated :: "pb_OrderStatusUpdatedEvent \<Rightarrow> bytes option"
  spot_GetMarketByID :: "nat \<Rightarrow> uuid \<Rightarrow> go_error + Market"

section \<open>Tables and transactions\<close>

record OrderRow =
  row_id :: uuid
  row_user_id :: uuid
  row_market_id :: uuid
  row_type :: OrderType
  row_price :: int
  row_quantity :: int
  row_status :: OrderStatus
  row_created_at :: instant

record order_db =
  orders :: "OrderRow list"
  outbox :: "OutboxEvent list"
  inbox :: "InboxEvent list"

record marketBlockTask =
  task_market :: Market
  task_blocked :: bool
  task_reason :: string

record order_world = base +
  db :: order_db
  marketBlockQueue :: "marketBlockTask list"
  marketBlockClosed :: bool

record 'd tx =
  tx_db :: 'd
  tx_now :: instant

text \<open>
  \<open>pool.Begin\<close>; a statement of a transaction, which changes only the working copy; and a
  commit, which may take effect without the client learning of it. A rollback, or a
  transaction that is given up, has no effect on the tables.
\<close>

definition Begin ::
  "'e env_scheme \<Rightarrow> 'a order_world_scheme \<Rightarrow> (go_error + order_db tx) \<times> 'a order_world_scheme" where
  "Begin E w = external E w (\<lambda>v. (Inr \<lparr>tx_db = db v, tx_now = env_db_now E (tick v)\<rparr>, v))"

definition tx_exec ::
  "'e env_scheme \<Rightarrow> 'a base_scheme \<Rightarrow> 'd tx \<Rightarrow> ('d tx \<Rightarrow> go_error + 'r \<times> 'd) \<Rightarrow>
   (go_error + 'r \<times> 'd tx) \<times> 'a base_scheme" where
  "tx_exec E w t stmt = external E w (\<lambda>v.
     (case stmt t of Inl err \<Rightarrow> Inl err | Inr (r, d) \<Rightarrow> Inr (r, t\<lparr>tx_db := d\<rparr>), v))"

definition Commit ::
  "'e env_scheme \<Rightarrow> 'a order_world_scheme \<Rightarrow> order_db tx \<Rightarrow> (go_error + unit) \<times> 'a order_world_scheme" where
  "Commit E w t = external E w (\<lambda>v. (Inr (), v\<lparr>db := tx_db t\<rparr>))"

text \<open>A statement outside a transaction is a transaction of its own.\<close>

definition pool_exec ::
  "'e env_scheme \<Rightarrow> 'a order_world_scheme \<Rightarrow> (order_db tx \<Rightarrow> go_error + 'r \<times> order_db) \<Rightarrow>
   (go_error + 'r) \<times> 'a order_world_scheme" where
  "pool_exec E w stmt = external E w (\<lambda>v.
     (case stmt \<lparr>tx_db = db v, tx_now = env_db_now E (tick v)\<rparr> of
        Inl err \<Rightarrow> (Inl err, v)
      | Inr (r, d) \<Rightarrow> (Inr r, v\<lparr>db := d\<rparr>)))"

section \<open>Rows and domain values\<close>

record OrderDTO =
  DTO_ID :: uuid
  DTO_UserID :: uuid
  DTO_MarketID :: uuid
  DTO_Type :: "16 word"
  DTO_Price :: string
  DTO_Quantity :: int
  DTO_Status :: "16 word"
  DTO_CreatedAt :: instant

definition NewDecimal :: "'e order_env_scheme \<Rightarrow> string \<Rightarrow> go_error + decimal" where
  "NewDecimal E raw =
     (case dec_NewFromString E (strings_TrimSpace raw) of
        None \<Rightarrow> Inl (NewError ''can't convert to decimal'')
      | Some v \<Rightarrow> Inr v)"

definition ToDomain :: "'e order_env_scheme \<Rightarrow> OrderDTO \<Rightarrow> go_error + Order" where
  "ToDomain E d =
     (case NewDecimal E (DTO_Price d) of
        Inl err \<Rightarrow> Inl (Errorf ''invalid order price from db: '' err '''')
      | Inr price \<Rightarrow>
          Inr \<lparr>Order_ID = DTO_ID d, Order_UserID = DTO_UserID d, Order_MarketID = DTO_MarketID d,
               Order_Type = DTO_Type d, Order_Price = price, Order_Quantity = DTO_Quantity d,
               Order_Status = DTO_Status d, Order_CreatedAt = DTO_CreatedAt d\<rparr>)"

definition FromDomain :: "'e order_env_scheme \<Rightarrow> Order \<Rightarrow> OrderDTO" where
  "FromDomain E ord = \<lparr>DTO_ID = Order_ID ord, DTO_UserID = Order_UserID ord,
     DTO_MarketID = Order_MarketID ord, DTO_Type = Order_Type ord,
     DTO_Price = dec_String E (Order_Price ord), DTO_Quantity = Order_Quantity ord,
     DTO_Status = Order_Status ord, DTO_CreatedAt = Order_CreatedAt ord\<rparr>"

definition row_to_dto :: "'e order_env_scheme \<Rightarrow> OrderRow \<Rightarrow> OrderDTO" where
  "row_to_dto E r = \<lparr>DTO_ID = row_id r, DTO_UserID = row_user_id r,
     DTO_MarketID = row_market_id r, DTO_Type = row_type r,
     DTO_Price = numeric_out E (row_price r), DTO_Quantity = row_quantity r,
     DTO_Status = row_status r, DTO_CreatedAt = row_created_at r\<rparr>"

section \<open>Orders\<close>

abbreviation ErrOrderNotFound :: go_error where
  "ErrOrderNotFound \<equiv> ErrNotFound nil_uuid"

abbreviation ErrOrderAlreadyExists :: go_error where
  "ErrOrderAlreadyExists \<equiv> ErrAlreadyExists nil_uuid"

definition check_violation :: "string \<Rightarrow> go_error" where
  "check_violation c = PgError ''23514'' c ''new row violates check constraint''"

definition unique_violation :: "string \<Rightarrow> go_error" where
  "unique_violation c = PgError ''23505'' c ''duplicate key value violates unique constraint''"

definition sql_insert_order ::
  "'e order_env_scheme \<Rightarrow> OrderDTO \<Rightarrow> order_db tx \<Rightarrow> go_error + unit \<times> order_db" where
  "sql_insert_order E d t =
     (case numeric_in E (DTO_Price d) of
        None \<Rightarrow> Inl (PgError ''22003'' '''' ''numeric field overflow'')
      | Some p \<Rightarrow>
          if \<not> 0 < p then Inl (check_violation ''chk_orders_price_positive'')
          else if \<not> 0 < DTO_Quantity d then Inl (check_violation ''chk_orders_quantity_positive'')
          else if \<not> (1 \<le> sint (DTO_Type d) \<and> sint (DTO_Type d) \<le> 4)
            then Inl (check_violation ''chk_orders_type_valid'')
          else if \<not> (1 \<le> sint (DTO_Status d) \<and> sint (DTO_Status d) \<le> 4)
            then Inl (check_violation ''chk_orders_status_valid'')
          else if DTO_ID d \<in> row_id ` set (orders (tx_db t))
            then Inl (unique_violation ''orders_pkey'')
          else Inr ((), (tx_db t)\<lparr>orders := orders (tx_db t) @
            [\<lparr>row_id = DTO_ID d, row_user_id = DTO_UserID d, row_market_id = DTO_MarketID d,
              row_type = DTO_Type d, row_price = p, row_quantity = DTO_Quantity d,
              row_status = DTO_Status d, row_created_at = pg_timestamp (DTO_CreatedAt d)\<rparr>]\<rparr>))"

text \<open>\<open>errors.As\<close> into \<open>*pgconn.PgError\<close>: the first server error of the chain.\<close>

fun as_PgError :: "go_error \<Rightarrow> (string \<times> string) option" where
  "as_PgError (PgError code constr _) = Some (code, constr)"
| "as_PgError (Errorf _ e _) = as_PgError e"
| "as_PgError (Errorf2 e1 e2) =
     (case as_PgError e1 of Some x \<Rightarrow> Some x | None \<Rightarrow> as_PgError e2)"
| "as_PgError (NonRetryableError e) = as_PgError e"
| "as_PgError (RetryExhaustedError e n) = as_PgError e"
| "as_PgError (Joined es) =
     (case filter (\<lambda>r. r \<noteq> None) (map as_PgError es) of [] \<Rightarrow> None | r # _ \<Rightarrow> r)"
| "as_PgError _ = None"

definition isPrimaryKeyViolation :: "go_error \<Rightarrow> bool" where
  "isPrimaryKeyViolation err \<longleftrightarrow> as_PgError err = Some (''23505'', ''orders_pkey'')"

definition SaveOrder ::
  "'e order_env_scheme \<Rightarrow> 'a base_scheme \<Rightarrow> order_db tx \<Rightarrow> Order \<Rightarrow>
   (go_error + order_db tx) \<times> 'a base_scheme" where
  "SaveOrder E w t ord =
     (let op = ''infrastructure.OrderStore.SaveOrder'' in
      case tx_exec E w t (sql_insert_order E (FromDomain E ord)) of
        (Inl err, w1) \<Rightarrow>
          if isPrimaryKeyViolation err
          then (Inl (Errorf (op @ '': '') ErrOrderAlreadyExists ''''), w1)
          else (Inl (Errorf (op @ '': '') err ''''), w1)
      | (Inr (_, t1), w1) \<Rightarrow> (Inr t1, w1))"

text \<open>\<open>pgx.CollectExactlyOneRow\<close>.\<close>

definition CollectExactlyOneRow :: "'r list \<Rightarrow> go_error + 'r" where
  "CollectExactlyOneRow rows =
     (case rows of [] \<Rightarrow> Inl PgNoRows | [r] \<Rightarrow> Inr r | _ \<Rightarrow> Inl (NewError ''too many rows in result set''))"

definition GetOrder ::
  "'e order_env_scheme \<Rightarrow> 'a order_world_scheme \<Rightarrow> uuid \<Rightarrow> uuid \<Rightarrow>
   (go_error + Order) \<times> 'a order_world_scheme" where
  "GetOrder E w i userID =
     (let op = ''infrastructure.OrderStore.GetOrder'' in
      case pool_exec E w (\<lambda>t. Inr (filter (\<lambda>r. row_id r = i \<and> row_user_id r = userID)
             (orders (tx_db t)), tx_db t)) of
        (Inl err, w1) \<Rightarrow> (Inl (Errorf (op @ '': '') err ''''), w1)
      | (Inr rows, w1) \<Rightarrow>
          (case CollectExactlyOneRow rows of
             Inl err \<Rightarrow>
               if errors_Is err PgNoRows
               then (Inl (Errorf (op @ '': '') ErrOrderNotFound ''''), w1)
               else (Inl (Errorf (op @ '': '') err ''''), w1)
           | Inr r \<Rightarrow>
               (case ToDomain E (row_to_dto E r) of
                  Inl err \<Rightarrow> (Inl (Errorf (op @ '': '') err ''''), w1)
                | Inr ord \<Rightarrow> (Inr ord, w1))))"

definition row_active :: "uuid \<Rightarrow> OrderRow \<Rightarrow> bool" where
  "row_active marketID r \<longleftrightarrow>
     row_market_id r = marketID \<and> row_status r \<in> {OrderStatusCreated, OrderStatusPending}"

definition sql_cancel_active ::
  "(uuid \<Rightarrow> nat) \<Rightarrow> uuid \<Rightarrow> order_db tx \<Rightarrow> go_error + uuid list \<times> order_db" where
  "sql_cancel_active rank marketID t =
     Inr (sort_key rank (map row_id (filter (row_active marketID) (orders (tx_db t)))),
          (tx_db t)\<lparr>orders := upd_where (row_active marketID)
             (\<lambda>r. r\<lparr>row_status := OrderStatusCancelled\<rparr>) (orders (tx_db t))\<rparr>)"

definition CancelActiveOrdersByMarket ::
  "'e order_env_scheme \<Rightarrow> 'a base_scheme \<Rightarrow> order_db tx \<Rightarrow> uuid \<Rightarrow>
   (go_error + uuid list \<times> order_db tx) \<times> 'a base_scheme" where
  "CancelActiveOrdersByMarket E w t marketID =
     (case tx_exec E w t (sql_cancel_active (env_rank E (tick w)) marketID) of
        (Inl err, w1) \<Rightarrow> (Inl (Errorf ''OrderStore.CancelActiveOrdersByMarket: '' err ''''), w1)
      | (Inr (ids, t1), w1) \<Rightarrow> (Inr (ids, t1), w1))"

text \<open>\<open>ORDER BY created_at, id LIMIT 1\<close>; UUIDs are compared as unsigned 128-bit numbers.\<close>

definition row_matches_request ::
  "'e order_env_scheme \<Rightarrow> uuid \<Rightarrow> uuid \<Rightarrow> OrderType \<Rightarrow> decimal \<Rightarrow> int \<Rightarrow> instant \<Rightarrow> OrderRow \<Rightarrow> bool" where
  "row_matches_request E userID marketID orderType price quantity startedAt r \<longleftrightarrow>
     row_user_id r = userID \<and> row_market_id r = marketID \<and> row_type r = orderType \<and>
     numeric_value E (dec_String E price) = Some (of_int (row_price r) / 100000000) \<and>
     row_quantity r = quantity \<and> pg_timestamp startedAt \<le> row_created_at r"

definition FindOrderForIdempotencyRecovery ::
  "'e order_env_scheme \<Rightarrow> 'a order_world_scheme \<Rightarrow> uuid \<Rightarrow> uuid \<Rightarrow> OrderType \<Rightarrow> decimal \<Rightarrow> int \<Rightarrow>
   instant \<Rightarrow> (go_error + Order) \<times> 'a order_world_scheme" where
  "FindOrderForIdempotencyRecovery E w userID marketID orderType price quantity startedAt =
     (let op = ''infrastructure.OrderStore.FindOrderForIdempotencyRecovery'' in
      case pool_exec E w (\<lambda>t. Inr (take 1 (sort_key (\<lambda>r. (row_created_at r, uint (row_id r)))
             (filter (row_matches_request E userID marketID orderType price quantity startedAt)
                (orders (tx_db t)))), tx_db t)) of
        (Inl err, w1) \<Rightarrow> (Inl (Errorf (op @ '': '') err ''''), w1)
      | (Inr rows, w1) \<Rightarrow>
          (case CollectExactlyOneRow rows of
             Inl err \<Rightarrow>
               if errors_Is err PgNoRows
               then (Inl (Errorf (op @ '': '') ErrOrderNotFound ''''), w1)
               else (Inl (Errorf (op @ '': '') err ''''), w1)
           | Inr r \<Rightarrow>
               (case ToDomain E (row_to_dto E r) of
                  Inl err \<Rightarrow> (Inl (Errorf (op @ '': '') err ''''), w1)
                | Inr ord \<Rightarrow> (Inr ord, w1))))"

section \<open>The inbox\<close>

text \<open>
  \<open>INSERT .. ON CONFLICT (event_id, consumer_group) DO UPDATE .. WHERE status = 'failed'
  RETURNING status\<close>: one row if it inserted or updated, none otherwise. Without a conflict
  on the pair, an identifier that is taken violates the primary key.
\<close>

definition inbox_key :: "InboxEvent \<Rightarrow> uuid \<times> string" where
  "inbox_key r = (In_EventID r, In_ConsumerGroup r)"

definition sql_begin_processing ::
  "InboxEvent \<Rightarrow> order_db tx \<Rightarrow> go_error + InboxEventStatus list \<times> order_db" where
  "sql_begin_processing e t =
     (let d = tx_db t in
      case find (\<lambda>r. inbox_key r = inbox_key e) (inbox d) of
        None \<Rightarrow>
          if In_ID e \<in> In_ID ` set (inbox d) then Inl (unique_violation ''inbox_pkey'')
          else Inr ([InboxEventStatusProcessing], d\<lparr>inbox := inbox d @
            [\<lparr>In_ID = In_ID e, In_EventID = In_EventID e, In_Topic = In_Topic e,
              In_ConsumerGroup = In_ConsumerGroup e, In_Payload = In_Payload e,
              In_Status = InboxEventStatusProcessing, In_ReceivedAt = tx_now t,
              In_ProcessedAt = None, In_FailedAt = None, In_ErrorMessage = None\<rparr>]\<rparr>)
      | Some old \<Rightarrow>
          if In_Status old = InboxEventStatusFailed then
            Inr ([InboxEventStatusProcessing], d\<lparr>inbox := upd_where (\<lambda>r. inbox_key r = inbox_key e)
              (\<lambda>r. r\<lparr>In_Topic := In_Topic e, In_Payload := In_Payload e,
                     In_Status := InboxEventStatusProcessing, In_FailedAt := None,
                     In_ProcessedAt := None, In_ErrorMessage := None\<rparr>) (inbox d)\<rparr>)
          else Inr ([], d))"

definition QueryRow :: "'r list \<Rightarrow> go_error + 'r" where
  "QueryRow rows = (case rows of [] \<Rightarrow> Inl PgNoRows | r # _ \<Rightarrow> Inr r)"

definition tryStartProcessing ::
  "'e env_scheme \<Rightarrow> 'a base_scheme \<Rightarrow> order_db tx \<Rightarrow> InboxEvent \<Rightarrow>
   (go_error + InboxEventStatus \<times> order_db tx) \<times> 'a base_scheme" where
  "tryStartProcessing E w t event =
     (let op = ''InboxStore.tryStartProcessing'' in
      case tx_exec E w t (sql_begin_processing event) of
        (Inl err, w1) \<Rightarrow> (Inl (Errorf (op @ '': '') err ''''), w1)
      | (Inr (rows, t1), w1) \<Rightarrow>
          (case QueryRow rows of
             Inl err \<Rightarrow> (Inl (Errorf (op @ '': '') err ''''), w1)
           | Inr status \<Rightarrow> (Inr (status, t1), w1)))"

definition getCurrentStatus ::
  "'e env_scheme \<Rightarrow> 'a base_scheme \<Rightarrow> order_db tx \<Rightarrow> uuid \<Rightarrow> string \<Rightarrow>
   (go_error + InboxEventStatus) \<times> 'a base_scheme" where
  "getCurrentStatus E w t eventID consumerGroup =
     (let op = ''InboxStore.getCurrentStatus'' in
      case tx_exec E w t (\<lambda>t. Inr (map In_Status (filter (\<lambda>r. In_EventID r = eventID \<and>
             In_ConsumerGroup r = consumerGroup) (inbox (tx_db t))), tx_db t)) of
        (Inl err, w1) \<Rightarrow> (Inl (Errorf (op @ '': '') err ''''), w1)
      | (Inr (rows, _), w1) \<Rightarrow>
          (case QueryRow rows of
             Inl err \<Rightarrow> (Inl (Errorf (op @ '': '') err ''''), w1)
           | Inr status \<Rightarrow> (Inr status, w1)))"

text \<open>
  Whether the event is to be processed, its status, and the transaction. When no row came
  back the statement has changed nothing, so the transaction goes on with its old copy.
\<close>

definition BeginProcessing ::
  "'e env_scheme \<Rightarrow> 'a base_scheme \<Rightarrow> order_db tx \<Rightarrow> InboxEvent \<Rightarrow>
   (go_error + bool \<times> InboxEventStatus \<times> order_db tx) \<times> 'a base_scheme" where
  "BeginProcessing E w t event =
     (let op = ''InboxStore.BeginProcessing'' in
      case tryStartProcessing E w t event of
        (Inr (status, t1), w1) \<Rightarrow> (Inr (True, status, t1), w1)
      | (Inl err, w1) \<Rightarrow>
          if \<not> errors_Is err PgNoRows then (Inl (Errorf (op @ '': '') err ''''), w1)
          else
            (case getCurrentStatus E w1 t (In_EventID event) (In_ConsumerGroup event) of
               (Inl err, w2) \<Rightarrow> (Inl (Errorf (op @ '': get current inbox status: '') err ''''), w2)
             | (Inr currentStatus, w2) \<Rightarrow> (Inr (False, currentStatus, t), w2)))"

text \<open>An \<open>UPDATE\<close> of the rows with a property, with the number of rows it affects.\<close>

definition sql_update_inbox ::
  "(InboxEvent \<Rightarrow> bool) \<Rightarrow> (instant \<Rightarrow> InboxEvent \<Rightarrow> InboxEvent) \<Rightarrow> order_db tx \<Rightarrow>
   go_error + nat \<times> order_db" where
  "sql_update_inbox P f t =
     Inr (length (filter P (inbox (tx_db t))),
          (tx_db t)\<lparr>inbox := upd_where P (f (tx_now t)) (inbox (tx_db t))\<rparr>)"

definition MarkProcessed ::
  "'e env_scheme \<Rightarrow> 'a base_scheme \<Rightarrow> order_db tx \<Rightarrow> uuid \<Rightarrow> string \<Rightarrow>
   (go_error + order_db tx) \<times> 'a base_scheme" where
  "MarkProcessed E w t eventID consumerGroup =
     (let op = ''InboxStore.MarkProcessed'' in
      case tx_exec E w t (sql_update_inbox
             (\<lambda>r. In_EventID r = eventID \<and> In_ConsumerGroup r = consumerGroup \<and>
                  In_Status r = InboxEventStatusProcessing)
             (\<lambda>now r. r\<lparr>In_Status := InboxEventStatusProcessed, In_ProcessedAt := Some now,
                  In_FailedAt := None, In_ErrorMessage := None\<rparr>)) of
        (Inl err, w1) \<Rightarrow> (Inl (Errorf (op @ '': '') err ''''), w1)
      | (Inr (n, t1), w1) \<Rightarrow>
          if n \<noteq> 1 then (Inl (NewError (op @ '': expected to update 1 row, updated '' @ show_nat n)), w1)
          else (Inr t1, w1))"

definition sql_save_failed ::
  "InboxEvent \<Rightarrow> string \<Rightarrow> order_db tx \<Rightarrow> go_error + nat \<times> order_db" where
  "sql_save_failed e errText t =
     (let d = tx_db t in
      case find (\<lambda>r. inbox_key r = inbox_key e) (inbox d) of
        None \<Rightarrow>
          if In_ID e \<in> In_ID ` set (inbox d) then Inl (unique_violation ''inbox_pkey'')
          else Inr (1, d\<lparr>inbox := inbox d @
            [\<lparr>In_ID = In_ID e, In_EventID = In_EventID e, In_Topic = In_Topic e,
              In_ConsumerGroup = In_ConsumerGroup e, In_Payload = In_Payload e,
              In_Status = InboxEventStatusFailed, In_ReceivedAt = tx_now t,
              In_ProcessedAt = None, In_FailedAt = Some (tx_now t),
              In_ErrorMessage = Some errText\<rparr>]\<rparr>)
      | Some old \<Rightarrow>
          if In_Status old = InboxEventStatusFailed \<or> In_Status old = InboxEventStatusProcessing then
            Inr (1, d\<lparr>inbox := upd_where (\<lambda>r. inbox_key r = inbox_key e)
              (\<lambda>r. r\<lparr>In_Topic := In_Topic e, In_Payload := In_Payload e,
                     In_Status := InboxEventStatusFailed, In_FailedAt := Some (tx_now t),
                     In_ProcessedAt := None, In_ErrorMessage := Some errText\<rparr>) (inbox d)\<rparr>)
          else Inr (0, d))"

definition SaveFailed ::
  "'e env_scheme \<Rightarrow> 'a order_world_scheme \<Rightarrow> InboxEvent \<Rightarrow> string \<Rightarrow>
   (go_error + unit) \<times> 'a order_world_scheme" where
  "SaveFailed E w event errText =
     (let op = ''InboxStore.SaveFailed'' in
      case pool_exec E w (sql_save_failed event errText) of
        (Inl err, w1) \<Rightarrow> (Inl (Errorf (op @ '': '') err ''''), w1)
      | (Inr n, w1) \<Rightarrow>
          if n \<noteq> 1 then (Inl (NewError (op @ '': expected to affect 1 row, affected '' @ show_nat n)), w1)
          else (Inr (), w1))"

section \<open>The outbox\<close>

text \<open>
  The statements on an outbox table are the same text in both services, so they are
  functions on a list of rows here; the stores of the services are over them.
\<close>

definition outbox_insert :: "instant \<Rightarrow> OutboxEvent \<Rightarrow> OutboxEvent list \<Rightarrow> go_error + OutboxEvent list" where
  "outbox_insert now e rows =
     (if Out_ID e \<in> Out_ID ` set rows then Inl (unique_violation ''outbox_pkey'')
      else if Out_EventID e \<in> Out_EventID ` set rows then Inl (unique_violation ''idx_outbox_event_id'')
      else Inr (rows @ [\<lparr>Out_ID = Out_ID e, Out_EventID = Out_EventID e,
        Out_EventType = Out_EventType e, Out_AggregateID = Out_AggregateID e,
        Out_Payload = Out_Payload e, Out_Status = OutboxEventStatusPending, Out_RetryCount = 0,
        Out_AvailableAt = now, Out_CreatedAt = now, Out_PublishedAt = None, Out_FailedAt = None,
        Out_LockedAt = None, Out_LastError = None\<rparr>]))"

definition SaveOutboxEvent ::
  "'e env_scheme \<Rightarrow> 'a base_scheme \<Rightarrow> order_db tx \<Rightarrow> OutboxEvent \<Rightarrow>
   (go_error + order_db tx) \<times> 'a base_scheme" where
  "SaveOutboxEvent E w t event =
     (case tx_exec E w t (\<lambda>t. case outbox_insert (tx_now t) event (outbox (tx_db t)) of
             Inl err \<Rightarrow> Inl err
           | Inr rows \<Rightarrow> Inr ((), (tx_db t)\<lparr>outbox := rows\<rparr>)) of
        (Inl err, w1) \<Rightarrow> (Inl (Errorf ''OutboxStore.SaveOutboxEvent: '' err ''''), w1)
      | (Inr (_, t1), w1) \<Rightarrow> (Inr t1, w1))"

section \<open>Transactions change the tables only by their commit\<close>

lemma Begin_world [simp]: "snd (Begin E w) = step w"
  by (auto simp: Begin_def external_def split: outcome.splits)

lemma Begin_Inr:
  "Begin E w = (Inr t, w') \<longleftrightarrow> env_outcome E (tick w) = Success \<and> w' = step w \<and>
     t = \<lparr>tx_db = db w, tx_now = env_db_now E (tick w)\<rparr>"
  by (auto simp: Begin_def external_Inr)

lemma tx_exec_world [simp]: "snd (tx_exec E w t stmt) = step w"
  by (auto simp: tx_exec_def external_def split: outcome.splits)

lemma tx_exec_step: "tx_exec E w t stmt = (r, w') \<Longrightarrow> w' = step w"
  by (metis snd_conv tx_exec_world)

lemma tx_exec_Inr:
  "tx_exec E w t stmt = (Inr (r, t1), w') \<longleftrightarrow> env_outcome E (tick w) = Success \<and> w' = step w \<and>
     (\<exists>d. stmt t = Inr (r, d) \<and> t1 = t\<lparr>tx_db := d\<rparr>)"
  by (auto simp: tx_exec_def external_Inr split: sum.splits)

lemma tx_exec_Inl:
  "tx_exec E w t stmt = (Inl e, w') \<Longrightarrow> w' = step w \<and> ((\<exists>f. e = fault_error f) \<or> stmt t = Inl e)"
  by (auto simp: tx_exec_def external_def split: outcome.splits sum.splits)

lemma Commit_Inr:
  "Commit E w t = (Inr x, w') \<longleftrightarrow>
     env_outcome E (tick w) = Success \<and> w' = step (w\<lparr>db := tx_db t\<rparr>)"
  by (auto simp: Commit_def external_Inr)

lemma Commit_Inl:
  "unambiguous E \<Longrightarrow> Commit E w t = (Inl e, w') \<Longrightarrow> w' = step w"
  by (auto simp: Commit_def external_def unambiguous_def split: outcome.splits)

lemma Commit_frame [simp]:
  "kafka (snd (Commit E w t)) = kafka w" "kv (snd (Commit E w t)) = kv w"
  "tick (snd (Commit E w t)) = Suc (tick w)"
  "marketBlockQueue (snd (Commit E w t)) = marketBlockQueue w"
  "marketBlockClosed (snd (Commit E w t)) = marketBlockClosed w"
  by (auto simp: Commit_def external_def step_def split: outcome.splits)

lemma order_step_simps [simp]:
  "db (step w) = db w" "marketBlockQueue (step w) = marketBlockQueue w"
  "marketBlockClosed (step w) = marketBlockClosed w"
  by (simp_all add: step_def)

text \<open>A query of the pool that returns the tables as they are leaves them as they are.\<close>

lemma pool_query_world:
  assumes "\<And>t. stmt t = Inr (f t, tx_db t)"
  shows "snd (pool_exec E w stmt) = step w"
  by (auto simp: pool_exec_def external_def assms split: outcome.splits)

lemma GetOrder_world [simp]: "snd (GetOrder E w i u) = step w"
proof -
  let ?stmt = "\<lambda>t. Inr (filter (\<lambda>r. row_id r = i \<and> row_user_id r = u) (orders (tx_db t)), tx_db t)"
  have "snd (pool_exec E w ?stmt) = step w" by (rule pool_query_world) simp
  then show ?thesis by (auto simp: GetOrder_def Let_def split: result_splits)
qed

lemma FindOrder_world [simp]:
  "snd (FindOrderForIdempotencyRecovery E w u m ot p q s) = step w"
proof -
  let ?stmt = "\<lambda>t. Inr (take 1 (sort_key (\<lambda>r. (row_created_at r, uint (row_id r)))
    (filter (row_matches_request E u m ot p q s) (orders (tx_db t)))), tx_db t)"
  have "snd (pool_exec E w ?stmt) = step w" by (rule pool_query_world) simp
  then show ?thesis by (auto simp: FindOrderForIdempotencyRecovery_def Let_def split: result_splits)
qed

lemma SaveOrder_world [simp]: "snd (SaveOrder E w t ord) = step w"
  by (auto simp: SaveOrder_def Let_def dest: tx_exec_step split: result_splits)

lemma CancelActiveOrdersByMarket_world [simp]:
  "snd (CancelActiveOrdersByMarket E w t m) = step w"
  by (auto simp: CancelActiveOrdersByMarket_def dest: tx_exec_step split: result_splits)

section \<open>The invariant of the tables\<close>

text \<open>
  What the constraints of the schema and the statements keep: keys are unique, every order
  has a positive price and quantity and a status and type of the domain, and the status of
  an inbox or outbox row agrees with its timestamps.
\<close>

definition order_row_ok :: "OrderRow \<Rightarrow> bool" where
  "order_row_ok r \<longleftrightarrow> 0 < row_price r \<and> 0 < row_quantity r \<and>
     1 \<le> sint (row_type r) \<and> sint (row_type r) \<le> 4 \<and>
     1 \<le> sint (row_status r) \<and> sint (row_status r) \<le> 4"

definition inbox_row_ok :: "InboxEvent \<Rightarrow> bool" where
  "inbox_row_ok r \<longleftrightarrow>
     (case In_Status r of
        InboxEventStatusProcessing \<Rightarrow>
          In_ProcessedAt r = None \<and> In_FailedAt r = None \<and> In_ErrorMessage r = None
      | InboxEventStatusProcessed \<Rightarrow>
          In_ProcessedAt r \<noteq> None \<and> In_FailedAt r = None \<and> In_ErrorMessage r = None
      | InboxEventStatusFailed \<Rightarrow>
          In_ProcessedAt r = None \<and> In_FailedAt r \<noteq> None \<and> In_ErrorMessage r \<noteq> None)"

definition outbox_row_ok :: "OutboxEvent \<Rightarrow> bool" where
  "outbox_row_ok r \<longleftrightarrow> 0 \<le> Out_RetryCount r \<and>
     (case Out_Status r of
        OutboxEventStatusPending \<Rightarrow> Out_LockedAt r = None \<and> Out_PublishedAt r = None \<and> Out_FailedAt r = None
      | OutboxEventStatusProcessing \<Rightarrow> Out_LockedAt r \<noteq> None \<and> Out_PublishedAt r = None \<and> Out_FailedAt r = None
      | OutboxEventStatusPublished \<Rightarrow> Out_LockedAt r = None \<and> Out_PublishedAt r \<noteq> None \<and>
          Out_FailedAt r = None \<and> Out_LastError r = None
      | OutboxEventStatusFailed \<Rightarrow> Out_LockedAt r = None \<and> Out_PublishedAt r = None \<and>
          Out_FailedAt r \<noteq> None \<and> Out_LastError r \<noteq> None)"

definition outbox_ok :: "OutboxEvent list \<Rightarrow> bool" where
  "outbox_ok rows \<longleftrightarrow> distinct (map Out_ID rows) \<and> distinct (map Out_EventID rows) \<and>
     list_all outbox_row_ok rows"

definition db_ok :: "order_db \<Rightarrow> bool" where
  "db_ok d \<longleftrightarrow> distinct (map row_id (orders d)) \<and> list_all order_row_ok (orders d) \<and>
     distinct (map inbox_key (inbox d)) \<and> distinct (map In_ID (inbox d)) \<and>
     list_all inbox_row_ok (inbox d) \<and> outbox_ok (outbox d)"

lemma sql_insert_order_ok:
  "db_ok (tx_db t) \<Longrightarrow> sql_insert_order E d t = Inr (r, d') \<Longrightarrow> db_ok d'"
  by (auto simp: sql_insert_order_def db_ok_def order_row_ok_def split: option.splits if_splits)

lemma sql_cancel_active_ok:
  "db_ok (tx_db t) \<Longrightarrow> sql_cancel_active rank m t = Inr (ids, d') \<Longrightarrow> db_ok d'"
  by (auto simp: sql_cancel_active_def db_ok_def map_upd_where order_row_ok_def
      OrderStatus_defs intro!: list_all_upd_where)

lemma inbox_key_upd [simp]:
  "inbox_key (r\<lparr>In_Topic := a\<rparr>) = inbox_key r" "inbox_key (r\<lparr>In_Payload := b\<rparr>) = inbox_key r"
  "inbox_key (r\<lparr>In_Status := c\<rparr>) = inbox_key r" "inbox_key (r\<lparr>In_FailedAt := x\<rparr>) = inbox_key r"
  "inbox_key (r\<lparr>In_ProcessedAt := x\<rparr>) = inbox_key r"
  "inbox_key (r\<lparr>In_ErrorMessage := y\<rparr>) = inbox_key r"
  "inbox_key \<lparr>In_ID = i, In_EventID = In_EventID e, In_Topic = tp, In_ConsumerGroup = In_ConsumerGroup e,
     In_Payload = b, In_Status = c, In_ReceivedAt = d, In_ProcessedAt = x, In_FailedAt = x',
     In_ErrorMessage = y\<rparr> = inbox_key e"
  by (simp_all add: inbox_key_def)

lemma sql_begin_processing_ok:
  "db_ok (tx_db t) \<Longrightarrow> sql_begin_processing e t = Inr (r, d') \<Longrightarrow> db_ok d'"
  by (auto simp: sql_begin_processing_def db_ok_def Let_def map_upd_where
      inbox_row_ok_def find_None_iff image_iff intro!: list_all_upd_where split: option.splits if_splits)
    blast

lemma sql_save_failed_ok:
  "db_ok (tx_db t) \<Longrightarrow> sql_save_failed e msg t = Inr (r, d') \<Longrightarrow> db_ok d'"
  by (auto simp: sql_save_failed_def db_ok_def Let_def map_upd_where
      inbox_row_ok_def find_None_iff image_iff intro!: list_all_upd_where split: option.splits if_splits)
    blast

lemma sql_update_inbox_ok:
  "db_ok (tx_db t) \<Longrightarrow> sql_update_inbox P f t = Inr (r, d') \<Longrightarrow>
   (\<And>r. P r \<Longrightarrow> inbox_row_ok r \<Longrightarrow> inbox_key (f (tx_now t) r) = inbox_key r \<and>
      In_ID (f (tx_now t) r) = In_ID r \<and> inbox_row_ok (f (tx_now t) r)) \<Longrightarrow> db_ok d'"
  by (auto simp: sql_update_inbox_def db_ok_def map_upd_where list_all_iff set_upd_where)

lemma outbox_insert_ok:
  "outbox_ok rows \<Longrightarrow> outbox_insert now e rows = Inr rows' \<Longrightarrow> outbox_ok rows'"
  by (auto simp: outbox_insert_def outbox_ok_def outbox_row_ok_def split: if_splits)

end
