(* ===== verification/Order_Service.thy ===== *)
theory Order_Service
  imports Order_Tables
begin

text \<open>
  The order service proper (\<open>orderService/internal/services/order/order_service.go\<close> and
  \<open>idempotency_service.go\<close>) with its event producer (\<open>services/producer/order_producer.go\<close>,
  \<open>application/dto/outbound/kafka/order_event_dto.go\<close>).

  \<open>CreateOrder\<close> guards a request with the idempotency store, checks the rate limit and the
  market, saves the order together with its event in one transaction and completes the
  request. The theory shows what a successful, a repeated and a failed \<open>CreateOrder\<close> leave
  behind, that \<open>GetOrderStatus\<close> serves only the owner, and what validates a market.
\<close>

section \<open>The producer of order events\<close>

definition toProtoOrderStatus :: "OrderStatus \<Rightarrow> nat" where
  "toProtoOrderStatus s =
     (if s = OrderStatusCreated then 1 else if s = OrderStatusPending then 2
      else if s = OrderStatusFilled then 3 else if s = OrderStatusCancelled then 4 else 0)"

definition toProtoOrderType :: "OrderType \<Rightarrow> nat" where
  "toProtoOrderType t =
     (if t = OrderTypeLimit then 1 else if t = OrderTypeMarket then 2
      else if t = OrderTypeStopLoss then 3 else if t = OrderTypeTakeProfit then 4 else 0)"

definition ToProtoOrderCreated :: "'e order_env_scheme \<Rightarrow> OrderCreatedEvent \<Rightarrow> pb_OrderCreatedEvent" where
  "ToProtoOrderCreated E e = \<lparr>pbOC_EventId = uuid_String E (OC_EventID e),
     pbOC_OrderId = uuid_String E (OC_OrderID e), pbOC_UserId = uuid_String E (OC_UserID e),
     pbOC_MarketId = uuid_String E (OC_MarketID e), pbOC_OrderType = toProtoOrderType (OC_Type e),
     pbOC_Price = dec_String E (OC_Price e), pbOC_Quantity = OC_Quantity e,
     pbOC_Status = toProtoOrderStatus (OC_Status e), pbOC_CreatedAt = OC_CreatedAt e\<rparr>"

definition ToProtoOrderStatusUpdated ::
  "'e order_env_scheme \<Rightarrow> OrderStatusUpdatedEvent \<Rightarrow> pb_OrderStatusUpdatedEvent" where
  "ToProtoOrderStatusUpdated E e = \<lparr>pbOS_EventId = uuid_String E (OS_EventID e),
     pbOS_OrderId = uuid_String E (OS_OrderID e),
     pbOS_NewStatus = toProtoOrderStatus (OS_NewStatus e), pbOS_Reason = OS_Reason e,
     pbOS_CorrelationId = uuid_String E (OS_CorrelationID e), pbOS_UpdatedAt = OS_UpdatedAt e\<rparr>"

definition MarshalOrderCreated :: "'e order_env_scheme \<Rightarrow> OrderCreatedEvent \<Rightarrow> go_error + bytes" where
  "MarshalOrderCreated E e =
     (case proto_OrderCreated E (ToProtoOrderCreated E e) of
        None \<Rightarrow> Inl (NewError ''proto.MarshalOrderCreated'')
      | Some b \<Rightarrow> Inr b)"

definition MarshalOrderStatusUpdated ::
  "'e order_env_scheme \<Rightarrow> OrderStatusUpdatedEvent \<Rightarrow> go_error + bytes" where
  "MarshalOrderStatusUpdated E e =
     (case proto_OrderStatusUpdated E (ToProtoOrderStatusUpdated E e) of
        None \<Rightarrow> Inl (NewError ''proto.MarshalOrderStatusUpdated'')
      | Some b \<Rightarrow> Inr b)"

text \<open>An outbox event of the domain, with the fields the code leaves at their zero values.\<close>

definition new_outbox_event :: "uuid \<Rightarrow> uuid \<Rightarrow> string \<Rightarrow> uuid \<Rightarrow> bytes \<Rightarrow> OutboxEvent" where
  "new_outbox_event i eventID eventType aggregateID payload =
     \<lparr>Out_ID = i, Out_EventID = eventID, Out_EventType = eventType,
      Out_AggregateID = aggregateID, Out_Payload = payload,
      Out_Status = OutboxEventStatusPending, Out_RetryCount = 0, Out_AvailableAt = zero_time,
      Out_CreatedAt = zero_time, Out_PublishedAt = None, Out_FailedAt = None,
      Out_LockedAt = None, Out_LastError = None\<rparr>"

definition buildOrderCreatedOutboxEvent :: "uuid \<Rightarrow> OrderCreatedEvent \<Rightarrow> bytes \<Rightarrow> OutboxEvent" where
  "buildOrderCreatedOutboxEvent i e payload =
     new_outbox_event i (OC_EventID e) OrderCreatedEventType (OC_OrderID e) payload"

definition buildOrderStatusUpdatedOutboxEvent ::
  "uuid \<Rightarrow> OrderStatusUpdatedEvent \<Rightarrow> bytes \<Rightarrow> OutboxEvent" where
  "buildOrderStatusUpdatedOutboxEvent i e payload =
     new_outbox_event i (OS_EventID e) OrderStatusUpdatedEventType (OS_OrderID e) payload"

definition ProduceOrderCreated ::
  "'e order_env_scheme \<Rightarrow> 'a base_scheme \<Rightarrow> order_db tx \<Rightarrow> OrderCreatedEvent \<Rightarrow>
   (go_error + order_db tx) \<times> 'a base_scheme" where
  "ProduceOrderCreated E w t event =
     (let op = ''OrderProducer.ProduceOrderCreated'' in
      case MarshalOrderCreated E event of
        Inl err \<Rightarrow> (Inl (Errorf (op @ '': marshal OrderCreatedEvent: '') err ''''), w)
      | Inr payload \<Rightarrow>
          (case SaveOutboxEvent E (step w) t
                 (buildOrderCreatedOutboxEvent (env_uuid E (tick w)) event payload) of
             (Inl err, w1) \<Rightarrow>
               (Inl (Errorf (op @ '': save OrderCreatedEvent to outbox: '') err ''''), w1)
           | (Inr t1, w1) \<Rightarrow> (Inr t1, w1)))"

definition ProduceOrderStatusUpdated ::
  "'e order_env_scheme \<Rightarrow> 'a base_scheme \<Rightarrow> order_db tx \<Rightarrow> OrderStatusUpdatedEvent \<Rightarrow>
   (go_error + order_db tx) \<times> 'a base_scheme" where
  "ProduceOrderStatusUpdated E w t event =
     (let op = ''OrderProducer.ProduceOrderStatusUpdated'' in
      case MarshalOrderStatusUpdated E event of
        Inl err \<Rightarrow> (Inl (Errorf (op @ '': marshal OrderStatusUpdatedEvent: '') err ''''), w)
      | Inr payload \<Rightarrow>
          (case SaveOutboxEvent E (step w) t
                 (buildOrderStatusUpdatedOutboxEvent (env_uuid E (tick w)) event payload) of
             (Inl err, w1) \<Rightarrow>
               (Inl (Errorf (op @ '': save OrderStatusUpdatedEvent to outbox: '') err ''''), w1)
           | (Inr t1, w1) \<Rightarrow> (Inr t1, w1)))"

section \<open>The idempotency service\<close>

record OrderConfig =
  cfg_RequestTTL :: duration
  cfg_CompleteAttempts :: int
  cfg_MarketBlockTTL :: duration
  cfg_CreateLimiter :: OrderRateLimiter
  cfg_GetLimiter :: OrderRateLimiter

definition requestText :: "'e order_env_scheme \<Rightarrow> uuid \<Rightarrow> OrderType \<Rightarrow> decimal \<Rightarrow> int \<Rightarrow> string" where
  "requestText E marketID orderType price quantity =
     uuid_String E marketID @ ''|'' @ OrderType_String orderType @ ''|'' @
     dec_String E price @ ''|'' @ show_int quantity"

definition buildRequestHash ::
  "'e order_env_scheme \<Rightarrow> uuid \<Rightarrow> OrderType \<Rightarrow> decimal \<Rightarrow> int \<Rightarrow> string" where
  "buildRequestHash E marketID orderType price quantity =
     sha256_hex E (requestText E marketID orderType price quantity)"

definition checkIdempotencyResult :: "IdempotencyResult \<Rightarrow> go_error + uuid \<times> OrderStatus" where
  "checkIdempotencyResult idemResult =
     (let op = ''checkIdempotencyResult'' in
      if IsCompleted idemResult then
        Inr (Idem_OrderID idemResult, OrderStatus_FromString (Idem_OrderStatus idemResult))
      else if IsProcessing idemResult then
        Inl (Errorf (op @ '': '') (Service ErrOrderProcessing) '''')
      else Inl (NewError (op @ '': unknown idempotency state'')))"

text \<open>
  The retry loop: \<open>n\<close> attempts are left and \<open>lastError\<close> is what the previous one returned
  (\<open>nil\<close> before the first). The context is checked before each attempt and while waiting
  for the next one.
\<close>

fun completeAttempts ::
  "'e idem_env_scheme \<Rightarrow> OrderConfig \<Rightarrow> uuid \<Rightarrow> uuid \<Rightarrow> string \<Rightarrow> OrderStatus \<Rightarrow> nat \<Rightarrow>
   go_error + unit \<Rightarrow> 'a base_scheme \<Rightarrow> (go_error + unit) \<times> 'a base_scheme" where
  "completeAttempts E cfg userID orderID requestHash orderStatus 0 lastError w = (lastError, w)"
| "completeAttempts E cfg userID orderID requestHash orderStatus (Suc n) lastError w =
     (case env_ctx E (tick w) of
        Some f \<Rightarrow> (Inl (fault_error f), step w)
      | None \<Rightarrow>
          (case adapter_Complete E (step w) (cfg_RequestTTL cfg) userID requestHash orderID
                 (OrderStatus_String orderStatus) of
             (Inr _, w1) \<Rightarrow> (Inr (), w1)
           | (Inl err, w1) \<Rightarrow>
               if 0 < n then
                 (case env_ctx E (tick w1) of
                    Some f \<Rightarrow> (Inl (fault_error f), step w1)
                  | None \<Rightarrow>
                      completeAttempts E cfg userID orderID requestHash orderStatus n (Inl err) (step w1))
               else completeAttempts E cfg userID orderID requestHash orderStatus n (Inl err) w1))"

definition completeIdempotencyChecking ::
  "'e idem_env_scheme \<Rightarrow> 'a base_scheme \<Rightarrow> OrderConfig \<Rightarrow> uuid \<Rightarrow> uuid \<Rightarrow> string \<Rightarrow> OrderStatus \<Rightarrow>
   (go_error + unit) \<times> 'a base_scheme" where
  "completeIdempotencyChecking E w cfg userID orderID requestHash orderStatus =
     completeAttempts E cfg userID orderID requestHash orderStatus
       (nat (cfg_CompleteAttempts cfg)) (Inr ()) w"

definition failCleanup ::
  "'e idem_env_scheme \<Rightarrow> 'a base_scheme \<Rightarrow> uuid \<Rightarrow> string \<Rightarrow> bool \<Rightarrow> 'a base_scheme" where
  "failCleanup E w userID requestHash acquired =
     (if \<not> acquired then w else snd (adapter_FailCleanup E w userID requestHash))"

section \<open>The order service\<close>

definition completeIdempotencySync ::
  "'e idem_env_scheme \<Rightarrow> 'a base_scheme \<Rightarrow> OrderConfig \<Rightarrow> uuid \<Rightarrow> uuid \<Rightarrow> string \<Rightarrow> OrderStatus \<Rightarrow>
   (go_error + unit) \<times> 'a base_scheme" where
  "completeIdempotencySync E w cfg userID orderID requestHash orderStatus =
     completeIdempotencyChecking E w cfg userID orderID requestHash orderStatus"

definition checkRateLimit ::
  "'e env_scheme \<Rightarrow> 'a base_scheme \<Rightarrow> uuid \<Rightarrow> OrderRateLimiter \<Rightarrow> (go_error + unit) \<times> 'a base_scheme" where
  "checkRateLimit E w userID limiter =
     (case Allow E w limiter userID of
        (Inl err, w1) \<Rightarrow> (Inl err, w1)
      | (Inr allowed, w1) \<Rightarrow>
          if \<not> allowed then (Inl (ErrLimitExceeded (RL_limit limiter) (RL_window limiter)), w1)
          else (Inr (), w1))"

definition getMarketBlockedState ::
  "'e block_env_scheme \<Rightarrow> 'a base_scheme \<Rightarrow> uuid \<Rightarrow> (go_error + bool) \<times> 'a base_scheme" where
  "getMarketBlockedState E w marketID =
     (case IsBlocked E w marketID of
        (Inr blocked, w1) \<Rightarrow> (Inr blocked, w1)
      | (Inl err, w1) \<Rightarrow>
          if errors_Is err CtxCanceled \<or> errors_Is err CtxDeadlineExceeded then (Inl err, w1)
          else (Inr False, w1))"

definition marketBlockQueueSize :: nat where "marketBlockQueueSize = 128"

definition synchronizeMarketBlockAsync ::
  "'a order_world_scheme \<Rightarrow> Market \<Rightarrow> bool \<Rightarrow> string \<Rightarrow> 'a order_world_scheme" where
  "synchronizeMarketBlockAsync w market blocked reason =
     (let task = \<lparr>task_market = market, task_blocked = blocked, task_reason = reason\<rparr> in
      if marketBlockClosed w then w
      else if length (marketBlockQueue w) < marketBlockQueueSize
        then w\<lparr>marketBlockQueue := marketBlockQueue w @ [task]\<rparr>
      else w)"

definition validateMarket ::
  "'e order_env_scheme \<Rightarrow> 'a order_world_scheme \<Rightarrow> uuid \<Rightarrow> (go_error + unit) \<times> 'a order_world_scheme" where
  "validateMarket E w marketID =
     (case getMarketBlockedState E w marketID of
        (Inl err, w1) \<Rightarrow> (Inl err, w1)
      | (Inr blocked, w1) \<Rightarrow>
          (case spot_GetMarketByID E (tick w1) marketID of
             Inl err \<Rightarrow> (Inl err, step w1)
           | Inr market \<Rightarrow>
               let w2 = step w1 in
               if Market_DeletedAt market \<noteq> None then
                 (Inl (ErrMarketNotFound marketID),
                  synchronizeMarketBlockAsync w2 market True ''warm_block_after_deleted_recheck'')
               else if \<not> Market_Enabled market then
                 (Inl (ErrDisabled marketID),
                  synchronizeMarketBlockAsync w2 market True ''warm_block_after_disabled_recheck'')
               else if blocked then
                 (Inr (), synchronizeMarketBlockAsync w2 market False ''remove_stale_block_after_recheck'')
               else (Inr (), w2)))"

definition buildOrder :: "uuid \<Rightarrow> uuid \<Rightarrow> uuid \<Rightarrow> OrderType \<Rightarrow> decimal \<Rightarrow> int \<Rightarrow> instant \<Rightarrow> Order" where
  "buildOrder i userID marketID orderType price quantity now =
     \<lparr>Order_ID = i, Order_UserID = userID, Order_MarketID = marketID, Order_Type = orderType,
      Order_Price = price, Order_Quantity = quantity, Order_Status = OrderStatusCreated,
      Order_CreatedAt = now\<rparr>"

definition buildOrderCreatedEvent :: "uuid \<Rightarrow> Order \<Rightarrow> instant \<Rightarrow> OrderCreatedEvent" where
  "buildOrderCreatedEvent i ord now =
     \<lparr>OC_EventID = i, OC_OrderID = Order_ID ord, OC_UserID = Order_UserID ord,
      OC_MarketID = Order_MarketID ord, OC_Type = Order_Type ord, OC_Price = Order_Price ord,
      OC_Quantity = Order_Quantity ord, OC_Status = Order_Status ord, OC_CreatedAt = now\<rparr>"

definition saveOrder ::
  "'e order_env_scheme \<Rightarrow> 'a order_world_scheme \<Rightarrow> uuid \<Rightarrow> uuid \<Rightarrow> OrderType \<Rightarrow> decimal \<Rightarrow> int \<Rightarrow>
   (go_error + uuid \<times> OrderStatus) \<times> 'a order_world_scheme" where
  "saveOrder E w userID marketID orderType price quantity =
     (let op = ''OrderService.saveOrder'';
          now = env_now E (tick w);
          w1 = step w;
          ord = buildOrder (env_uuid E (tick w1)) userID marketID orderType price quantity now;
          w2 = step w1;
          event = buildOrderCreatedEvent (env_uuid E (tick w2)) ord now;
          w3 = step w2
      in case Begin E w3 of
           (Inl err, w4) \<Rightarrow> (Inl (Errorf (op @ '': begin transaction: '') err ''''), w4)
         | (Inr t, w4) \<Rightarrow>
      (case SaveOrder E w4 t ord of
         (Inl err, w5) \<Rightarrow>
           if errors_Is err ErrOrderAlreadyExists then (Inl (ErrAlreadyExists (Order_ID ord)), w5)
           else (Inl (Errorf (op @ '': '') err ''''), w5)
       | (Inr t1, w5) \<Rightarrow>
      (case ProduceOrderCreated E w5 t1 event of
         (Inl err, w6) \<Rightarrow> (Inl (Errorf (op @ '': '') err ''''), w6)
       | (Inr t2, w6) \<Rightarrow>
      (case Commit E w6 t2 of
         (Inl err, w7) \<Rightarrow> (Inl (Errorf (op @ '': commit transaction: '') err ''''), w7)
       | (Inr _, w7) \<Rightarrow> (Inr (Order_ID ord, Order_Status ord), w7)))))"

definition tryRecoverOrderFromProcessing ::
  "'e order_env_scheme \<Rightarrow> 'a order_world_scheme \<Rightarrow> OrderConfig \<Rightarrow> uuid \<Rightarrow> uuid \<Rightarrow> OrderType \<Rightarrow>
   decimal \<Rightarrow> int \<Rightarrow> string \<Rightarrow> IdempotencyResult \<Rightarrow>
   (go_error + uuid \<times> OrderStatus) \<times> 'a order_world_scheme" where
  "tryRecoverOrderFromProcessing E w cfg userID marketID orderType price quantity requestHash idemResult =
     (if StartedAt idemResult = zero_time then (Inl (Service ErrOrderProcessing), w)
      else
        (case FindOrderForIdempotencyRecovery E w userID marketID orderType price quantity
               (StartedAt idemResult) of
           (Inl err, w1) \<Rightarrow>
             if errors_Is err ErrOrderNotFound then (Inl (Service ErrOrderProcessing), w1)
             else (Inl err, w1)
         | (Inr ord, w1) \<Rightarrow>
             (Inr (Order_ID ord, Order_Status ord),
              snd (completeIdempotencySync E w1 cfg userID (Order_ID ord) requestHash
                (Order_Status ord)))))"

definition resolveIdempotentRequest ::
  "'e order_env_scheme \<Rightarrow> 'a order_world_scheme \<Rightarrow> OrderConfig \<Rightarrow> uuid \<Rightarrow> uuid \<Rightarrow> OrderType \<Rightarrow>
   decimal \<Rightarrow> int \<Rightarrow> string \<Rightarrow> IdempotencyResult \<Rightarrow>
   (go_error + uuid \<times> OrderStatus) \<times> 'a order_world_scheme" where
  "resolveIdempotentRequest E w cfg userID marketID orderType price quantity requestHash idemResult =
     (if IsCompleted idemResult then (checkIdempotencyResult idemResult, w)
      else if \<not> IsProcessing idemResult then (Inl (NewError ''unknown idempotency state''), w)
      else tryRecoverOrderFromProcessing E w cfg userID marketID orderType price quantity requestHash
        idemResult)"

definition CreateOrder ::
  "'e order_env_scheme \<Rightarrow> 'a order_world_scheme \<Rightarrow> OrderConfig \<Rightarrow> uuid \<Rightarrow> uuid \<Rightarrow> OrderType \<Rightarrow>
   decimal \<Rightarrow> int \<Rightarrow> (go_error + uuid \<times> OrderStatus) \<times> 'a order_world_scheme" where
  "CreateOrder E w cfg userID marketID orderType price quantity =
     (let op = ''OrderService.CreateOrder'';
          requestHash = buildRequestHash E marketID orderType price quantity
      in case adapter_Acquire E w (cfg_RequestTTL cfg) userID requestHash of
           (Inl idemError, w1) \<Rightarrow> (Inl (Errorf (op @ '': '') idemError ''''), w1)
         | (Inr (idemResult, acquired), w1) \<Rightarrow>
      if \<not> acquired then
        resolveIdempotentRequest E w1 cfg userID marketID orderType price quantity requestHash idemResult
      else
      (case checkRateLimit E w1 userID (cfg_CreateLimiter cfg) of
         (Inl err, w2) \<Rightarrow>
           (Inl (Errorf (op @ '': '') err ''''), failCleanup E w2 userID requestHash acquired)
       | (Inr _, w2) \<Rightarrow>
      (case validateMarket E w2 marketID of
         (Inl err, w3) \<Rightarrow>
           (Inl (Errorf (op @ '': '') err ''''), failCleanup E w3 userID requestHash acquired)
       | (Inr _, w3) \<Rightarrow>
      (case saveOrder E w3 userID marketID orderType price quantity of
         (Inl err, w4) \<Rightarrow>
           (Inl (Errorf (op @ '': '') err ''''), failCleanup E w4 userID requestHash acquired)
       | (Inr (orderID, orderStatus), w4) \<Rightarrow>
           (Inr (orderID, orderStatus),
            snd (completeIdempotencySync E w4 cfg userID orderID requestHash orderStatus))))))"

definition fetchOrder ::
  "'e order_env_scheme \<Rightarrow> 'a order_world_scheme \<Rightarrow> uuid \<Rightarrow> uuid \<Rightarrow>
   (go_error + Order) \<times> 'a order_world_scheme" where
  "fetchOrder E w orderID userID =
     (case GetOrder E w orderID userID of
        (Inl err, w1) \<Rightarrow>
          if errors_Is err ErrOrderNotFound then (Inl (ErrNotFound orderID), w1) else (Inl err, w1)
      | (Inr ord, w1) \<Rightarrow> (Inr ord, w1))"

definition GetOrderStatus ::
  "'e order_env_scheme \<Rightarrow> 'a order_world_scheme \<Rightarrow> OrderConfig \<Rightarrow> uuid \<Rightarrow> uuid \<Rightarrow>
   (go_error + OrderStatus) \<times> 'a order_world_scheme" where
  "GetOrderStatus E w cfg orderID userID =
     (let op = ''OrderService.GetOrderStatus'' in
      case checkRateLimit E w userID (cfg_GetLimiter cfg) of
        (Inl err, w1) \<Rightarrow> (Inl (Errorf (op @ '': '') err ''''), w1)
      | (Inr _, w1) \<Rightarrow>
          (case fetchOrder E w1 orderID userID of
             (Inl err, w2) \<Rightarrow> (Inl (Errorf (op @ '': '') err ''''), w2)
           | (Inr ord, w2) \<Rightarrow> (Inr (Order_Status ord), w2)))"

text \<open>
  One turn of a market block worker: it takes the first task and applies it; a failure is
  only logged. \<open>Close\<close> refuses further tasks and waits until the workers have emptied the
  queue or its context ends.
\<close>

definition synchronizeMarketBlock ::
  "'e block_env_scheme \<Rightarrow> OrderConfig \<Rightarrow> 'a base_scheme \<Rightarrow> Market \<Rightarrow> bool \<Rightarrow> 'a base_scheme" where
  "synchronizeMarketBlock E cfg w market blocked =
     snd (SynchronizeState E w (cfg_MarketBlockTTL cfg) (Market_ID market) blocked (Market_UpdatedAt market))"

definition market_block_worker ::
  "'e block_env_scheme \<Rightarrow> OrderConfig \<Rightarrow> 'a order_world_scheme \<Rightarrow> 'a order_world_scheme" where
  "market_block_worker E cfg w =
     (case marketBlockQueue w of
        [] \<Rightarrow> w
      | task # rest \<Rightarrow>
          synchronizeMarketBlock E cfg (w\<lparr>marketBlockQueue := rest\<rparr>) (task_market task) (task_blocked task))"

definition Close ::
  "'e block_env_scheme \<Rightarrow> OrderConfig \<Rightarrow> 'a order_world_scheme \<Rightarrow>
   (go_error + unit) \<times> 'a order_world_scheme" where
  "Close E cfg w =
     (let w1 = w\<lparr>marketBlockClosed := True\<rparr> in
      case env_ctx E (tick w1) of
        None \<Rightarrow> (Inr (), ((market_block_worker E cfg) ^^ length (marketBlockQueue w1)) (step w1))
      | Some f \<Rightarrow> (Inl (fault_error f), step w1))"

section \<open>What the steps of a request leave alone\<close>

lemma only_key_db [intro]: "only_key key (\<lambda>v. db v = d)"
  by (simp add: only_key_def)

lemma only_key_other [intro]: "k \<noteq> key \<Longrightarrow> only_key key (\<lambda>v. kv v k = x)"
  by (simp add: only_key_def)

lemma adapter_Acquire_preserves:
  assumes "only_key (buildKey E u h) P" "P w"
  shows "P (snd (adapter_Acquire E w ttl u h))"
  using acquire_preserves [OF assms] by (simp add: adapter_Acquire_snd)

lemma adapter_Complete_preserves:
  assumes "only_key (buildKey E u h) P" "P w"
  shows "P (snd (adapter_Complete E w ttl u h i st))"
  using Complete_preserves [OF assms] by (simp add: adapter_Complete_def)

lemma failCleanup_preserves:
  assumes "only_key (buildKey E u h) P" "P w"
  shows "P (failCleanup E w u h a)"
  using FailCleanup_preserves [OF assms] assms(2)
  by (simp add: failCleanup_def adapter_FailCleanup_def)

lemma completeAttempts_preserves:
  assumes P: "only_key (buildKey E u h) P"
  shows "P w \<Longrightarrow> P (snd (completeAttempts E cfg u i h st n err w))"
proof (induction n arbitrary: err w)
  case (Suc n)
  show ?case
    unfolding completeAttempts.simps
    by (intro pres_intros [where P = P] Suc adapter_Complete_preserves [OF P] only_keyD(1) [OF P])
qed simp

lemma completeIdempotencySync_preserves:
  assumes "only_key (buildKey E u h) P" "P w"
  shows "P (snd (completeIdempotencySync E w cfg u i h st))"
  using completeAttempts_preserves [OF assms]
  by (simp add: completeIdempotencySync_def completeIdempotencyChecking_def)

lemma checkRateLimit_preserves:
  assumes P: "only_key (RL_prefix r @ uuid_String E u) P"
  shows "P w \<Longrightarrow> P (snd (checkRateLimit E w u r))"
  unfolding checkRateLimit_def by (intro pres_intros [where P = P] Allow_preserves [OF P])

lemma getMarketBlockedState_preserves:
  assumes P: "only_key (blockKey E m) P"
  shows "P w \<Longrightarrow> P (snd (getMarketBlockedState E w m))"
  unfolding getMarketBlockedState_def
  by (intro pres_intros [where P = P] IsBlocked_preserves [OF P])

lemma synchronizeMarketBlockAsync_preserves:
  assumes "\<And>v q. P v \<Longrightarrow> P (v\<lparr>marketBlockQueue := q\<rparr>)"
  shows "P w \<Longrightarrow> P (synchronizeMarketBlockAsync w m b r)"
  using assms by (simp add: synchronizeMarketBlockAsync_def Let_def)

lemma validateMarket_preserves:
  assumes P: "only_key (blockKey E m) P" and Q: "\<And>v q. P v \<Longrightarrow> P (v\<lparr>marketBlockQueue := q\<rparr>)"
  shows "P w \<Longrightarrow> P (snd (validateMarket E w m))"
  unfolding validateMarket_def
  by (intro pres_intros [where P = P] pres_sum [where P = P] getMarketBlockedState_preserves [OF P]
      only_keyD(1) [OF P] synchronizeMarketBlockAsync_preserves [where P = P] Q)

lemma resolveIdempotentRequest_preserves:
  assumes P: "only_key (buildKey E u h) P"
  shows "P w \<Longrightarrow> P (snd (resolveIdempotentRequest E w cfg u m ot p q h ir))"
proof -
  assume w: "P w"
  have find: "P (snd (FindOrderForIdempotencyRecovery E w u m ot p q s))" for s
    using w only_keyD(1) [OF P] by simp
  show ?thesis
    unfolding resolveIdempotentRequest_def tryRecoverOrderFromProcessing_def
    by (intro pres_intros [where P = P] find completeIdempotencySync_preserves [OF P] w)
qed

text \<open>The transaction of \<open>saveOrder\<close>: nothing before the commit touches the world but its clock.\<close>

lemma SaveOutboxEvent_world [simp]: "snd (SaveOutboxEvent E w t e) = step w"
  by (auto simp: SaveOutboxEvent_def dest: tx_exec_step split: result_splits)

lemma SaveOutboxEvent_step: "SaveOutboxEvent E w t e = (r, w') \<Longrightarrow> w' = step w"
  by (metis SaveOutboxEvent_world snd_conv)

lemma ProduceOrderCreated_world:
  "snd (ProduceOrderCreated E w t e) \<in> {w, step (step w)}"
  by (auto simp: ProduceOrderCreated_def Let_def dest: SaveOutboxEvent_step split: result_splits)

lemma saveOrder_preserves:
  assumes s: "\<And>v. P v \<Longrightarrow> P (step v)" and d: "\<And>v d. P v \<Longrightarrow> P (v\<lparr>db := d\<rparr>)"
  shows "P w \<Longrightarrow> P (snd (saveOrder E w u m ot p q))"
proof -
  assume w: "P w"
  have beg: "P v \<Longrightarrow> P (snd (Begin E v))" for v using s by simp
  have save: "P v \<Longrightarrow> P (snd (SaveOrder E v t ord))" for v t ord using s by simp
  have produce: "P v \<Longrightarrow> P (snd (ProduceOrderCreated E v t e))" for v t e
    using ProduceOrderCreated_world [of E v t e] s by auto
  have commit: "P v \<Longrightarrow> P (snd (Commit E v t))" for v t
    unfolding Commit_def using s d by (intro external_preserves [where P = P]) simp_all
  show ?thesis
    unfolding saveOrder_def
    by (intro pres_intros [where P = P] beg save produce commit s w)
qed

section \<open>Orders and their events\<close>

text \<open>
  \<open>row\<close> is the order the request asked for and \<open>out\<close> the pending event that announces it:
  same identifier, payload the encoded \<open>OrderCreatedEvent\<close> of that very order.
\<close>

definition created_row ::
  "'e order_env_scheme \<Rightarrow> uuid \<Rightarrow> uuid \<Rightarrow> OrderType \<Rightarrow> decimal \<Rightarrow> int \<Rightarrow> uuid \<Rightarrow> instant \<Rightarrow> OrderRow \<Rightarrow> bool" where
  "created_row E u m ot p q i now r \<longleftrightarrow>
     row_id r = i \<and> row_user_id r = u \<and> row_market_id r = m \<and> row_type r = ot \<and>
     numeric_in E (dec_String E p) = Some (row_price r) \<and> row_quantity r = q \<and>
     row_status r = OrderStatusCreated \<and> row_created_at r = pg_timestamp now"

definition created_event ::
  "'e order_env_scheme \<Rightarrow> uuid \<Rightarrow> uuid \<Rightarrow> OrderType \<Rightarrow> decimal \<Rightarrow> int \<Rightarrow> uuid \<Rightarrow> instant \<Rightarrow> OutboxEvent \<Rightarrow> bool" where
  "created_event E u m ot p q i now e \<longleftrightarrow>
     Out_EventType e = OrderCreatedEventType \<and> Out_AggregateID e = i \<and>
     Out_Status e = OutboxEventStatusPending \<and> Out_RetryCount e = 0 \<and>
     MarshalOrderCreated E (buildOrderCreatedEvent (Out_EventID e)
       (buildOrder i u m ot p q now) now) = Inr (Out_Payload e)"

definition order_placed ::
  "'e order_env_scheme \<Rightarrow> uuid \<Rightarrow> uuid \<Rightarrow> OrderType \<Rightarrow> decimal \<Rightarrow> int \<Rightarrow> order_db \<Rightarrow> uuid \<Rightarrow> order_db \<Rightarrow> bool" where
  "order_placed E u m ot p q d i d' \<longleftrightarrow> i \<notin> row_id ` set (orders d) \<and>
     (\<exists>now r e. created_row E u m ot p q i now r \<and> created_event E u m ot p q i now e \<and>
        order_row_ok r \<and> outbox_row_ok e \<and>
        Out_ID e \<notin> Out_ID ` set (outbox d) \<and> Out_EventID e \<notin> Out_EventID ` set (outbox d) \<and>
        d' = d\<lparr>orders := orders d @ [r], outbox := outbox d @ [e]\<rparr>)"

lemma buildOrder_simps [simp]:
  "Order_ID (buildOrder i u m ot p q now) = i"
  "Order_Status (buildOrder i u m ot p q now) = OrderStatusCreated"
  by (simp_all add: buildOrder_def)

lemma SaveOrder_Inr:
  "SaveOrder E w t ord = (Inr t1, w') \<Longrightarrow> w' = step w \<and> env_outcome E (tick w) = Success \<and>
     (\<exists>d. sql_insert_order E (FromDomain E ord) t = Inr ((), d) \<and> t1 = t\<lparr>tx_db := d\<rparr>)"
  by (auto simp: SaveOrder_def Let_def tx_exec_Inr split: result_splits)

lemma SaveOutboxEvent_Inr:
  "SaveOutboxEvent E w t e = (Inr t1, w') \<Longrightarrow> w' = step w \<and> env_outcome E (tick w) = Success \<and>
     (\<exists>rows. outbox_insert (tx_now t) e (outbox (tx_db t)) = Inr rows \<and>
        t1 = t\<lparr>tx_db := (tx_db t)\<lparr>outbox := rows\<rparr>\<rparr>)"
  by (auto simp: SaveOutboxEvent_def tx_exec_Inr split: result_splits)

lemma ProduceOrderCreated_Inr:
  "ProduceOrderCreated E w t e = (Inr t1, w') \<Longrightarrow>
     \<exists>payload rows. MarshalOrderCreated E e = Inr payload \<and>
       outbox_insert (tx_now t) (buildOrderCreatedOutboxEvent (env_uuid E (tick w)) e payload)
         (outbox (tx_db t)) = Inr rows \<and>
       t1 = t\<lparr>tx_db := (tx_db t)\<lparr>outbox := rows\<rparr>\<rparr> \<and> w' = step (step w)"
  by (auto simp: ProduceOrderCreated_def Let_def dest!: SaveOutboxEvent_Inr split: result_splits)

text \<open>The working copy that \<open>saveOrder\<close> commits is the old tables with the order and its event.\<close>

lemma placed_by_statements:
  assumes "sql_insert_order E (FromDomain E (buildOrder i u m ot p q now)) t = Inr ((), d1)"
    and "MarshalOrderCreated E (buildOrderCreatedEvent j (buildOrder i u m ot p q now) now) = Inr payload"
    and "outbox_insert now' (buildOrderCreatedOutboxEvent k
      (buildOrderCreatedEvent j (buildOrder i u m ot p q now) now) payload) (outbox d1) = Inr rows"
  shows "order_placed E u m ot p q (tx_db t) i (d1\<lparr>outbox := rows\<rparr>)"
  using assms
  by (auto simp: sql_insert_order_def outbox_insert_def order_placed_def created_row_def
      created_event_def buildOrder_def FromDomain_def buildOrderCreatedOutboxEvent_def
      new_outbox_event_def buildOrderCreatedEvent_def order_row_ok_def outbox_row_ok_def
      intro!: exI [of _ now]
      split: option.splits if_splits)
    (intro exI conjI, auto)

lemma saveOrder_cases:
  assumes "saveOrder E w u m ot p q = (r, w')"
  shows "(db w' = db w \<and> (\<exists>err. r = Inl err)) \<or>
    (\<exists>i. order_placed E u m ot p q (db w) i (db w') \<and>
       (r = Inr (i, OrderStatusCreated) \<or> (\<not> unambiguous E \<and> (\<exists>err. r = Inl err))))"
proof -
  let ?now = "env_now E (tick w)"
  let ?ord = "buildOrder (env_uuid E (Suc (tick w))) u m ot p q ?now"
  let ?ev = "buildOrderCreatedEvent (env_uuid E (Suc (Suc (tick w)))) ?ord ?now"
  let ?w3 = "step (step (step w))"
  obtain r4 w4 where b: "Begin E ?w3 = (r4, w4)" by fastforce
  then have w4: "w4 = step ?w3" using Begin_world by (metis snd_conv)
  show ?thesis
  proof (cases r4)
    case (Inl e)
    then show ?thesis using assms b w4 by (auto simp: saveOrder_def Let_def)
  next
    case (Inr t)
    with b have t: "tx_db t = db w" by (auto simp: Begin_Inr)
    obtain r5 w5 where s: "SaveOrder E w4 t ?ord = (r5, w5)" by fastforce
    then have w5: "w5 = step w4" using SaveOrder_world by (metis snd_conv)
    show ?thesis
    proof (cases r5)
      case Inl
      then show ?thesis using assms b s Inr w4 w5 by (auto simp: saveOrder_def Let_def split: if_splits)
    next
      case (Inr t1)
      obtain r6 w6 where pr: "ProduceOrderCreated E w5 t1 ?ev = (r6, w6)" by fastforce
      then have w6: "db w6 = db w"
        using ProduceOrderCreated_world [of E w5 t1 ?ev] w5 w4 by auto
      show ?thesis
      proof (cases r6)
        case Inl
        then show ?thesis using assms b s pr Inr \<open>r4 = Inr t\<close> w6 by (auto simp: saveOrder_def Let_def)
      next
        case (Inr t2)
        have "order_placed E u m ot p q (db w) (Order_ID ?ord) (tx_db t2)"
          using SaveOrder_Inr [OF s [unfolded \<open>r5 = Inr t1\<close>]] t
            ProduceOrderCreated_Inr [OF pr [unfolded Inr]]
          by (auto dest: placed_by_statements)
        moreover have "w' = snd (Commit E w6 t2)" and
          "fst (Commit E w6 t2) = Inr x \<Longrightarrow> r = Inr (Order_ID ?ord, OrderStatusCreated)" and
          "fst (Commit E w6 t2) = Inl e \<Longrightarrow> \<exists>err. r = Inl err" for x e
          using assms b s pr Inr \<open>r4 = Inr t\<close> \<open>r5 = Inr t1\<close>
          by (auto simp: saveOrder_def Let_def split: result_splits)
        ultimately show ?thesis
          using w6 by (auto simp: Commit_def external_def unambiguous_def split: outcome.splits)
      qed
    qed
  qed
qed

section \<open>A request from end to end\<close>

lemma adapter_Acquire_db [frame]: "db (snd (adapter_Acquire E w ttl u h)) = db w"
  by (rule adapter_Acquire_preserves [where P = "\<lambda>v. db v = db w"]) (simp_all add: only_key_db)

lemma checkRateLimit_db [frame]: "db (snd (checkRateLimit E w u r)) = db w"
  by (rule checkRateLimit_preserves [where P = "\<lambda>v. db v = db w"]) (simp_all add: only_key_db)

lemma validateMarket_db [frame]: "db (snd (validateMarket E w m)) = db w"
  by (rule validateMarket_preserves [where P = "\<lambda>v. db v = db w"]) (simp_all add: only_key_db)

lemma failCleanup_db [frame]: "db (failCleanup E w u h a) = db w"
  by (rule failCleanup_preserves [where P = "\<lambda>v. db v = db w"]) (simp_all add: only_key_db)

lemma completeIdempotencySync_db [frame]: "db (snd (completeIdempotencySync E w cfg u i h st)) = db w"
  by (rule completeIdempotencySync_preserves [where P = "\<lambda>v. db v = db w"]) (simp_all add: only_key_db)

lemma resolveIdempotentRequest_db [frame]:
  "db (snd (resolveIdempotentRequest E w cfg u m ot p q h ir)) = db w"
  by (rule resolveIdempotentRequest_preserves [where P = "\<lambda>v. db v = db w"]) (simp_all add: only_key_db)

text \<open>The ways through \<open>CreateOrder\<close>, in the order of the code.\<close>

lemma CreateOrder_paths:
  assumes "CreateOrder E w cfg u m ot p q = (r, w')"
  defines "h \<equiv> buildRequestHash E m ot p q"
  obtains
    (acquire_failed) e w1 where "adapter_Acquire E w (cfg_RequestTTL cfg) u h = (Inl e, w1)"
      "r = Inl (Errorf ''OrderService.CreateOrder: '' e '''')" "w' = w1"
  | (duplicate) ir w1 where "adapter_Acquire E w (cfg_RequestTTL cfg) u h = (Inr (ir, False), w1)"
      "resolveIdempotentRequest E w1 cfg u m ot p q h ir = (r, w')"
  | (limited) ir w1 e w2 where "adapter_Acquire E w (cfg_RequestTTL cfg) u h = (Inr (ir, True), w1)"
      "checkRateLimit E w1 u (cfg_CreateLimiter cfg) = (Inl e, w2)"
      "r = Inl (Errorf ''OrderService.CreateOrder: '' e '''')" "w' = failCleanup E w2 u h True"
  | (market) ir w1 w2 e w3 where "adapter_Acquire E w (cfg_RequestTTL cfg) u h = (Inr (ir, True), w1)"
      "checkRateLimit E w1 u (cfg_CreateLimiter cfg) = (Inr (), w2)"
      "validateMarket E w2 m = (Inl e, w3)"
      "r = Inl (Errorf ''OrderService.CreateOrder: '' e '''')" "w' = failCleanup E w3 u h True"
  | (save_failed) ir w1 w2 w3 e w4 where
      "adapter_Acquire E w (cfg_RequestTTL cfg) u h = (Inr (ir, True), w1)"
      "checkRateLimit E w1 u (cfg_CreateLimiter cfg) = (Inr (), w2)"
      "validateMarket E w2 m = (Inr (), w3)" "saveOrder E w3 u m ot p q = (Inl e, w4)"
      "r = Inl (Errorf ''OrderService.CreateOrder: '' e '''')" "w' = failCleanup E w4 u h True"
  | (saved) ir w1 w2 w3 i st w4 where
      "adapter_Acquire E w (cfg_RequestTTL cfg) u h = (Inr (ir, True), w1)"
      "checkRateLimit E w1 u (cfg_CreateLimiter cfg) = (Inr (), w2)"
      "validateMarket E w2 m = (Inr (), w3)" "saveOrder E w3 u m ot p q = (Inr (i, st), w4)"
      "r = Inr (i, st)" "w' = snd (completeIdempotencySync E w4 cfg u i h st)"
  using assms(1) unfolding CreateOrder_def h_def [symmetric] Let_def
  by (auto split: prod.splits sum.splits if_splits)

lemma frame_pair:
  "adapter_Acquire E w ttl u h = (x, w1) \<Longrightarrow> db w1 = db w"
  "checkRateLimit E w u rl = (y, w1) \<Longrightarrow> db w1 = db w"
  "validateMarket E w m = (y, w1) \<Longrightarrow> db w1 = db w"
  "resolveIdempotentRequest E w cfg u m ot p q h ir = (z, w1) \<Longrightarrow> db w1 = db w"
  by (metis adapter_Acquire_db checkRateLimit_db validateMarket_db resolveIdempotentRequest_db snd_conv)+

lemma CreateOrder_cases:
  assumes "CreateOrder E w cfg u m ot p q = (r, w')"
  shows "db w' = db w \<or>
    (\<exists>i. order_placed E u m ot p q (db w) i (db w') \<and>
       (r = Inr (i, OrderStatusCreated) \<or> (\<not> unambiguous E \<and> (\<exists>err. r = Inl err))))"
  using assms
proof (cases rule: CreateOrder_paths)
  case (save_failed ir w1 w2 w3 e w4)
  then show ?thesis
    using saveOrder_cases [OF save_failed(4)] by (auto dest!: frame_pair simp: frame)
next
  case (saved ir w1 w2 w3 i st w4)
  then show ?thesis
    using saveOrder_cases [OF saved(4)] by (auto dest!: frame_pair simp: frame)
qed (auto dest!: frame_pair simp: frame)

text \<open>
  C2. Whatever fails, and wherever, \<open>CreateOrder\<close> leaves either the tables as they were or
  exactly one new order together with exactly one pending \<open>order.created\<close> event that carries
  that order; never one of the two alone, and it never touches another row.
\<close>

theorem create_order_all_or_nothing:
  assumes "CreateOrder E w cfg u m ot p q = (r, w')"
  shows "db w' = db w \<or> (\<exists>i. order_placed E u m ot p q (db w) i (db w'))"
  using CreateOrder_cases [OF assms] by blast

lemma order_placed_ok: "db_ok d \<Longrightarrow> order_placed E u m ot p q d i d' \<Longrightarrow> db_ok d'"
  by (auto simp: order_placed_def db_ok_def created_row_def outbox_ok_def)

text \<open>
  C36. \<open>CreateOrder\<close> keeps the invariant of the tables: unique keys, valid orders, and inbox and
  outbox rows whose status agrees with their timestamps.
\<close>

theorem create_order_keeps_db_ok:
  assumes "db_ok (db w)" and "CreateOrder E w cfg u m ot p q = (r, w')"
  shows "db_ok (db w')"
  using CreateOrder_cases [OF assms(2)] assms(1) order_placed_ok by metis

section \<open>At most one order per request\<close>

text \<open>The wiring of \<open>application/order/service_providers.go\<close>: the key prefixes of the limiters.\<close>

definition cfg_wired :: "OrderConfig \<Rightarrow> bool" where
  "cfg_wired cfg \<longleftrightarrow> RL_prefix (cfg_CreateLimiter cfg) = ''rate:order:create:'' \<and>
     RL_prefix (cfg_GetLimiter cfg) = ''rate:order:get:''"

lemma keys_differ [key_simps]:
  "buildKey E u h \<noteq> blockKey E m"
  "buildKey E u h \<noteq> ''rate:order:create:'' @ s" "buildKey E u h \<noteq> ''rate:order:get:'' @ s"
  by (simp_all add: buildKey_def blockKey_def)

lemma request_keeps_key:
  assumes "cfg_wired cfg"
  shows "kv (snd (checkRateLimit E w u' (cfg_CreateLimiter cfg))) (buildKey E u h) = kv w (buildKey E u h)"
    and "kv (snd (validateMarket E w m)) (buildKey E u h) = kv w (buildKey E u h)"
    and "kv (snd (saveOrder E w u' m ot p q)) (buildKey E u h) = kv w (buildKey E u h)"
proof -
  let ?P = "\<lambda>v. kv v (buildKey E u h) = kv w (buildKey E u h)"
  show "?P (snd (checkRateLimit E w u' (cfg_CreateLimiter cfg)))"
    using assms by (intro checkRateLimit_preserves [where P = ?P] only_key_other)
      (simp_all add: cfg_wired_def buildKey_def)
  show "?P (snd (validateMarket E w m))"
    by (intro validateMarket_preserves [where P = ?P] only_key_other) (simp_all add: keys_differ)
  show "?P (snd (saveOrder E w u' m ot p q))"
    by (intro saveOrder_preserves [where P = ?P]) simp_all
qed

lemma guard_cong:
  "kv w' (buildKey E u h) = kv w (buildKey E u h) \<Longrightarrow>
     guard_held (E, ttl, u, h) w' = guard_held (E, ttl, u, h) w"
  "kv w' (buildKey E u h) = kv w (buildKey E u h) \<Longrightarrow>
     guard_sane (E, ttl, u, h) w' = guard_sane (E, ttl, u, h) w"
  by (simp_all add: guard_held_def guard_sane_def no_empty_entry_def)

lemma guard_step [simp]:
  "guard_held (E, ttl, u, h) (step w) = guard_held (E, ttl, u, h) w"
  "guard_sane (E, ttl, u, h) (step w) = guard_sane (E, ttl, u, h) w"
  by (rule guard_cong, simp)+

lemma completeAttempts_guard:
  assumes "guard_ok (E, cfg_RequestTTL cfg, u, h)"
    and "Q = guard_held (E, cfg_RequestTTL cfg, u, h) \<or> Q = guard_sane (E, cfg_RequestTTL cfg, u, h)"
  shows "Q w \<Longrightarrow> Q (snd (completeAttempts E cfg u i h st n err w))"
proof (induction n arbitrary: err w)
  case (Suc n)
  have c: "Q v \<Longrightarrow> Q (snd (adapter_Complete E v (cfg_RequestTTL cfg) u h i (OrderStatus_String st)))" for v
    using idem.cmp_held [OF assms(1), of v "(i, st)"] idem.cmp_sane [OF assms(1), of v "(i, st)"] assms(2)
    by auto
  have s: "Q v \<Longrightarrow> Q (step v)" for v using assms(2) by auto
  show ?case
    unfolding completeAttempts.simps by (intro pres_intros [where P = Q] Suc c s)
qed simp

lemma resolve_guard:
  assumes "guard_ok (E, cfg_RequestTTL cfg, u, h)"
    and "Q = guard_held (E, cfg_RequestTTL cfg, u, h) \<or> Q = guard_sane (E, cfg_RequestTTL cfg, u, h)"
  shows "Q w \<Longrightarrow> Q (snd (resolveIdempotentRequest E w cfg u m ot p q h ir))"
proof -
  assume w: "Q w"
  have s: "Q v \<Longrightarrow> Q (step v)" for v using assms(2) by auto
  have find: "Q (snd (FindOrderForIdempotencyRecovery E w u m ot p q x))" for x
    using s w by simp
  have c: "Q v \<Longrightarrow> Q (snd (completeIdempotencySync E v cfg u i h st))" for v i st
    using completeAttempts_guard [OF assms]
    by (simp add: completeIdempotencySync_def completeIdempotencyChecking_def)
  show ?thesis
    unfolding resolveIdempotentRequest_def tryRecoverOrderFromProcessing_def
    by (intro pres_intros [where P = Q] find c w)
qed

text \<open>
  A call that finds the request held neither inserts nor releases it; a call that inserts
  leaves the request held; and no call writes an empty entry.
\<close>

lemma CreateOrder_guard:
  assumes "CreateOrder E w cfg u m ot p q = (r, w')"
  defines "c \<equiv> (E, cfg_RequestTTL cfg, u, buildRequestHash E m ot p q)"
  assumes ok: "guard_ok c" and wired: "cfg_wired cfg"
    and sane: "guard_sane c w"
  shows "guard_sane c w' \<and> (guard_held c w \<longrightarrow> guard_held c w' \<and> db w' = db w) \<and>
    (unambiguous E \<and> db w' \<noteq> db w \<longrightarrow> guard_held c w')"
proof -
  let ?h = "buildRequestHash E m ot p q"
  let ?acq = "adapter_Acquire E w (cfg_RequestTTL cfg) u ?h"
  note kv = request_keeps_key [OF wired] and ok' = ok [unfolded c_def]
  have acq_sane: "guard_sane c (snd ?acq)"
    using idem.acq_sane [OF ok sane] by (simp add: c_def)
  have acq_held: "guard_held c w \<Longrightarrow> guard_held c (snd ?acq) \<and> (\<forall>i. fst ?acq \<noteq> Inr (i, True))"
    using idem.acq_held [OF ok, of w] idem.acq_loses [OF ok, of w] by (simp add: c_def) (metis prod.collapse)
  have clean: "guard_sane c v \<Longrightarrow> guard_sane c (failCleanup E v u ?h True)" for v
    using idem.cln_sane [OF ok, of v] by (simp add: c_def failCleanup_def)
  show ?thesis
    using assms(1)
  proof (cases rule: CreateOrder_paths)
    case (duplicate ir w1)
    then show ?thesis
      using acq_sane acq_held resolve_guard [OF ok', of "guard_held c" w1 m ot p q ir]
        resolve_guard [OF ok', of "guard_sane c" w1 m ot p q ir] frame_pair(1,4)
      by (fastforce simp: c_def)
  next
    case (saved ir w1 w2 w3 i st w4)
    have same: "kv w4 (buildKey E u ?h) = kv w1 (buildKey E u ?h)"
      using kv(1) [of E w1 u u ?h] kv(2) [of E w2 m u ?h] kv(3) [of E w3 u m ot p q u ?h] saved by simp
    have "guard_held c w1" "\<not> guard_held c w"
      using idem.acq_wins [OF ok sane] saved(1) acq_held by (auto simp: c_def)
    moreover have "guard_sane c w1" using acq_sane saved(1) by simp
    ultimately show ?thesis
      using same completeAttempts_guard [OF ok', of "guard_held c" w4 i st]
        completeAttempts_guard [OF ok', of "guard_sane c" w4 i st] saved(6)
      by (simp add: c_def guard_cong [OF same] completeIdempotencySync_def
          completeIdempotencyChecking_def)
  next
    case (save_failed ir w1 w2 w3 e w4)
    have same: "kv w4 (buildKey E u ?h) = kv w1 (buildKey E u ?h)"
      using kv(1) [of E w1 u u ?h] kv(2) [of E w2 m u ?h] kv(3) [of E w3 u m ot p q u ?h] save_failed by simp
    then have "guard_sane c w4" using acq_sane save_failed(1) by (simp add: c_def guard_cong(2) [OF same])
    then have "guard_sane c w'" using clean save_failed(6) by simp
    moreover have "\<not> guard_held c w" using acq_held save_failed(1) by auto
    moreover have "unambiguous E \<Longrightarrow> db w' = db w"
      using saveOrder_cases [OF save_failed(4)] save_failed(6)
        frame_pair(1) [OF save_failed(1)] frame_pair(2) [OF save_failed(2)]
        frame_pair(3) [OF save_failed(3)] by (auto simp: failCleanup_db)
    ultimately show ?thesis by blast
  next
    case (market ir w1 w2 e w3)
    have same: "kv w3 (buildKey E u ?h) = kv w1 (buildKey E u ?h)"
      using kv(1) [of E w1 u u ?h] kv(2) [of E w2 m u ?h] market by simp
    then have "guard_sane c w3" using acq_sane market(1) by (simp add: c_def guard_cong(2) [OF same])
    then have "guard_sane c w'" using clean market(5) by simp
    moreover have "\<not> guard_held c w" using acq_held market(1) by auto
    moreover have "db w' = db w"
      using market(5) frame_pair(1) [OF market(1)] frame_pair(2) [OF market(2)]
        frame_pair(3) [OF market(3)] by (simp add: failCleanup_db)
    ultimately show ?thesis by blast
  next
    case (limited ir w1 e w2)
    have same: "kv w2 (buildKey E u ?h) = kv w1 (buildKey E u ?h)"
      using kv(1) [of E w1 u u ?h] limited by simp
    then have "guard_sane c w2" using acq_sane limited(1) by (simp add: c_def guard_cong(2) [OF same])
    then have "guard_sane c w'" using clean limited(4) by simp
    moreover have "\<not> guard_held c w" using acq_held limited(1) by auto
    moreover have "db w' = db w"
      using limited(4) frame_pair(1) [OF limited(1)] frame_pair(2) [OF limited(2)]
      by (simp add: failCleanup_db)
    ultimately show ?thesis by blast
  next
    case (acquire_failed e w1)
    then show ?thesis
      using acq_sane acq_held frame_pair(1) [OF acquire_failed(1)] by auto
  qed
qed

text \<open>
  A sequence of calls with the same parameters, with anything in between that leaves the
  request's key alone, and how many orders the calls have added.
\<close>

fun create_run ::
  "'e order_env_scheme \<Rightarrow> OrderConfig \<Rightarrow> uuid \<Rightarrow> uuid \<Rightarrow> OrderType \<Rightarrow> decimal \<Rightarrow> int \<Rightarrow>
   ('a order_world_scheme \<Rightarrow> 'a order_world_scheme) list \<Rightarrow> 'a order_world_scheme \<Rightarrow>
   nat \<times> 'a order_world_scheme" where
  "create_run E cfg u m ot p q [] w = (0, w)"
| "create_run E cfg u m ot p q (f # fs) w =
     (case CreateOrder E (f w) cfg u m ot p q of (r, w1) \<Rightarrow>
      case create_run E cfg u m ot p q fs w1 of (n, w2) \<Rightarrow>
        (length (orders (db w1)) - length (orders (db (f w))) + n, w2))"

lemma create_run_bounded:
  assumes "unambiguous E" and "cfg_wired cfg"
    and ok: "guard_ok (E, cfg_RequestTTL cfg, u, buildRequestHash E m ot p q)"
    and "\<And>f v. f \<in> set fs \<Longrightarrow> kv (f v) (buildKey E u (buildRequestHash E m ot p q)) =
      kv v (buildKey E u (buildRequestHash E m ot p q))"
    and "guard_sane (E, cfg_RequestTTL cfg, u, buildRequestHash E m ot p q) w"
  shows "fst (create_run E cfg u m ot p q fs w) \<le>
    (if guard_held (E, cfg_RequestTTL cfg, u, buildRequestHash E m ot p q) w then 0 else 1)"
  using assms(4,5)
proof (induction fs arbitrary: w)
  case (Cons f fs)
  let ?c = "(E, cfg_RequestTTL cfg, u, buildRequestHash E m ot p q)"
  obtain r w1 where call: "CreateOrder E (f w) cfg u m ot p q = (r, w1)" by fastforce
  have fw: "guard_sane ?c (f w) = guard_sane ?c w" "guard_held ?c (f w) = guard_held ?c w"
    using Cons.prems(1) guard_cong [of "f w" E u "buildRequestHash E m ot p q" w "cfg_RequestTTL cfg"]
    by simp_all
  note g = CreateOrder_guard [OF call ok assms(2)] fw Cons.prems(2)
  have "length (orders (db w1)) - length (orders (db (f w))) \<le> 1"
    using CreateOrder_cases [OF call] by (auto simp: order_placed_def)
  moreover have "fst (create_run E cfg u m ot p q fs w1) \<le> (if guard_held ?c w1 then 0 else 1)"
    using g Cons.prems(1) by (intro Cons.IH) auto
  moreover have "db w1 \<noteq> db (f w) \<Longrightarrow> guard_held ?c w1 \<and> \<not> guard_held ?c w"
    using g assms(1) by auto
  moreover have "guard_held ?c w \<Longrightarrow> guard_held ?c w1 \<and> db w1 = db (f w)"
    using g by auto
  ultimately show ?case
    by (cases "db w1 = db (f w)") (auto simp: call split: prod.splits if_splits)
qed simp

text \<open>
  C1. However often a user repeats a request within the time to live of the idempotency
  entry, and whichever calls to Redis, PostgreSQL and the spot service fail, the repetitions
  together create at most one order, as long as no call takes effect while reporting an error.
\<close>

theorem at_most_one_order_per_request:
  assumes "unambiguous E" and "entry_codec_ok E" and "within_ttl E (cfg_RequestTTL cfg)"
    and "ascii (buildRequestHash E m ot p q)" and "cfg_wired cfg"
    and "no_empty_entry E u (buildRequestHash E m ot p q) (kv w)"
    and "\<And>f v. f \<in> set fs \<Longrightarrow> kv (f v) (buildKey E u (buildRequestHash E m ot p q)) =
      kv v (buildKey E u (buildRequestHash E m ot p q))"
  shows "fst (create_run E cfg u m ot p q fs w) \<le> 1"
  using create_run_bounded [of E cfg u m ot p q fs w] assms
  by (auto simp: guard_ok_def guard_sane_def split: if_splits)

section \<open>A repeated request gets the same answer\<close>

lemma guard_held_outlives: "guard_held (E, ttl, u, h) w \<Longrightarrow> outlives E (kv w) (buildKey E u h)"
  by (auto simp: guard_held_def outlives_def key_live_def split: option.splits)

lemma completeIdempotencySync_all_success:
  assumes "all_success E" "entry_codec_ok E" "within_ttl E (cfg_RequestTTL cfg)" "ascii h"
    and "entry_Marshal E (completed_entry h i (OrderStatus_String st)) \<noteq> None"
    and "outlives E (kv w) (buildKey E u h)" and "0 < cfg_CompleteAttempts cfg"
  shows "idem_view E (env_redis_ms E n) (kv (snd (completeIdempotencySync E w cfg u i h st))) u h =
    Done i (OrderStatus_String st)"
proof -
  obtain k where k: "nat (cfg_CompleteAttempts cfg) = Suc k"
    using assms(7) by (metis gr0_implies_Suc zero_less_nat_eq)
  obtain w' where "Complete E (step w) (cfg_RequestTTL cfg) u h i (OrderStatus_String st) = (Inr (), w')"
    "idem_view E (env_redis_ms E n) (kv w') u h = Done i (OrderStatus_String st)"
    using Complete_refines [OF assms(1-5), of "step w" u n] assms(6) by auto
  then show ?thesis
    using assms(1) k by (simp add: completeIdempotencySync_def completeIdempotencyChecking_def
        adapter_Complete_def all_success_def)
qed

lemma CreateOrder_Done:
  assumes "all_success E" and "no_empty_entry E u h (kv w)"
    and "entry_Marshal E (processing_entry h (env_now E (tick w))) \<noteq> None"
    and h: "h = buildRequestHash E m ot p q"
    and "idem_view E (env_redis_ms E (Suc (tick w))) (kv w) u h = Done i s"
  shows "CreateOrder E w cfg u m ot p q = (Inr (i, OrderStatus_FromString s), step (step w))"
proof -
  obtain raw e where raw: "redis_GET (env_redis_ms E (Suc (tick w))) (kv w) (buildKey E u h) = Some raw"
    "entry_Unmarshal E raw = Some e" "entry_state e = Done i s"
    using assms(5) by (auto simp: idem_view_def split: option.splits)
  then have "raw \<noteq> []"
    using assms(2) by (auto simp: no_empty_entry_def redis_GET_def split: option.splits if_splits list.splits)
  then have "acquire E w (cfg_RequestTTL cfg) u h False = (Inr (e, False), step (step w))"
    using raw assms by (intro acquire_live_success) (auto simp: all_success_def)
  then show ?thesis
    using raw(3) by (auto simp: CreateOrder_def h [symmetric] adapter_Acquire_def Acquire_def Let_def
        resolveIdempotentRequest_def checkIdempotencyResult_def entry_state_def split: if_splits)
qed

lemma row_status_valid: "order_row_ok r \<Longrightarrow> valid_status (row_status r)"
proof -
  assume "order_row_ok r"
  then have "sint (row_status r) \<in> {1, 2, 3, 4}" by (auto simp: order_row_ok_def)
  then have "of_int (sint (row_status r)) \<in> (of_int ` {1, 2, 3, 4 :: int} :: OrderStatus set)"
    by (rule imageI)
  then show ?thesis by (simp add: valid_status_def OrderStatus_defs)
qed

lemma CollectExactlyOneRow_Inr: "CollectExactlyOneRow rows = Inr r \<Longrightarrow> r \<in> set rows"
  by (auto simp: CollectExactlyOneRow_def split: list.splits)

lemma FindOrder_Inr:
  assumes "FindOrderForIdempotencyRecovery E w u m ot p q s = (Inr ord, w')"
  shows "\<exists>r \<in> set (orders (db w)). row_matches_request E u m ot p q s r \<and>
    Order_ID ord = row_id r \<and> Order_Status ord = row_status r"
proof -
  let ?rows = "take 1 (sort_key (\<lambda>r. (row_created_at r, uint (row_id r)))
    (filter (row_matches_request E u m ot p q s) (orders (db w))))"
  obtain r where r: "CollectExactlyOneRow ?rows = Inr r" "ToDomain E (row_to_dto E r) = Inr ord"
    using assms by (auto simp: FindOrderForIdempotencyRecovery_def pool_exec_def external_Inr Let_def
        split: result_splits)
  then have "r \<in> set ?rows" by (intro CollectExactlyOneRow_Inr)
  then have "r \<in> set (filter (row_matches_request E u m ot p q s) (orders (db w)))"
    by (metis in_set_takeD set_sort)
  with r(2) show ?thesis by (auto simp: ToDomain_def row_to_dto_def split: sum.splits)
qed

lemma resolve_Inr:
  assumes "resolveIdempotentRequest E w cfg u m ot p q h ir = (Inr (i, st), w')"
  shows "if IsCompleted ir then i = Idem_OrderID ir \<and> st = OrderStatus_FromString (Idem_OrderStatus ir)
    else \<exists>row \<in> set (orders (db w)). row_id row = i \<and> row_status row = st \<and>
      row_matches_request E u m ot p q (StartedAt ir) row"
  using assms
  by (auto simp: resolveIdempotentRequest_def tryRecoverOrderFromProcessing_def checkIdempotencyResult_def
      Let_def split: if_splits prod.splits sum.splits dest!: FindOrder_Inr)

text \<open>
  C12. When no call takes effect while reporting an error, the answer tells what happened. An error
  leaves the tables unchanged. A caller that acquired the request and is told an identifier with the
  status \<open>created\<close> has placed exactly that order. An answer without acquiring it changes no
  table and repeats what is stored: the identifier and status of the completed entry, or those of
  an order in the table that matches the request and is not older than the entry.
\<close>

theorem create_order_error_unchanged:
  assumes "unambiguous E" and "CreateOrder E w cfg u m ot p q = (r, w')"
  shows "case r of Inl e \<Rightarrow> db w' = db w
    | Inr (i, st) \<Rightarrow>
        (case adapter_Acquire E w (cfg_RequestTTL cfg) u (buildRequestHash E m ot p q) of
           (Inl e, w1) \<Rightarrow> False
         | (Inr (ir, acquired), w1) \<Rightarrow>
             if acquired then st = OrderStatusCreated \<and> order_placed E u m ot p q (db w) i (db w')
             else db w' = db w \<and>
               (if IsCompleted ir
                then i = Idem_OrderID ir \<and> st = OrderStatus_FromString (Idem_OrderStatus ir)
                else \<exists>row \<in> set (orders (db w)). row_id row = i \<and> row_status row = st \<and>
                  row_matches_request E u m ot p q (StartedAt ir) row))"
  using assms(2)
proof (cases rule: CreateOrder_paths)
  case (duplicate ir w1)
  have "db w1 = db w" "db w' = db w1" using duplicate by (auto dest!: frame_pair)
  then show ?thesis
    using duplicate resolve_Inr [of E w1 cfg u m ot p q _ ir] by (auto split: sum.split)
next
  case (save_failed ir w1 w2 w3 e w4)
  then show ?thesis
    using saveOrder_cases [OF save_failed(4)] assms(1) by (auto dest!: frame_pair simp: frame)
next
  case (saved ir w1 w2 w3 i st w4)
  have "db w3 = db w" "db w' = db w4"
    using saved by (auto dest!: frame_pair simp: frame)
  then show ?thesis using saveOrder_cases [OF saved(4)] saved(1,5) by auto
qed (auto dest!: frame_pair simp: frame)

text \<open>
  C38. The bound of one order for a request needs the answer of the commit. If \<open>CreateOrder\<close>
  reports an error although the tables have changed, as it does after a commit that took effect
  and whose answer was lost, and the cleanup of the entry goes through, then an order has been placed,
  the entry of the request is gone, and the next success of the same request places a second order.
\<close>

theorem lost_commit_answer_duplicates_order:
  assumes "CreateOrder E w cfg u m ot p q = (Inl err, w1)" and "db w1 \<noteq> db w"
    and "\<And>f. env_outcome E (tick w1 - 1) \<noteq> Lost f"
    and "kv w2 (buildKey E u (buildRequestHash E m ot p q)) =
      kv w1 (buildKey E u (buildRequestHash E m ot p q))" and "db w2 = db w1"
    and "CreateOrder E w2 cfg u m ot p q = (Inr (j, st), w3)"
  shows "\<exists>i. order_placed E u m ot p q (db w) i (db w1) \<and>
    kv w1 (buildKey E u (buildRequestHash E m ot p q)) = None \<and>
    order_placed E u m ot p q (db w1) j (db w3) \<and> i \<noteq> j"
proof -
  let ?key = "buildKey E u (buildRequestHash E m ot p q)"
  from assms(1) obtain i v e where i: "order_placed E u m ot p q (db w) i (db w1)"
    and w1: "w1 = failCleanup E v u (buildRequestHash E m ot p q) True"
  proof (cases rule: CreateOrder_paths)
    case (save_failed ir v1 v2 v3 e v4)
    then show ?thesis
      using that saveOrder_cases [OF save_failed(4)] assms(2) by (auto dest!: frame_pair simp: frame)
  qed (use assms(2) in \<open>auto dest!: frame_pair simp: frame\<close>)
  have "tick w1 = Suc (tick v)"
    by (auto simp: w1 failCleanup_def adapter_FailCleanup_def FailCleanup_def cache_Delete_def external_def
        split: outcome.split)
  then have gone: "kv w1 ?key = None"
    using assms(3)
    by (auto simp: w1 failCleanup_def adapter_FailCleanup_def FailCleanup_def cache_Delete_def external_def
        redis_DEL_def split: outcome.split)
  then have "readable_entry E u (buildRequestHash E m ot p q) (kv w2)" "kv w2 ?key = None"
    using assms(4) by (simp_all add: readable_entry_def)
  then have free: "adapter_Acquire E w2 ttl u (buildRequestHash E m ot p q) \<noteq> (Inr (ir, False), v)" for ttl ir v
    using acquire_round_Inr [of E "step w2" ttl u "buildRequestHash E m ot p q"]
    by (auto simp: adapter_Acquire_def Acquire_def acquire_one_call redis_GET_def
        split: option.splits prod.splits sum.splits if_splits)
  from assms(6) have "order_placed E u m ot p q (db w2) j (db w3)"
  proof (cases rule: CreateOrder_paths)
    case (saved ir v1 v2 v3 k st' v4)
    then show ?thesis using saveOrder_cases [OF saved(4)] by (auto dest!: frame_pair simp: frame)
  qed (use free in auto)
  moreover have "i \<in> row_id ` set (orders (db w1))"
    using i by (auto simp: order_placed_def created_row_def)
  ultimately show ?thesis using i gone assms(5) by (auto simp: order_placed_def)
qed

text \<open>After a successful call the store shows the request as done, with the answer given.\<close>

lemma CreateOrder_success_Done:
  assumes E: "all_success E" "entry_codec_ok E" "within_ttl E (cfg_RequestTTL cfg)"
    and h: "h = buildRequestHash E m ot p q" "ascii h"
    and cfg: "cfg_wired cfg" "0 < cfg_CompleteAttempts cfg"
    and marshal: "\<And>n. entry_Marshal E (processing_entry h (env_now E n)) \<noteq> None"
      "\<And>i st. entry_Marshal E (completed_entry h i (OrderStatus_String st)) \<noteq> None"
    and w: "no_empty_entry E u h (kv w)" "outlives E (kv w) (buildKey E u h)" "db_ok (db w)"
    and call: "CreateOrder E w cfg u m ot p q = (Inr (i, st), w')"
  shows "\<exists>s. OrderStatus_FromString s = st \<and> (\<forall>n. idem_view E (env_redis_ms E n) (kv w') u h = Done i s)"
proof -
  let ?c = "(E, cfg_RequestTTL cfg, u, h)"
  have ok: "guard_ok ?c" "guard_sane ?c w" using E h w by (simp_all add: guard_ok_def guard_sane_def)
  from call show ?thesis
  proof (cases rule: CreateOrder_paths)
    case (saved ir w1 w2 w3 i' st' w4)
    have "guard_held ?c w1" using idem.acq_wins [OF ok] saved(1) by (auto simp: h(1))
    moreover have "kv w4 (buildKey E u h) = kv w1 (buildKey E u h)"
      using request_keeps_key(1) [OF cfg(1), of E w1 u u h] request_keeps_key(2) [OF cfg(1), of E w2 m u h]
        request_keeps_key(3) [OF cfg(1), of E w3 u m ot p q u h] saved(2-4) by simp
    ultimately have "outlives E (kv w4) (buildKey E u h)"
      using guard_held_outlives [of E "cfg_RequestTTL cfg" u h w1] by (simp add: outlives_def)
    moreover have "st = OrderStatusCreated"
      using saveOrder_cases [OF saved(4)] saved(5) by auto
    ultimately show ?thesis
      using completeIdempotencySync_all_success [OF E h(2) marshal(2) _ cfg(2), where w = w4] saved(5,6)
      by (intro exI [of _ "OrderStatus_String st"])
        (simp add: h(1) valid_status_def)
  next
    case (duplicate ir w1)
    obtain e where e: "acquire E w (cfg_RequestTTL cfg) u h False = (Inr (e, False), w1)"
      "ir = \<lparr>IsCompleted = Entry_IsCompleted e, IsProcessing = Entry_IsProcessing e,
         StartedAt = Entry_StartedAt e, Idem_OrderID = Entry_OrderID e,
         Idem_OrderStatus = Entry_OrderStatus e\<rparr>"
      using duplicate(1) by (auto simp: adapter_Acquire_def Acquire_def h(1) split: result_splits)
    have w1: "w1 = step (step w)" "idem_view E (env_redis_ms E n) (kv w) u h = entry_state e" for n
      using acquire_duplicate [OF E(1,3) marshal(1) w(1,2) e(1)] by simp_all
    show ?thesis
    proof (cases "Entry_IsCompleted e")
      case True
      then show ?thesis
        using duplicate(2) e(2) w1
        by (auto simp: resolveIdempotentRequest_def checkIdempotencyResult_def Let_def entry_state_def)
    next
      case False
      then obtain ord w2 where find:
        "FindOrderForIdempotencyRecovery E w1 u m ot p q (Entry_StartedAt e) = (Inr ord, w2)"
        "i = Order_ID ord" "st = Order_Status ord"
        "w' = snd (completeIdempotencySync E w2 cfg u (Order_ID ord) h (Order_Status ord))"
        using duplicate(2) e(2)
        by (auto simp: resolveIdempotentRequest_def tryRecoverOrderFromProcessing_def h(1)
            split: result_splits)
      have "w2 = step w1" using find(1) FindOrder_world by (metis snd_conv)
      then have "outlives E (kv w2) (buildKey E u h)" using w(2) w1(1) by simp
      moreover have "valid_status st"
        using FindOrder_Inr [OF find(1)] w(3) w1(1) find(3) row_status_valid
        by (auto simp: db_ok_def list_all_iff)
      ultimately show ?thesis
        using completeIdempotencySync_all_success [OF E h(2) marshal(2) _ cfg(2), where w = w2] find
        by (intro exI [of _ "OrderStatus_String st"]) simp
    qed
  qed simp_all
qed

text \<open>
  C13. When the services answer, a request that has been answered with an order is answered
  with the same identifier and status every time it is repeated until its entry expires,
  and no repetition touches the tables.
\<close>

theorem repeated_request_same_order:
  assumes "all_success E" and "entry_codec_ok E" and "within_ttl E (cfg_RequestTTL cfg)"
    and "ascii (buildRequestHash E m ot p q)"
    and "cfg_wired cfg" and "0 < cfg_CompleteAttempts cfg"
    and "\<And>n. entry_Marshal E (processing_entry (buildRequestHash E m ot p q) (env_now E n)) \<noteq> None"
    and "\<And>i st. entry_Marshal E
      (completed_entry (buildRequestHash E m ot p q) i (OrderStatus_String st)) \<noteq> None"
    and "no_empty_entry E u (buildRequestHash E m ot p q) (kv w)"
    and "outlives E (kv w) (buildKey E u (buildRequestHash E m ot p q))" and "db_ok (db w)"
    and "CreateOrder E w cfg u m ot p q = (Inr (i, st), w')"
    and "kv w2 (buildKey E u (buildRequestHash E m ot p q)) =
      kv w' (buildKey E u (buildRequestHash E m ot p q))"
  shows "CreateOrder E w2 cfg u m ot p q = (Inr (i, st), step (step w2)) \<and>
    db (step (step w2)) = db w2"
proof -
  let ?h = "buildRequestHash E m ot p q"
  obtain s where s: "OrderStatus_FromString s = st"
    "\<And>n. idem_view E (env_redis_ms E n) (kv w') u ?h = Done i s"
    using CreateOrder_success_Done [OF assms(1-3) refl assms(4-12)] by blast
  have "guard_sane (E, cfg_RequestTTL cfg, u, ?h) w'"
    using CreateOrder_guard [OF assms(12)] assms by (simp add: guard_ok_def guard_sane_def)
  then have "no_empty_entry E u ?h (kv w2)"
    using assms(13) by (simp add: guard_sane_def no_empty_entry_def)
  moreover have "idem_view E (env_redis_ms E (Suc (tick w2))) (kv w2) u ?h = Done i s"
    using s(2) [of "Suc (tick w2)"] assms(13) by (simp add: idem_view_def redis_GET_def)
  ultimately show ?thesis
    using CreateOrder_Done [OF assms(1) _ assms(7) refl, of u w2 i s cfg] s(1) by simp
qed

section \<open>Rejected requests\<close>

text \<open>An order is placed only on a market that the spot service reports as enabled and not deleted.\<close>

lemma validateMarket_Inr:
  assumes "validateMarket E w m = (Inr (), w')"
  shows "\<exists>n mk. spot_GetMarketByID E n m = Inr mk \<and> Market_Enabled mk \<and> Market_DeletedAt mk = None"
  using assms by (auto simp: validateMarket_def Let_def split: result_splits)

lemma created_on_open_market:
  assumes "CreateOrder E w cfg u m ot p q = (r, w')" and "db w' \<noteq> db w"
  shows "\<exists>n mk. spot_GetMarketByID E n m = Inr mk \<and> Market_Enabled mk \<and> Market_DeletedAt mk = None"
  using assms(1)
proof (cases rule: CreateOrder_paths)
  case (save_failed ir w1 w2 w3 e w4)
  then show ?thesis using validateMarket_Inr by blast
next
  case (saved ir w1 w2 w3 i st w4)
  then show ?thesis using validateMarket_Inr by blast
qed (use assms(2) in \<open>auto dest!: frame_pair simp: frame\<close>)

text \<open>
  C24. An order is placed only after the spot service has reported its market as enabled and
  not deleted, whatever the local block state says.
\<close>

theorem order_placed_only_on_open_market:
  assumes "CreateOrder E w cfg u m ot p q = (r, w')" and "db w' \<noteq> db w"
  shows "\<exists>n mk. spot_GetMarketByID E n m = Inr mk \<and> Market_Enabled mk \<and> Market_DeletedAt mk = None"
  by (rule created_on_open_market [OF assms])

text \<open>
  When the services answer, a request that is rejected after it was acquired (by the rate
  limit, the market or the database) leaves its idempotency entry free, so that it can be sent
  again.
\<close>

theorem rejected_request_is_freed:
  assumes "all_success E"
    and "adapter_Acquire E w (cfg_RequestTTL cfg) u (buildRequestHash E m ot p q) = (Inr (ir, True), w1)"
    and "CreateOrder E w cfg u m ot p q = (Inl e, w')"
  shows "idem_view E t (kv w') u (buildRequestHash E m ot p q) = Free"
proof -
  let ?h = "buildRequestHash E m ot p q"
  have clean: "idem_view E t (kv (failCleanup E v u ?h True)) u ?h = Free" for v
    using assms(1) by (simp add: failCleanup_def adapter_FailCleanup_def FailCleanup_all_success
        idem_view_def)
  from assms(3) show ?thesis
    by (cases rule: CreateOrder_paths) (use assms(2) clean in auto)
qed

section \<open>Reading the status of an order\<close>

lemma GetOrder_Inr:
  assumes "GetOrder E w i u = (Inr ord, w')"
  shows "\<exists>r \<in> set (orders (db w)). row_id r = i \<and> row_user_id r = u \<and>
    Order_ID ord = i \<and> Order_UserID ord = u \<and> Order_Status ord = row_status r"
proof -
  let ?rows = "filter (\<lambda>r. row_id r = i \<and> row_user_id r = u) (orders (db w))"
  obtain r where r: "CollectExactlyOneRow ?rows = Inr r" "ToDomain E (row_to_dto E r) = Inr ord"
    using assms by (auto simp: GetOrder_def pool_exec_def external_Inr Let_def split: result_splits)
  then have "r \<in> set ?rows" by (intro CollectExactlyOneRow_Inr)
  with r(2) show ?thesis by (auto simp: ToDomain_def row_to_dto_def split: sum.splits)
qed

text \<open>
  C37. \<open>GetOrderStatus\<close> answers with the stored status of an order of the given user, and changes
  no table.
\<close>

theorem get_order_status_owner_only:
  assumes "GetOrderStatus E w cfg i u = (Inr st, w')"
  shows "db w' = db w \<and>
    (\<exists>r \<in> set (orders (db w)). row_id r = i \<and> row_user_id r = u \<and> row_status r = st)"
proof -
  obtain w1 ord where w1: "checkRateLimit E w u (cfg_GetLimiter cfg) = (Inr (), w1)"
    "GetOrder E w1 i u = (Inr ord, w')" "st = Order_Status ord"
    using assms by (auto simp: GetOrderStatus_def fetchOrder_def Let_def split: result_splits)
  moreover have "db w1 = db w" using w1(1) by (rule frame_pair(2))
  moreover have "w' = step w1" using w1(2) GetOrder_world by (metis snd_conv)
  ultimately show ?thesis using GetOrder_Inr [OF w1(2)] by auto
qed

text \<open>
  When the services answer and the rate limit allows it, asking for an order that does not
  exist and asking for an order of another user fail with the same error, which names only the
  requested identifier.
\<close>

theorem foreign_order_not_found:
  assumes "all_success E" and "fst (checkRateLimit E w u (cfg_GetLimiter cfg)) = Inr ()"
    and "\<And>r. r \<in> set (orders (db w)) \<Longrightarrow> row_id r = i \<Longrightarrow> row_user_id r \<noteq> u"
  shows "fst (GetOrderStatus E w cfg i u) =
    Inl (Errorf ''OrderService.GetOrderStatus: '' (ErrNotFound i) '''')"
proof -
  obtain w1 where w1: "checkRateLimit E w u (cfg_GetLimiter cfg) = (Inr (), w1)"
    using assms(2) by (metis prod.collapse)
  have "filter (\<lambda>r. row_id r = i \<and> row_user_id r = u) (orders (db w1)) = []"
    using assms(3) frame_pair(2) [OF w1] by (auto simp: filter_empty_conv)
  then show ?thesis
    using assms(1) w1
    by (simp add: GetOrderStatus_def fetchOrder_def GetOrder_def pool_exec_def external_Success
        all_success_def CollectExactlyOneRow_def Let_def)
qed

section \<open>The queue of market updates\<close>

text \<open>
  The queue of market updates never holds more than 128 tasks, whatever \<open>validateMarket\<close>
  and the workers do, and a closed queue accepts nothing.
\<close>

theorem market_block_queue_bounded:
  assumes "length (marketBlockQueue w) \<le> marketBlockQueueSize"
  shows "length (marketBlockQueue (snd (validateMarket E w m))) \<le> marketBlockQueueSize \<and>
    length (marketBlockQueue (market_block_worker E cfg w)) \<le> marketBlockQueueSize \<and>
    (marketBlockClosed w \<longrightarrow>
       marketBlockQueue (snd (validateMarket E w m)) = marketBlockQueue w)"
proof -
  have read: "marketBlockQueue v = marketBlockQueue w \<and> marketBlockClosed v = marketBlockClosed w"
    if "getMarketBlockedState E w m = (x, v)" for x v
    using getMarketBlockedState_preserves [where P = "\<lambda>v. marketBlockQueue v = marketBlockQueue w \<and>
        marketBlockClosed v = marketBlockClosed w" and E = E and w = w and m = m] that
    by (simp add: only_key_def)
  have sync: "marketBlockQueue (snd (SynchronizeState E v ttl i b t)) = marketBlockQueue v" for v ttl i b t
    by (rule SynchronizeState_preserves [where P = "\<lambda>x. marketBlockQueue x = marketBlockQueue v"])
      (simp_all add: only_key_def)
  show ?thesis
    using assms
    by (auto simp: validateMarket_def synchronizeMarketBlockAsync_def market_block_worker_def
        synchronizeMarketBlock_def sync
        Let_def dest!: read split: result_splits list.splits)
qed

section \<open>The identity of a request\<close>

text \<open>
  The text a request is hashed from determines the market, the textual order type, the
  textual price and the quantity: different requests of a user never share a text.
\<close>

theorem request_text_injective:
  assumes "uuid_ok E" and "\<And>d. CHR ''|'' \<notin> set (dec_String E d)"
    and "requestText E m ot p q = requestText E m' ot' p' q'"
  shows "m = m' \<and> OrderType_String ot = OrderType_String ot' \<and>
    dec_String E p = dec_String E p' \<and> q = q'"
proof -
  have eq: "uuid_String E m @ CHR ''|'' # OrderType_String ot @ CHR ''|'' # dec_String E p @ CHR ''|'' # show_int q =
      uuid_String E m' @ CHR ''|'' # OrderType_String ot' @ CHR ''|'' # dec_String E p' @ CHR ''|'' # show_int q'"
    using assms(3) by (simp add: requestText_def)
  note first = sep_append_inject [OF uuid_String_no_bar [OF assms(1)] uuid_String_no_bar [OF assms(1)] eq]
  note second = sep_append_inject [OF OrderType_String_no_bar OrderType_String_no_bar first [THEN conjunct2]]
  note third = sep_append_inject [OF assms(2) assms(2) second [THEN conjunct2]]
  show ?thesis
    using first second third assms(1) by (simp add: uuid_String_inject show_int_inject)
qed

end
