(* ===== verification/Order_Fixtures.thy ===== *)
theory Order_Fixtures
  imports Order_Service
begin

text \<open>
  A concrete environment and world for the order service, in which every hypothesis on the
  environment holds, and the properties of the order service applied in it. The codecs are
  simple ones that have the properties the theorems ask for: decimal digits for UUIDs,
  fields separated by a byte outside ASCII for idempotency entries.
\<close>

section \<open>The environment\<close>

definition parse_int :: "string \<Rightarrow> int option" where
  "parse_int s =
     (case s of [] \<Rightarrow> None
      | c # cs \<Rightarrow> if c = CHR ''-'' then map_option uminus (parse_natural cs) else parse_natural s)"

lemma parse_natural_show_nat [simp]: "parse_natural (show_nat n) = Some (int n)"
  using parse_natural [of "show_nat n"] by simp

lemma parse_int_show_int [simp]: "parse_int (show_int i) = Some i"
proof (cases "i < 0")
  case True
  then show ?thesis by (simp add: parse_int_def show_int_def)
next
  case False
  obtain c cs where s: "show_nat (nat i) = c # cs" by (cases "show_nat (nat i)") auto
  then have "c \<noteq> CHR ''-''" using show_nat_Cons_digit [OF s] by auto
  then show ?thesis
    using False s parse_natural_show_nat [of "nat i"] by (simp add: parse_int_def show_int_def)
qed

definition demo_uuid_String :: "uuid \<Rightarrow> string" where
  "demo_uuid_String u = show_int (uint u)"

definition demo_uuid_Parse :: "string \<Rightarrow> uuid option" where
  "demo_uuid_Parse s = map_option word_of_int (parse_int s)"

definition demo_sep :: char where "demo_sep = CHR 0xFF"

definition demo_Marshal :: "Entry \<Rightarrow> string option" where
  "demo_Marshal e = Some (Entry_Status e @ demo_sep # Entry_RequestHash e @ demo_sep #
     show_int (Entry_StartedAt e) @ demo_sep # demo_uuid_String (Entry_OrderID e) @ demo_sep #
     Entry_OrderStatus e)"

definition demo_Unmarshal :: "string \<Rightarrow> Entry option" where
  "demo_Unmarshal s =
     (case split_on demo_sep s of
        [st, h, started, i, ost] \<Rightarrow>
          (case (parse_int started, demo_uuid_Parse i) of
             (Some t, Some u) \<Rightarrow> Some \<lparr>Entry_Status = st, Entry_RequestHash = h,
                Entry_StartedAt = t, Entry_OrderID = u, Entry_OrderStatus = ost\<rparr>
           | _ \<Rightarrow> None)
      | _ \<Rightarrow> None)"

definition demo :: order_env where
  "demo = \<lparr>env_outcome = \<lambda>n. Success, env_ctx = \<lambda>n. None,
     env_now = \<lambda>n. 1700000000000000000 + int n * 1000, env_redis_ms = \<lambda>n. 1700000000000,
     env_db_now = \<lambda>n. 1700000000000000000 + int n * 1000, env_uuid = \<lambda>n. of_nat (1000 + n),
     env_rank = \<lambda>n u. unat u, env_locked = \<lambda>n u. False,
     env_enqueue = \<lambda>n. EnqueueInput, env_wait = \<lambda>n. WaitDone AckSuccess,
     env_accepted = \<lambda>n. True, env_inject = \<lambda>n hs. hs, env_rand = \<lambda>n. (0, False), env_float_duration = min_int64,
     uuid_String = demo_uuid_String, uuid_Parse = demo_uuid_Parse, duration_String = show_int,
     entry_Marshal = demo_Marshal, entry_Unmarshal = demo_Unmarshal,
     lua_tostring = \<lambda>r. show_int \<lfloor>r\<rfloor>, lua_tonumber = \<lambda>s. map_option of_int (parse_int s),
     dec_NewFromString = \<lambda>s. map_option (\<lambda>i. Decimal i 0) (parse_int s),
     dec_String = \<lambda>d. case d of Decimal c e \<Rightarrow> show_int (c * 10 ^ nat e),
     dec_IsPositive = \<lambda>d. case d of Decimal c e \<Rightarrow> 0 < c,
     numeric_in = \<lambda>s. map_option (\<lambda>i. i * 100000000) (parse_int s),
     numeric_value = \<lambda>s. map_option of_int (parse_int s),
     numeric_out = \<lambda>n. show_int (n div 100000000),
     sha256_hex = \<lambda>s. s,
     proto_OrderCreated = \<lambda>e. Some (pbOC_EventId e @ ''|'' @ pbOC_OrderId e),
     proto_OrderStatusUpdated = \<lambda>e. Some (pbOS_EventId e @ ''|'' @ pbOS_CorrelationId e),
     spot_GetMarketByID = \<lambda>n m. Inr \<lparr>Market_ID = m, Market_Name = ''BTC-USDT'',
       Market_Enabled = True, Market_DeletedAt = None, Market_UpdatedAt = 1700000000000000000\<rparr>\<rparr>"

lemma demo_uuid_ok: "uuid_ok demo"
proof -
  have "c \<in> set ''0123456789abcdef-''" if "is_digit c" for c
  proof -
    from that obtain d where d: "d < 10" "(of_char c :: nat) = 48 + d"
      by (auto simp: is_digit_def char_digit_def Let_def split: if_splits)
        (metis add.commute diff_less_mono le_add_diff_inverse2 less_Suc_eq_le numeral_eq_Suc)
    have "digit_char d = char_of (of_char c :: nat)" using d(2) by (simp add: digit_char_def)
    then have "c = digit_char d" by simp
    moreover have "digit_char d \<in> set ''0123456789abcdef-''"
      using d(1) by (subst digit_char_code) auto
    ultimately show ?thesis by simp
  qed
  then have "set (show_int i) \<subseteq> set ''0123456789abcdef-''" for i
    using show_int_chars [of _ i] by fastforce
  moreover have "show_int i \<noteq> []" for i by (simp add: show_int_def)
  ultimately show ?thesis
    by (simp add: uuid_ok_def demo_def demo_uuid_String_def demo_uuid_Parse_def)
qed

lemma ascii_no_sep: "ascii s \<Longrightarrow> demo_sep \<notin> set s"
  by (auto simp: ascii_def list_all_iff demo_sep_def)

lemma show_int_sep: "demo_sep \<notin> set (show_int i)"
proof -
  have "\<not> is_digit demo_sep" "demo_sep \<noteq> CHR ''-''" by code_simp+
  then show ?thesis using show_int_chars [of demo_sep i] by auto
qed

lemma demo_codec_ok: "entry_codec_ok demo"
  using ascii_no_sep show_int_sep
  by (auto simp: entry_codec_ok_def demo_def demo_Marshal_def demo_Unmarshal_def ascii_Entry_def
      split_on_append split_on_none demo_uuid_Parse_def demo_uuid_String_def)

lemma demo_lua_ok: "lua_ok demo"
  by (simp add: lua_ok_def demo_def)

lemma demo_success: "all_success demo" "unambiguous demo"
  by (simp_all add: all_success_def unambiguous_def demo_def)

lemma demo_within_ttl: "0 < Milliseconds ttl \<Longrightarrow> within_ttl demo ttl"
  by (simp add: within_ttl_def demo_def)

lemma demo_marshals: "entry_Marshal demo e \<noteq> None"
  by (simp add: demo_def demo_Marshal_def)

lemma demo_ttl: "within_ttl demo 60000000000"
  by (rule demo_within_ttl) (simp add: Milliseconds_def millisecond_def)

definition demo_cfg :: OrderConfig where
  "demo_cfg = \<lparr>cfg_RequestTTL = 60000000000, cfg_CompleteAttempts = 3,
     cfg_MarketBlockTTL = 60000000000,
     cfg_CreateLimiter = \<lparr>RL_limit = 5, RL_window = 60000000000, RL_prefix = ''rate:order:create:''\<rparr>,
     cfg_GetLimiter = \<lparr>RL_limit = 5, RL_window = 60000000000, RL_prefix = ''rate:order:get:''\<rparr>\<rparr>"

definition demo_world :: order_world where
  "demo_world = \<lparr>tick = 0, kv = (\<lambda>k. None), kafka = [],
     db = \<lparr>orders = [], outbox = [], inbox = []\<rparr>, marketBlockQueue = [], marketBlockClosed = False\<rparr>"

abbreviation demo_create :: "order_world \<Rightarrow> (go_error + uuid \<times> OrderStatus) \<times> order_world" where
  "demo_create w \<equiv> CreateOrder demo w demo_cfg 1 2 OrderTypeLimit (Decimal 5 0) 3"

definition demo_after :: order_world where
  "demo_after = snd (demo_create demo_world)"

text \<open>One evaluation, of which the witnesses below take what they need.\<close>

lemma demo_create_run:
  "case demo_create demo_world of (r, w) \<Rightarrow>
     r = Inr (1006, OrderStatusCreated) \<and> map row_id (orders (db w)) = [1006] \<and>
     map row_user_id (orders (db w)) = [1] \<and>
     fst (GetOrderStatus demo w demo_cfg 1006 1) = Inr OrderStatusCreated \<and>
     fst (checkRateLimit demo w 4 (cfg_GetLimiter demo_cfg)) = Inr ()"
  by code_simp

lemma demo_after_facts:
  "fst (demo_create demo_world) = Inr (1006, OrderStatusCreated)"
  "map row_id (orders (db demo_after)) = [1006]" "map row_user_id (orders (db demo_after)) = [1]"
  "fst (GetOrderStatus demo demo_after demo_cfg 1006 1) = Inr OrderStatusCreated"
  "fst (checkRateLimit demo demo_after 4 (cfg_GetLimiter demo_cfg)) = Inr ()"
  using demo_create_run by (simp_all add: demo_after_def split_beta)

lemma demo_cfg_wired: "cfg_wired demo_cfg" "0 < cfg_CompleteAttempts demo_cfg"
  "within_ttl demo (cfg_RequestTTL demo_cfg)"
  by (simp_all add: demo_cfg_def cfg_wired_def demo_within_ttl Milliseconds_def millisecond_def)

lemma demo_world_simps [simp]:
  "kv demo_world = (\<lambda>k. None)" "tick demo_world = 0"
  "db demo_world = \<lparr>orders = [], outbox = [], inbox = []\<rparr>"
  by (simp_all add: demo_world_def)

lemma demo_db_ok: "db_ok (db demo_world)"
  by (simp add: db_ok_def outbox_ok_def)

abbreviation demo_hash :: string where
  "demo_hash \<equiv> buildRequestHash demo 2 OrderTypeLimit (Decimal 5 0) 3"

lemma ascii_code [code]: "ascii s = list_all (\<lambda>c. \<not> digit7 c) s"
proof -
  have "(of_char c :: nat) < 128 \<longleftrightarrow> \<not> digit7 c" for c
    by (cases c) (simp add: of_char_def)
  then show ?thesis by (simp add: ascii_def)
qed

lemma demo_hash_ascii: "ascii demo_hash"
  by code_simp

lemma demo_created: "demo_create demo_world = (Inr (1006, OrderStatusCreated), demo_after)"
  using demo_after_facts(1) by (simp add: demo_after_def prod_eq_iff)

section \<open>Witnesses: the idempotency store\<close>

theorem idempotency_mutual_exclusion_witness:
  "fst (guard_run (\<lambda>w. adapter_Acquire demo w 60000000000 1 ''h'')
      (\<lambda>(restore, i, s) w. Complete_call demo 60000000000 1 ''h'' (restore, i, OrderStatus_String s) w)
      (\<lambda>w. adapter_FailCleanup demo w 1 ''h'')
      [AcquireOp, AcquireOp, CompleteOp (False, 7, OrderStatusCreated), AcquireOp] demo_world)
    \<le> cleanups [AcquireOp, AcquireOp, CompleteOp (False, 7 :: uuid, OrderStatusCreated),
        AcquireOp :: (_, order_world) guard_op] + 1"
  by (rule idempotency_mutual_exclusion)
    (simp_all add: demo_codec_ok demo_within_ttl Milliseconds_def millisecond_def ascii_code
      readable_entry_def)

theorem completed_request_replayed_witness:
  "\<exists>w1. adapter_Complete demo demo_world 60000000000 1 ''h'' 7 (OrderStatus_String OrderStatusCreated) =
      (Inr (), w1) \<and>
    adapter_Acquire demo w1 60000000000 1 ''h'' =
      (Inr (\<lparr>IsCompleted = True, IsProcessing = False, StartedAt = zero_time, Idem_OrderID = 7,
         Idem_OrderStatus = ''created''\<rparr>, False), step (step w1))"
proof -
  let ?c = "adapter_Complete demo demo_world 60000000000 1 ''h'' 7 (OrderStatus_String OrderStatusCreated)"
  have ok: "fst ?c = Inr ()" by code_simp
  have live: "key_live (env_redis_ms demo (Suc (tick (snd ?c))))
      (snd (the (kv (snd ?c) (buildKey demo 1 ''h''))))" by code_simp
  have "?c = (Inr (), snd ?c)" using ok by (simp add: prod_eq_iff)
  from completed_request_replayed [OF demo_codec_ok _ this refl live _ demo_marshals]
  show ?thesis
    using ok by (intro exI [of _ "snd ?c"])
      (simp add: prod_eq_iff ascii_code demo_success [unfolded all_success_def] OrderStatus_String_def)
qed

theorem idempotency_store_refines_witness:
  "(\<exists>e acquired w'. Acquire demo demo_world 60000000000 1 ''h'' = (Inr (e, acquired), w') \<and>
      (acquired, idem_view demo (env_redis_ms demo 0) (kv w') 1 ''h'') =
        abs_acquire (env_now demo (tick demo_world)) (env_now demo (tick demo_world + 3))
          (idem_view demo (env_redis_ms demo 0) (kv demo_world) 1 ''h'') \<and>
      (\<not> acquired \<longrightarrow> entry_state e = idem_view demo (env_redis_ms demo 0) (kv w') 1 ''h'')) \<and>
    (\<exists>w'. Complete demo demo_world 60000000000 1 ''h'' 7 (OrderStatus_String OrderStatusCreated) = (Inr (), w') \<and>
      idem_view demo (env_redis_ms demo 0) (kv w') 1 ''h'' = Done 7 (OrderStatus_String OrderStatusCreated)) \<and>
    (\<exists>w'. FailCleanup demo demo_world 1 ''h'' = (Inr (), w') \<and>
      idem_view demo (env_redis_ms demo 0) (kv w') 1 ''h'' = Free)"
  by (rule idempotency_store_refines [OF demo_success(1) demo_codec_ok demo_ttl _ demo_marshals demo_marshals])
    (simp_all add: no_empty_entry_def outlives_def ascii_code)

section \<open>Witnesses: market states and rate limits\<close>

definition demo_updates :: "(bool \<times> instant) list" where
  "demo_updates = [(True, 2000000), (False, 5000000), (True, 3000000)]"

lemma demo_updates_exact: "(b, t) \<in> set demo_updates \<Longrightarrow> lua_exact (UnixMilli t)"
  by (auto simp: demo_updates_def lua_exact_def UnixMilli_def millisecond_def)

theorem newest_market_state_wins_witness:
  "\<exists>pre b t post. demo_updates = pre @ (b, t) # post \<and>
    (\<forall>(b', t') \<in> set pre. UnixMilli t' \<le> UnixMilli t) \<and>
    (\<forall>(b', t') \<in> set post. UnixMilli t' < UnixMilli t) \<and>
    fst (IsBlocked demo (sync_all (\<lambda>b t w. SynchronizeState demo w 60000000000 9 b t)
      demo_updates demo_world) 9) = Inr b"
  by (rule newest_market_state_wins [OF demo_success(1) demo_lua_ok demo_ttl])
    (auto simp: demo_updates_exact, simp add: demo_updates_def)

theorem market_state_converges_witness:
  "fst (IsBlocked demo (sync_all (\<lambda>b t w. SynchronizeState demo w 60000000000 9 b t)
      demo_updates demo_world) 9) =
   fst (IsBlocked demo (sync_all (\<lambda>b t w. SynchronizeState demo w 60000000000 9 b t)
      (rev demo_updates @ demo_updates) demo_world) 9)"
  by (rule market_state_converges [OF demo_success(1) demo_lua_ok demo_ttl])
    (auto simp: demo_updates_exact, auto simp: demo_updates_def UnixMilli_def millisecond_def)

definition demo_limiter :: OrderRateLimiter where
  "demo_limiter = \<lparr>RL_limit = 2, RL_window = 60000000000, RL_prefix = ''rate:order:get:''\<rparr>"

lemma demo_limiter_ttl: "within_ttl demo (RL_window demo_limiter)"
  using demo_ttl by (simp add: demo_limiter_def)

theorem rate_limit_bounds_window_witness:
  "int (fst (allow_run demo demo_limiter 1 [id, id, id] demo_world)) \<le> max 0 (RL_limit demo_limiter)"
  by (rule rate_limit_bounds_window [OF demo_limiter_ttl]) (auto simp: max_int64_def)

theorem rate_limit_admits_up_to_limit_witness:
  "int (fst (allow_run demo demo_limiter 1 (replicate 3 id) demo_world)) =
    min (int 3) (max 0 (RL_limit demo_limiter)) \<and> RL_limit demo_limiter = 2"
  using rate_limit_admits_up_to_limit [OF demo_success(1) demo_limiter_ttl, of demo_world 1 3]
  by (simp add: max_int64_def demo_limiter_def)

section \<open>Witnesses: the order service\<close>

lemma demo_no_empty: "no_empty_entry demo u h (kv demo_world)" "outlives demo (kv demo_world) key"
  by (simp_all add: no_empty_entry_def outlives_def)

theorem create_order_all_or_nothing_witness:
  "demo_create demo_world = (Inr (1006, OrderStatusCreated), demo_after) \<and>
   (db demo_after = db demo_world \<or>
    (\<exists>i. order_placed demo 1 2 OrderTypeLimit (Decimal 5 0) 3 (db demo_world) i (db demo_after)))"
  using create_order_all_or_nothing [OF demo_created] demo_created by simp

theorem create_order_error_unchanged_witness:
  "order_placed demo 1 2 OrderTypeLimit (Decimal 5 0) 3 (db demo_world) 1006 (db demo_after)"
  using create_order_error_unchanged [OF demo_success(2) demo_created] demo_after_facts(2)
  by (auto split: prod.splits sum.splits if_splits)

theorem create_order_keeps_db_ok_witness: "db_ok (db demo_after)"
  by (rule create_order_keeps_db_ok [OF demo_db_ok demo_created])

theorem at_most_one_order_per_request_witness:
  "fst (create_run demo demo_cfg 1 2 OrderTypeLimit (Decimal 5 0) 3 [id, id, id] demo_world) \<le> 1"
  by (rule at_most_one_order_per_request [OF demo_success(2) demo_codec_ok demo_cfg_wired(3)
        demo_hash_ascii demo_cfg_wired(1) demo_no_empty(1)]) auto

theorem repeated_request_same_order_witness:
  "demo_create demo_after = (Inr (1006, OrderStatusCreated), step (step demo_after)) \<and>
   db (step (step demo_after)) = db demo_after"
  by (rule repeated_request_same_order [OF demo_success(1) demo_codec_ok demo_cfg_wired(3)
        demo_hash_ascii demo_cfg_wired(1,2) demo_marshals demo_marshals demo_no_empty demo_db_ok
        demo_created refl])

theorem order_placed_only_on_open_market_witness:
  "\<exists>n mk. spot_GetMarketByID demo n 2 = Inr mk \<and> Market_Enabled mk \<and> Market_DeletedAt mk = None"
  using demo_after_facts(2) by (intro order_placed_only_on_open_market [OF demo_created]) auto

text \<open>A market that the spot service reports as disabled.\<close>

definition demo_disabled :: order_env where
  "demo_disabled = demo\<lparr>spot_GetMarketByID := \<lambda>n m. Inr \<lparr>Market_ID = m, Market_Name = ''BTC-USDT'',
     Market_Enabled = False, Market_DeletedAt = None, Market_UpdatedAt = 1700000000000000000\<rparr>\<rparr>"

theorem rejected_request_is_freed_witness:
  "fst (CreateOrder demo_disabled demo_world demo_cfg 1 2 OrderTypeLimit (Decimal 5 0) 3) =
     Inl (Errorf ''OrderService.CreateOrder: '' (ErrDisabled 2) '''') \<and>
   idem_view demo_disabled 0
     (kv (snd (CreateOrder demo_disabled demo_world demo_cfg 1 2 OrderTypeLimit (Decimal 5 0) 3))) 1
     (buildRequestHash demo_disabled 2 OrderTypeLimit (Decimal 5 0) 3) = Free"
proof -
  let ?a = "adapter_Acquire demo_disabled demo_world (cfg_RequestTTL demo_cfg) 1
    (buildRequestHash demo_disabled 2 OrderTypeLimit (Decimal 5 0) 3)"
  let ?r = "CreateOrder demo_disabled demo_world demo_cfg 1 2 OrderTypeLimit (Decimal 5 0) 3"
  have r: "fst ?r = Inl (Errorf ''OrderService.CreateOrder: '' (ErrDisabled 2) '''')" by code_simp
  have "(case fst ?a of Inl e \<Rightarrow> False | Inr (i, acquired) \<Rightarrow> acquired)" by code_simp
  then obtain ir where a: "?a = (Inr (ir, True), snd ?a)"
    by (cases "fst ?a") (auto simp: prod_eq_iff)
  have ok: "all_success demo_disabled"
    using demo_success(1) by (simp add: demo_disabled_def all_success_def)
  have "?r = (Inl (Errorf ''OrderService.CreateOrder: '' (ErrDisabled 2) ''''), snd ?r)"
    using r by (simp add: prod_eq_iff)
  from rejected_request_is_freed [OF ok a this] r show ?thesis by simp
qed

theorem get_order_status_owner_only_witness:
  "db (snd (GetOrderStatus demo demo_after demo_cfg 1006 1)) = db demo_after \<and>
   (\<exists>r \<in> set (orders (db demo_after)). row_id r = 1006 \<and> row_user_id r = 1 \<and>
      row_status r = OrderStatusCreated)"
proof -
  have "GetOrderStatus demo demo_after demo_cfg 1006 1 =
      (Inr OrderStatusCreated, snd (GetOrderStatus demo demo_after demo_cfg 1006 1))"
    using demo_after_facts(4) by (simp add: prod_eq_iff)
  from get_order_status_owner_only [OF this] show ?thesis .
qed

theorem foreign_order_not_found_witness:
  "fst (GetOrderStatus demo demo_after demo_cfg 1006 4) =
     Inl (Errorf ''OrderService.GetOrderStatus: '' (ErrNotFound 1006) '''')"
proof (rule foreign_order_not_found [OF demo_success(1)])
  show "fst (checkRateLimit demo demo_after 4 (cfg_GetLimiter demo_cfg)) = Inr ()"
    by (rule demo_after_facts(5))
  show "row_user_id r \<noteq> 4" if "r \<in> set (orders (db demo_after))" for r
    using that demo_after_facts(3) by (auto simp: map_eq_Cons_conv)
qed

theorem market_block_queue_bounded_witness:
  "length (marketBlockQueue (snd (validateMarket demo_disabled demo_world 2))) \<le> marketBlockQueueSize \<and>
   length (marketBlockQueue (market_block_worker demo_disabled demo_cfg demo_world)) \<le> marketBlockQueueSize \<and>
   marketBlockQueue (snd (validateMarket demo_disabled (demo_world\<lparr>marketBlockClosed := True\<rparr>) 2)) = []"
  using market_block_queue_bounded [of demo_world demo_disabled 2 demo_cfg]
    market_block_queue_bounded [of "demo_world\<lparr>marketBlockClosed := True\<rparr>" demo_disabled 2 demo_cfg]
  by (simp add: demo_world_def)

theorem request_text_injective_witness:
  "requestText demo 2 OrderTypeLimit (Decimal 50 0) 3 = requestText demo 2 OrderTypeLimit (Decimal 5 1) 3 \<and>
   (2 = (2 :: uuid) \<and> OrderType_String OrderTypeLimit = OrderType_String OrderTypeLimit \<and>
    dec_String demo (Decimal 50 0) = dec_String demo (Decimal 5 1) \<and> 3 = (3 :: int))"
proof -
  have eq: "requestText demo 2 OrderTypeLimit (Decimal 50 0) 3 = requestText demo 2 OrderTypeLimit (Decimal 5 1) 3"
    by (simp add: requestText_def demo_def)
  have "CHR ''|'' \<notin> set (dec_String demo d)" for d
    by (cases d) (simp add: demo_def show_int_no_bar)
  from request_text_injective [OF demo_uuid_ok this eq] eq show ?thesis by blast
qed

section \<open>A commit whose answer is lost\<close>

text \<open>
  The environment \<open>demo\<close>, except that the commit of the first order takes effect while its
  answer is lost.
\<close>

definition demo_ambiguous :: order_env where
  "demo_ambiguous = demo\<lparr>env_outcome := \<lambda>n. if n = 12 then Applied FaultDeadline else Success\<rparr>"

definition demo_lost :: order_world where
  "demo_lost = snd (CreateOrder demo_ambiguous demo_world demo_cfg 1 2 OrderTypeLimit (Decimal 5 0) 3)"

theorem lost_commit_answer_duplicates_order_witness:
  "\<exists>i j. order_placed demo_ambiguous 1 2 OrderTypeLimit (Decimal 5 0) 3 (db demo_world) i (db demo_lost) \<and>
     order_placed demo_ambiguous 1 2 OrderTypeLimit (Decimal 5 0) 3 (db demo_lost) j
       (db (snd (CreateOrder demo_ambiguous demo_lost demo_cfg 1 2 OrderTypeLimit (Decimal 5 0) 3))) \<and> i \<noteq> j"
proof -
  let ?c = "\<lambda>w. CreateOrder demo_ambiguous w demo_cfg 1 2 OrderTypeLimit (Decimal 5 0) 3"
  have run: "case ?c demo_world of (r, w) \<Rightarrow>
      \<not> is_ok r \<and> map row_id (orders (db w)) = [1006] \<and> is_ok (fst (?c w))"
    by code_simp
  have "\<not> is_ok (fst (?c demo_world))" using run by (simp add: split_beta)
  then obtain err where err: "?c demo_world = (Inl err, demo_lost)"
    by (cases "fst (?c demo_world)") (auto simp: demo_lost_def prod_eq_iff)
  have "is_ok (fst (?c demo_lost))" using run by (simp add: demo_lost_def split_beta)
  then obtain j st where j: "?c demo_lost = (Inr (j, st), snd (?c demo_lost))"
    by (cases "fst (?c demo_lost)") (auto simp: prod_eq_iff)
  have "map row_id (orders (db demo_lost)) = [1006]" using run by (simp add: demo_lost_def split_beta)
  then have "db demo_lost \<noteq> db demo_world" by (auto simp: demo_world_def)
  moreover have "env_outcome demo_ambiguous n \<noteq> Lost f" for n f by (simp add: demo_ambiguous_def)
  ultimately show ?thesis
    using lost_commit_answer_duplicates_order [OF err _ _ refl refl j] by blast
qed

end
