(* ===== verification/Kafka_Producer.thy ===== *)
theory Kafka_Producer
  imports Environment "HOL-Library.AList"
begin

text \<open>
  \<open>shared/infrastructure/kafka/producer\<close>: the client that hands messages to the
  asynchronous producer of the Kafka library and waits for the verdict, one request object
  for each message, and the producer that fixes a default topic.

  The client library is read through the environment: which case each \<open>select\<close> takes, and
  whether the broker took a message whose success nobody reported.
\<close>

section \<open>Requests\<close>

text \<open>\<open>sync.Once\<close> and the channel \<open>done\<close>: a request is finished at most once.\<close>

record publishRequest =
  req_topic :: string
  req_done :: bool
  req_err :: "go_error option"

definition finish :: "publishRequest \<Rightarrow> go_error option \<Rightarrow> publishRequest" where
  "finish r err = (if req_done r then r else r\<lparr>req_done := True, req_err := err\<rparr>)"

text \<open>The acknowledgement loop, for the message of one request.\<close>

definition handleSuccess :: "publishRequest \<Rightarrow> publishRequest" where
  "handleSuccess r = finish r None"

definition handleError :: "publishRequest \<Rightarrow> fault \<Rightarrow> publishRequest" where
  "handleError r f = finish r (Some (fault_error f))"

fun handle_ack :: "publishRequest \<Rightarrow> ack \<Rightarrow> publishRequest" where
  "handle_ack r AckSuccess = handleSuccess r"
| "handle_ack r (AckError f) = handleError r f"

definition result_of :: "publishRequest \<Rightarrow> go_error + unit" where
  "result_of r = (case req_err r of None \<Rightarrow> Inr () | Some e \<Rightarrow> Inl e)"

section \<open>Publishing\<close>

definition enqueue ::
  "'e env_scheme \<Rightarrow> 'a base_scheme \<Rightarrow> publishRequest \<Rightarrow> (go_error + publishRequest) \<times> 'a base_scheme" where
  "enqueue E w request =
     (case env_enqueue E (tick w) of
        EnqueueCtxDone f \<Rightarrow> (Inl (fault_error f), step w)
      | EnqueueClosing \<Rightarrow> (Inl (Kafka ErrProducerUnavailable), step w)
      | EnqueueInput \<Rightarrow> (Inr request, step w))"

text \<open>
  The broker has the message if it reported a success, and may have it otherwise. The wait
  for the verdict ends with the verdict, with the context, or with the end of the client.
\<close>

definition accepts :: "wait_case \<Rightarrow> bool \<Rightarrow> bool" where
  "accepts c b \<longleftrightarrow> c = WaitDone AckSuccess \<or> c = WaitClosed (Some AckSuccess) \<or> b"

definition waitPublishResult ::
  "'e env_scheme \<Rightarrow> 'a base_scheme \<Rightarrow> publishRequest \<Rightarrow> (go_error + unit) \<times> 'a base_scheme" where
  "waitPublishResult E w request =
     (case env_wait E (tick w) of
        WaitDone a \<Rightarrow> (result_of (handle_ack request a), step w)
      | WaitCtxDone f \<Rightarrow> (Inl (fault_error f), step w)
      | WaitClosed a \<Rightarrow>
          (let r = (case a of None \<Rightarrow> request | Some x \<Rightarrow> handle_ack request x) in
           if req_done r then (result_of r, step w)
           else (result_of (finish r (Some (Kafka ErrProducerUnavailable))), step w)))"

definition publish ::
  "'e env_scheme \<Rightarrow> 'a base_scheme \<Rightarrow> string \<Rightarrow> Message \<Rightarrow> (go_error + unit) \<times> 'a base_scheme" where
  "publish E w defaultTopic message =
     (case env_ctx E (tick w) of
        Some f \<Rightarrow> (Inl (fault_error f), step w)
      | None \<Rightarrow>
          (let w1 = step w;
               topic = (if Msg_Topic message \<noteq> '''' then Msg_Topic message else defaultTopic);
               headers = env_inject E (tick w1) (Msg_Headers message);
               w2 = step w1;
               request = \<lparr>req_topic = topic, req_done = False, req_err = None\<rparr>;
               producerMessage = \<lparr>PM_Topic = topic, PM_Key = Msg_Key message,
                 PM_Value = Msg_Value message, PM_Headers = headers\<rparr>
           in case enqueue E w2 request of
                (Inl err, w3) \<Rightarrow> (Inl err, w3)
              | (Inr request', w3) \<Rightarrow>
                  waitPublishResult E
                    (if accepts (env_wait E (tick w3)) (env_accepted E (tick w3))
                     then w3\<lparr>kafka := kafka w3 @ [producerMessage]\<rparr> else w3) request'))"

definition SendMessage ::
  "'e env_scheme \<Rightarrow> 'a base_scheme \<Rightarrow> string \<Rightarrow> Message \<Rightarrow> (go_error + unit) \<times> 'a base_scheme" where
  "SendMessage E w topic message = publish E w topic message"

definition Send ::
  "'e env_scheme \<Rightarrow> 'a base_scheme \<Rightarrow> string \<Rightarrow> bytes \<Rightarrow> bytes \<Rightarrow> (go_error + unit) \<times> 'a base_scheme" where
  "Send E w topic key val = SendMessage E w topic
     \<lparr>Msg_Headers = [], Msg_Timestamp = zero_time, Msg_BlockTimestamp = zero_time,
      Msg_Key = key, Msg_Value = val, Msg_Topic = '''', Msg_Partition = 0, Msg_Offset = 0\<rparr>"

section \<open>What a send does to the broker\<close>

lemma finish_finish [simp]: "finish (finish r e) e' = finish r e"
  by (simp add: finish_def)

text \<open>The message a send offers to the broker: the topic of the message, or else the default.\<close>

definition offered :: "string \<Rightarrow> Message \<Rightarrow> ProducerMessage \<Rightarrow> bool" where
  "offered topic m p \<longleftrightarrow> PM_Key p = Msg_Key m \<and> PM_Value p = Msg_Value m \<and>
     PM_Topic p = (if Msg_Topic m = '''' then topic else Msg_Topic m)"

text \<open>A send appends its message to the log at most once, and does so when it reports success.\<close>

lemma waitPublishResult_world [simp]: "snd (waitPublishResult E w r) = step w"
  by (simp add: waitPublishResult_def Let_def split: wait_case.split)

lemma handle_ack_None: "\<not> req_done r \<Longrightarrow> req_err (handle_ack r a) = None \<longleftrightarrow> a = AckSuccess"
  by (cases a) (simp_all add: handleSuccess_def handleError_def finish_def)

lemma waitPublishResult_Inr:
  "fst (waitPublishResult E w r) = Inr () \<Longrightarrow> req_done r = False \<Longrightarrow>
     accepts (env_wait E (tick w)) b"
  by (auto simp: waitPublishResult_def accepts_def Let_def result_of_def finish_def handle_ack_None
      split: wait_case.splits option.splits if_splits)

lemma SendMessage_log:
  obtains (sent) p where "offered topic m p" "kafka (snd (SendMessage E w topic m)) = kafka w @ [p]"
  | (unsent) e where "kafka (snd (SendMessage E w topic m)) = kafka w"
      "fst (SendMessage E w topic m) = Inl e"
proof (cases "env_ctx E (tick w) = None \<and> env_enqueue E (Suc (Suc (tick w))) = EnqueueInput")
  case True
  let ?w3 = "step (step (step w))" and ?r = "\<lparr>req_topic = if Msg_Topic m \<noteq> '''' then Msg_Topic m
      else topic, req_done = False, req_err = None\<rparr>"
  show ?thesis
  proof (cases "accepts (env_wait E (tick ?w3)) (env_accepted E (tick ?w3))")
    case True
    with \<open>env_ctx E (tick w) = None \<and> _\<close> show ?thesis
      by (intro sent [of "\<lparr>PM_Topic = if Msg_Topic m \<noteq> '''' then Msg_Topic m else topic,
           PM_Key = Msg_Key m, PM_Value = Msg_Value m,
           PM_Headers = env_inject E (Suc (tick w)) (Msg_Headers m)\<rparr>"])
        (simp_all add: SendMessage_def publish_def enqueue_def offered_def Let_def)
  next
    case False
    then have "fst (waitPublishResult E ?w3 ?r) \<noteq> Inr ()"
      using waitPublishResult_Inr [of E ?w3 ?r "env_accepted E (tick ?w3)"] by auto
    then obtain e where "fst (waitPublishResult E ?w3 ?r) = Inl e"
      by (cases "fst (waitPublishResult E ?w3 ?r)") auto
    with False \<open>env_ctx E (tick w) = None \<and> _\<close> show ?thesis
      by (intro unsent) (simp_all add: SendMessage_def publish_def enqueue_def Let_def)
  qed
next
  case False
  then show ?thesis
    by (intro unsent [of "case env_ctx E (tick w) of Some f \<Rightarrow> fault_error f | None \<Rightarrow>
          (case env_enqueue E (Suc (Suc (tick w))) of EnqueueCtxDone f \<Rightarrow> fault_error f
           | _ \<Rightarrow> Kafka ErrProducerUnavailable)"])
      (auto simp: SendMessage_def publish_def enqueue_def Let_def split: option.splits enqueue_case.splits)
qed

text \<open>A property that survives the passing of time and of messages survives a send.\<close>

lemma SendMessage_preserves:
  assumes s: "\<And>v. P v \<Longrightarrow> P (step v)" and k: "\<And>v p. P v \<Longrightarrow> P (v\<lparr>kafka := kafka v @ [p]\<rparr>)"
    and "P w"
  shows "P (snd (SendMessage E w topic m))"
proof -
  have "P (step (step (step w)))" using \<open>P w\<close> s by simp
  from this k [OF this] show ?thesis
    using s \<open>P w\<close>
    by (simp add: SendMessage_def publish_def enqueue_def Let_def
        split: option.splits enqueue_case.splits)
qed

lemma SendMessage_frame [frame]:
  "kv (snd (SendMessage E w topic m)) = kv w"
  "base.more (snd (SendMessage E w topic m)) = base.more w"
  by (rule SendMessage_preserves [where P = "\<lambda>v. kv v = kv w"]; simp)
    (rule SendMessage_preserves [where P = "\<lambda>v. base.more v = base.more w"]; simp)

end
