(* ===== verification/Kafka_Consumer.thy ===== *)
theory Kafka_Consumer
  imports Kafka_Producer
begin

text \<open>
  \<open>shared/infrastructure/kafka/consumer\<close>: the middlewares around a message handler
  (recovery from panics, retries, the dead letter queue), the message that is written to
  the dead letter queue, the handler of a consumer group that decides which offsets are
  marked, and the loop over the sessions of the group.

  A handler ends with success, with an error, or with a panic that unwinds the stack. The
  client library of Kafka delivers the messages of a claim and the outcome of a session; both
  are arguments.
\<close>

section \<open>Errors of the consumer\<close>

definition IsControlFlowError :: "go_error \<Rightarrow> bool" where
  "IsControlFlowError err \<longleftrightarrow>
     errors_Is err (Kafka ErrSkipMessage) \<or> errors_Is err (Kafka ErrRestartConsumerSession) \<or>
     errors_Is err (Kafka ErrMessageHandledByDLQ) \<or> errors_Is err (Kafka ErrStopConsumeClaim)"

text \<open>\<open>errors.As\<close> for the error types of the package: the first one of the tree.\<close>

fun has_MessageTooLarge :: "go_error \<Rightarrow> bool" where
  "has_MessageTooLarge (MessageTooLargeError _ _) = True"
| "has_MessageTooLarge (Errorf _ e _) = has_MessageTooLarge e"
| "has_MessageTooLarge (Errorf2 e1 e2) = (has_MessageTooLarge e1 \<or> has_MessageTooLarge e2)"
| "has_MessageTooLarge (NonRetryableError e) = has_MessageTooLarge e"
| "has_MessageTooLarge (RetryExhaustedError e _) = has_MessageTooLarge e"
| "has_MessageTooLarge (Joined es) = (\<exists>e \<in> set es. has_MessageTooLarge e)"
| "has_MessageTooLarge _ = False"

fun has_NonRetryable :: "go_error \<Rightarrow> bool" where
  "has_NonRetryable (NonRetryableError _) = True"
| "has_NonRetryable (Errorf _ e _) = has_NonRetryable e"
| "has_NonRetryable (Errorf2 e1 e2) = (has_NonRetryable e1 \<or> has_NonRetryable e2)"
| "has_NonRetryable (RetryExhaustedError e _) = has_NonRetryable e"
| "has_NonRetryable (Joined es) = (\<exists>e \<in> set es. has_NonRetryable e)"
| "has_NonRetryable _ = False"

fun as_RetryExhausted :: "go_error \<Rightarrow> (go_error \<times> int) option" where
  "as_RetryExhausted (RetryExhaustedError e n) = Some (e, n)"
| "as_RetryExhausted (Errorf _ e _) = as_RetryExhausted e"
| "as_RetryExhausted (Errorf2 e1 e2) =
     (case as_RetryExhausted e1 of Some x \<Rightarrow> Some x | None \<Rightarrow> as_RetryExhausted e2)"
| "as_RetryExhausted (NonRetryableError e) = as_RetryExhausted e"
| "as_RetryExhausted (Joined es) =
     (case filter (\<lambda>r. r \<noteq> None) (map as_RetryExhausted es) of [] \<Rightarrow> None | r # _ \<Rightarrow> r)"
| "as_RetryExhausted _ = None"

definition IsNonRetryableError :: "go_error \<Rightarrow> bool" where
  "IsNonRetryableError err \<longleftrightarrow>
     has_MessageTooLarge err \<or> has_NonRetryable err \<or> IsControlFlowError err"

section \<open>Handlers and middlewares\<close>

datatype hresult = Handled | Failed go_error | Panicked string

type_synonym 'w handler = "'w \<Rightarrow> Message \<Rightarrow> hresult \<times> 'w"
type_synonym 'w middleware = "'w handler \<Rightarrow> 'w handler"

definition PanicRecoveryMiddleware :: "'w middleware" where
  "PanicRecoveryMiddleware next w msg =
     (case next w msg of
        (Panicked r, w1) \<Rightarrow> (Failed (NewError (''panic recovered in kafka handler: '' @ r)), w1)
      | (Handled, w1) \<Rightarrow> (Handled, w1)
      | (Failed err, w1) \<Rightarrow> (Failed err, w1))"

text \<open>
  The delay before the next attempt. Multiplying a duration wraps around at 64 bits;
  \<open>float64\<close> arithmetic is exact here, and its conversion to a duration truncates. What a number
  that is none becomes depends on the machine, and is \<open>other\<close>.
\<close>

definition retryDelay :: "rat \<times> bool \<Rightarrow> duration \<Rightarrow> duration \<Rightarrow> int \<Rightarrow> float64 \<Rightarrow> duration" where
  "retryDelay rnd other backoff attempt jitter =
     (let base = wrap64 (backoff * (attempt + 1)) in
      if base \<le> 0 \<or> (case jitter of Finite q \<Rightarrow> q \<le> 0 | PosInf \<Rightarrow> False | NegInf \<Rightarrow> True | NaN \<Rightarrow> False) then base
      else
        (let delta = (case jitter of Finite q \<Rightarrow> \<lfloor>fst rnd * q * of_int base\<rfloor> | _ \<Rightarrow> other) in
         if snd rnd then wrap64 (base - delta) else wrap64 (base + delta)))"

text \<open>
  One attempt after another: \<open>fuel\<close> is the number of attempts the range of the loop still
  has. The loop ends early with a success, an error that is not worth a retry, a panic, or
  when the context ends during the pause.
\<close>

fun retry_loop ::
  "'e env_scheme \<Rightarrow> 'a base_scheme handler \<Rightarrow> int \<Rightarrow> duration \<Rightarrow> float64 \<Rightarrow> nat \<Rightarrow> int \<Rightarrow>
   'a base_scheme \<Rightarrow> Message \<Rightarrow> hresult \<times> 'a base_scheme" where
  "retry_loop E next maxRetries backoff jitter 0 attempt w message = (Handled, w)"
| "retry_loop E next maxRetries backoff jitter (Suc fuel) attempt w message =
     (case next w message of
        (Handled, w1) \<Rightarrow> (Handled, w1)
      | (Panicked r, w1) \<Rightarrow> (Panicked r, w1)
      | (Failed err, w1) \<Rightarrow>
          if IsNonRetryableError err then (Failed err, w1)
          else if attempt < maxRetries then
            (let sleep = retryDelay (env_rand E (tick w1)) (env_float_duration E) backoff attempt jitter; w2 = step w1 in
             case env_ctx E (tick w2) of
               Some f \<Rightarrow> (Failed (Errorf2 (Kafka ErrStopConsumeClaim) (fault_error f)), step w2)
             | None \<Rightarrow> retry_loop E next maxRetries backoff jitter fuel (attempt + 1) (step w2) message)
          else (Failed (RetryExhaustedError err maxRetries), w1))"

definition RetryMiddleware ::
  "'e env_scheme \<Rightarrow> int \<Rightarrow> duration \<Rightarrow> float64 \<Rightarrow> 'a base_scheme middleware" where
  "RetryMiddleware E maxRetries0 backoff jitter0 next w message =
     (let maxRetries = (if maxRetries0 < 0 then 0 else maxRetries0);
          jitter1 = (if float_less_rat jitter0 0 then Finite 0 else jitter0);
          jitter = (if float_greater_rat jitter1 1 then Finite 1 else jitter1)
      in retry_loop E next maxRetries backoff jitter (nat (wrap64 (maxRetries + 1))) 0 w message)"

section \<open>The dead letter queue\<close>

text \<open>The loop that drops bytes from the end until the rest is valid.\<close>

function drop_invalid :: "bytes \<Rightarrow> bytes" where
  "drop_invalid s = (if s \<noteq> [] \<and> \<not> utf8_Valid s then drop_invalid (butlast s) else s)"
  by pat_completeness auto
termination
  by (relation "measure length") auto

declare drop_invalid.simps [simp del]

definition truncateUTF8Bytes :: "bytes \<Rightarrow> int \<Rightarrow> bytes" where
  "truncateUTF8Bytes data limit =
     (if limit \<le> 0 then []
      else if int (length data) \<le> limit then data
      else drop_invalid (take (nat limit) data))"

definition messageSize :: "Message \<Rightarrow> int" where
  "messageSize m = int (length (Msg_Key m)) + int (length (Msg_Value m)) +
     sum_list (map (\<lambda>(k, v). int (length k) + int (length v)) (Msg_Headers m))"

definition dlqErrorMaxBytes :: int where "dlqErrorMaxBytes = 2 * 1024"

definition dlqEssentialHeaders :: "string list" where
  "dlqEssentialHeaders =
     [''traceparent'', ''dlq-original-topic'', ''dlq-original-partition'', ''dlq-original-offset'',
      ''dlq-attempts-total'', ''dlq-error'', ''dlq-payload-intact'', ''dlq-metadata-trimmed'',
      ''dlq-original-message-size'', ''dlq-original-payload-size'']"

text \<open>Assignment to a key of a map, and its removal.\<close>

abbreviation set_header :: "string \<Rightarrow> bytes \<Rightarrow> headers \<Rightarrow> headers" where
  "set_header k v hs \<equiv> AList.update k v hs"

definition buildDLQHeaders :: "'e env_scheme \<Rightarrow> Message \<Rightarrow> go_error \<Rightarrow> int \<Rightarrow> headers" where
  "buildDLQHeaders E m lastError retryCount =
     (let h0 = Msg_Headers m;
          h1 = set_header ''dlq-original-topic'' (Msg_Topic m) h0;
          h2 = set_header ''dlq-original-partition'' (show_int (Msg_Partition m)) h1;
          h3 = set_header ''dlq-original-offset'' (show_int (Msg_Offset m)) h2;
          h4 = set_header ''dlq-attempts-total'' (show_int retryCount) h3;
          h5 = set_header ''dlq-error''
            (truncateUTF8Bytes (error_text (uuid_String E) (duration_String E) lastError)
               dlqErrorMaxBytes) h4
      in set_header ''dlq-payload-intact'' ''false'' h5)"

definition newDLQMessage :: "Message \<Rightarrow> headers \<Rightarrow> Message" where
  "newDLQMessage m hs = \<lparr>Msg_Headers = hs, Msg_Timestamp = Msg_Timestamp m,
     Msg_BlockTimestamp = Msg_BlockTimestamp m, Msg_Key = Msg_Key m, Msg_Value = Msg_Value m,
     Msg_Topic = '''', Msg_Partition = Msg_Partition m, Msg_Offset = Msg_Offset m\<rparr>"

definition shouldTruncate :: "Message \<Rightarrow> int \<Rightarrow> bool" where
  "shouldTruncate m maxBytes \<longleftrightarrow> maxBytes > 0 \<and> messageSize m > maxBytes"

definition trimDLQHeadersToEssential :: "Message \<Rightarrow> Message" where
  "trimDLQHeadersToEssential m =
     m\<lparr>Msg_Headers := filter (\<lambda>(k, v). k \<in> set dlqEssentialHeaders) (Msg_Headers m)\<rparr>"

definition header_value :: "string \<Rightarrow> headers \<Rightarrow> bytes" where
  "header_value k hs = (case map_of hs k of None \<Rightarrow> [] | Some v \<Rightarrow> v)"

definition buildDLQMessage :: "'e env_scheme \<Rightarrow> Message \<Rightarrow> go_error \<Rightarrow> int \<Rightarrow> int \<Rightarrow> Message" where
  "buildDLQMessage E message lastError retryCount maxMessageBytes =
     (let m0 = newDLQMessage message (buildDLQHeaders E message lastError retryCount) in
      if \<not> shouldTruncate m0 maxMessageBytes then m0
      else
        (let m1 = m0\<lparr>Msg_Headers :=
               set_header ''dlq-original-payload-size'' (show_int (int (length (Msg_Value message))))
                 (set_header ''dlq-original-message-size'' (show_int (messageSize message))
                    (set_header ''dlq-metadata-trimmed'' ''true'' (Msg_Headers m0)))\<rparr>;
             m2 = trimDLQHeadersToEssential m1;
             m3 = (if shouldTruncate m2 maxMessageBytes
                   then m2\<lparr>Msg_Headers := set_header ''dlq-error''
                     (truncateUTF8Bytes (header_value ''dlq-error'' (Msg_Headers m2)) 256)
                     (Msg_Headers m2)\<rparr> else m2);
             m4 = (if shouldTruncate m3 maxMessageBytes
                   then m3\<lparr>Msg_Headers := AList.delete ''dlq-error'' (Msg_Headers m3)\<rparr> else m3)
         in m4))"

text \<open>The publisher of the queue is a topic of the producer, or none is configured.\<close>

definition sendToDLQ ::
  "'e env_scheme \<Rightarrow> 'a base_scheme \<Rightarrow> Message \<Rightarrow> string option \<Rightarrow> go_error \<Rightarrow> int \<Rightarrow> int \<Rightarrow>
   hresult \<times> 'a base_scheme" where
  "sendToDLQ E w message dlqPublisher lastErr retryCount maxMessageBytes =
     (case env_ctx E (tick w) of
        Some f \<Rightarrow> (Failed (Errorf2 (Kafka ErrStopConsumeClaim) (fault_error f)), step w)
      | None \<Rightarrow>
          (case dlqPublisher of
             None \<Rightarrow> (Failed lastErr, step w)
           | Some topic \<Rightarrow>
               (case SendMessage E (step w) topic
                      (buildDLQMessage E message lastErr retryCount maxMessageBytes) of
                  (Inl dlqError, w1) \<Rightarrow> (Failed dlqError, w1)
                | (Inr _, w1) \<Rightarrow> (Failed (Kafka ErrMessageHandledByDLQ), w1))))"

definition DLQMiddleware ::
  "'e env_scheme \<Rightarrow> string option \<Rightarrow> int \<Rightarrow> 'a base_scheme middleware" where
  "DLQMiddleware E dlqPublisher maxMessageBytes next w message =
     (case next w message of
        (Handled, w1) \<Rightarrow> (Handled, w1)
      | (Panicked r, w1) \<Rightarrow> (Panicked r, w1)
      | (Failed err0, w1) \<Rightarrow>
          if IsControlFlowError err0 then (Failed err0, w1)
          else
            (let (err, retryCount) =
               (case as_RetryExhausted err0 of
                  Some (e, n) \<Rightarrow> (e, n + 1)
                | None \<Rightarrow> (err0, 0))
             in if IsControlFlowError err then (Failed err, w1)
                else sendToDLQ E w1 message dlqPublisher err retryCount maxMessageBytes))"

definition applyMiddlewares :: "'w handler \<Rightarrow> 'w middleware list \<Rightarrow> 'w handler" where
  "applyMiddlewares handler middlewares = foldr (\<lambda>m h. m h) middlewares handler"

text \<open>
  The handler a consumer runs: \<open>New\<close> puts the recovery from panics in front of the
  middlewares it is given, and the order service gives it the dead letter queue, if that is
  enabled, and the retries.
\<close>

record ConsumerConfig =
  DLQEnabled :: bool
  DLQPublisher :: "string option"
  DLQMaxMessageBytes :: int
  MaxRetries :: int
  RetryBackoff :: duration
  RetryJitter :: float64

definition New :: "'w middleware list \<Rightarrow> 'w handler \<Rightarrow> 'w handler" where
  "New middlewares handler = applyMiddlewares handler (PanicRecoveryMiddleware # middlewares)"

definition provideConsumerService ::
  "'e env_scheme \<Rightarrow> ConsumerConfig \<Rightarrow> 'a base_scheme handler \<Rightarrow> 'a base_scheme handler" where
  "provideConsumerService E cfg =
     New ((if DLQEnabled cfg then [DLQMiddleware E (DLQPublisher cfg) (DLQMaxMessageBytes cfg)] else []) @
          [RetryMiddleware E (MaxRetries cfg) (RetryBackoff cfg) (RetryJitter cfg)])"

section \<open>The group handler\<close>

text \<open>
  A record of the client library; \<open>None\<close> stands for a nil header or a nil key. The state of
  a session is the list of offsets that were marked.
\<close>

record ConsumerMessage =
  CM_Headers :: "(string option \<times> bytes) option list"
  CM_Timestamp :: instant
  CM_BlockTimestamp :: instant
  CM_Key :: bytes
  CM_Value :: bytes
  CM_Topic :: string
  CM_Partition :: int
  CM_Offset :: int

fun extractHeaders :: "(string option \<times> bytes) option list \<Rightarrow> headers \<Rightarrow> headers" where
  "extractHeaders [] acc = acc"
| "extractHeaders (Some (Some k, v) # hs) acc = extractHeaders hs (set_header k v acc)"
| "extractHeaders (_ # hs) acc = extractHeaders hs acc"

definition startMessageProcessing :: "ConsumerMessage \<Rightarrow> Message" where
  "startMessageProcessing m =
     \<lparr>Msg_Headers = extractHeaders (CM_Headers m) [], Msg_Timestamp = CM_Timestamp m,
      Msg_BlockTimestamp = CM_BlockTimestamp m, Msg_Key = CM_Key m, Msg_Value = CM_Value m,
      Msg_Topic = CM_Topic m, Msg_Partition = CM_Partition m, Msg_Offset = CM_Offset m\<rparr>"

text \<open>
  The error the claim ends with, if any, and the offsets marked so far. A result that is a
  panic never reaches this point: the recovery is the outermost middleware.
\<close>

definition handleMessageResult ::
  "int list \<Rightarrow> ConsumerMessage \<Rightarrow> go_error option \<Rightarrow> go_error option \<times> int list" where
  "handleMessageResult marks message err =
     (case err of
        None \<Rightarrow> (None, marks @ [CM_Offset message])
      | Some e \<Rightarrow>
          if errors_Is e (Kafka ErrMessageHandledByDLQ) then (None, marks @ [CM_Offset message])
          else if errors_Is e (Kafka ErrSkipMessage) then (None, marks @ [CM_Offset message])
          else if errors_Is e (Kafka ErrRestartConsumerSession) then (Some e, marks)
          else if errors_Is e (Kafka ErrStopConsumeClaim) then (None, marks)
          else if IsNonRetryableError e then (None, marks @ [CM_Offset message])
          else (Some e, marks))"

definition handleMessage ::
  "'a base_scheme handler \<Rightarrow> 'a base_scheme \<Rightarrow> int list \<Rightarrow> ConsumerMessage \<Rightarrow>
   (go_error option \<times> int list) \<times> 'a base_scheme" where
  "handleMessage handler w marks message =
     (case handler w (startMessageProcessing message) of
        (Handled, w1) \<Rightarrow> (handleMessageResult marks message None, w1)
      | (Failed err, w1) \<Rightarrow> (handleMessageResult marks message (Some err), w1)
      | (Panicked r, w1) \<Rightarrow> ((Some (NewError r), marks), w1))"

text \<open>
  The claim delivers its messages in order; when the context of the session is done the
  \<open>select\<close> may still take a message that is ready, so \<open>stops\<close> says which case it takes.
\<close>

fun ConsumeClaim ::
  "'a base_scheme handler \<Rightarrow> (nat \<Rightarrow> bool) \<Rightarrow> 'a base_scheme \<Rightarrow> int list \<Rightarrow> ConsumerMessage list \<Rightarrow>
   (go_error option \<times> int list) \<times> 'a base_scheme" where
  "ConsumeClaim handler stops w marks [] = ((None, marks), w)"
| "ConsumeClaim handler stops w marks (message # rest) =
     (if stops (tick w) then ((None, marks), step w)
      else
        (case handleMessage handler (step w) marks message of
           ((Some err, marks1), w1) \<Rightarrow> ((Some err, marks1), w1)
         | ((None, marks1), w1) \<Rightarrow> ConsumeClaim handler stops w1 marks1 rest))"

text \<open>
  The loop over sessions, for the sequence of outcomes of the library's \<open>Consume\<close>, each with
  the state of the context after it. \<open>None\<close>: the loop is still running when they are used up.
\<close>

fun Consume :: "(go_error option \<times> bool) list \<Rightarrow> (go_error + unit) option" where
  "Consume [] = None"
| "Consume ((None, ctxDone) # rest) = (if ctxDone then Some (Inr ()) else Consume rest)"
| "Consume ((Some err, ctxDone) # rest) =
     (if errors_Is err (Kafka ErrClosedConsumerGroup) then Some (Inr ())
      else if errors_Is err (Kafka ErrRestartConsumerSession) then Consume rest
      else Some (Inl err))"

end
