(* ===== verification/Kafka_Delivery.thy ===== *)
theory Kafka_Delivery
  imports Kafka_Consumer "HOL-Library.Sublist"
begin

text \<open>
  What the consumer guarantees of the messages it is given: how often a handler is called,
  what becomes of a message whose offset is marked, which offsets a claim marks, and what the
  message in the dead letter queue holds.
\<close>

section \<open>Truncation at a character boundary\<close>

lemma drop_invalid_valid: "utf8_Valid (drop_invalid s)"
proof (induction s rule: drop_invalid.induct)
  case (1 s)
  then show ?case
    by (subst drop_invalid.simps) (auto simp: utf8_Valid.simps [of "[]"])
qed

lemma drop_invalid_prefix: "prefix (drop_invalid s) s"
proof (induction s rule: drop_invalid.induct)
  case (1 s)
  then show ?case
    by (subst drop_invalid.simps) (auto intro: prefix_order.trans simp: prefixeq_butlast)
qed

lemma drop_invalid_longest:
  "prefix p s \<Longrightarrow> utf8_Valid p \<Longrightarrow> length p \<le> length (drop_invalid s)"
proof (induction s rule: drop_invalid.induct)
  case (1 s)
  show ?case
  proof (cases "s \<noteq> [] \<and> \<not> utf8_Valid s")
    case True
    with "1.prems" have "p \<noteq> s" by auto
    with "1.prems"(1) True have "prefix p (butlast s)"
      by (metis append_butlast_last_id prefix_snoc)
    with 1 True show ?thesis by (subst drop_invalid.simps) simp
  next
    case False
    with "1.prems"(1) show ?thesis by (subst drop_invalid.simps) (auto simp: prefix_length_le)
  qed
qed

lemma utf8_rune_take: "utf8_rune s = Some n \<Longrightarrow> n \<le> m \<Longrightarrow> utf8_rune (take m s) = Some n"
  by (cases s; cases m; cases "tl s"; cases "tl (tl s)"; cases "tl (tl (tl s))")
    (auto simp: Let_def take_Cons split: if_splits list.splits nat.splits)

lemma utf8_Valid_cut:
  "utf8_Valid s \<Longrightarrow> n \<le> length s \<Longrightarrow> \<exists>k. n \<le> k + 3 \<and> k \<le> n \<and> utf8_Valid (take k s)"
proof (induction s arbitrary: n rule: utf8_Valid.induct)
  case (1 s)
  show ?case
  proof (cases "s = []")
    case True
    then show ?thesis using 1 by (intro exI [of _ 0]) (simp add: utf8_Valid.simps [of "[]"])
  next
    case False
    with "1.prems"(1) obtain m where m: "utf8_rune s = Some m" "utf8_Valid (drop m s)"
      by (subst (asm) utf8_Valid.simps) (auto split: option.splits)
    note pos = utf8_rune_pos [OF m(1)]
    show ?thesis
    proof (cases "n < m")
      case True
      with pos show ?thesis by (intro exI [of _ 0]) (simp add: utf8_Valid.simps [of "[]"])
    next
      case False
      obtain k where k: "n - m \<le> k + 3" "k \<le> n - m" "utf8_Valid (take k (drop m s))"
        using "1.IH" [OF \<open>s \<noteq> []\<close> m(1) m(2), of "n - m"] "1.prems"(2) diff_le_mono
        by fastforce
      have "utf8_rune (take (m + k) s) = Some m" using m(1) by (rule utf8_rune_take) simp
      moreover have "drop m (take (m + k) s) = take k (drop m s)" by (simp add: drop_take)
      ultimately have "utf8_Valid (take (m + k) s)"
        using k(3) by (subst utf8_Valid.simps) simp
      with k False show ?thesis by (intro exI [of _ "m + k"]) auto
    qed
  qed
qed

text \<open>
  C35. Truncating a text to a number of bytes gives its longest prefix that is valid UTF-8 and
  fits, and costs at most three bytes when the text was valid UTF-8 itself.
\<close>

theorem truncate_longest_valid_prefix:
  assumes "0 < limit" and "limit < int (length data)"
  shows "prefix (truncateUTF8Bytes data limit) data \<and>
    int (length (truncateUTF8Bytes data limit)) \<le> limit \<and>
    utf8_Valid (truncateUTF8Bytes data limit) \<and>
    (\<forall>p. prefix p data \<and> int (length p) \<le> limit \<and> utf8_Valid p \<longrightarrow>
       length p \<le> length (truncateUTF8Bytes data limit)) \<and>
    (utf8_Valid data \<longrightarrow> limit \<le> int (length (truncateUTF8Bytes data limit)) + 3)"
proof -
  let ?s = "take (nat limit) data"
  have t: "truncateUTF8Bytes data limit = drop_invalid ?s"
    using assms by (simp add: truncateUTF8Bytes_def)
  have pre: "prefix ?s data" by (rule take_is_prefix)
  have longest: "length p \<le> length (drop_invalid ?s)"
    if "prefix p data" "int (length p) \<le> limit" "utf8_Valid p" for p
  proof -
    have "length p \<le> length ?s" using that(2) assms by simp
    then show ?thesis by (rule drop_invalid_longest [OF prefix_length_prefix [OF that(1) pre] that(3)])
  qed
  have "limit \<le> int (length (drop_invalid ?s)) + 3" if v: "utf8_Valid data"
  proof -
    obtain k where "nat limit \<le> k + 3" "k \<le> nat limit" "utf8_Valid (take k data)"
      using utf8_Valid_cut [OF v, of "nat limit"] assms by (metis nat_le_iff order_less_imp_le)
    then show ?thesis using longest [of "take k data"] assms by (auto simp: take_is_prefix nat_le_iff le_nat_iff)
  qed
  moreover have "int (length (drop_invalid ?s)) \<le> limit"
    using prefix_length_le [OF drop_invalid_prefix [of ?s]] assms by simp
  moreover have "prefix (drop_invalid ?s) data"
    using drop_invalid_prefix pre by (rule prefix_order.trans)
  ultimately show ?thesis unfolding t using longest drop_invalid_valid by blast
qed

section \<open>The message of the dead letter queue\<close>

lemma truncate_length: "limit \<ge> 0 \<Longrightarrow> int (length (truncateUTF8Bytes data limit)) \<le> limit"
  using prefix_length_le [OF drop_invalid_prefix [of "take (nat limit) data"]]
  by (auto simp: truncateUTF8Bytes_def)

lemma distinct_keys_update:
  "distinct (map fst hs) \<Longrightarrow> distinct (map fst (AList.update k v hs))"
  by (simp add: distinct_update)

lemma extractHeaders_distinct:
  "distinct (map fst acc) \<Longrightarrow> distinct (map fst (extractHeaders hs acc))"
  by (induction hs acc rule: extractHeaders.induct) (auto simp: distinct_update)

lemma buildDLQMessage_keeps [simp]:
  "Msg_Key (buildDLQMessage E m e n b) = Msg_Key m"
  "Msg_Value (buildDLQMessage E m e n b) = Msg_Value m"
  "Msg_Topic (buildDLQMessage E m e n b) = ''''"
  by (simp_all add: buildDLQMessage_def newDLQMessage_def trimDLQHeadersToEssential_def Let_def)

text \<open>The last two steps: a shorter error text, and if need be none.\<close>

definition shrink_error :: "Message \<Rightarrow> int \<Rightarrow> Message" where
  "shrink_error m2 maxBytes =
     (let m3 = (if shouldTruncate m2 maxBytes
                then m2\<lparr>Msg_Headers := set_header ''dlq-error''
                  (truncateUTF8Bytes (header_value ''dlq-error'' (Msg_Headers m2)) 256)
                  (Msg_Headers m2)\<rparr> else m2)
      in if shouldTruncate m3 maxBytes
         then m3\<lparr>Msg_Headers := AList.delete ''dlq-error'' (Msg_Headers m3)\<rparr> else m3)"

lemma shrink_error_cases:
  assumes "0 < maxBytes" and "fst ` set (Msg_Headers m) \<subseteq> K"
  shows "messageSize (shrink_error m maxBytes) \<le> maxBytes \<or>
    fst ` set (Msg_Headers (shrink_error m maxBytes)) \<subseteq> K - {''dlq-error''}"
proof -
  have upd: "fst ` set (AList.update k v hs) \<subseteq> insert k (fst ` set hs)" for k :: string and v hs
    unfolding image_set update_keys by auto
  have del: "fst ` set (AList.delete k hs) = fst ` set hs - {k}" for k :: string and hs
    unfolding image_set delete_keys by auto
  show ?thesis
    using assms(1) subset_trans [OF upd insert_mono [OF assms(2)]]
    by (auto simp: shrink_error_def shouldTruncate_def Let_def not_less del)
qed

text \<open>
  The message for the dead letter queue has the key and the payload of the original
  message and names no topic of its own. Either it fits into the limit for messages, or
  nothing but essential headers is left of it and the error text is gone.
\<close>

theorem dlq_message_fits_or_minimal:
  assumes "0 < maxBytes"
  shows "Msg_Key (buildDLQMessage E m err n maxBytes) = Msg_Key m \<and>
    Msg_Value (buildDLQMessage E m err n maxBytes) = Msg_Value m \<and>
    Msg_Topic (buildDLQMessage E m err n maxBytes) = '''' \<and>
    (messageSize (buildDLQMessage E m err n maxBytes) \<le> maxBytes \<or>
     fst ` set (Msg_Headers (buildDLQMessage E m err n maxBytes)) \<subseteq>
       set dlqEssentialHeaders - {''dlq-error''})"
proof (cases "shouldTruncate (newDLQMessage m (buildDLQHeaders E m err n)) maxBytes")
  case False
  then show ?thesis
    using assms buildDLQMessage_keeps [of E m err n maxBytes]
    by (simp add: buildDLQMessage_def Let_def shouldTruncate_def not_less)
next
  case True
  then obtain m2 where m2: "buildDLQMessage E m err n maxBytes =
      shrink_error (trimDLQHeadersToEssential m2) maxBytes"
    by (auto simp: buildDLQMessage_def shrink_error_def Let_def)
  have keys: "fst ` set (Msg_Headers (trimDLQHeadersToEssential m2)) \<subseteq> set dlqEssentialHeaders"
    by (auto simp: trimDLQHeadersToEssential_def)
  show ?thesis
    using shrink_error_cases [OF assms keys] buildDLQMessage_keeps [of E m err n maxBytes]
    unfolding m2 by blast
qed

section \<open>Retries\<close>

definition kept :: "('a base_scheme \<Rightarrow> bool) \<Rightarrow> 'a base_scheme handler \<Rightarrow> Message \<Rightarrow> bool" where
  "kept I h m \<longleftrightarrow> (\<forall>v. I v \<longrightarrow> I (step v) \<and> I (snd (h v m)))"

text \<open>
  Every way a run of the retries can end, with the attempt that ended it: \<open>v\<close> is the world
  that attempt was made in.
\<close>

lemma retry_loop_cases:
  assumes "retry_loop E h n b j fuel a w m = (r, w')" and "int fuel = n + 1 - a" and "a \<le> n"
    and "I w" and "kept I h m"
  shows "(\<exists>v. I v \<and> h v m = (r, w') \<and> (r = Handled \<or> (\<exists>p. r = Panicked p) \<or>
            (\<exists>e. r = Failed e \<and> IsNonRetryableError e))) \<or>
         (\<exists>v e. h v m = (Failed e, w') \<and> \<not> IsNonRetryableError e \<and>
            r = Failed (RetryExhaustedError e n)) \<or>
         (\<exists>f. r = Failed (Errorf2 (Kafka ErrStopConsumeClaim) (fault_error f)))"
  using assms(1-4)
proof (induction fuel arbitrary: a w)
  case (Suc fuel)
  obtain r0 w1 where st: "h w m = (r0, w1)" by fastforce
  with \<open>kept I h m\<close> Suc.prems(4) have "I w1" by (auto simp: kept_def dest!: spec [of _ w])
  note run = Suc.prems(1) [unfolded retry_loop.simps st prod.case]
  show ?case
  proof (cases r0)
    case (Failed e)
    note run = run [unfolded Failed hresult.case]
    consider "IsNonRetryableError e" | "\<not> IsNonRetryableError e" "\<not> a < n"
      | f where "\<not> IsNonRetryableError e" "a < n" "env_ctx E (tick (step w1)) = Some f"
      | "\<not> IsNonRetryableError e" "a < n" "env_ctx E (tick (step w1)) = None"
      by (cases "env_ctx E (tick (step w1))") auto
    then show ?thesis
    proof cases
      case 1
      with run st Failed Suc.prems(4) show ?thesis by (intro disjI1 exI [of _ w]) auto
    next
      case 2
      with run st Failed show ?thesis by (intro disjI2 disjI1 exI [of _ w] exI [of _ e]) simp
    next
      case 3
      with run show ?thesis by (auto simp: Let_def)
    next
      case 4
      with run have "retry_loop E h n b j fuel (a + 1) (step (step w1)) m = (r, w')"
        by (simp add: Let_def)
      then show ?thesis by (rule Suc.IH) (use 4 Suc.prems \<open>kept I h m\<close> \<open>I w1\<close> in \<open>simp_all add: kept_def\<close>)
    qed
  next
    case Handled
    with run st Suc.prems(4) show ?thesis by (intro disjI1 exI [of _ w]) simp
  next
    case (Panicked p)
    with run st Suc.prems(4) show ?thesis by (intro disjI1 exI [of _ w]) auto
  qed
qed simp

lemma RetryMiddleware_eq:
  assumes "0 \<le> n" and "n < max_int64"
  shows "\<exists>j'. RetryMiddleware E n b j h w m = retry_loop E h n b j' (nat (n + 1 - 0)) 0 w m"
  using assms by (auto simp: RetryMiddleware_def Let_def wrap64_id min_int64_def)

lemma RetryMiddleware_cases:
  assumes "RetryMiddleware E n b j h w m = (r, w')" and "0 \<le> n" and "n < max_int64"
    and "I w" and "kept I h m"
  obtains (returned) v where "I v" "h v m = (r, w')"
      "r = Handled \<or> (\<exists>p. r = Panicked p) \<or> (\<exists>e. r = Failed e \<and> IsNonRetryableError e)"
  | (exhausted) v e where "h v m = (Failed e, w')" "\<not> IsNonRetryableError e"
      "r = Failed (RetryExhaustedError e n)"
  | (stopped) f where "r = Failed (Errorf2 (Kafka ErrStopConsumeClaim) (fault_error f))"
proof -
  obtain j' where "retry_loop E h n b j' (nat (n + 1 - 0)) 0 w m = (r, w')"
    using RetryMiddleware_eq [OF assms(2,3), of E b j h w m] assms(1) by auto
  from retry_loop_cases [where I = I, OF this _ assms(2,4,5)] assms(2) show ?thesis
    by (auto intro: returned exhausted stopped)
qed

lemma retry_loop_calls:
  assumes "\<And>v. base.more (snd (h v m)) = Suc (base.more v)"
  shows "base.more (snd (retry_loop E h n b j fuel a w m)) \<le> base.more w + fuel"
proof (induction fuel arbitrary: a w)
  case (Suc fuel)
  obtain r0 w1 where step: "h w m = (r0, w1)" by fastforce
  then have w1: "base.more w1 = Suc (base.more w)" using assms [of w] by simp
  show ?case
  proof (cases r0)
    case (Failed e)
    then show ?thesis
      using step w1 Suc [of "a + 1" "step (step w1)"] by (auto simp: Let_def split: option.split)
  qed (use step w1 in auto)
qed simp

text \<open>
  The retry middleware returns after at most one call of the handler more than the
  configured number of retries, whatever the handler does: here the handler counts its calls
  in the world. A negative number of retries counts as none.
\<close>

theorem retry_calls_bounded:
  assumes "\<And>v. base.more (snd (h v m)) = Suc (base.more v)" and "n < max_int64"
  shows "base.more (snd (RetryMiddleware E n b j h w m)) \<le> base.more w + nat (max 0 n) + 1"
proof -
  have "nat (wrap64 ((if n < 0 then 0 else n) + 1)) = nat (max 0 n) + 1"
    using assms(2) by (auto simp: wrap64_id min_int64_def max_int64_def)
  then show ?thesis
    using retry_loop_calls [where n = "if n < 0 then 0 else n" and b = b and
        fuel = "nat (max 0 n) + 1" and a = 0 and w = w and E = E and h = h and m = m, OF assms(1)]
    by (simp add: RetryMiddleware_def Let_def)
qed

section \<open>What a marked offset means\<close>

text \<open>
  \<open>in_dlq topic m ks\<close>: the log holds a message for the topic of the dead letter queue with
  the key and the payload of \<open>m\<close>.
\<close>

definition in_dlq :: "string \<Rightarrow> Message \<Rightarrow> ProducerMessage list \<Rightarrow> bool" where
  "in_dlq topic m ks \<longleftrightarrow>
     (\<exists>p \<in> set ks. PM_Topic p = topic \<and> PM_Key p = Msg_Key m \<and> PM_Value p = Msg_Value m)"

lemma in_dlq_append: "in_dlq topic m ks \<Longrightarrow> prefix ks ks' \<Longrightarrow> in_dlq topic m ks'"
  by (auto simp: in_dlq_def prefix_def)

definition dlq_configured :: "ConsumerConfig \<Rightarrow> string \<Rightarrow> bool" where
  "dlq_configured cfg topic \<longleftrightarrow> DLQEnabled cfg \<and> DLQPublisher cfg = Some topic \<and>
     0 \<le> MaxRetries cfg \<and> MaxRetries cfg < max_int64"

lemma SendMessage_prefix: "prefix (kafka w) (kafka (snd (SendMessage E w topic m)))"
  by (rule SendMessage_log [of topic m E w]) simp_all

lemma handle_ack_Some:
  "req_err (handle_ack r a) = Some e \<Longrightarrow> req_err r = None \<Longrightarrow> \<exists>f. e = fault_error f"
  by (cases a) (auto simp: handleSuccess_def handleError_def finish_def split: if_splits)

lemma waitPublishResult_Inl:
  "fst (waitPublishResult E w r) = Inl e \<Longrightarrow> req_err r = None \<Longrightarrow>
     (\<exists>f. e = fault_error f) \<or> e = Kafka ErrProducerUnavailable"
  by (auto simp: waitPublishResult_def result_of_def finish_def Let_def dest: handle_ack_Some
      split: wait_case.splits option.splits if_splits)

lemma SendMessage_Inl:
  "fst (SendMessage E w topic m) = Inl e \<Longrightarrow>
     (\<exists>f. e = fault_error f) \<or> e = Kafka ErrProducerUnavailable"
  by (auto simp: SendMessage_def publish_def enqueue_def Let_def dest: waitPublishResult_Inl
      split: option.splits enqueue_case.splits)

lemma publisher_error_plain [simp]:
  "\<not> IsNonRetryableError (fault_error f)" "\<not> IsNonRetryableError (Kafka ErrProducerUnavailable)"
  "\<not> IsNonRetryableError (NewError s)"
  by (cases f; simp add: IsNonRetryableError_def IsControlFlowError_def)
    (simp_all add: IsNonRetryableError_def IsControlFlowError_def)

lemma fault_not_consumer [simp]: "errors_Is (fault_error f) (Kafka c) = False"
  by (cases f) auto

lemma stop_error [simp]:
  "errors_Is (Errorf2 (Kafka ErrStopConsumeClaim) (fault_error f)) (Kafka c) \<longleftrightarrow> c = ErrStopConsumeClaim"
  by (cases f) auto

lemma sendToDLQ_cases:
  obtains (sent) "fst (sendToDLQ E w m (Some topic) e n b) = Failed (Kafka ErrMessageHandledByDLQ)"
      "in_dlq topic m (kafka (snd (sendToDLQ E w m (Some topic) e n b)))"
  | (stopped) f where "fst (sendToDLQ E w m (Some topic) e n b) =
      Failed (Errorf2 (Kafka ErrStopConsumeClaim) (fault_error f))"
  | (failed) e' where "fst (sendToDLQ E w m (Some topic) e n b) = Failed e'"
      "\<not> IsNonRetryableError e'"
proof (cases "env_ctx E (tick w)")
  case (Some f)
  then show ?thesis by (intro stopped) (simp add: sendToDLQ_def)
next
  case None
  let ?m = "buildDLQMessage E m e n b"
  obtain r w1 where send: "SendMessage E (step w) topic ?m = (r, w1)" by fastforce
  show ?thesis
  proof (cases r)
    case (Inl e')
    with None send show ?thesis
      using SendMessage_Inl [of E "step w" topic ?m e']
      by (intro failed [of e']) (auto simp: sendToDLQ_def)
  next
    case (Inr x)
    obtain p where "offered topic ?m p" "kafka w1 = kafka w @ [p]"
      by (rule SendMessage_log [of topic ?m E "step w"]) (use send Inr in auto)
    with None send Inr show ?thesis
      by (intro sent) (auto simp: sendToDLQ_def in_dlq_def offered_def)
  qed
qed

lemma sendToDLQ_prefix: "prefix (kafka w) (kafka (snd (sendToDLQ E w m p e n b)))"
proof -
  have "prefix (kafka w) (kafka v)" if "SendMessage E (step w) topic d = (r, v)" for topic d r v
    using SendMessage_prefix [of "step w" E topic d] that by simp
  then show ?thesis by (auto simp: sendToDLQ_def split: option.split prod.split sum.split)
qed

text \<open>
  The chain of middlewares around a handler that is no part of the consumer's own control
  flow: either the handler succeeded on the message, or the message is in the dead letter
  queue, or the result is one that does not mark the offset.
\<close>

definition plain_handler :: "'w handler \<Rightarrow> bool" where
  "plain_handler h \<longleftrightarrow> (\<forall>w m e w'. h w m = (Failed e, w') \<longrightarrow> \<not> IsControlFlowError e \<and>
     as_RetryExhausted e = None)"

lemma DLQ_chain_cases:
  assumes plain: "plain_handler h" and cfg: "dlq_configured cfg topic"
    and run: "provideConsumerService E cfg h w m = (r, w')"
    and "I w" and "kept I h m"
  obtains (handled) v where "I v" "r = Handled" "h v m = (Handled, w')"
  | (queued) "r = Failed (Kafka ErrMessageHandledByDLQ)" "in_dlq topic m (kafka w')"
  | (stopped) f where "r = Failed (Errorf2 (Kafka ErrStopConsumeClaim) (fault_error f))"
  | (failed) e where "r = Failed e" "\<not> IsNonRetryableError e"
proof -
  let ?retry = "RetryMiddleware E (MaxRetries cfg) (RetryBackoff cfg) (RetryJitter cfg) h"
  let ?send = "\<lambda>v e n. sendToDLQ E v m (Some topic) e n (DLQMaxMessageBytes cfg)"
  obtain r1 w1 where st: "?retry w m = (r1, w1)" by fastforce
  have chain: "provideConsumerService E cfg h w m = PanicRecoveryMiddleware
      (DLQMiddleware E (Some topic) (DLQMaxMessageBytes cfg) ?retry) w m"
    using cfg by (simp add: provideConsumerService_def New_def applyMiddlewares_def dlq_configured_def)
  have send: thesis if "(r, w') = ?send v e n" for v e n
    using that queued stopped failed by (rule_tac sendToDLQ_cases [of E v m topic e n
        "DLQMaxMessageBytes cfg"]) (metis fst_conv snd_conv)+
  have sent: thesis if "PanicRecoveryMiddleware (\<lambda>_ _. ?send v e n) w m = (r, w')" for v e n
  proof (rule send)
    obtain r2 w2 where "?send v e n = (r2, w2)" by fastforce
    moreover have "\<nexists>s. r2 = Panicked s"
      by (rule sendToDLQ_cases [of E v m topic e n "DLQMaxMessageBytes cfg"]) (use calculation in auto)
    ultimately show "(r, w') = ?send v e n"
      using that by (cases r2) (auto simp: PanicRecoveryMiddleware_def)
  qed
  have n: "0 \<le> MaxRetries cfg" "MaxRetries cfg < max_int64"
    using cfg by (simp_all add: dlq_configured_def)
  show thesis
    using st n \<open>I w\<close> \<open>kept I h m\<close>
  proof (cases rule: RetryMiddleware_cases [where I = I])
    case (returned v)
    show ?thesis
    proof (cases r1)
      case Handled
      with returned run st chain show ?thesis
        by (intro handled [of v]) (auto simp: PanicRecoveryMiddleware_def DLQMiddleware_def)
    next
      case (Panicked p)
      with run st chain show ?thesis
        by (intro failed) (auto simp: PanicRecoveryMiddleware_def DLQMiddleware_def)
    next
      case (Failed e)
      with returned plain have "\<not> IsControlFlowError e" "as_RetryExhausted e = None"
        by (auto simp: plain_handler_def)
      with Failed run st chain show ?thesis
        by (intro sent [of w1 e 0]) (simp add: PanicRecoveryMiddleware_def DLQMiddleware_def)
    qed
  next
    case (exhausted v e)
    with plain have "\<not> IsControlFlowError e" "\<not> IsControlFlowError (RetryExhaustedError e (MaxRetries cfg))"
      by (auto simp: plain_handler_def IsControlFlowError_def)
    with exhausted run st chain show ?thesis
      by (intro sent [of w1 e "MaxRetries cfg + 1"])
        (simp add: PanicRecoveryMiddleware_def DLQMiddleware_def)
  next
    case (stopped f)
    with run st chain have "r = r1"
      by (simp add: PanicRecoveryMiddleware_def DLQMiddleware_def IsControlFlowError_def)
    with stopped that(3) show ?thesis by simp
  qed
qed

lemma RetryMiddleware_preserves:
  assumes "\<And>v. P v \<Longrightarrow> P (step v)" and "\<And>v. P v \<Longrightarrow> P (snd (h v m))" and "P w"
  shows "P (snd (RetryMiddleware E n b j h w m))"
proof -
  have "P v \<Longrightarrow> P (snd (retry_loop E h k b j' fuel a v m))" for k j' fuel a v
  proof (induction fuel arbitrary: a v)
    case (Suc fuel)
    obtain r0 w1 where st: "h v m = (r0, w1)" by fastforce
    with assms(2) [of v] Suc.prems have "P w1" by simp
    with st assms(1) Suc.IH show ?case by (cases r0) (auto simp: Let_def split: option.split)
  qed simp
  then show ?thesis using assms(3) by (simp add: RetryMiddleware_def Let_def)
qed

lemma sendToDLQ_preserves:
  assumes "\<And>v. P v \<Longrightarrow> P (step v)" and "\<And>v p. P v \<Longrightarrow> P (v\<lparr>kafka := kafka v @ [p]\<rparr>)" and "P w"
  shows "P (snd (sendToDLQ E w m pub e n b))"
proof -
  have "P v" if "SendMessage E (step w) topic d = (r, v)" for topic d r v
    using SendMessage_preserves [where P = P, OF assms(1,2) assms(1) [OF assms(3)], of E topic d] that by simp
  then show ?thesis
    using assms(1) [OF assms(3)] by (auto simp: sendToDLQ_def split: option.split prod.split sum.split)
qed

text \<open>A property that time, the log and the handler keep is kept by the whole chain.\<close>

lemma provideConsumerService_preserves:
  assumes s: "\<And>v. P v \<Longrightarrow> P (step v)" and k: "\<And>v p. P v \<Longrightarrow> P (v\<lparr>kafka := kafka v @ [p]\<rparr>)"
    and h: "\<And>v. P v \<Longrightarrow> P (snd (h v m))" and "P w"
  shows "P (snd (provideConsumerService E cfg h w m))"
proof -
  let ?retry = "RetryMiddleware E (MaxRetries cfg) (RetryBackoff cfg) (RetryJitter cfg) h"
  have panic: "P (snd (PanicRecoveryMiddleware g w m)) = P (snd (g w m))" for g
    by (cases "g w m"; cases "fst (g w m)") (auto simp: PanicRecoveryMiddleware_def)
  have retry: "P (snd (?retry w m))" 
    using s h \<open>P w\<close> by (rule RetryMiddleware_preserves [where P = P])
  moreover have "P (snd (DLQMiddleware E t b ?retry w m))" for t b
    using retry sendToDLQ_preserves [where P = P, OF s k]
    by (cases "?retry w m"; cases "fst (?retry w m)") (auto simp: DLQMiddleware_def split: option.split)
  ultimately show ?thesis
    by (simp add: provideConsumerService_def New_def applyMiddlewares_def panic)
qed

text \<open>
  The contract of a message handler that records the work it has done: \<open>finished m w\<close> says
  that the message \<open>m\<close> has been dealt with in the world \<open>w\<close>, for good; \<open>inv\<close> is an invariant
  of the worlds the handler runs in.
\<close>

locale message_handler =
  fixes h :: "'a base_scheme handler"
    and inv :: "'a base_scheme \<Rightarrow> bool"
    and finished :: "Message \<Rightarrow> 'a base_scheme \<Rightarrow> bool"
  assumes plain: "plain_handler h"
    and inv_step: "inv w \<Longrightarrow> inv (step w)"
    and inv_log: "inv w \<Longrightarrow> inv (w\<lparr>kafka := ks\<rparr>)"
    and inv_handler: "inv w \<Longrightarrow> inv (snd (h w m))"
    and handled: "inv w \<Longrightarrow> h w m = (Handled, w') \<Longrightarrow> finished m w'"
    and finished_step: "finished m w \<Longrightarrow> finished m (step w)"
    and finished_log: "finished m w \<Longrightarrow> finished m (w\<lparr>kafka := ks\<rparr>)"
    and finished_handler: "inv w \<Longrightarrow> finished m w \<Longrightarrow> finished m (snd (h w m'))"
    and appends: "prefix (kafka w) (kafka (snd (h w m)))"
begin

definition settled :: "string \<Rightarrow> ConsumerMessage \<Rightarrow> 'a base_scheme \<Rightarrow> bool" where
  "settled topic m w \<longleftrightarrow> finished (startMessageProcessing m) w \<or>
     in_dlq topic (startMessageProcessing m) (kafka w)"

lemma chain_inv: "inv w \<Longrightarrow> inv (snd (provideConsumerService E cfg h w m))"
  using inv_step inv_log inv_handler by (rule provideConsumerService_preserves)

lemma chain_settled:
  assumes "inv w" "settled topic m w"
  shows "settled topic m (snd (provideConsumerService E cfg h w m'))"
proof -
  let ?P = "\<lambda>v. inv v \<and> settled topic m v"
  have "?P (snd (provideConsumerService E cfg h w m'))"
  proof (rule provideConsumerService_preserves [where P = ?P])
    fix v assume "?P v"
    then show "?P (step v)" by (auto simp: settled_def inv_step finished_step)
    show "?P (v\<lparr>kafka := kafka v @ [p]\<rparr>)" for p
      using \<open>?P v\<close> by (auto simp: settled_def inv_log finished_log in_dlq_def)
    show "?P (snd (h v m'))"
      using \<open>?P v\<close> inv_handler finished_handler in_dlq_append [OF _ appends]
      by (auto simp: settled_def)
  qed (use assms in simp)
  then show ?thesis by simp
qed

lemma chain_marks:
  assumes "dlq_configured cfg topic" and "inv w"
    and "handleMessage (provideConsumerService E cfg h) w marks m = ((r, marks'), w')"
  shows "inv w' \<and> (marks' = marks \<or> marks' = marks @ [CM_Offset m] \<and> settled topic m w')"
proof -
  let ?m = "startMessageProcessing m"
  obtain r1 where run: "provideConsumerService E cfg h w ?m = (r1, w')"
    using assms(3) by (auto simp: handleMessage_def split: prod.splits hresult.splits)
  have "inv w'" using chain_inv [OF assms(2), of E cfg ?m] run by simp
  have "kept inv h ?m" using inv_step inv_handler by (simp add: kept_def)
  from plain assms(1) run assms(2) this show ?thesis
  proof (cases rule: DLQ_chain_cases [where I = inv, case_names ok queued stopped failed])
    case (ok v)
    with assms(3) run \<open>inv w'\<close> handled [OF ok(1,3)]
    show ?thesis by (auto simp: handleMessage_def handleMessageResult_def settled_def)
  qed (use assms(3) run \<open>inv w'\<close> in \<open>auto simp: handleMessage_def handleMessageResult_def settled_def
      IsNonRetryableError_def IsControlFlowError_def split: if_splits\<close>)
qed

text \<open>Every offset a claim marks belongs to a message that is finished or in the queue.\<close>

lemma claim_settled:
  assumes "dlq_configured cfg topic"
    and "ConsumeClaim (provideConsumerService E cfg h) stops w marks ms = ((r, marks'), w')"
    and "inv w"
  shows "inv w' \<and> (\<forall>m. settled topic m w \<longrightarrow> settled topic m w') \<and>
    (\<exists>done. subseq done ms \<and> marks' = marks @ map CM_Offset done \<and>
       (\<forall>m \<in> set done. settled topic m w'))"
  using assms(2,3)
proof (induction ms arbitrary: w marks)
  case Nil
  then show ?case by (auto intro!: exI [of _ "[]"])
next
  case (Cons m ms)
  note st = finished_step inv_step
  show ?case
  proof (cases "stops (tick w)")
    case True
    with Cons.prems st show ?thesis by (auto simp: settled_def intro!: exI [of _ "[]"])
  next
    case False
    obtain r1 marks1 w1 where one:
      "handleMessage (provideConsumerService E cfg h) (step w) marks m = ((r1, marks1), w1)"
      by (metis prod.exhaust)
    note ok = chain_marks [OF assms(1) inv_step [OF Cons.prems(2)] one]
    have w1: "w1 = snd (provideConsumerService E cfg h (step w) (startMessageProcessing m))"
      using one by (auto simp: handleMessage_def split: prod.splits hresult.splits)
    have stays: "settled topic x w1" if "settled topic x w" for x
      unfolding w1 using that Cons.prems(2)
      by (intro chain_settled) (auto simp: settled_def finished_step inv_step)
    show ?thesis
    proof (cases r1)
      case (Some e)
      with False one Cons.prems have "marks' = marks1" "w' = w1" by auto
      with ok stays show ?thesis
        by (auto intro: exI [of _ "[]"] exI [of _ "[m]"])
    next
      case None
      with False one Cons.prems
      have "ConsumeClaim (provideConsumerService E cfg h) stops w1 marks1 ms = ((r, marks'), w')"
        by simp
      from Cons.IH [OF this] ok obtain "done" where d: "inv w'" "subseq done ms"
        "marks' = marks1 @ map CM_Offset done" "\<forall>m \<in> set done. settled topic m w'"
        "\<forall>m. settled topic m w1 \<longrightarrow> settled topic m w'" by auto
      show ?thesis
      proof (cases "marks1 = marks")
        case True
        with d stays show ?thesis by (auto intro!: exI [of _ "done"])
      next
        case False
        with ok d stays show ?thesis by (auto intro!: exI [of _ "m # done"])
      qed
    qed
  qed
qed

end

section \<open>Which offsets a claim marks\<close>

lemma claim_marks_subseq:
  "ConsumeClaim h stops w marks ms = ((r, marks'), w') \<Longrightarrow>
     \<exists>ms'. subseq ms' ms \<and> marks' = marks @ map CM_Offset ms'"
proof (induction ms arbitrary: w marks)
  case (Cons m ms)
  show ?case
  proof (cases "stops (tick w)")
    case True
    with Cons.prems show ?thesis by (intro exI [of _ "[]"]) auto
  next
    case False
    obtain r1 marks1 w1 where one: "handleMessage h (step w) marks m = ((r1, marks1), w1)"
      by (metis prod.exhaust)
    have one_marks: "marks1 = marks \<or> marks1 = marks @ [CM_Offset m]"
      using one by (auto simp: handleMessage_def handleMessageResult_def split: prod.splits hresult.splits if_splits)
    show ?thesis
    proof (cases r1)
      case (Some e)
      with False one Cons.prems have "marks' = marks1" by simp
      with one_marks show ?thesis
        by (auto intro: exI [of _ "[]"] exI [of _ "[m]"])
    next
      case None
      with False one Cons.prems have "ConsumeClaim h stops w1 marks1 ms = ((r, marks'), w')" by simp
      from Cons.IH [OF this] obtain ms' where "subseq ms' ms" "marks' = marks1 @ map CM_Offset ms'" by blast
      with one_marks show ?thesis
        by (elim disjE) (auto intro: exI [of _ ms'] exI [of _ "m # ms'"])
    qed
  qed
qed (auto intro: exI [of _ "[]"])

text \<open>A handler that fails while its context ends makes the middlewares ask to stop the claim.\<close>

lemma retries_positive: "0 \<le> n \<Longrightarrow> n < max_int64 \<Longrightarrow> \<exists>k. nat (wrap64 (n + 1)) = Suc k \<and> int k = n"
  by (intro exI [of _ "nat n"]) (simp add: wrap64_id min_int64_def nat_add_distrib)

lemma middlewares_stop:
  assumes "h w m = (Failed err, w1)" and "\<not> IsNonRetryableError err"
    and "0 < MaxRetries cfg" and "MaxRetries cfg < max_int64" and "env_ctx E (Suc (tick w1)) = Some f"
  shows "provideConsumerService E cfg h w m =
    (Failed (Errorf2 (Kafka ErrStopConsumeClaim) (fault_error f)), step (step w1))"
proof -
  obtain k where k: "nat (wrap64 (MaxRetries cfg + 1)) = Suc k"
    using retries_positive [of "MaxRetries cfg"] assms(3,4) by auto
  have "RetryMiddleware E (MaxRetries cfg) b j h w m =
      (Failed (Errorf2 (Kafka ErrStopConsumeClaim) (fault_error f)), step (step w1))" for b j
    using assms k by (simp add: RetryMiddleware_def Let_def)
  then show ?thesis
    by (simp add: provideConsumerService_def New_def applyMiddlewares_def DLQMiddleware_def
        PanicRecoveryMiddleware_def IsControlFlowError_def)
qed

lemma middlewares_handled:
  assumes "h w m = (Handled, w1)" and "0 \<le> MaxRetries cfg" and "MaxRetries cfg < max_int64"
  shows "provideConsumerService E cfg h w m = (Handled, w1)"
proof -
  obtain k where k: "nat (wrap64 (MaxRetries cfg + 1)) = Suc k"
    using retries_positive [of "MaxRetries cfg"] assms(2,3) by auto
  have "RetryMiddleware E (MaxRetries cfg) b j h w m = (Handled, w1)" for b j
    using assms k by (simp add: RetryMiddleware_def Let_def)
  then show ?thesis
    by (simp add: provideConsumerService_def New_def applyMiddlewares_def DLQMiddleware_def
        PanicRecoveryMiddleware_def)
qed

text \<open>
  C39. A request to stop a claim does not stop it. When the handler fails on a message and the context
  ends during the pause before the next attempt, the middlewares answer \<open>ErrStopConsumeClaim\<close>, with or
  without a dead letter queue; the message is not marked, and if the \<open>select\<close> takes the next message
  and that one is handled, its offset is marked, and the earlier message is passed over.
\<close>

theorem stopped_claim_passes_over_message:
  assumes "ConsumeClaim (provideConsumerService E cfg h) stops w marks (m # m' # ms) = ((r, marks'), w')"
    and "0 < MaxRetries cfg" and "MaxRetries cfg < max_int64"
    and "\<not> stops (tick w)" and "h (step w) (startMessageProcessing m) = (Failed err, w1)"
    and "\<not> IsNonRetryableError err" and "env_ctx E (Suc (tick w1)) = Some f"
    and "\<not> stops (Suc (Suc (tick w1)))"
    and "h (step (step (step w1))) (startMessageProcessing m') = (Handled, w2)"
  shows "\<exists>ms'. subseq ms' ms \<and> marks' = marks @ CM_Offset m' # map CM_Offset ms'"
proof -
  let ?h = "provideConsumerService E cfg h"
  have "handleMessage ?h (step w) marks m = ((None, marks), step (step w1))"
    using middlewares_stop [of h "step w" "startMessageProcessing m" err w1 cfg E f] assms(2-7) by (simp add: handleMessage_def handleMessageResult_def)
  moreover have "handleMessage ?h (step (step (step w1))) marks m' = ((None, marks @ [CM_Offset m']), w2)"
    using middlewares_handled [of h "step (step (step w1))" "startMessageProcessing m'" w2 cfg E] assms(2,3,9)
    by (simp add: handleMessage_def handleMessageResult_def)
  ultimately have "ConsumeClaim ?h stops w2 (marks @ [CM_Offset m']) ms = ((r, marks'), w')"
    using assms(1,4,8) by simp
  from claim_marks_subseq [OF this] show ?thesis by auto
qed

text \<open>
  As long as the handler never asks to stop the claim, the offsets a claim marks are
  those of an unbroken run of messages from its start, and the claim ends with an error only
  at the first message it has not marked: no message is passed over.
\<close>

theorem claim_marks_prefix:
  assumes "\<And>v m e w'. h v m = (Failed e, w') \<Longrightarrow> \<not> errors_Is e (Kafka ErrStopConsumeClaim)"
    and "ConsumeClaim h stops w marks ms = ((r, marks'), w')"
  shows "\<exists>k \<le> length ms. marks' = marks @ map CM_Offset (take k ms) \<and>
    (r \<noteq> None \<longrightarrow> k < length ms)"
  using assms(2)
proof (induction ms arbitrary: w marks)
  case (Cons m ms)
  show ?case
  proof (cases "stops (tick w)")
    case True
    with Cons.prems show ?thesis by (auto intro: exI [of _ 0])
  next
    case False
    obtain r1 marks1 w1 where one: "handleMessage h (step w) marks m = ((r1, marks1), w1)"
      by (metis prod.exhaust)
    then have one_marks: "if r1 = None then marks1 = marks @ [CM_Offset m] else marks1 = marks"
      using assms(1)
      by (auto simp: handleMessage_def handleMessageResult_def split: prod.splits hresult.splits if_splits)
    show ?thesis
    proof (cases r1)
      case (Some e)
      with False one Cons.prems one_marks show ?thesis by (auto intro: exI [of _ 0])
    next
      case None
      with False one Cons.prems have "ConsumeClaim h stops w1 marks1 ms = ((r, marks'), w')" by simp
      from Cons.IH [OF this] one_marks None obtain k where "k \<le> length ms"
        "marks' = marks @ CM_Offset m # map CM_Offset (take k ms)" "r \<noteq> None \<longrightarrow> k < length ms"
        by auto
      then show ?thesis by (intro exI [of _ "Suc k"]) auto
    qed
  qed
qed (use assms in auto)

text \<open>The loop over sessions: it goes on exactly until an outcome that is not a restart.\<close>

fun restarts :: "go_error option \<times> bool \<Rightarrow> bool" where
  "restarts (None, ctxDone) = (\<not> ctxDone)"
| "restarts (Some err, ctxDone) =
     (errors_Is err (Kafka ErrRestartConsumerSession) \<and> \<not> errors_Is err (Kafka ErrClosedConsumerGroup))"

lemma Consume_restarts: "list_all restarts os \<Longrightarrow> Consume (os @ rest) = Consume rest"
  by (induction os rule: Consume.induct) simp_all

lemma Consume_ends: "\<not> restarts oc \<Longrightarrow> Consume (oc # rest) \<noteq> None"
  by (cases oc rule: restarts.cases) auto

text \<open>
  The consumer goes on through every session that ends with a request for a restart or
  without an error, and returns at the first one that ends otherwise or finds its context done.
\<close>

theorem consume_returns_iff: "Consume outcomes = None \<longleftrightarrow> list_all restarts outcomes"
proof (induction outcomes)
  case (Cons oc os)
  show ?case
  proof (cases "restarts oc")
    case True
    then show ?thesis using Cons Consume_restarts [of "[oc]" os] by simp
  next
    case False
    then show ?thesis using Consume_ends by simp
  qed
qed simp

end
