(* ===== verification/Market_Event.thy ===== *)
theory Market_Event
  imports Environment
begin

text \<open>
  The event \<open>market.state.changed\<close> on the wire: what the spot service writes
  (\<open>spotService/internal/application/dto/outbound/kafka/market_event_dto.go\<close>) and what the order
  service reads (\<open>orderService/internal/application/dto/inbound/kafka/market_event_dto.go\<close>).

  The protobuf runtime is the parameter \<open>market_codec\<close>: the encoder and decoder of the
  message and the operations of its timestamps.
\<close>

section \<open>The message and its codec\<close>

record pb_Timestamp =
  pbts_Seconds :: int
  pbts_Nanos :: int

record pb_MarketStateChangedEvent =
  pbMS_EventId :: string
  pbMS_MarketId :: string
  pbMS_Enabled :: bool
  pbMS_DeletedAt :: "pb_Timestamp option"
  pbMS_UpdatedAt :: "pb_Timestamp option"

record market_codec =
  proto_MarshalMarket :: "pb_MarketStateChangedEvent \<Rightarrow> bytes option"
  proto_UnmarshalMarket :: "bytes \<Rightarrow> pb_MarketStateChangedEvent option"
  timestamppb_New :: "instant \<Rightarrow> pb_Timestamp"
  timestamppb_CheckValid :: "pb_Timestamp \<Rightarrow> bool"
  timestamppb_AsTime :: "pb_Timestamp \<Rightarrow> instant"

text \<open>
  What is documented of the runtime: decoding inverts encoding, and a timestamp made from an
  instant between the years 1 and 9999 is valid and stands for that instant.
\<close>

definition max_timestamp :: instant where
  "max_timestamp = 253402300799999999999"

definition codec_ok :: "market_codec \<Rightarrow> bool" where
  "codec_ok C \<longleftrightarrow>
     (\<forall>m b. proto_MarshalMarket C m = Some b \<longrightarrow> proto_UnmarshalMarket C b = Some m) \<and>
     (\<forall>t. zero_time \<le> t \<and> t \<le> max_timestamp \<longrightarrow>
        timestamppb_CheckValid C (timestamppb_New C t) \<and>
        timestamppb_AsTime C (timestamppb_New C t) = t)"

section \<open>Writing\<close>

definition ToProto ::
  "'e env_scheme \<Rightarrow> market_codec \<Rightarrow> MarketStateChangedEvent \<Rightarrow> pb_MarketStateChangedEvent" where
  "ToProto E C event =
     \<lparr>pbMS_EventId = uuid_String E (MS_EventID event),
      pbMS_MarketId = uuid_String E (MS_MarketID event),
      pbMS_Enabled = MS_Enabled event,
      pbMS_DeletedAt = map_option (timestamppb_New C) (MS_DeletedAt event),
      pbMS_UpdatedAt = Some (timestamppb_New C (MS_UpdatedAt event))\<rparr>"

definition Marshal ::
  "'e env_scheme \<Rightarrow> market_codec \<Rightarrow> MarketStateChangedEvent \<Rightarrow> go_error + bytes" where
  "Marshal E C event =
     (case proto_MarshalMarket C (ToProto E C event) of
        None \<Rightarrow> Inl (NewError ''marshal MarketStateChangedEvent'')
      | Some payload \<Rightarrow> Inr payload)"

section \<open>Reading\<close>

definition parseUUIDRequired :: "'e env_scheme \<Rightarrow> string \<Rightarrow> string \<Rightarrow> go_error + uuid" where
  "parseUUIDRequired E fieldName raw =
     (if raw = '''' then Inl (NewError (fieldName @ '' is required''))
      else case uuid_Parse E raw of
             None \<Rightarrow> Inl (NewError (''invalid '' @ fieldName))
           | Some i \<Rightarrow> Inr i)"

definition fromProtoTimestamp ::
  "market_codec \<Rightarrow> string \<Rightarrow> pb_Timestamp option \<Rightarrow> go_error + instant" where
  "fromProtoTimestamp C fieldName ts =
     (case ts of
        None \<Rightarrow> Inl (NewError (fieldName @ '' is required''))
      | Some timestamp \<Rightarrow>
          if \<not> timestamppb_CheckValid C timestamp then Inl (NewError (''invalid '' @ fieldName))
          else Inr (timestamppb_AsTime C timestamp))"

definition fromProtoTimestampOptional ::
  "market_codec \<Rightarrow> string \<Rightarrow> pb_Timestamp option \<Rightarrow> go_error + instant option" where
  "fromProtoTimestampOptional C fieldName ts =
     (case ts of
        None \<Rightarrow> Inr None
      | Some timestamp \<Rightarrow>
          if \<not> timestamppb_CheckValid C timestamp then Inl (NewError (''invalid '' @ fieldName))
          else Inr (Some (timestamppb_AsTime C timestamp)))"

definition FromProtoMarketStateChanged ::
  "'e env_scheme \<Rightarrow> market_codec \<Rightarrow> pb_MarketStateChangedEvent option \<Rightarrow>
   go_error + MarketStateChangedEvent" where
  "FromProtoMarketStateChanged E C msg =
     (case msg of
        None \<Rightarrow> Inl (NewError ''market state changed event is nil'')
      | Some m \<Rightarrow>
     (case parseUUIDRequired E ''event_id'' (pbMS_EventId m) of
        Inl err \<Rightarrow> Inl err
      | Inr eventID \<Rightarrow>
     (case parseUUIDRequired E ''market_id'' (pbMS_MarketId m) of
        Inl err \<Rightarrow> Inl err
      | Inr marketID \<Rightarrow>
     (case fromProtoTimestamp C ''updated_at'' (pbMS_UpdatedAt m) of
        Inl err \<Rightarrow> Inl err
      | Inr updatedAt \<Rightarrow>
     (case fromProtoTimestampOptional C ''deleted_at'' (pbMS_DeletedAt m) of
        Inl err \<Rightarrow> Inl err
      | Inr deletedAt \<Rightarrow>
          Inr \<lparr>MS_EventID = eventID, MS_MarketID = marketID, MS_Enabled = pbMS_Enabled m,
               MS_DeletedAt = deletedAt, MS_UpdatedAt = updatedAt\<rparr>)))))"

definition UnmarshalMarketStateChanged ::
  "'e env_scheme \<Rightarrow> market_codec \<Rightarrow> bytes \<Rightarrow> go_error + MarketStateChangedEvent" where
  "UnmarshalMarketStateChanged E C data =
     (case proto_UnmarshalMarket C data of
        None \<Rightarrow> Inl (NewError ''proto.UnmarshalMarketStateChanged'')
      | Some protobuf \<Rightarrow> FromProtoMarketStateChanged E C (Some protobuf))"

section \<open>The round trip between the services\<close>

definition event_in_range :: "MarketStateChangedEvent \<Rightarrow> bool" where
  "event_in_range ev \<longleftrightarrow> zero_time \<le> MS_UpdatedAt ev \<and> MS_UpdatedAt ev \<le> max_timestamp \<and>
     (case MS_DeletedAt ev of None \<Rightarrow> True | Some t \<Rightarrow> zero_time \<le> t \<and> t \<le> max_timestamp)"

lemma unmarshal_marshal:
  assumes "uuid_ok E" and "codec_ok C" and "event_in_range ev" and "Marshal E C ev = Inr payload"
  shows "UnmarshalMarketStateChanged E C payload = Inr ev"
proof -
  have dec: "proto_UnmarshalMarket C payload = Some (ToProto E C ev)"
    using assms(2,4) by (auto simp: Marshal_def codec_ok_def split: option.splits)
  have uuid: "parseUUIDRequired E f (uuid_String E u) = Inr u" for f u
    using assms(1) by (simp add: parseUUIDRequired_def uuid_ok_def)
  have up: "fromProtoTimestamp C f (Some (timestamppb_New C (MS_UpdatedAt ev))) = Inr (MS_UpdatedAt ev)"
    for f using assms(2,3) by (simp add: fromProtoTimestamp_def codec_ok_def event_in_range_def)
  have del: "fromProtoTimestampOptional C f (map_option (timestamppb_New C) (MS_DeletedAt ev)) =
      Inr (MS_DeletedAt ev)" for f
    using assms(2,3)
    by (auto simp: fromProtoTimestampOptional_def codec_ok_def event_in_range_def split: option.splits)
  show ?thesis
    unfolding UnmarshalMarketStateChanged_def dec FromProtoMarketStateChanged_def ToProto_def
    by (simp add: uuid up del)
qed

text \<open>
  C33. What the spot service writes about a market, the order service reads back unchanged:
  the identifiers, the state, and both timestamps, for instants of the years 1 to 9999. So two
  different events never have the same bytes.
\<close>

theorem market_event_roundtrip:
  assumes "uuid_ok E" and "codec_ok C" and "event_in_range ev" and "Marshal E C ev = Inr payload"
  shows "UnmarshalMarketStateChanged E C payload = Inr ev \<and>
    (\<forall>ev'. event_in_range ev' \<and> Marshal E C ev' = Inr payload \<longrightarrow> ev' = ev)"
  using unmarshal_marshal [OF assms] unmarshal_marshal [OF assms(1,2)] by fastforce

end
