(* ===== verification/Compensation.thy ===== *)
theory Compensation
  imports Order_Service Kafka_Delivery Market_Event "HOL-Library.Multiset"
begin

text \<open>
  \<open>orderService/internal/services/order/compensation_service.go\<close> and
  \<open>services/consumer/market_consumer.go\<close>: when a market is disabled or deleted, the active
  orders on it are cancelled and one event for each of them is written, in one transaction with
  the inbox row that makes the market event take effect once; afterwards the market's block
  state is brought up to date. A failure is recorded in the inbox outside of the transaction.
\<close>

section \<open>The compensation service\<close>

definition synchronizeMarketBlockState ::
  "'e order_env_scheme \<Rightarrow> 'a base_scheme \<Rightarrow> OrderConfig \<Rightarrow> MarketStateChangedEvent \<Rightarrow>
   (go_error + bool \<times> bool) \<times> 'a base_scheme" where
  "synchronizeMarketBlockState E w cfg event =
     (let blocked = (\<not> MS_Enabled event \<or> MS_DeletedAt event \<noteq> None) in
      case SynchronizeState E w (cfg_MarketBlockTTL cfg) (MS_MarketID event) blocked (MS_UpdatedAt event) of
        (Inl err, w1) \<Rightarrow> (Inl err, w1)
      | (Inr updated, w1) \<Rightarrow> (Inr (blocked, updated), w1))"

text \<open>A failure to synchronise is logged and counted, and nothing else.\<close>

definition trySynchronizeMarketBlockState ::
  "'e order_env_scheme \<Rightarrow> 'a base_scheme \<Rightarrow> OrderConfig \<Rightarrow> MarketStateChangedEvent \<Rightarrow> 'a base_scheme" where
  "trySynchronizeMarketBlockState E w cfg event = snd (synchronizeMarketBlockState E w cfg event)"

fun publishCancelledOrderEvents ::
  "'e order_env_scheme \<Rightarrow> 'a base_scheme \<Rightarrow> order_db tx \<Rightarrow> MarketStateChangedEvent \<Rightarrow> uuid list \<Rightarrow>
   (go_error + order_db tx) \<times> 'a base_scheme" where
  "publishCancelledOrderEvents E w t marketEvent [] = (Inr t, w)"
| "publishCancelledOrderEvents E w t marketEvent (orderID # rest) =
     (let eventID = env_uuid E (tick w);
          w1 = step w;
          statusEvent = \<lparr>OS_EventID = eventID, OS_OrderID = orderID,
            OS_NewStatus = OrderStatusCancelled, OS_Reason = ''market became unavailable'',
            OS_CorrelationID = MS_EventID marketEvent, OS_UpdatedAt = env_now E (tick w1)\<rparr>;
          w2 = step w1
      in case ProduceOrderStatusUpdated E w2 t statusEvent of
           (Inl err, w3) \<Rightarrow>
             (Inl (Errorf (''publish cancelled order status event for order '' @
                uuid_String E orderID @ '': '') err ''''), w3)
         | (Inr t1, w3) \<Rightarrow> publishCancelledOrderEvents E w3 t1 marketEvent rest)"

definition applyCompensationTransaction ::
  "'e order_env_scheme \<Rightarrow> 'a base_scheme \<Rightarrow> order_db tx \<Rightarrow> MarketStateChangedEvent \<Rightarrow>
   (go_error + order_db tx) \<times> 'a base_scheme" where
  "applyCompensationTransaction E w t event =
     (if MS_Enabled event \<and> MS_DeletedAt event = None then (Inr t, w)
      else
        (case CancelActiveOrdersByMarket E w t (MS_MarketID event) of
           (Inl err, w1) \<Rightarrow> (Inl err, w1)
         | (Inr (cancelledIDs, t1), w1) \<Rightarrow>
             publishCancelledOrderEvents E w1 t1 event cancelledIDs))"

text \<open>The transaction is rolled back before the failure is saved, so nothing of it remains.\<close>

definition failProcessing ::
  "'e order_env_scheme \<Rightarrow> 'a order_world_scheme \<Rightarrow> string \<Rightarrow> InboxEvent \<Rightarrow> go_error \<Rightarrow>
   (go_error + unit) \<times> 'a order_world_scheme" where
  "failProcessing E w op inboxEvent processErr =
     (let text = error_text (uuid_String E) (duration_String E) in
      case SaveFailed E w inboxEvent (text processErr) of
        (Inl saveErr, w1) \<Rightarrow>
          (Inl (Errorf (op @ '': '') processErr
             ('' (additionally failed to persist inbox failure: '' @ text saveErr @ '')'')), w1)
      | (Inr _, w1) \<Rightarrow> (Inl (Errorf (op @ '': '') processErr ''''), w1))"

definition handleSkippedEvent ::
  "'e order_env_scheme \<Rightarrow> 'a order_world_scheme \<Rightarrow> OrderConfig \<Rightarrow> order_db tx \<Rightarrow>
   MarketStateChangedEvent \<Rightarrow> InboxEventStatus \<Rightarrow> (go_error + unit) \<times> 'a order_world_scheme" where
  "handleSkippedEvent E w cfg t event currentStatus =
     (case Commit E w t of
        (Inl err, w1) \<Rightarrow> (Inl (Errorf ''commit skipped transaction: '' err ''''), w1)
      | (Inr _, w1) \<Rightarrow>
          (case currentStatus of
             InboxEventStatusProcessed \<Rightarrow> (Inr (), trySynchronizeMarketBlockState E w1 cfg event)
           | InboxEventStatusProcessing \<Rightarrow> (Inr (), trySynchronizeMarketBlockState E w1 cfg event)
           | InboxEventStatusFailed \<Rightarrow> (Inr (), w1)))"

definition new_inbox_event :: "uuid \<Rightarrow> MarketStateChangedEvent \<Rightarrow> string \<Rightarrow> string \<Rightarrow> bytes \<Rightarrow> InboxEvent" where
  "new_inbox_event i event topic consumerGroup rawPayload =
     \<lparr>In_ID = i, In_EventID = MS_EventID event, In_Topic = topic,
      In_ConsumerGroup = consumerGroup, In_Payload = rawPayload,
      In_Status = InboxEventStatusProcessing, In_ReceivedAt = zero_time, In_ProcessedAt = None,
      In_FailedAt = None, In_ErrorMessage = None\<rparr>"

definition ProcessMarketStateChanged ::
  "'e order_env_scheme \<Rightarrow> 'a order_world_scheme \<Rightarrow> OrderConfig \<Rightarrow> string \<Rightarrow> string \<Rightarrow> bytes \<Rightarrow>
   MarketStateChangedEvent \<Rightarrow> (go_error + unit) \<times> 'a order_world_scheme" where
  "ProcessMarketStateChanged E w cfg topic consumerGroup rawPayload event =
     (let op = ''MarketCompensationService.ProcessMarketStateChanged'' in
      case Begin E w of
        (Inl err, w1) \<Rightarrow> (Inl (Errorf (op @ '': begin transaction: '') err ''''), w1)
      | (Inr t, w1) \<Rightarrow>
     (let inboxEvent = new_inbox_event (env_uuid E (tick w1)) event topic consumerGroup rawPayload in
      case BeginProcessing E (step w1) t inboxEvent of
        (Inl err, w2) \<Rightarrow> failProcessing E w2 op inboxEvent err
      | (Inr (shouldProcess, currentStatus, t1), w2) \<Rightarrow>
          if \<not> shouldProcess then handleSkippedEvent E w2 cfg t1 event currentStatus
          else
     (case applyCompensationTransaction E w2 t1 event of
        (Inl err, w3) \<Rightarrow> failProcessing E w3 op inboxEvent err
      | (Inr t2, w3) \<Rightarrow>
     (case MarkProcessed E w3 t2 (MS_EventID event) consumerGroup of
        (Inl err, w4) \<Rightarrow> failProcessing E w4 op inboxEvent err
      | (Inr t3, w4) \<Rightarrow>
     (case Commit E w4 t3 of
        (Inl err, w5) \<Rightarrow> (Inl (Errorf (op @ '': commit transaction: '') err ''''), w5)
      | (Inr _, w5) \<Rightarrow> (Inr (), trySynchronizeMarketBlockState E w5 cfg event))))))"

section \<open>The consumer of market events\<close>

definition handleMarketStateChanged ::
  "'e order_env_scheme \<Rightarrow> market_codec \<Rightarrow> OrderConfig \<Rightarrow> string \<Rightarrow> 'a order_world_scheme handler" where
  "handleMarketStateChanged E C cfg consumerGroup w msg =
     (let op = ''MarketConsumer.handleMarketStateChanged'' in
      case UnmarshalMarketStateChanged E C (Msg_Value msg) of
        Inl err \<Rightarrow> (Failed (NonRetryableError (Errorf (op @ '': '') err '''')), w)
      | Inr event \<Rightarrow>
          (case ProcessMarketStateChanged E w cfg (Msg_Topic msg) consumerGroup (Msg_Value msg) event of
             (Inl err, w1) \<Rightarrow> (Failed (Errorf (op @ '': '') err ''''), w1)
           | (Inr _, w1) \<Rightarrow> (Handled, w1)))"

text \<open>\<open>Run\<close>: the messages of a claim of the market topic, through the middlewares.\<close>

definition consume_market_claim ::
  "'e order_env_scheme \<Rightarrow> market_codec \<Rightarrow> OrderConfig \<Rightarrow> ConsumerConfig \<Rightarrow> string \<Rightarrow> (nat \<Rightarrow> bool) \<Rightarrow>
   'a order_world_scheme \<Rightarrow> int list \<Rightarrow> ConsumerMessage list \<Rightarrow>
   (go_error option \<times> int list) \<times> 'a order_world_scheme" where
  "consume_market_claim E C cfg ccfg consumerGroup stops w marks messages =
     ConsumeClaim (provideConsumerService E ccfg (handleMarketStateChanged E C cfg consumerGroup))
       stops w marks messages"

section \<open>The abstract effect of a market event\<close>

text \<open>
  \<open>inbox_status k d\<close> is the state of an event for a consumer group. \<open>cancel_event\<close> is the
  outbox row that announces the cancellation of one order, with the market event as its
  correlation id. \<open>compensated\<close> is the whole effect of a market event on the tables.
\<close>

definition inbox_status :: "uuid \<times> string \<Rightarrow> order_db \<Rightarrow> InboxEventStatus option" where
  "inbox_status k d = map_option In_Status (find (\<lambda>r. inbox_key r = k) (inbox d))"

definition cancel_event :: "'e order_env_scheme \<Rightarrow> MarketStateChangedEvent \<Rightarrow> OutboxEvent \<Rightarrow> bool" where
  "cancel_event E ev e \<longleftrightarrow>
     Out_EventType e = OrderStatusUpdatedEventType \<and> Out_Status e = OutboxEventStatusPending \<and>
     (\<exists>t. MarshalOrderStatusUpdated E \<lparr>OS_EventID = Out_EventID e, OS_OrderID = Out_AggregateID e,
        OS_NewStatus = OrderStatusCancelled, OS_Reason = ''market became unavailable'',
        OS_CorrelationID = MS_EventID ev, OS_UpdatedAt = t\<rparr> = Inr (Out_Payload e))"

definition blocks :: "MarketStateChangedEvent \<Rightarrow> bool" where
  "blocks ev \<longleftrightarrow> \<not> (MS_Enabled ev \<and> MS_DeletedAt ev = None)"

definition orders_cancelled :: "'e order_env_scheme \<Rightarrow> MarketStateChangedEvent \<Rightarrow> order_db \<Rightarrow> order_db \<Rightarrow> bool" where
  "orders_cancelled E ev d d' \<longleftrightarrow>
     orders d' = upd_where (row_active (MS_MarketID ev))
       (\<lambda>r. r\<lparr>row_status := OrderStatusCancelled\<rparr>) (orders d) \<and>
     (\<exists>es. outbox d' = outbox d @ es \<and> list_all (cancel_event E ev) es \<and>
        mset (map Out_AggregateID es) =
          mset (map row_id (filter (row_active (MS_MarketID ev)) (orders d))))"

definition compensated ::
  "'e order_env_scheme \<Rightarrow> MarketStateChangedEvent \<Rightarrow> string \<Rightarrow> order_db \<Rightarrow> order_db \<Rightarrow> bool" where
  "compensated E ev g d d' \<longleftrightarrow>
     inbox_status (MS_EventID ev, g) d \<in> {None, Some InboxEventStatusFailed} \<and>
     inbox_status (MS_EventID ev, g) d' = Some InboxEventStatusProcessed \<and>
     (\<forall>k. k \<noteq> (MS_EventID ev, g) \<longrightarrow> inbox_status k d' = inbox_status k d) \<and>
     (if blocks ev then orders_cancelled E ev d d' else orders d' = orders d \<and> outbox d' = outbox d)"

definition failure_recorded :: "MarketStateChangedEvent \<Rightarrow> string \<Rightarrow> order_db \<Rightarrow> order_db \<Rightarrow> bool" where
  "failure_recorded ev g d d' \<longleftrightarrow> orders d' = orders d \<and> outbox d' = outbox d \<and>
     inbox_status (MS_EventID ev, g) d \<noteq> Some InboxEventStatusProcessed \<and>
     inbox_status (MS_EventID ev, g) d' = Some InboxEventStatusFailed \<and>
     (\<forall>k. k \<noteq> (MS_EventID ev, g) \<longrightarrow> inbox_status k d' = inbox_status k d)"

section \<open>The statements of the inbox\<close>

lemma find_upd_where:
  "(\<And>r. P r \<Longrightarrow> k (f r) = k r) \<Longrightarrow>
   find (\<lambda>r. k r = x) (upd_where P f rows) =
     map_option (\<lambda>r. if P r then f r else r) (find (\<lambda>r. k r = x) rows)"
  by (induction rows) auto

lemma inbox_status_upd:
  assumes "\<And>r. P r \<Longrightarrow> inbox_key (f r) = inbox_key r \<and> inbox_key r = k"
  shows "k' \<noteq> k \<Longrightarrow> inbox_status k' (d\<lparr>inbox := upd_where P f (inbox d)\<rparr>) = inbox_status k' d"
    and "inbox_status k (d\<lparr>inbox := upd_where P f (inbox d)\<rparr>) =
      map_option (\<lambda>r. In_Status (if P r then f r else r)) (find (\<lambda>r. inbox_key r = k) (inbox d))"
proof -
  have find: "find (\<lambda>r. inbox_key r = x) (upd_where P f (inbox d)) =
      map_option (\<lambda>r. if P r then f r else r) (find (\<lambda>r. inbox_key r = x) (inbox d))" for x
    using assms by (simp add: find_upd_where)
  show "inbox_status k' (d\<lparr>inbox := upd_where P f (inbox d)\<rparr>) = inbox_status k' d" if "k' \<noteq> k"
    using that assms find_Some_mem [of "\<lambda>r. inbox_key r = k'" "inbox d"]
    by (auto simp: inbox_status_def find option.map_comp intro!: option.map_cong0 split: option.splits)
  show "inbox_status k (d\<lparr>inbox := upd_where P f (inbox d)\<rparr>) =
      map_option (\<lambda>r. In_Status (if P r then f r else r)) (find (\<lambda>r. inbox_key r = k) (inbox d))"
    by (simp add: inbox_status_def find option.map_comp comp_def)
qed

lemma find_hd_filter: "map f (filter P xs) = y # ys \<Longrightarrow> map_option f (find P xs) = Some y"
  by (induction xs) (auto split: if_splits)

lemma find_append: "find P (xs @ ys) = (case find P xs of None \<Rightarrow> find P ys | Some x \<Rightarrow> Some x)"
  by (induction xs) auto

lemma find_eq_SomeD: "find (\<lambda>r. k r = x) rows = Some r \<Longrightarrow> k r = x"
  using find_Some_mem [of "\<lambda>r. k r = x" rows r] by simp

lemma new_inbox_event_key [simp]: "inbox_key (new_inbox_event i ev tp g b) = (MS_EventID ev, g)"
  by (simp add: inbox_key_def new_inbox_event_def)

lemma sql_begin_processing_cases:
  assumes "sql_begin_processing e t = Inr (rows, d')"
  shows "orders d' = orders (tx_db t) \<and> outbox d' = outbox (tx_db t) \<and>
    (\<forall>k. k \<noteq> inbox_key e \<longrightarrow> inbox_status k d' = inbox_status k (tx_db t)) \<and>
    (if rows = [] then d' = tx_db t \<and>
        inbox_status (inbox_key e) (tx_db t) \<in> {Some InboxEventStatusProcessing, Some InboxEventStatusProcessed}
     else inbox_status (inbox_key e) (tx_db t) \<in> {None, Some InboxEventStatusFailed} \<and>
        inbox_status (inbox_key e) d' = Some InboxEventStatusProcessing)"
proof (cases "find (\<lambda>r. inbox_key r = inbox_key e) (inbox (tx_db t))")
  case None
  with assms show ?thesis
    by (auto simp: sql_begin_processing_def inbox_status_def find_append Let_def
        split: if_splits option.splits)
next
  case (Some old)
  show ?thesis
  proof (cases "In_Status old")
    case InboxEventStatusFailed
    with assms Some find_eq_SomeD [OF Some] show ?thesis
      by (auto simp: sql_begin_processing_def Let_def inbox_status_upd)
        (simp add: inbox_status_def)
  qed (use assms Some in \<open>auto simp: sql_begin_processing_def inbox_status_def Let_def\<close>)
qed

lemma sql_save_failed_cases:
  assumes "sql_save_failed e msg t = Inr (n, d')"
  shows "orders d' = orders (tx_db t) \<and> outbox d' = outbox (tx_db t) \<and>
    (\<forall>k. k \<noteq> inbox_key e \<longrightarrow> inbox_status k d' = inbox_status k (tx_db t)) \<and>
    (if inbox_status (inbox_key e) (tx_db t) = Some InboxEventStatusProcessed then d' = tx_db t \<and> n = 0
     else inbox_status (inbox_key e) d' = Some InboxEventStatusFailed \<and> n = 1)"
proof (cases "find (\<lambda>r. inbox_key r = inbox_key e) (inbox (tx_db t))")
  case None
  with assms show ?thesis
    by (auto simp: sql_save_failed_def inbox_status_def find_append Let_def
        split: if_splits option.splits)
next
  case (Some old)
  show ?thesis
  proof (cases "In_Status old = InboxEventStatusProcessed")
    case False
    then have "In_Status old = InboxEventStatusFailed \<or> In_Status old = InboxEventStatusProcessing"
      by (cases "In_Status old") auto
    with assms Some find_eq_SomeD [OF Some] False show ?thesis
      by (auto simp: sql_save_failed_def Let_def inbox_status_upd) (simp_all add: inbox_status_def)
  qed (use assms Some in \<open>auto simp: sql_save_failed_def inbox_status_def Let_def\<close>)
qed

section \<open>The operations inside the transaction\<close>

text \<open>They advance the clock and change nothing else of the world.\<close>

lemma tryStartProcessing_world [simp]: "snd (tryStartProcessing E w t e) = step w"
  by (auto simp: tryStartProcessing_def Let_def dest: tx_exec_step split: result_splits)

lemma getCurrentStatus_world [simp]: "snd (getCurrentStatus E w t i g) = step w"
  by (auto simp: getCurrentStatus_def Let_def dest: tx_exec_step split: result_splits)

lemma MarkProcessed_world [simp]: "snd (MarkProcessed E w t i g) = step w"
  by (auto simp: MarkProcessed_def Let_def dest: tx_exec_step split: result_splits)

lemma ProduceOrderStatusUpdated_world:
  "snd (ProduceOrderStatusUpdated E w t e) \<in> {w, step (step w)}"
  by (auto simp: ProduceOrderStatusUpdated_def Let_def dest: SaveOutboxEvent_step split: result_splits)

lemma BeginProcessing_preserves:
  assumes s: "\<And>v. P v \<Longrightarrow> P (step v)" and "P w"
  shows "P (snd (BeginProcessing E w t e))"
proof -
  have w1: "w1 = step w" if "tryStartProcessing E w t e = (r, w1)" for r w1
    using tryStartProcessing_world [of E w t e] that by simp
  have w2: "w2 = step v" if "getCurrentStatus E v t i g = (r, w2)" for v i g r w2
    using getCurrentStatus_world [of E v t i g] that by simp
  show ?thesis
    using \<open>P w\<close> s unfolding BeginProcessing_def
    by (auto simp: Let_def dest!: w1 w2 split: prod.split sum.split)
qed

lemma publishCancelledOrderEvents_preserves:
  assumes s: "\<And>v. P v \<Longrightarrow> P (step v)"
  shows "P w \<Longrightarrow> P (snd (publishCancelledOrderEvents E w t ev ids))"
proof (induction ids arbitrary: w t)
  case (Cons i ids)
  have produce: "P v \<Longrightarrow> P (snd (ProduceOrderStatusUpdated E v t e))" for v t e
    using ProduceOrderStatusUpdated_world [of E v t e] s by auto
  show ?case
    unfolding publishCancelledOrderEvents.simps
    by (intro pres_intros [where P = P] produce s Cons.prems Cons.IH)
qed simp

lemma applyCompensationTransaction_preserves:
  assumes s: "\<And>v. P v \<Longrightarrow> P (step v)" and "P w"
  shows "P (snd (applyCompensationTransaction E w t ev))"
proof -
  have cancel: "P (snd (CancelActiveOrdersByMarket E w t m))" for m using s \<open>P w\<close> by simp
  show ?thesis
    unfolding applyCompensationTransaction_def
    by (intro pres_intros [where P = P] pres_prod [where P = P] cancel \<open>P w\<close>
        publishCancelledOrderEvents_preserves [where P = P] s)
qed

lemma SaveFailed_preserves:
  assumes s: "\<And>v. P v \<Longrightarrow> P (step v)" and d: "\<And>v x. P v \<Longrightarrow> P (v\<lparr>db := x\<rparr>)" and "P w"
  shows "P (snd (SaveFailed E w e msg))"
proof -
  have "P (snd (pool_exec E w stmt))" for stmt :: "order_db tx \<Rightarrow> go_error + 'r \<times> order_db"
    unfolding pool_exec_def using assms
    by (intro external_preserves [where P = P]) (auto split: sum.split)
  then show ?thesis
    unfolding SaveFailed_def by (intro pres_intros [where P = P])
qed

lemma Commit_preserves:
  assumes s: "\<And>v. P v \<Longrightarrow> P (step v)" and d: "\<And>v x. P v \<Longrightarrow> P (v\<lparr>db := x\<rparr>)" and "P w"
  shows "P (snd (Commit E w t))"
  unfolding Commit_def using assms by (intro external_preserves [where P = P]) simp_all

lemma sync_preserves:
  assumes "only_key (blockKey E (MS_MarketID ev)) P" and "P w"
  shows "P (trySynchronizeMarketBlockState E w cfg ev)"
  unfolding trySynchronizeMarketBlockState_def synchronizeMarketBlockState_def
  by (intro pres_intros [where P = P] SynchronizeState_preserves [OF assms])

text \<open>What each of them does to the working copy when it succeeds.\<close>

lemma tryStartProcessing_Inr:
  "tryStartProcessing E w t e = (Inr (st, t1), w') \<Longrightarrow>
     \<exists>rows d. sql_begin_processing e t = Inr (rows, d) \<and> rows \<noteq> [] \<and> t1 = t\<lparr>tx_db := d\<rparr>"
  by (auto simp: tryStartProcessing_def Let_def tx_exec_Inr QueryRow_def
      split: result_splits list.splits)

lemma sql_begin_processing_plain:
  "sql_begin_processing e t = Inl err \<Longrightarrow> \<not> errors_Is err PgNoRows"
  by (auto simp: sql_begin_processing_def unique_violation_def Let_def split: option.splits if_splits)

lemma tryStartProcessing_NoRows:
  "tryStartProcessing E w t e = (Inl err, w') \<Longrightarrow> errors_Is err PgNoRows \<Longrightarrow>
     sql_begin_processing e t = Inr ([], tx_db t) \<or>
     (\<exists>d. sql_begin_processing e t = Inr ([], d))"
  by (auto simp: tryStartProcessing_def Let_def tx_exec_Inr QueryRow_def
      dest!: tx_exec_Inl sql_begin_processing_plain split: result_splits list.splits)

lemma getCurrentStatus_Inr:
  "getCurrentStatus E w t i g = (Inr st, w') \<Longrightarrow> inbox_status (i, g) (tx_db t) = Some st"
proof -
  assume "getCurrentStatus E w t i g = (Inr st, w')"
  then obtain sts where "map In_Status (filter (\<lambda>r. In_EventID r = i \<and> In_ConsumerGroup r = g)
      (inbox (tx_db t))) = st # sts"
    by (auto simp: getCurrentStatus_def Let_def tx_exec_Inr QueryRow_def split: result_splits list.splits)
  then have "map_option In_Status (find (\<lambda>r. In_EventID r = i \<and> In_ConsumerGroup r = g)
      (inbox (tx_db t))) = Some st"
    by (rule find_hd_filter)
  then show ?thesis by (simp add: inbox_status_def inbox_key_def)
qed

lemma BeginProcessing_Inr:
  assumes "BeginProcessing E w t e = (Inr (b, st, t1), w')"
  shows "if b
    then (\<exists>d. t1 = t\<lparr>tx_db := d\<rparr> \<and> orders d = orders (tx_db t) \<and> outbox d = outbox (tx_db t) \<and>
        (db_ok (tx_db t) \<longrightarrow> db_ok d) \<and>
        (\<forall>k. k \<noteq> inbox_key e \<longrightarrow> inbox_status k d = inbox_status k (tx_db t)) \<and>
        inbox_status (inbox_key e) (tx_db t) \<in> {None, Some InboxEventStatusFailed} \<and>
        inbox_status (inbox_key e) d = Some InboxEventStatusProcessing)
    else t1 = t \<and> inbox_status (inbox_key e) (tx_db t) = Some st \<and> st \<noteq> InboxEventStatusFailed"
proof (cases "tryStartProcessing E w t e")
  case (Pair r w1)
  show ?thesis
  proof (cases r)
    case (Inr x)
    with assms Pair have b: "b" and "x = (st, t1)"
      by (auto simp: BeginProcessing_def split: prod.splits)
    with Pair Inr obtain rows d where d: "sql_begin_processing e t = Inr (rows, d)" "rows \<noteq> []"
      "t1 = t\<lparr>tx_db := d\<rparr>" using tryStartProcessing_Inr by blast
    show ?thesis
      using b d sql_begin_processing_cases [OF d(1)] sql_begin_processing_ok [OF _ d(1)] by auto
  next
    case (Inl err)
    with assms Pair have no: "errors_Is err PgNoRows" and "\<not> b" "t1 = t" and
      cur: "getCurrentStatus E w1 t (In_EventID e) (In_ConsumerGroup e) = (Inr st, w')"
      by (auto simp: BeginProcessing_def Let_def split: result_splits)
    obtain d where d: "sql_begin_processing e t = Inr ([], d)"
      using tryStartProcessing_NoRows [OF Pair [unfolded Inl] no] by auto
    have "inbox_status (inbox_key e) (tx_db t) = Some st"
      using getCurrentStatus_Inr [OF cur] by (simp add: inbox_key_def)
    with sql_begin_processing_cases [OF d] \<open>\<not> b\<close> \<open>t1 = t\<close> show ?thesis by auto
  qed
qed

lemma ProduceOrderStatusUpdated_Inr:
  "ProduceOrderStatusUpdated E w t e = (Inr t1, w') \<Longrightarrow>
     \<exists>payload rows. MarshalOrderStatusUpdated E e = Inr payload \<and>
       outbox_insert (tx_now t) (buildOrderStatusUpdatedOutboxEvent (env_uuid E (tick w)) e payload)
         (outbox (tx_db t)) = Inr rows \<and>
       t1 = t\<lparr>tx_db := (tx_db t)\<lparr>outbox := rows\<rparr>\<rparr>"
  by (auto simp: ProduceOrderStatusUpdated_def Let_def dest!: SaveOutboxEvent_Inr split: result_splits)

lemma publishCancelledOrderEvents_Inr:
  assumes "publishCancelledOrderEvents E w t ev ids = (Inr t1, w')"
  shows "\<exists>es. t1 = t\<lparr>tx_db := (tx_db t)\<lparr>outbox := outbox (tx_db t) @ es\<rparr>\<rparr> \<and>
    map Out_AggregateID es = ids \<and> list_all (cancel_event E ev) es \<and>
    (outbox_ok (outbox (tx_db t)) \<longrightarrow> outbox_ok (outbox (tx_db t) @ es))"
  using assms
proof (induction ids arbitrary: w t)
  case (Cons i ids)
  let ?e = "\<lparr>OS_EventID = env_uuid E (tick w), OS_OrderID = i, OS_NewStatus = OrderStatusCancelled,
      OS_Reason = ''market became unavailable'', OS_CorrelationID = MS_EventID ev,
      OS_UpdatedAt = env_now E (tick (step w))\<rparr>"
  obtain t2 w2 where one: "ProduceOrderStatusUpdated E (step (step w)) t ?e = (Inr t2, w2)"
    and rest: "publishCancelledOrderEvents E w2 t2 ev ids = (Inr t1, w')"
    using Cons.prems by (auto simp: Let_def split: prod.splits sum.splits)
  from ProduceOrderStatusUpdated_Inr [OF one] obtain payload rows where
    m: "MarshalOrderStatusUpdated E ?e = Inr payload" and
    ins: "outbox_insert (tx_now t) (buildOrderStatusUpdatedOutboxEvent
       (env_uuid E (tick (step (step w)))) ?e payload) (outbox (tx_db t)) = Inr rows" and
    t2: "t2 = t\<lparr>tx_db := (tx_db t)\<lparr>outbox := rows\<rparr>\<rparr>" by auto
  from ins obtain row where row: "rows = outbox (tx_db t) @ [row]" "Out_AggregateID row = i"
    and fields: "Out_EventType row = OrderStatusUpdatedEventType" "Out_Payload row = payload"
      "Out_Status row = OutboxEventStatusPending" "Out_EventID row = OS_EventID ?e"
    by (auto simp: outbox_insert_def buildOrderStatusUpdatedOutboxEvent_def
        new_outbox_event_def split: if_splits)
  then have "cancel_event E ev row"
    unfolding cancel_event_def using m by (intro conjI exI [of _ "OS_UpdatedAt ?e"]) simp_all
  moreover obtain es where "t1 = t2\<lparr>tx_db := (tx_db t2)\<lparr>outbox := outbox (tx_db t2) @ es\<rparr>\<rparr>"
    "map Out_AggregateID es = ids" "list_all (cancel_event E ev) es"
    "outbox_ok (outbox (tx_db t2)) \<longrightarrow> outbox_ok (outbox (tx_db t2) @ es)"
    using Cons.IH [OF rest] by auto
  ultimately show ?case
    using t2 row outbox_insert_ok [OF _ ins] by (intro exI [of _ "row # es"]) simp
qed simp

lemma sql_cancel_active_Inr:
  assumes "sql_cancel_active rank m t = Inr (ids, d)"
  shows "orders d = upd_where (row_active m) (\<lambda>r. r\<lparr>row_status := OrderStatusCancelled\<rparr>) (orders (tx_db t))"
    and "outbox d = outbox (tx_db t)" and "inbox d = inbox (tx_db t)"
    and "mset ids = mset (map row_id (filter (row_active m) (orders (tx_db t))))"
  using assms by (auto simp: sql_cancel_active_def)

lemma applyCompensationTransaction_Inr:
  assumes "applyCompensationTransaction E w t ev = (Inr t1, w')"
  shows "\<exists>d. t1 = t\<lparr>tx_db := d\<rparr> \<and> inbox d = inbox (tx_db t) \<and> (db_ok (tx_db t) \<longrightarrow> db_ok d) \<and>
    (if blocks ev then orders_cancelled E ev (tx_db t) d
     else orders d = orders (tx_db t) \<and> outbox d = outbox (tx_db t))"
proof (cases "blocks ev")
  case False
  with assms show ?thesis
    by (auto simp: applyCompensationTransaction_def blocks_def intro!: exI [of _ "tx_db t"])
next
  case True
  with assms obtain ids t2 w2 where
    cancel: "CancelActiveOrdersByMarket E w t (MS_MarketID ev) = (Inr (ids, t2), w2)"
    and pub: "publishCancelledOrderEvents E w2 t2 ev ids = (Inr t1, w')"
    by (auto simp: applyCompensationTransaction_def blocks_def split: prod.splits sum.splits)
  obtain d where d: "sql_cancel_active (env_rank E (tick w)) (MS_MarketID ev) t = Inr (ids, d)"
    and t2: "t2 = t\<lparr>tx_db := d\<rparr>"
    using cancel by (auto simp: CancelActiveOrdersByMarket_def tx_exec_Inr split: result_splits)
  from publishCancelledOrderEvents_Inr [OF pub] t2 obtain es where
    es: "t1 = t\<lparr>tx_db := d\<lparr>outbox := outbox d @ es\<rparr>\<rparr>" "map Out_AggregateID es = ids"
      "list_all (cancel_event E ev) es" "outbox_ok (outbox d) \<longrightarrow> outbox_ok (outbox d @ es)"
    by auto
  have "db_ok (tx_db t) \<longrightarrow> db_ok (d\<lparr>outbox := outbox d @ es\<rparr>)"
    using sql_cancel_active_ok [OF _ d] es(4) by (auto simp: db_ok_def)
  with True es sql_cancel_active_Inr [OF d] show ?thesis
    by (intro exI [of _ "d\<lparr>outbox := outbox d @ es\<rparr>"]) (auto simp: orders_cancelled_def)
qed

lemma MarkProcessed_Inr:
  assumes "MarkProcessed E w t i g = (Inr t1, w')"
    and "inbox_status (i, g) (tx_db t) = Some InboxEventStatusProcessing"
  shows "\<exists>d. t1 = t\<lparr>tx_db := d\<rparr> \<and> orders d = orders (tx_db t) \<and> outbox d = outbox (tx_db t) \<and>
    (db_ok (tx_db t) \<longrightarrow> db_ok d) \<and> inbox_status (i, g) d = Some InboxEventStatusProcessed \<and>
    (\<forall>k. k \<noteq> (i, g) \<longrightarrow> inbox_status k d = inbox_status k (tx_db t))"
proof -
  let ?P = "\<lambda>r. In_EventID r = i \<and> In_ConsumerGroup r = g \<and> In_Status r = InboxEventStatusProcessing"
  let ?f = "\<lambda>now r. r\<lparr>In_Status := InboxEventStatusProcessed, In_ProcessedAt := Some now,
      In_FailedAt := None, In_ErrorMessage := None\<rparr>"
  obtain n d where d: "sql_update_inbox ?P ?f t = Inr (n, d)" "t1 = t\<lparr>tx_db := d\<rparr>"
    using assms(1) by (auto simp: MarkProcessed_def Let_def tx_exec_Inr split: result_splits)
  then have eq: "d = (tx_db t)\<lparr>inbox := upd_where ?P (?f (tx_now t)) (inbox (tx_db t))\<rparr>"
    by (simp add: sql_update_inbox_def)
  have key: "?P r \<Longrightarrow> inbox_key (?f (tx_now t) r) = inbox_key r \<and> inbox_key r = (i, g)" for r
    by (simp add: inbox_key_def)
  have "db_ok (tx_db t) \<longrightarrow> db_ok d"
    using sql_update_inbox_ok [OF _ d(1)] by (auto simp: inbox_row_ok_def)
  moreover have "inbox_status (i, g) d = Some InboxEventStatusProcessed"
  proof -
    from assms(2) obtain r where r: "find (\<lambda>r. inbox_key r = (i, g)) (inbox (tx_db t)) = Some r"
      "In_Status r = InboxEventStatusProcessing" by (auto simp: inbox_status_def)
    with find_eq_SomeD [OF r(1)] have "?P r" by (simp add: inbox_key_def)
    with r(1) show ?thesis
      unfolding eq by (subst inbox_status_upd(2) [OF key]) auto
  qed
  ultimately show ?thesis
    using d(2) inbox_status_upd(1) [where P = ?P and f = "?f (tx_now t)", OF key]
    by (intro exI [of _ d]) (auto simp: eq)
qed

section \<open>What processing a market event does\<close>

text \<open>
  The tables after a call: changed by the whole transaction, or by the record of a failure,
  or not at all. \<open>pre\<close> is the part that depends on the invariant of the tables.
\<close>

definition tables_ok :: "order_db \<Rightarrow> order_db \<Rightarrow> bool" where
  "tables_ok d d' \<longleftrightarrow> (db_ok d \<longrightarrow> db_ok d')"

lemma pool_save_failed:
  assumes "inbox_key e = (MS_EventID ev, g)"
  shows "db (snd (SaveFailed E w e msg)) = db w \<or>
    failure_recorded ev g (db w) (db (snd (SaveFailed E w e msg))) \<and>
    tables_ok (db w) (db (snd (SaveFailed E w e msg)))"
proof -
  let ?t = "\<lparr>tx_db = db w, tx_now = env_db_now E (tick w)\<rparr>"
  have "db (snd (pool_exec E w (sql_save_failed e msg))) = db w \<or>
      (\<exists>n d. sql_save_failed e msg ?t = Inr (n, d) \<and>
         db (snd (pool_exec E w (sql_save_failed e msg))) = d)"
    by (auto simp: pool_exec_def external_def split: outcome.splits sum.splits)
  moreover have "db (snd (SaveFailed E w e msg)) = db (snd (pool_exec E w (sql_save_failed e msg)))"
    by (auto simp: SaveFailed_def Let_def split: result_splits)
  moreover have "d = db w \<or> failure_recorded ev g (db w) d \<and> tables_ok (db w) d"
    if "sql_save_failed e msg ?t = Inr (n, d)" for n d
    using sql_save_failed_cases [OF that] sql_save_failed_ok [OF _ that] assms
    by (auto simp: failure_recorded_def tables_ok_def split: if_splits)
  ultimately show ?thesis by auto
qed

lemma failProcessing_db:
  assumes "inbox_key e = (MS_EventID ev, g)" and "failProcessing E w op e err = (r, w')"
  shows "(\<exists>x. r = Inl x) \<and> (db w' = db w \<or>
    failure_recorded ev g (db w) (db w') \<and> tables_ok (db w) (db w'))"
  using pool_save_failed [OF assms(1), of E w] assms(2)
  by (auto simp: failProcessing_def Let_def split: result_splits) (metis snd_conv)+

lemma sync_db [frame]: "db (trySynchronizeMarketBlockState E w cfg ev) = db w"
  by (rule sync_preserves [where P = "\<lambda>v. db v = db w"]) auto

text \<open>The working copy at the moment of the commit.\<close>

lemma compensated_by_statements:
  assumes start: "BeginProcessing E w t e = (Inr (True, st, t1), w1)"
    and "inbox_key e = (MS_EventID ev, g)"
    and app: "applyCompensationTransaction E w2 t1 ev = (Inr t2, w3)"
    and mark: "MarkProcessed E w4 t2 (MS_EventID ev) g = (Inr t3, w5)"
  shows "compensated E ev g (tx_db t) (tx_db t3) \<and> tables_ok (tx_db t) (tx_db t3)"
proof -
  from BeginProcessing_Inr [OF start] assms(2) obtain d1 where
    d1: "t1 = t\<lparr>tx_db := d1\<rparr>" "orders d1 = orders (tx_db t)" "outbox d1 = outbox (tx_db t)"
      "tables_ok (tx_db t) d1"
      "\<And>k. k \<noteq> (MS_EventID ev, g) \<Longrightarrow> inbox_status k d1 = inbox_status k (tx_db t)"
      "inbox_status (MS_EventID ev, g) (tx_db t) \<in> {None, Some InboxEventStatusFailed}"
      "inbox_status (MS_EventID ev, g) d1 = Some InboxEventStatusProcessing"
    by (auto simp: tables_ok_def)
  from applyCompensationTransaction_Inr [OF app] d1(1) obtain d2 where
    d2: "t2 = t\<lparr>tx_db := d2\<rparr>" "inbox d2 = inbox d1" "tables_ok d1 d2"
      "if blocks ev then orders_cancelled E ev d1 d2 else orders d2 = orders d1 \<and> outbox d2 = outbox d1"
    unfolding tables_ok_def by (metis tx.select_convs(1) tx.surjective tx.update_convs(1))
  have same: "inbox_status k d2 = inbox_status k d1" for k by (simp add: inbox_status_def d2(2))
  from MarkProcessed_Inr [OF mark] d1(7) d2(1) same obtain d3 where
    d3: "t3 = t\<lparr>tx_db := d3\<rparr>" "orders d3 = orders d2" "outbox d3 = outbox d2" "tables_ok d2 d3"
      "inbox_status (MS_EventID ev, g) d3 = Some InboxEventStatusProcessed"
      "\<And>k. k \<noteq> (MS_EventID ev, g) \<Longrightarrow> inbox_status k d3 = inbox_status k d2"
    by (auto simp: tables_ok_def)
  have "compensated E ev g (tx_db t) d3"
    using d1 d2(4) d3 same by (auto simp: compensated_def orders_cancelled_def)
  moreover have "tables_ok (tx_db t) d3" using d1(4) d2(3) d3(4) by (simp add: tables_ok_def)
  ultimately show ?thesis by (simp add: d3(1))
qed

lemma Commit_db:
  "db (snd (Commit E w t)) = db w \<or> db (snd (Commit E w t)) = tx_db t"
  by (auto simp: Commit_def external_def split: outcome.splits)

text \<open>The end of a call: the compensation, the mark in the inbox and the commit.\<close>

definition outcome_of ::
  "'e order_env_scheme \<Rightarrow> MarketStateChangedEvent \<Rightarrow> string \<Rightarrow> order_db \<Rightarrow> go_error + unit \<Rightarrow> order_db \<Rightarrow> bool" where
  "outcome_of E ev g d r d' \<longleftrightarrow>
     compensated E ev g d d' \<and> tables_ok d d' \<and> (r = Inr () \<or> \<not> unambiguous E) \<or>
     r = Inr () \<and> d' = d \<and> (\<exists>st. inbox_status (MS_EventID ev, g) d = Some st \<and> st \<noteq> InboxEventStatusFailed) \<or>
     (\<exists>e. r = Inl e) \<and> failure_recorded ev g d d' \<and> tables_ok d d' \<or>
     (\<exists>e. r = Inl e) \<and> d' = d"

lemma outcome_of_fail:
  "inbox_key e = (MS_EventID ev, g) \<Longrightarrow> failProcessing E w op e err = (r, w') \<Longrightarrow> db w = d \<Longrightarrow>
     outcome_of E ev g d r (db w')"
  using failProcessing_db [of e ev g E w op err r w'] by (auto simp: outcome_of_def)

lemma outcome_of_commit:
  assumes "compensated E ev g d (tx_db t)" and "tables_ok d (tx_db t)" and "db w = d"
    and "(case Commit E w t of (Inl err, w5) \<Rightarrow> (Inl (Errorf pre err ''''), w5)
      | (Inr _, w5) \<Rightarrow> (Inr (), trySynchronizeMarketBlockState E w5 cfg ev)) = (r, w')"
  shows "outcome_of E ev g d r (db w')"
proof (cases "Commit E w t")
  case (Pair c w5)
  show ?thesis
  proof (cases c)
    case (Inl err)
    with Pair assms have r: "r = Inl (Errorf pre err '''')" "w' = w5" by auto
    have "db w5 = d \<or> db w5 = tx_db t \<and> \<not> unambiguous E"
      using Commit_db [of E w t] Commit_Inl [of E w t err w5] Pair Inl assms(3) by auto
    with r assms show ?thesis by (auto simp: outcome_of_def)
  next
    case (Inr x)
    with Pair assms(4) have "r = Inr ()" "w' = trySynchronizeMarketBlockState E w5 cfg ev" by auto
    moreover have "db w5 = tx_db t" using Pair Inr by (auto simp: Commit_Inr)
    ultimately have "r = Inr ()" "db w' = tx_db t" by (simp_all add: sync_db)
    with assms show ?thesis by (auto simp: outcome_of_def)
  qed
qed

lemma outcome_of_skip:
  assumes "inbox_status (MS_EventID ev, g) (tx_db t) = Some st" "st \<noteq> InboxEventStatusFailed"
    and "tx_db t = d" and "db w = d" and "handleSkippedEvent E w cfg t ev st = (r, w')"
  shows "outcome_of E ev g d r (db w')"
proof (cases "Commit E w t")
  case (Pair c w5)
  with Commit_db [of E w t] assms(3,4) have "db w5 = d" by auto
  with Pair assms show ?thesis
    by (cases c; cases st) (auto simp: handleSkippedEvent_def outcome_of_def sync_db)
qed

lemma outcome_of_apply:
  assumes start: "BeginProcessing E w t e = (Inr (True, st, t1), w2)"
    and key: "inbox_key e = (MS_EventID ev, g)" and t: "tx_db t = d" and w2: "db w2 = d"
    and run: "(case applyCompensationTransaction E w2 t1 ev of
        (Inl err, w3) \<Rightarrow> failProcessing E w3 op e err
      | (Inr t2, w3) \<Rightarrow>
     (case MarkProcessed E w3 t2 (MS_EventID ev) g of
        (Inl err, w4) \<Rightarrow> failProcessing E w4 op e err
      | (Inr t3, w4) \<Rightarrow>
     (case Commit E w4 t3 of
        (Inl err, w5) \<Rightarrow> (Inl (Errorf pre err ''''), w5)
      | (Inr _, w5) \<Rightarrow> (Inr (), trySynchronizeMarketBlockState E w5 cfg ev)))) = (r, w')"
  shows "outcome_of E ev g d r (db w')"
proof -
  obtain r3 w3 where app: "applyCompensationTransaction E w2 t1 ev = (r3, w3)" by fastforce
  have w3: "db w3 = d"
    using applyCompensationTransaction_preserves [of "\<lambda>v. db v = d" w2 E t1 ev] app w2 by simp
  show ?thesis
  proof (cases r3)
    case (Inl err)
    with run app w3 key show ?thesis by (auto intro: outcome_of_fail)
  next
    case (Inr t2)
    obtain r4 w4 where mark: "MarkProcessed E w3 t2 (MS_EventID ev) g = (r4, w4)" by fastforce
    have w4: "db w4 = d" using MarkProcessed_world [of E w3 t2 "MS_EventID ev" g] mark w3 by auto
    show ?thesis
    proof (cases r4)
      case (Inl err)
      with run app Inr mark w4 key show ?thesis by (auto intro: outcome_of_fail)
    next
      case (Inr t3)
      with compensated_by_statements [OF start key app [unfolded \<open>r3 = _\<close>]] mark t
      have "compensated E ev g d (tx_db t3)" "tables_ok d (tx_db t3)" by auto
      then show ?thesis
        by (rule outcome_of_commit [OF _ _ w4]) (use run app \<open>r3 = _\<close> mark Inr in simp)
    qed
  qed
qed

lemma ProcessMarketStateChanged_outcome:
  assumes "ProcessMarketStateChanged E w cfg topic g payload ev = (r, w')"
  shows "outcome_of E ev g (db w) r (db w')"
proof -
  let ?op = "''MarketCompensationService.ProcessMarketStateChanged''"
  obtain b w1 where beg: "Begin E w = (b, w1)" by fastforce
  have w1: "w1 = step w" using Begin_world [of E w] beg by simp
  let ?e = "new_inbox_event (env_uuid E (tick w1)) ev topic g payload"
  show ?thesis
  proof (cases b)
    case (Inl err)
    with assms beg w1 show ?thesis
      by (auto simp: ProcessMarketStateChanged_def Let_def outcome_of_def)
  next
    case (Inr t)
    have t: "tx_db t = db w" using beg Inr by (auto simp: Begin_Inr)
    obtain r2 w2 where start: "BeginProcessing E (step w1) t ?e = (r2, w2)" by fastforce
    have w2: "db w2 = db w"
      using BeginProcessing_preserves [of "\<lambda>v. db v = db w" "step w1" E t ?e] start w1 by simp
    note run = assms [unfolded ProcessMarketStateChanged_def Let_def beg Inr prod.case sum.case start]
    show ?thesis
    proof (cases r2)
      case (Inl err)
      with run w2 show ?thesis by (intro outcome_of_fail [of ?e ev g E w2 ?op err]) auto
    next
      case (Inr x)
      obtain p st t1 where x: "x = (p, st, t1)" by (cases x) auto
      note start = start [unfolded Inr x] and run = run [unfolded Inr x prod.case sum.case]
      show ?thesis
      proof (cases p)
        case True
        with start run t w2 show ?thesis
          by (intro outcome_of_apply [of E "step w1" t ?e st t1 w2 ev g "db w" ?op]) auto
      next
        case False
        with BeginProcessing_Inr [OF start] t run w2 show ?thesis
          by (intro outcome_of_skip [of ev g t1 st "db w" w2 E cfg]) auto
      qed
    qed
  qed
qed

section \<open>The properties of the compensation\<close>

text \<open>No event is ever left in the state of being processed: that state lives in transactions only.\<close>

definition inbox_settled :: "order_db \<Rightarrow> bool" where
  "inbox_settled d \<longleftrightarrow> (\<forall>k. inbox_status k d \<noteq> Some InboxEventStatusProcessing)"

lemma outcome_settled:
  "outcome_of E ev g d r d' \<Longrightarrow> inbox_settled d \<Longrightarrow> inbox_settled d'"
  unfolding outcome_of_def inbox_settled_def compensated_def failure_recorded_def
  by (metis InboxEventStatus.distinct(1,3) option.inject)

lemma outcome_processed:
  "outcome_of E ev g d r d' \<Longrightarrow> inbox_status (MS_EventID ev, g) d = Some InboxEventStatusProcessed \<Longrightarrow> d' = d"
  by (auto simp: outcome_of_def compensated_def failure_recorded_def)

lemma outcome_keeps_processed:
  assumes "outcome_of E ev g d r d'" and "inbox_status k d = Some InboxEventStatusProcessed"
  shows "inbox_status k d' = Some InboxEventStatusProcessed"
proof (cases "k = (MS_EventID ev, g)")
  case True
  with assms show ?thesis using outcome_processed [OF assms(1)] by simp
next
  case False
  with assms(1) have "inbox_status k d' = inbox_status k d"
    unfolding outcome_of_def compensated_def failure_recorded_def by metis
  with assms(2) show ?thesis by simp
qed

lemma outcome_success:
  "outcome_of E ev g d (Inr ()) d' \<Longrightarrow> inbox_settled d \<Longrightarrow>
     inbox_status (MS_EventID ev, g) d' = Some InboxEventStatusProcessed"
  unfolding outcome_of_def inbox_settled_def compensated_def
  by (metis InboxEventStatus.exhaust sum.distinct(1))

lemma cancelled_not_active: "\<not> row_active m (r\<lparr>row_status := OrderStatusCancelled\<rparr>)"
  by (simp add: row_active_def OrderStatus_defs)

lemma no_active_left:
  assumes "orders d' = upd_where (row_active m) (\<lambda>r. r\<lparr>row_status := OrderStatusCancelled\<rparr>) (orders d)"
  shows "\<forall>r \<in> set (orders d'). \<not> row_active m r"
  using cancelled_not_active unfolding assms set_upd_where by blast

lemma first_delivery_compensates:
  assumes "ProcessMarketStateChanged E w cfg topic g payload ev = (Inr (), w')"
    and "blocks ev" and "inbox_settled (db w)"
    and "inbox_status (MS_EventID ev, g) (db w) \<noteq> Some InboxEventStatusProcessed"
  shows "compensated E ev g (db w) (db w') \<and> (\<forall>r \<in> set (orders (db w')). \<not> row_active (MS_MarketID ev) r)"
proof -
  have "compensated E ev g (db w) (db w')"
    using ProcessMarketStateChanged_outcome [OF assms(1)] assms(3,4)
    unfolding outcome_of_def inbox_settled_def by (metis InboxEventStatus.exhaust sum.distinct(1))
  moreover from this assms(2) have "\<forall>r \<in> set (orders (db w')). \<not> row_active (MS_MarketID ev) r"
    unfolding compensated_def orders_cancelled_def by (intro no_active_left [of _ _ "db w"]) simp
  ultimately show ?thesis by simp
qed

text \<open>
  C3. When a disabled or deleted market is reported for the first time, or again after a
  failure, and the call succeeds, then exactly the active orders of that market are cancelled,
  each of them is announced by exactly one pending event that carries the new status and
  names the market event, and the event is marked as processed. No active order of the market
  is left.
\<close>

theorem disabled_market_orders_cancelled:
  assumes "ProcessMarketStateChanged E w cfg topic g payload ev = (Inr (), w')"
    and "blocks ev" and "inbox_settled (db w)"
    and "inbox_status (MS_EventID ev, g) (db w) \<noteq> Some InboxEventStatusProcessed"
  shows "orders_cancelled E ev (db w) (db w') \<and>
    inbox_status (MS_EventID ev, g) (db w') = Some InboxEventStatusProcessed \<and>
    (\<forall>r \<in> set (orders (db w')). \<not> row_active (MS_MarketID ev) r)"
  using first_delivery_compensates [OF assms] assms(2) by (simp add: compensated_def)

text \<open>
  C16. A market event takes effect at most once for a consumer group: once it is marked as
  processed, delivering it again changes no table, whatever fails on the way.
\<close>

theorem market_event_exactly_once:
  assumes "inbox_status (MS_EventID ev, g) (db w) = Some InboxEventStatusProcessed"
    and "ProcessMarketStateChanged E w cfg topic g payload ev = (r, w')"
  shows "db w' = db w"
  using ProcessMarketStateChanged_outcome [OF assms(2)] assms(1) by (rule outcome_processed)

text \<open>
  C20. When processing a market event fails and no commit was applied without an answer, then
  no order and no outbox event has changed, and the inbox is as before or records the event
  as failed, so that it is processed again when it is delivered again.
\<close>

theorem compensation_failure_atomic:
  assumes "unambiguous E" and "ProcessMarketStateChanged E w cfg topic g payload ev = (Inl e, w')"
  shows "orders (db w') = orders (db w) \<and> outbox (db w') = outbox (db w) \<and>
    (db w' = db w \<or> inbox_status (MS_EventID ev, g) (db w') = Some InboxEventStatusFailed)"
  using ProcessMarketStateChanged_outcome [OF assms(2)] assms(1)
  by (auto simp: outcome_of_def failure_recorded_def)

text \<open>
  Processing a market event keeps the invariant of the tables, and leaves no inbox row in
  the state of being processed, whatever the environment does.
\<close>

theorem compensation_keeps_tables_ok:
  assumes "db_ok (db w)" and "inbox_settled (db w)"
    and "ProcessMarketStateChanged E w cfg topic g payload ev = (r, w')"
  shows "db_ok (db w') \<and> inbox_settled (db w')"
  using ProcessMarketStateChanged_outcome [OF assms(3)] assms(1,2)
    outcome_settled [OF ProcessMarketStateChanged_outcome [OF assms(3)]]
  by (auto simp: outcome_of_def tables_ok_def)

section \<open>The handler in its consumer\<close>

definition plain_error :: "go_error \<Rightarrow> bool" where
  "plain_error e \<longleftrightarrow> \<not> IsControlFlowError e \<and> as_RetryExhausted e = None"

lemma plain_error_simps [simp]:
  "plain_error (Errorf pre e post) = plain_error e"
  "plain_error (NonRetryableError e) = plain_error e"
  "plain_error (NewError s)" "plain_error (PgError a b c)" "plain_error PgNoRows"
  by (auto simp: plain_error_def IsControlFlowError_def)

lemma plain_fault [simp]: "plain_error (fault_error f)"
  by (cases f) (auto simp: plain_error_def IsControlFlowError_def)

lemma tx_exec_plain:
  "tx_exec E w t stmt = (Inl e, w') \<Longrightarrow> (\<And>x. stmt t = Inl x \<Longrightarrow> plain_error x) \<Longrightarrow> plain_error e"
  by (auto dest: tx_exec_Inl)

lemma external_plain:
  "external E w act = (Inl e, w') \<Longrightarrow> (\<And>x. fst (act w) = Inl x \<Longrightarrow> plain_error x) \<Longrightarrow> plain_error e"
  by (auto simp: external_def split: outcome.splits prod.splits)

lemma QueryRow_plain: "QueryRow rows = Inl e \<Longrightarrow> plain_error e"
  by (auto simp: QueryRow_def split: list.splits)

lemma sql_plain:
  "sql_begin_processing i t = Inl e \<Longrightarrow> plain_error e"
  "sql_save_failed i m t = Inl e \<Longrightarrow> plain_error e"
  "outbox_insert n o' rows = Inl e \<Longrightarrow> plain_error e"
  by (auto simp: sql_begin_processing_def sql_save_failed_def outbox_insert_def unique_violation_def
      Let_def split: option.splits if_splits)

lemma BeginProcessing_plain: "BeginProcessing E w t i = (Inl e, w') \<Longrightarrow> plain_error e"
  by (auto simp: BeginProcessing_def tryStartProcessing_def getCurrentStatus_def Let_def
      dest!: tx_exec_plain dest: sql_plain QueryRow_plain split: result_splits)

lemma MarkProcessed_plain: "MarkProcessed E w t i g = (Inl e, w') \<Longrightarrow> plain_error e"
  by (auto simp: MarkProcessed_def Let_def sql_update_inbox_def dest!: tx_exec_plain split: result_splits)

lemma ProduceOrderStatusUpdated_plain:
  "ProduceOrderStatusUpdated E w t x = (Inl e, w') \<Longrightarrow> plain_error e"
  by (auto simp: ProduceOrderStatusUpdated_def SaveOutboxEvent_def MarshalOrderStatusUpdated_def Let_def
      dest!: tx_exec_plain dest: sql_plain split: result_splits)

lemma publishCancelledOrderEvents_plain:
  "publishCancelledOrderEvents E w t ev ids = (Inl e, w') \<Longrightarrow> plain_error e"
  by (induction ids arbitrary: w t)
    (auto simp: Let_def dest: ProduceOrderStatusUpdated_plain split: result_splits)

lemma applyCompensationTransaction_plain:
  "applyCompensationTransaction E w t ev = (Inl e, w') \<Longrightarrow> plain_error e"
  by (auto simp: applyCompensationTransaction_def CancelActiveOrdersByMarket_def sql_cancel_active_def
      dest!: tx_exec_plain dest: publishCancelledOrderEvents_plain split: result_splits)

lemma failProcessing_plain:
  "failProcessing E w op i err = (Inl e, w') \<Longrightarrow> plain_error err \<Longrightarrow> plain_error e"
  by (auto simp: failProcessing_def Let_def split: result_splits)

lemma Begin_plain: "Begin E w = (Inl e, w') \<Longrightarrow> plain_error e"
  unfolding Begin_def by (auto dest: external_plain)

lemma Commit_plain: "Commit E w t = (Inl e, w') \<Longrightarrow> plain_error e"
  unfolding Commit_def by (auto dest: external_plain)

lemma ProcessMarketStateChanged_plain:
  "ProcessMarketStateChanged E w cfg topic g payload ev = (Inl e, w') \<Longrightarrow> plain_error e"
  unfolding ProcessMarketStateChanged_def handleSkippedEvent_def Let_def
  by (auto dest: Begin_plain Commit_plain BeginProcessing_plain MarkProcessed_plain
      applyCompensationTransaction_plain failProcessing_plain
      split: result_splits InboxEventStatus.splits)

lemma Unmarshal_plain: "UnmarshalMarketStateChanged E C b = Inl e \<Longrightarrow> plain_error e"
  by (auto simp: UnmarshalMarketStateChanged_def FromProtoMarketStateChanged_def
      parseUUIDRequired_def fromProtoTimestamp_def fromProtoTimestampOptional_def
      split: result_splits)

lemma handler_plain: "plain_handler (handleMarketStateChanged E C cfg g)"
  unfolding plain_handler_def handleMarketStateChanged_def Let_def
  by (auto simp: plain_error_def [symmetric] dest: Unmarshal_plain ProcessMarketStateChanged_plain
      split: result_splits)

text \<open>A call touches neither the log of the broker nor another key than the market's.\<close>

lemma ProcessMarketStateChanged_preserves:
  assumes k: "only_key (blockKey E (MS_MarketID ev)) P" and d: "\<And>v x. P v \<Longrightarrow> P (v\<lparr>db := x\<rparr>)"
    and "P w"
  shows "P (snd (ProcessMarketStateChanged E w cfg topic g payload ev))"
proof -
  note s = only_keyD(1) [OF k]
  have fail: "P v \<Longrightarrow> P (snd (failProcessing E v op i err))" for v op i err
    unfolding failProcessing_def by (intro pres_intros [where P = P] SaveFailed_preserves [where P = P] s d)
  have skip: "P v \<Longrightarrow> P (snd (handleSkippedEvent E v cfg t ev st))" for v t st
    unfolding handleSkippedEvent_def
    by (cases st; simp only: InboxEventStatus.case;
        intro pres_intros [where P = P] Commit_preserves [where P = P] s d sync_preserves [OF k])
  have mark: "P v \<Longrightarrow> P (snd (MarkProcessed E v t i g))" for v t i using s by simp
  have beg: "P v \<Longrightarrow> P (snd (Begin E v))" for v using s by simp
  show ?thesis
    unfolding ProcessMarketStateChanged_def
    by (intro pres_intros [where P = P] pres_prod [where P = P] beg fail skip mark \<open>P w\<close> s
        BeginProcessing_preserves [where P = P] applyCompensationTransaction_preserves [where P = P]
        Commit_preserves [where P = P] d sync_preserves [OF k])
qed

lemma handler_kafka: "kafka (snd (handleMarketStateChanged E C cfg g w m)) = kafka w"
proof -
  have "kafka (snd (ProcessMarketStateChanged E w cfg topic g payload ev)) = kafka w" for topic payload ev
    by (rule ProcessMarketStateChanged_preserves [where P = "\<lambda>v. kafka v = kafka w"])
      (auto simp: only_key_def)
  then have "kafka v = kafka w" if "ProcessMarketStateChanged E w cfg topic g payload ev = (r, v)"
    for topic payload ev r v using that by (metis snd_conv)
  then show ?thesis
    by (auto simp: handleMarketStateChanged_def Let_def split: sum.split prod.split)
qed

definition market_event_processed ::
  "'e order_env_scheme \<Rightarrow> market_codec \<Rightarrow> string \<Rightarrow> Message \<Rightarrow> 'a order_world_scheme \<Rightarrow> bool" where
  "market_event_processed E C g m w \<longleftrightarrow>
     (case UnmarshalMarketStateChanged E C (Msg_Value m) of
        Inl err \<Rightarrow> False
      | Inr ev \<Rightarrow> inbox_status (MS_EventID ev, g) (db w) = Some InboxEventStatusProcessed)"

lemma handler_outcome:
  assumes "handleMarketStateChanged E C cfg g w m = (r, w')"
  obtains (malformed) err where "UnmarshalMarketStateChanged E C (Msg_Value m) = Inl err" "w' = w"
      "r = Failed (NonRetryableError (Errorf ''MarketConsumer.handleMarketStateChanged: '' err ''''))"
  | (event) ev x where "UnmarshalMarketStateChanged E C (Msg_Value m) = Inr ev"
      "outcome_of E ev g (db w) x (db w')" "r = Handled \<longleftrightarrow> x = Inr ()"
  using assms
  by (auto simp: handleMarketStateChanged_def Let_def split: result_splits
      dest!: ProcessMarketStateChanged_outcome)

interpretation market: message_handler "handleMarketStateChanged E C cfg g"
  "\<lambda>w. inbox_settled (db w)" "market_event_processed E C g"
  for E C cfg g
proof (unfold_locales, goal_cases)
  case 1
  show ?case by (rule handler_plain)
next
  case (4 w m)
  obtain r w' where h: "handleMarketStateChanged E C cfg g w m = (r, w')" by fastforce
  then show ?case
    by (cases rule: handler_outcome) (use 4 h in \<open>auto dest: outcome_settled\<close>)
next
  case (5 w m w')
  from 5(2) show ?case
    by (cases rule: handler_outcome)
      (use 5(1) in \<open>auto simp: market_event_processed_def dest: outcome_success\<close>)
next
  case (8 w m m')
  obtain r w' where h: "handleMarketStateChanged E C cfg g w m' = (r, w')" by fastforce
  then show ?case
    by (cases rule: handler_outcome)
      (use 8 h in \<open>auto simp: market_event_processed_def dest: outcome_keeps_processed split: sum.splits\<close>)
next
  case (9 w m)
  show ?case by (simp add: handler_kafka)
qed (auto simp: market_event_processed_def split: sum.splits)

text \<open>
  C7. Every offset that a claim of the market topic marks belongs to a message of the claim
  whose event is recorded as processed in the inbox, or whose key and payload are in the dead
  letter queue: with the queue enabled no market event is skipped without a trace, whatever
  fails, and the marked messages are in the order of the claim.
\<close>

theorem market_offset_marked_only_when_settled:
  assumes "dlq_configured ccfg topic" and "inbox_settled (db w)"
    and "consume_market_claim E C cfg ccfg g stops w marks ms = ((r, marks'), w')"
  shows "\<exists>ms'. subseq ms' ms \<and> marks' = marks @ map CM_Offset ms' \<and>
    (\<forall>m \<in> set ms'. market_event_processed E C g (startMessageProcessing m) w' \<or>
       in_dlq topic (startMessageProcessing m) (kafka w'))"
  using market.claim_settled [OF assms(1) assms(3) [unfolded consume_market_claim_def] assms(2)]
  unfolding market.settled_def by blast

text \<open>
  A message that does not decode is handed to the handler once and never retried: the
  retries return at once with an error that marks it as not worth a retry, and nothing changes.
\<close>

theorem malformed_message_not_retried:
  assumes "UnmarshalMarketStateChanged E C (Msg_Value m) = Inl err" and "n < max_int64"
  shows "RetryMiddleware E n b j (handleMarketStateChanged E C cfg g) w m =
    (Failed (NonRetryableError (Errorf ''MarketConsumer.handleMarketStateChanged: '' err '''')), w)"
proof -
  have "nat (wrap64 ((if n < 0 then 0 else n) + 1)) = Suc (nat (max 0 n))"
    using assms(2) by (auto simp: wrap64_id min_int64_def max_int64_def)
  then show ?thesis
    using assms(1)
    by (simp add: RetryMiddleware_def Let_def handleMarketStateChanged_def IsNonRetryableError_def)
qed

end
