(* ===== verification/Outbox_Worker.thy ===== *)
theory Outbox_Worker
  imports Order_Tables Kafka_Producer
begin

text \<open>
  The transactional outbox of both services: the store over the table \<open>outbox\<close>
  (\<open>internal/infrastructure/postgres/outbox/outbox_store.go\<close>) and the worker that publishes its
  rows (\<open>internal/infrastructure/kafka/outbox_worker.go\<close>). The SQL and the worker of the two
  services are the same text but for the call that publishes an event, so both are written once
  over a table that is part of the world, and instantiated for each service.
\<close>

section \<open>The table\<close>

record 'w outbox_table =
  rows_of :: "'w \<Rightarrow> OutboxEvent list"
  with_rows :: "OutboxEvent list \<Rightarrow> 'w \<Rightarrow> 'w"

text \<open>One statement of the pool: it reads the rows and \<open>NOW()\<close>, and writes the rows.\<close>

definition outbox_exec ::
  "'e env_scheme \<Rightarrow> 'a base_scheme outbox_table \<Rightarrow> 'a base_scheme \<Rightarrow>
   (instant \<Rightarrow> OutboxEvent list \<Rightarrow> go_error + 'r \<times> OutboxEvent list) \<Rightarrow>
   (go_error + 'r) \<times> 'a base_scheme" where
  "outbox_exec E T w stmt = external E w (\<lambda>v.
     (case stmt (env_db_now E (tick v)) (rows_of T v) of
        Inl err \<Rightarrow> (Inl err, v)
      | Inr (r, rows) \<Rightarrow> (Inr r, with_rows T rows v)))"

section \<open>The statements\<close>

definition claimable :: "(uuid \<Rightarrow> bool) \<Rightarrow> instant \<Rightarrow> OutboxEvent \<Rightarrow> bool" where
  "claimable locked now r \<longleftrightarrow> Out_Status r = OutboxEventStatusPending \<and>
     Out_AvailableAt r \<le> now \<and> \<not> locked (Out_ID r)"

definition candidates :: "(uuid \<Rightarrow> bool) \<Rightarrow> instant \<Rightarrow> int \<Rightarrow> OutboxEvent list \<Rightarrow> uuid list" where
  "candidates locked now limit rows =
     map Out_ID (take (nat limit) (sort_key (\<lambda>r. (Out_CreatedAt r, uint (Out_ID r)))
       (filter (claimable locked now) rows)))"

definition sql_claim ::
  "(uuid \<Rightarrow> bool) \<Rightarrow> (uuid \<Rightarrow> nat) \<Rightarrow> int \<Rightarrow> instant \<Rightarrow> OutboxEvent list \<Rightarrow>
   go_error + OutboxEvent list \<times> OutboxEvent list" where
  "sql_claim locked rank limit now rows =
     (if limit < 0 then Inl (PgError ''2201W'' '''' ''LIMIT must not be negative'')
      else
        (let ids = set (candidates locked now limit rows);
             rows' = upd_where (\<lambda>r. Out_ID r \<in> ids)
               (\<lambda>r. r\<lparr>Out_Status := OutboxEventStatusProcessing, Out_LockedAt := Some now\<rparr>) rows
         in Inr (sort_key (\<lambda>r. rank (Out_ID r)) (filter (\<lambda>r. Out_ID r \<in> ids) rows'), rows')))"

definition in_processing :: "uuid \<Rightarrow> OutboxEvent \<Rightarrow> bool" where
  "in_processing i r \<longleftrightarrow> Out_ID r = i \<and> Out_Status r = OutboxEventStatusProcessing"

text \<open>An \<open>UPDATE\<close> of the row being processed, with the number of rows it affects.\<close>

definition sql_update_outbox ::
  "uuid \<Rightarrow> (instant \<Rightarrow> OutboxEvent \<Rightarrow> OutboxEvent) \<Rightarrow> instant \<Rightarrow> OutboxEvent list \<Rightarrow>
   go_error + nat \<times> OutboxEvent list" where
  "sql_update_outbox i f now rows =
     Inr (length (filter (in_processing i) rows), upd_where (in_processing i) (f now) rows)"

text \<open>\<open>retry_count\<close> is a 32-bit column: adding to its greatest value is an error.\<close>

definition max_int32 :: int where "max_int32 = 2147483647"

definition sql_count_retry ::
  "uuid \<Rightarrow> (instant \<Rightarrow> OutboxEvent \<Rightarrow> OutboxEvent) \<Rightarrow> instant \<Rightarrow> OutboxEvent list \<Rightarrow>
   go_error + nat \<times> OutboxEvent list" where
  "sql_count_retry i f now rows =
     (if list_ex (\<lambda>r. in_processing i r \<and> Out_RetryCount r = max_int32) rows
      then Inl (PgError ''22003'' '''' ''integer out of range'')
      else sql_update_outbox i (\<lambda>now r. (f now r)\<lparr>Out_RetryCount := Out_RetryCount r + 1\<rparr>) now rows)"

definition stuck :: "instant \<Rightarrow> OutboxEvent \<Rightarrow> bool" where
  "stuck before r \<longleftrightarrow> Out_Status r = OutboxEventStatusProcessing \<and>
     (case Out_LockedAt r of None \<Rightarrow> False | Some t \<Rightarrow> t < pg_timestamp before)"

definition sql_release_stuck ::
  "instant \<Rightarrow> instant \<Rightarrow> OutboxEvent list \<Rightarrow> go_error + nat \<times> OutboxEvent list" where
  "sql_release_stuck before now rows =
     Inr (length (filter (stuck before) rows),
          upd_where (stuck before) (\<lambda>r. r\<lparr>Out_Status := OutboxEventStatusPending,
            Out_LockedAt := None, Out_AvailableAt := now\<rparr>) rows)"

section \<open>The store\<close>

definition ClaimPendingEvents ::
  "'e env_scheme \<Rightarrow> 'a base_scheme outbox_table \<Rightarrow> 'a base_scheme \<Rightarrow> int \<Rightarrow>
   (go_error + OutboxEvent list) \<times> 'a base_scheme" where
  "ClaimPendingEvents E T w limit =
     (case outbox_exec E T w (sql_claim (env_locked E (tick w)) (env_rank E (tick w)) limit) of
        (Inl err, w1) \<Rightarrow> (Inl (Errorf ''OutboxStore.ClaimPendingEvents: query: '' err ''''), w1)
      | (Inr events, w1) \<Rightarrow> (Inr events, w1))"

text \<open>The check of the number of affected rows, which the three updates share.\<close>

definition expect_one ::
  "string \<Rightarrow> (go_error + nat) \<times> 'w \<Rightarrow> (go_error + unit) \<times> 'w" where
  "expect_one op m =
     (case m of
        (Inl err, w1) \<Rightarrow> (Inl (Errorf (op @ '': '') err ''''), w1)
      | (Inr n, w1) \<Rightarrow>
          if n \<noteq> 1 then (Inl (NewError (op @ '': expected to update 1 row, updated '' @ show_nat n)), w1)
          else (Inr (), w1))"

definition MarkPublished ::
  "'e env_scheme \<Rightarrow> 'a base_scheme outbox_table \<Rightarrow> 'a base_scheme \<Rightarrow> OutboxEvent \<Rightarrow>
   (go_error + unit) \<times> 'a base_scheme" where
  "MarkPublished E T w event =
     expect_one ''OutboxStore.MarkPublished'' (outbox_exec E T w
       (sql_update_outbox (Out_ID event) (\<lambda>now r. r\<lparr>Out_Status := OutboxEventStatusPublished,
          Out_PublishedAt := Some now, Out_FailedAt := None, Out_LockedAt := None,
          Out_LastError := None\<rparr>)))"

definition ScheduleRetry ::
  "'e env_scheme \<Rightarrow> 'a base_scheme outbox_table \<Rightarrow> 'a base_scheme \<Rightarrow> OutboxEvent \<Rightarrow> instant \<Rightarrow> string \<Rightarrow>
   (go_error + unit) \<times> 'a base_scheme" where
  "ScheduleRetry E T w event nextRetryAt errText =
     expect_one ''OutboxStore.ScheduleRetry'' (outbox_exec E T w
       (sql_count_retry (Out_ID event) (\<lambda>now r. r\<lparr>Out_Status := OutboxEventStatusPending,
          Out_AvailableAt := pg_timestamp nextRetryAt, Out_FailedAt := None, Out_LockedAt := None,
          Out_LastError := Some errText\<rparr>)))"

definition MarkFailed ::
  "'e env_scheme \<Rightarrow> 'a base_scheme outbox_table \<Rightarrow> 'a base_scheme \<Rightarrow> OutboxEvent \<Rightarrow> string \<Rightarrow>
   (go_error + unit) \<times> 'a base_scheme" where
  "MarkFailed E T w event errText =
     expect_one ''OutboxStore.MarkFailed'' (outbox_exec E T w
       (sql_count_retry (Out_ID event) (\<lambda>now r. r\<lparr>Out_Status := OutboxEventStatusFailed,
          Out_FailedAt := Some now, Out_LockedAt := None, Out_LastError := Some errText\<rparr>)))"

definition ReleaseStuckEvents ::
  "'e env_scheme \<Rightarrow> 'a base_scheme outbox_table \<Rightarrow> 'a base_scheme \<Rightarrow> instant \<Rightarrow>
   (go_error + nat) \<times> 'a base_scheme" where
  "ReleaseStuckEvents E T w stuckBefore =
     (case outbox_exec E T w (sql_release_stuck stuckBefore) of
        (Inl err, w1) \<Rightarrow> (Inl (Errorf ''OutboxStore.ReleaseStuckEvents: '' err ''''), w1)
      | (Inr n, w1) \<Rightarrow> (Inr n, w1))"

definition countPendingEvents ::
  "'e env_scheme \<Rightarrow> 'a base_scheme outbox_table \<Rightarrow> 'a base_scheme \<Rightarrow> (go_error + nat) \<times> 'a base_scheme" where
  "countPendingEvents E T w =
     (case outbox_exec E T w (\<lambda>now rows. Inr (length (filter (claimable (\<lambda>_. False) now) rows), rows)) of
        (Inl err, w1) \<Rightarrow> (Inl (Errorf ''count pending outbox events: '' err ''''), w1)
      | (Inr n, w1) \<Rightarrow> (Inr n, w1))"

section \<open>The worker\<close>

record OutboxConfig =
  ob_PollInterval :: duration
  ob_BatchSize :: int
  ob_MaxRetries :: int
  ob_ProcessingTimeout :: duration

type_synonym 'w publisher = "'w \<Rightarrow> OutboxEvent \<Rightarrow> (go_error + unit) \<times> 'w"

definition handleSendError ::
  "'e env_scheme \<Rightarrow> 'a base_scheme outbox_table \<Rightarrow> OutboxConfig \<Rightarrow> 'a base_scheme \<Rightarrow> OutboxEvent \<Rightarrow>
   go_error \<Rightarrow> 'a base_scheme" where
  "handleSendError E T cfg w event sendErr =
     (let nextRetryCount = Out_RetryCount event + 1;
          errText = error_text (uuid_String E) (duration_String E) sendErr
      in if Out_RetryCount event \<ge> ob_MaxRetries cfg
         then snd (MarkFailed E T w event errText)
         else
           (let backoff = wrap64 (nextRetryCount * ob_PollInterval cfg);
                nextRetryAt = env_now E (tick w) + backoff
            in snd (ScheduleRetry E T (step w) event nextRetryAt errText)))"

definition processEvent ::
  "'e env_scheme \<Rightarrow> 'a base_scheme outbox_table \<Rightarrow> OutboxConfig \<Rightarrow> 'a base_scheme publisher \<Rightarrow>
   'a base_scheme \<Rightarrow> OutboxEvent \<Rightarrow> 'a base_scheme" where
  "processEvent E T cfg publisher w event =
     (case publisher w event of
        (Inl err, w1) \<Rightarrow> handleSendError E T cfg w1 event err
      | (Inr _, w1) \<Rightarrow> snd (MarkPublished E T w1 event))"

fun process_events ::
  "'e env_scheme \<Rightarrow> 'a base_scheme outbox_table \<Rightarrow> OutboxConfig \<Rightarrow> 'a base_scheme publisher \<Rightarrow>
   'a base_scheme \<Rightarrow> OutboxEvent list \<Rightarrow> 'a base_scheme" where
  "process_events E T cfg publisher w [] = w"
| "process_events E T cfg publisher w (event # events) =
     (if env_ctx E (tick w) \<noteq> None then step w
      else process_events E T cfg publisher (processEvent E T cfg publisher (step w) event) events)"

definition processBatch ::
  "'e env_scheme \<Rightarrow> 'a base_scheme outbox_table \<Rightarrow> OutboxConfig \<Rightarrow> 'a base_scheme publisher \<Rightarrow>
   'a base_scheme \<Rightarrow> 'a base_scheme" where
  "processBatch E T cfg publisher w =
     (case ClaimPendingEvents E T w (ob_BatchSize cfg) of
        (Inl err, w1) \<Rightarrow> w1
      | (Inr events, w1) \<Rightarrow> process_events E T cfg publisher w1 events)"

definition releaseStuck ::
  "'e env_scheme \<Rightarrow> 'a base_scheme outbox_table \<Rightarrow> OutboxConfig \<Rightarrow> 'a base_scheme \<Rightarrow> 'a base_scheme" where
  "releaseStuck E T cfg w =
     (let stuckBefore = env_now E (tick w) - ob_ProcessingTimeout cfg in
      snd (ReleaseStuckEvents E T (step w) stuckBefore))"

text \<open>
  The loop: the case each turn of the \<open>select\<close> takes. \<open>None\<close> stands for a worker that is still
  running when the turns are used up; a worker without a context does not start.
\<close>

datatype worker_turn = CtxDone | PollTick | CleanupTick

fun worker_loop ::
  "'e env_scheme \<Rightarrow> 'a base_scheme outbox_table \<Rightarrow> OutboxConfig \<Rightarrow> 'a base_scheme publisher \<Rightarrow>
   'a base_scheme \<Rightarrow> worker_turn list \<Rightarrow> (go_error + unit) option \<times> 'a base_scheme" where
  "worker_loop E T cfg publisher w [] = (None, w)"
| "worker_loop E T cfg publisher w (CtxDone # turns) = (Some (Inr ()), w)"
| "worker_loop E T cfg publisher w (PollTick # turns) =
     worker_loop E T cfg publisher (processBatch E T cfg publisher w) turns"
| "worker_loop E T cfg publisher w (CleanupTick # turns) =
     worker_loop E T cfg publisher (releaseStuck E T cfg w) turns"

definition Run ::
  "'e env_scheme \<Rightarrow> 'a base_scheme outbox_table \<Rightarrow> OutboxConfig \<Rightarrow> 'a base_scheme publisher \<Rightarrow>
   bool \<Rightarrow> 'a base_scheme \<Rightarrow> worker_turn list \<Rightarrow> (go_error + unit) option \<times> 'a base_scheme" where
  "Run E T cfg publisher hasCtx w turns =
     (if \<not> hasCtx then (Some (Inl (Service ErrNilContext)), w)
      else worker_loop E T cfg publisher
             (processBatch E T cfg publisher (releaseStuck E T cfg w)) turns)"

section \<open>The order service's worker\<close>

definition order_outbox :: "'a order_world_scheme outbox_table" where
  "order_outbox = \<lparr>rows_of = \<lambda>w. outbox (db w), with_rows = \<lambda>rows w. w\<lparr>db := (db w)\<lparr>outbox := rows\<rparr>\<rparr>\<rparr>"

record OrderTopics =
  Topic_OrderCreated :: string
  Topic_OrderStatusUpdated :: string

definition messageTopic :: "OrderTopics \<Rightarrow> OutboxEvent \<Rightarrow> string" where
  "messageTopic topics event =
     (if Out_EventType event = OrderCreatedEventType then Topic_OrderCreated topics
      else if Out_EventType event = OrderStatusUpdatedEventType then Topic_OrderStatusUpdated topics
      else '''')"

definition messageKey :: "'e env_scheme \<Rightarrow> OutboxEvent \<Rightarrow> bytes" where
  "messageKey E event = uuid_String E (Out_AggregateID event)"

text \<open>The first half of \<open>processEvent\<close>: the topic, the message and the call of the publisher.\<close>

definition order_publisher ::
  "'e env_scheme \<Rightarrow> OrderTopics \<Rightarrow> string \<Rightarrow> 'a base_scheme publisher" where
  "order_publisher E topics defaultTopic w event =
     (let topic = messageTopic topics event in
      if topic = '''' then
        (Inl (NewError (''unsupported outbox event type: '' @ Out_EventType event)), w)
      else SendMessage E w defaultTopic
        \<lparr>Msg_Headers = [], Msg_Timestamp = zero_time, Msg_BlockTimestamp = zero_time,
         Msg_Key = messageKey E event, Msg_Value = Out_Payload event, Msg_Topic = topic,
         Msg_Partition = 0, Msg_Offset = 0\<rparr>)"

end
