(* ===== verification/Outbox_Delivery.thy ===== *)
theory Outbox_Delivery
  imports Outbox_Worker "HOL-Library.Sublist" "HOL-Library.Multiset"
begin

text \<open>
  What the outbox guarantees: how a row may change while workers run, that a row is marked as
  published only when its message is in the log of the broker, that retries are bounded, and
  that events are published when nothing fails. The lemmas are proved once for a table and a
  publisher with the contract below, and hold for both services.
\<close>

section \<open>How a row changes\<close>

definition terminal :: "OutboxEvent \<Rightarrow> bool" where
  "terminal r \<longleftrightarrow> Out_Status r \<in> {OutboxEventStatusPublished, OutboxEventStatusFailed}"

definition same_event :: "OutboxEvent \<Rightarrow> OutboxEvent \<Rightarrow> bool" where
  "same_event r r' \<longleftrightarrow> Out_ID r' = Out_ID r \<and> Out_EventID r' = Out_EventID r \<and>
     Out_EventType r' = Out_EventType r \<and> Out_AggregateID r' = Out_AggregateID r \<and>
     Out_Payload r' = Out_Payload r \<and> Out_CreatedAt r' = Out_CreatedAt r"

definition evolves :: "OutboxEvent \<Rightarrow> OutboxEvent \<Rightarrow> bool" where
  "evolves r r' \<longleftrightarrow> same_event r r' \<and> Out_RetryCount r \<le> Out_RetryCount r' \<and>
     (terminal r \<longrightarrow> r' = r)"

lemma evolves_refl [simp]: "evolves r r"
  by (simp add: evolves_def same_event_def)

lemma evolves_trans: "evolves a b \<Longrightarrow> evolves b c \<Longrightarrow> evolves a c"
  by (auto simp: evolves_def same_event_def)

lemma list_all2_upd_where:
  "(\<And>r. r \<in> set rows \<Longrightarrow> P r \<Longrightarrow> Q r (f r)) \<Longrightarrow> (\<And>r. Q r r) \<Longrightarrow> list_all2 Q rows (upd_where P f rows)"
  by (induction rows) auto

lemma length_filter_keys:
  assumes "distinct (map k rows)" and "finite A"
  shows "length (filter (\<lambda>r. k r \<in> A) rows) \<le> card A"
proof -
  have "length (filter (\<lambda>r. k r \<in> A) rows) = card (set (map k (filter (\<lambda>r. k r \<in> A) rows)))"
    using distinct_map_filter [OF assms(1), of "\<lambda>r. k r \<in> A"] distinct_card by fastforce
  also have "\<dots> \<le> card A" using assms(2) by (intro card_mono) auto
  finally show ?thesis .
qed

section \<open>The bound on retries\<close>

text \<open>
  The failures counted in a row: at most the number of retries, and one more in a row that
  has failed for good.
\<close>

definition retries_bounded :: "OutboxConfig \<Rightarrow> OutboxEvent list \<Rightarrow> bool" where
  "retries_bounded cfg rows \<longleftrightarrow>
     (\<forall>r \<in> set rows. Out_RetryCount r \<le> max 0 (ob_MaxRetries cfg) +
        (if Out_Status r = OutboxEventStatusFailed then 1 else 0))"

section \<open>The contract of table and publisher\<close>

locale outbox_laws =
  fixes T :: "'a base_scheme outbox_table"
  assumes rows_with [simp]: "rows_of T (with_rows T rows w) = rows"
    and rows_step [simp]: "rows_of T (step w) = rows_of T w"
    and rows_log [simp]: "rows_of T (w\<lparr>kafka := ks\<rparr>) = rows_of T w"
    and with_kafka [simp]: "kafka (with_rows T rows w) = kafka w"
    and with_tick [simp]: "tick (with_rows T rows w) = tick w"
begin

lemma outbox_exec_cases:
  obtains (applied) r rows where "stmt (env_db_now E (tick w)) (rows_of T w) = Inr (r, rows)"
      "rows_of T (snd (outbox_exec E T w stmt)) = rows"
  | (unchanged) "rows_of T (snd (outbox_exec E T w stmt)) = rows_of T w"
  by (cases "stmt (env_db_now E (tick w)) (rows_of T w)"; cases "env_outcome E (tick w)")
    (auto simp: outbox_exec_def external_def)

lemma outbox_exec_kafka [simp]: "kafka (snd (outbox_exec E T w stmt)) = kafka w"
  by (auto simp: outbox_exec_def external_def split: outcome.split sum.split)

lemma expect_one_world [simp]: "snd (expect_one op m) = snd m"
  by (auto simp: expect_one_def split: prod.split sum.split)

lemma outbox_exec_Success:
  "env_outcome E (tick w) = Success \<Longrightarrow> stmt (env_db_now E (tick w)) (rows_of T w) = Inr (r, rows) \<Longrightarrow>
     outbox_exec E T w stmt = (Inr r, step (with_rows T rows w))"
  by (simp add: outbox_exec_def external_Success)

lemma outbox_update_Success:
  "env_outcome E (tick w) = Success \<Longrightarrow>
     rows_of T (snd (outbox_exec E T w (sql_update_outbox i f))) =
       upd_where (in_processing i) (f (env_db_now E (tick w))) (rows_of T w)"
  by (simp add: outbox_exec_def external_Success sql_update_outbox_def)

end

locale outbox_service = outbox_laws +
  fixes publish :: "'a base_scheme publisher"
    and sent :: "OutboxEvent \<Rightarrow> ProducerMessage list \<Rightarrow> bool"
  assumes publish_rows [simp]: "rows_of T (snd (publish w e)) = rows_of T w"
    and publish_log: "prefix (kafka w) (kafka (snd (publish w e)))"
    and publish_sent: "publish w e = (Inr x, w') \<Longrightarrow> sent e (kafka w')"
    and sent_mono: "sent e ks \<Longrightarrow> prefix ks ks' \<Longrightarrow> sent e ks'"
    and sent_same: "same_event r r' \<Longrightarrow> sent r' ks = sent r ks"
begin

text \<open>
  One step of a worker on the rows and the log: rows only evolve, a row becomes published
  only when its message is in the log, the log only grows, and the invariants are kept.
\<close>

definition moves ::
  "OutboxConfig \<Rightarrow> OutboxEvent list \<Rightarrow> ProducerMessage list \<Rightarrow> OutboxEvent list \<Rightarrow> ProducerMessage list \<Rightarrow> bool" where
  "moves cfg rows ks rows' ks' \<longleftrightarrow> prefix ks ks' \<and>
     list_all2 (\<lambda>r r'. evolves r r' \<and> (Out_Status r' = OutboxEventStatusPublished \<longrightarrow>
        Out_Status r = OutboxEventStatusPublished \<or> sent r ks')) rows rows' \<and>
     (retries_bounded cfg rows \<longrightarrow> retries_bounded cfg rows') \<and> (outbox_ok rows \<longrightarrow> outbox_ok rows')"

lemma moves_refl: "prefix ks ks' \<Longrightarrow> moves cfg rows ks rows ks'"
  by (simp add: moves_def list_all2_refl)

lemma moves_trans:
  assumes "moves cfg a ka b kb" and "moves cfg b kb c kc"
  shows "moves cfg a ka c kc"
proof -
  have "list_all2 (\<lambda>r r'. evolves r r' \<and> (Out_Status r' = OutboxEventStatusPublished \<longrightarrow>
      Out_Status r = OutboxEventStatusPublished \<or> sent r kc)) a c"
  proof (rule list_all2_trans [of _ _ _ a b c])
    fix x y z
    assume xy: "evolves x y \<and> (Out_Status y = OutboxEventStatusPublished \<longrightarrow>
        Out_Status x = OutboxEventStatusPublished \<or> sent x kb)"
      and yz: "evolves y z \<and> (Out_Status z = OutboxEventStatusPublished \<longrightarrow>
        Out_Status y = OutboxEventStatusPublished \<or> sent y kc)"
    have "same_event x y" using xy by (simp add: evolves_def)
    with xy yz sent_same sent_mono assms(2) show "evolves x z \<and>
        (Out_Status z = OutboxEventStatusPublished \<longrightarrow>
         Out_Status x = OutboxEventStatusPublished \<or> sent x kc)"
      by (auto simp: moves_def intro: evolves_trans)
  qed (use assms in \<open>auto simp: moves_def\<close>)
  with assms show ?thesis by (auto simp: moves_def intro: prefix_order.trans)
qed

text \<open>An update of some rows that are being processed or waiting.\<close>

lemma moves_upd_where:
  assumes "\<And>r. r \<in> set rows \<Longrightarrow> P r \<Longrightarrow> evolves r (f r) \<and>
      (Out_Status (f r) = OutboxEventStatusPublished \<longrightarrow> sent r ks)"
    and "\<And>r. r \<in> set rows \<Longrightarrow> P r \<Longrightarrow> outbox_row_ok r \<Longrightarrow> outbox_row_ok (f r)"
    and "\<And>r. r \<in> set rows \<Longrightarrow> P r \<Longrightarrow> retries_bounded cfg [r] \<Longrightarrow> retries_bounded cfg [f r]"
  shows "moves cfg rows ks (upd_where P f rows) ks"
proof -
  have "outbox_ok rows \<Longrightarrow> outbox_ok (upd_where P f rows)"
    using assms(1,2)
    by (auto simp: outbox_ok_def map_upd_where evolves_def same_event_def intro!: list_all_upd_where)
  moreover have "retries_bounded cfg rows \<Longrightarrow> retries_bounded cfg (upd_where P f rows)"
    using assms(3) by (fastforce simp: retries_bounded_def set_upd_where)
  ultimately show ?thesis
    using assms(1) by (auto simp: moves_def intro!: list_all2_upd_where)
qed

text \<open>The statements on one row: \<open>e\<close> is the row as it was claimed.\<close>

definition current :: "OutboxEvent \<Rightarrow> OutboxEvent list \<Rightarrow> bool" where
  "current e rows \<longleftrightarrow> (\<forall>r \<in> set rows. Out_ID r = Out_ID e \<longrightarrow> r = e)"

definition others_same :: "uuid \<Rightarrow> OutboxEvent list \<Rightarrow> OutboxEvent list \<Rightarrow> bool" where
  "others_same i = list_all2 (\<lambda>r r'. Out_ID r' = Out_ID r \<and> (Out_ID r \<noteq> i \<longrightarrow> r' = r))"

lemma others_same_refl: "others_same i rows rows"
  by (simp add: others_same_def list_all2_refl)

lemma list_all2_mem2: "list_all2 Q xs ys \<Longrightarrow> y \<in> set ys \<Longrightarrow> \<exists>x \<in> set xs. Q x y"
  by (induction xs ys rule: list_all2_induct) auto

lemma current_other:
  "others_same i rows rows' \<Longrightarrow> current e rows \<Longrightarrow> Out_ID e \<noteq> i \<Longrightarrow> current e rows'"
  unfolding others_same_def current_def by (fastforce dest: list_all2_mem2)

lemma update_row:
  assumes "current e rows"
    and "in_processing (Out_ID e) e \<Longrightarrow> evolves e (f e) \<and>
      (Out_Status (f e) = OutboxEventStatusPublished \<longrightarrow> sent e ks)"
    and "in_processing (Out_ID e) e \<Longrightarrow> outbox_row_ok e \<Longrightarrow> outbox_row_ok (f e)"
    and "in_processing (Out_ID e) e \<Longrightarrow> retries_bounded cfg [e] \<Longrightarrow> retries_bounded cfg [f e]"
  shows "moves cfg rows ks (upd_where (in_processing (Out_ID e)) f rows) ks \<and>
    others_same (Out_ID e) rows (upd_where (in_processing (Out_ID e)) f rows)"
proof -
  have row: "r = e" if "r \<in> set rows" "in_processing (Out_ID e) r" for r
    using assms(1) that by (simp add: current_def in_processing_def)
  have "Out_ID (f e) = Out_ID e" if "in_processing (Out_ID e) e"
    using assms(2) [OF that] by (simp add: evolves_def same_event_def)
  then have "others_same (Out_ID e) rows (upd_where (in_processing (Out_ID e)) f rows)"
    unfolding others_same_def by (intro list_all2_upd_where) (auto dest: row simp: in_processing_def)
  moreover have "moves cfg rows ks (upd_where (in_processing (Out_ID e)) f rows) ks"
    using assms(2-4) by (intro moves_upd_where) (auto dest: row)
  ultimately show ?thesis by simp
qed

lemma exec_update_row:
  assumes "\<And>now r rows'. stmt now (rows_of T w) = Inr (r, rows') \<Longrightarrow>
      moves cfg (rows_of T w) (kafka w) rows' (kafka w) \<and> others_same i (rows_of T w) rows'"
  shows "moves cfg (rows_of T w) (kafka w) (rows_of T (snd (outbox_exec E T w stmt))) (kafka w) \<and>
    others_same i (rows_of T w) (rows_of T (snd (outbox_exec E T w stmt)))"
  using assms moves_refl others_same_refl
  by (cases rule: outbox_exec_cases [of stmt E w]) (auto simp: prefix_order.refl)

lemma MarkPublished_moves:
  assumes "current e (rows_of T w)" and "sent e (kafka w)"
  shows "moves cfg (rows_of T w) (kafka w) (rows_of T (snd (MarkPublished E T w e))) (kafka w) \<and>
    others_same (Out_ID e) (rows_of T w) (rows_of T (snd (MarkPublished E T w e)))"
  unfolding MarkPublished_def expect_one_world
proof (rule exec_update_row, clarsimp simp: sql_update_outbox_def)
  fix now
  show "moves cfg (rows_of T w) (kafka w) (upd_where (in_processing (Out_ID e))
      (\<lambda>r. r\<lparr>Out_Status := OutboxEventStatusPublished, Out_PublishedAt := Some now,
         Out_FailedAt := None, Out_LockedAt := None, Out_LastError := None\<rparr>) (rows_of T w)) (kafka w) \<and>
    others_same (Out_ID e) (rows_of T w) (upd_where (in_processing (Out_ID e))
      (\<lambda>r. r\<lparr>Out_Status := OutboxEventStatusPublished, Out_PublishedAt := Some now,
         Out_FailedAt := None, Out_LockedAt := None, Out_LastError := None\<rparr>) (rows_of T w))"
    using assms
    by (intro update_row)
      (auto simp: in_processing_def evolves_def same_event_def terminal_def outbox_row_ok_def
        retries_bounded_def)
qed

lemma ScheduleRetry_moves:
  assumes "current e (rows_of T w)" and "Out_RetryCount e < ob_MaxRetries cfg"
  shows "moves cfg (rows_of T w) (kafka w) (rows_of T (snd (ScheduleRetry E T w e nxt msg))) (kafka w) \<and>
    others_same (Out_ID e) (rows_of T w) (rows_of T (snd (ScheduleRetry E T w e nxt msg)))"
  unfolding ScheduleRetry_def expect_one_world
proof (rule exec_update_row, clarsimp simp: sql_count_retry_def sql_update_outbox_def split: if_splits)
  let ?f = "\<lambda>r. r\<lparr>Out_Status := OutboxEventStatusPending, Out_AvailableAt := pg_timestamp nxt,
      Out_FailedAt := None, Out_LockedAt := None, Out_LastError := Some msg,
      Out_RetryCount := Out_RetryCount r + 1\<rparr>"
  show "moves cfg (rows_of T w) (kafka w) (upd_where (in_processing (Out_ID e)) ?f (rows_of T w)) (kafka w) \<and>
    others_same (Out_ID e) (rows_of T w) (upd_where (in_processing (Out_ID e)) ?f (rows_of T w))"
    using assms
    by (intro update_row)
      (auto simp: in_processing_def evolves_def same_event_def terminal_def outbox_row_ok_def
        retries_bounded_def)
qed

lemma MarkFailed_moves:
  assumes "current e (rows_of T w)"
  shows "moves cfg (rows_of T w) (kafka w) (rows_of T (snd (MarkFailed E T w e msg))) (kafka w) \<and>
    others_same (Out_ID e) (rows_of T w) (rows_of T (snd (MarkFailed E T w e msg)))"
  unfolding MarkFailed_def expect_one_world
proof (rule exec_update_row, clarsimp simp: sql_count_retry_def sql_update_outbox_def split: if_splits)
  fix now
  let ?f = "\<lambda>r. r\<lparr>Out_Status := OutboxEventStatusFailed, Out_FailedAt := Some now,
      Out_LockedAt := None, Out_LastError := Some msg, Out_RetryCount := Out_RetryCount r + 1\<rparr>"
  show "moves cfg (rows_of T w) (kafka w) (upd_where (in_processing (Out_ID e)) ?f (rows_of T w)) (kafka w) \<and>
    others_same (Out_ID e) (rows_of T w) (upd_where (in_processing (Out_ID e)) ?f (rows_of T w))"
    using assms
    by (intro update_row)
      (auto simp: in_processing_def evolves_def same_event_def terminal_def outbox_row_ok_def
        retries_bounded_def)
qed

lemma handleSendError_moves:
  assumes "current e (rows_of T w)"
  shows "moves cfg (rows_of T w) (kafka w) (rows_of T (handleSendError E T cfg w e err))
      (kafka (handleSendError E T cfg w e err)) \<and>
    others_same (Out_ID e) (rows_of T w) (rows_of T (handleSendError E T cfg w e err))"
proof -
  have k: "kafka (snd (MarkFailed E T w e msg)) = kafka w"
    "kafka (snd (ScheduleRetry E T w e nxt msg)) = kafka w" for w msg nxt
    by (simp_all add: MarkFailed_def ScheduleRetry_def)
  show ?thesis
    using MarkFailed_moves [OF assms, of cfg E] ScheduleRetry_moves [of e "step w" cfg E] assms
    by (simp add: handleSendError_def Let_def k not_le)
qed

lemma processEvent_moves:
  assumes "current e (rows_of T w)"
  shows "moves cfg (rows_of T w) (kafka w) (rows_of T (processEvent E T cfg publish w e))
      (kafka (processEvent E T cfg publish w e)) \<and>
    others_same (Out_ID e) (rows_of T w) (rows_of T (processEvent E T cfg publish w e))"
proof -
  obtain r w1 where p: "publish w e = (r, w1)" by fastforce
  have w1: "rows_of T w1 = rows_of T w" "prefix (kafka w) (kafka w1)"
    using publish_rows [of w e] publish_log [of w e] p by simp_all
  have k: "kafka (snd (MarkPublished E T v e)) = kafka v" for v by (simp add: MarkPublished_def)
  show ?thesis
  proof (cases r)
    case (Inl err)
    with p w1 assms handleSendError_moves [of e w1 cfg E err] show ?thesis
      by (auto simp: processEvent_def intro: moves_trans [OF moves_refl])
  next
    case (Inr x)
    with p w1 assms MarkPublished_moves [of e w1 cfg E] publish_sent [of w e x w1] show ?thesis
      by (auto simp: processEvent_def k intro: moves_trans [OF moves_refl])
  qed
qed

lemma process_events_moves:
  assumes "distinct (map Out_ID es)" and "\<forall>e \<in> set es. current e (rows_of T w)"
  shows "moves cfg (rows_of T w) (kafka w) (rows_of T (process_events E T cfg publish w es))
    (kafka (process_events E T cfg publish w es))"
  using assms
proof (induction es arbitrary: w)
  case (Cons e es)
  let ?w1 = "processEvent E T cfg publish (step w) e"
  from processEvent_moves [of e "step w" cfg E] Cons.prems
  have one: "moves cfg (rows_of T w) (kafka w) (rows_of T ?w1) (kafka ?w1)"
    "others_same (Out_ID e) (rows_of T w) (rows_of T ?w1)" by simp_all
  have "\<forall>e' \<in> set es. current e' (rows_of T ?w1)"
    using Cons.prems by (auto intro!: current_other [OF one(2)] dest: image_eqI [OF sym])
  with Cons.IH [of ?w1] Cons.prems one(1) show ?case
    by (auto intro: moves_trans moves_refl)
qed (simp add: moves_refl)

text \<open>The claim: every claimed row was waiting, and the claimed events are the rows as they are now.\<close>

lemma candidate_claimable:
  assumes "distinct (map Out_ID rows)" "r \<in> set rows" "Out_ID r \<in> set (candidates locked now limit rows)"
  shows "claimable locked now r"
proof -
  obtain x where x: "x \<in> set (take (nat limit) (sort_key (\<lambda>r. (Out_CreatedAt r, uint (Out_ID r)))
      (filter (claimable locked now) rows)))" "Out_ID x = Out_ID r"
    using assms(3) by (auto simp: candidates_def)
  then have "x \<in> set rows" "claimable locked now x" by (auto dest!: in_set_takeD)
  with x(2) assms(1,2) show ?thesis by (metis distinct_map inj_onD)
qed

lemma claim_moves:
  assumes "outbox_ok (rows_of T w)" and "ClaimPendingEvents E T w n = (r, w1)"
  shows "moves cfg (rows_of T w) (kafka w) (rows_of T w1) (kafka w1) \<and>
    (\<forall>es. r = Inr es \<longrightarrow> distinct (map Out_ID es) \<and> (\<forall>e \<in> set es. current e (rows_of T w1)))"
proof -
  let ?rows = "rows_of T w" and ?locked = "env_locked E (tick w)" and ?now = "env_db_now E (tick w)"
  let ?ids = "set (candidates ?locked ?now n ?rows)"
  let ?rows' = "upd_where (\<lambda>r. Out_ID r \<in> ?ids)
      (\<lambda>r. r\<lparr>Out_Status := OutboxEventStatusProcessing, Out_LockedAt := Some ?now\<rparr>) ?rows"
  let ?ex = "outbox_exec E T w (sql_claim ?locked (env_rank E (tick w)) n)"
  have d: "distinct (map Out_ID ?rows)" using assms(1) by (simp add: outbox_ok_def)
  have mv: "moves cfg ?rows (kafka w) ?rows' (kafka w)"
    using candidate_claimable [OF d]
    by (intro moves_upd_where) (auto simp: claimable_def evolves_def same_event_def terminal_def
        outbox_row_ok_def retries_bounded_def)
  have d': "distinct (map Out_ID ?rows')" using d by (simp add: map_upd_where)
  have w1: "w1 = snd ?ex" using assms(2) by (auto simp: ClaimPendingEvents_def split: prod.splits sum.splits)
  have rows1: "rows_of T w1 = ?rows \<or> rows_of T w1 = ?rows'"
    unfolding w1 by (cases rule: outbox_exec_cases [of "sql_claim ?locked (env_rank E (tick w)) n" E w])
      (auto simp: sql_claim_def Let_def split: if_splits)
  have es: "distinct (map Out_ID es) \<and> (\<forall>e \<in> set es. current e (rows_of T w1))" if "r = Inr es" for es
  proof -
    from that assms(2) have "fst ?ex = Inr es"
      by (auto simp: ClaimPendingEvents_def split: prod.splits sum.splits)
    then have es: "es = sort_key (\<lambda>r. env_rank E (tick w) (Out_ID r)) (filter (\<lambda>r. Out_ID r \<in> ?ids) ?rows')"
      and "rows_of T w1 = ?rows'"
      unfolding w1
      by (auto simp: outbox_exec_def external_def sql_claim_def Let_def split: outcome.splits if_splits)
    moreover have "distinct (map Out_ID es)"
      using d' unfolding es by (simp add: distinct_map inj_on_def)
    ultimately show ?thesis using d' by (auto simp: current_def distinct_map inj_on_def)
  qed
  have "kafka w1 = kafka w" by (simp add: w1)
  with rows1 mv es moves_refl show ?thesis by auto
qed

lemma processBatch_moves:
  assumes "outbox_ok (rows_of T w)"
  shows "moves cfg (rows_of T w) (kafka w) (rows_of T (processBatch E T cfg publish w))
    (kafka (processBatch E T cfg publish w))"
proof -
  obtain r w1 where c: "ClaimPendingEvents E T w (ob_BatchSize cfg) = (r, w1)" by fastforce
  note claim = claim_moves [OF assms c, of cfg]
  show ?thesis
  proof (cases r)
    case (Inl err)
    with c claim show ?thesis by (simp add: processBatch_def)
  next
    case (Inr es)
    with claim have "moves cfg (rows_of T w1) (kafka w1) (rows_of T (process_events E T cfg publish w1 es))
        (kafka (process_events E T cfg publish w1 es))"
      by (intro process_events_moves) simp_all
    with Inr c claim show ?thesis by (auto simp: processBatch_def intro: moves_trans)
  qed
qed

lemma releaseStuck_moves:
  "moves cfg (rows_of T w) (kafka w) (rows_of T (releaseStuck E T cfg' w)) (kafka (releaseStuck E T cfg' w))"
proof -
  let ?before = "env_now E (tick w) - ob_ProcessingTimeout cfg'"
  let ?ex = "outbox_exec E T (step w) (sql_release_stuck ?before)"
  have world: "releaseStuck E T cfg' w = snd ?ex"
    by (auto simp: releaseStuck_def ReleaseStuckEvents_def Let_def split: prod.split sum.split)
  have "moves cfg (rows_of T w) (kafka w) (upd_where (stuck ?before) (\<lambda>r. r\<lparr>Out_Status :=
      OutboxEventStatusPending, Out_LockedAt := None, Out_AvailableAt := now\<rparr>) (rows_of T w)) (kafka w)" for now
    by (intro moves_upd_where) (auto simp: stuck_def evolves_def same_event_def terminal_def
        outbox_row_ok_def retries_bounded_def split: option.splits)
  then show ?thesis
    unfolding world using moves_refl
    by (cases rule: outbox_exec_cases [of "sql_release_stuck ?before" E "step w"])
      (auto simp: sql_release_stuck_def)
qed

lemma moves_ok: "moves cfg rows ks rows' ks' \<Longrightarrow> outbox_ok rows \<Longrightarrow> outbox_ok rows'"
  by (simp add: moves_def)

lemma worker_loop_moves:
  "outbox_ok (rows_of T w) \<Longrightarrow>
     moves cfg (rows_of T w) (kafka w) (rows_of T (snd (worker_loop E T cfg publish w turns)))
       (kafka (snd (worker_loop E T cfg publish w turns)))"
proof (induction turns arbitrary: w)
  case (Cons turn turns)
  show ?case
  proof (cases turn)
    case PollTick
    have "moves cfg (rows_of T w) (kafka w) (rows_of T (processBatch E T cfg publish w))
        (kafka (processBatch E T cfg publish w))" by (rule processBatch_moves [OF Cons.prems])
    from this Cons.IH [OF moves_ok [OF this Cons.prems]] PollTick show ?thesis
      by (auto intro: moves_trans)
  next
    case CleanupTick
    have "moves cfg (rows_of T w) (kafka w) (rows_of T (releaseStuck E T cfg w))
        (kafka (releaseStuck E T cfg w))" by (rule releaseStuck_moves)
    from this Cons.IH [OF moves_ok [OF this Cons.prems]] CleanupTick show ?thesis
      by (auto intro: moves_trans)
  qed (simp add: moves_refl)
qed (simp add: moves_refl)

text \<open>A whole run of the worker.\<close>

lemma Run_moves:
  assumes "outbox_ok (rows_of T w)"
  shows "moves cfg (rows_of T w) (kafka w) (rows_of T (snd (Run E T cfg publish hasCtx w turns)))
    (kafka (snd (Run E T cfg publish hasCtx w turns)))"
proof -
  let ?w1 = "releaseStuck E T cfg w"
  have 1: "moves cfg (rows_of T w) (kafka w) (rows_of T ?w1) (kafka ?w1)" by (rule releaseStuck_moves)
  note 2 = processBatch_moves [OF moves_ok [OF 1 assms], of cfg E]
  note 3 = worker_loop_moves [OF moves_ok [OF 2 moves_ok [OF 1 assms]], of cfg E turns]
  show ?thesis
    using moves_trans [OF 1 moves_trans [OF 2 3]] by (simp add: Run_def moves_refl)
qed

end

section \<open>Progress when nothing fails\<close>

locale live_outbox = outbox_service +
  fixes E :: "'e env_scheme" and up :: bool and good :: "OutboxEvent \<Rightarrow> bool"
  assumes success: "up \<Longrightarrow> all_success E"
    and publish_good: "up \<Longrightarrow> good e \<Longrightarrow> \<exists>w'. publish w e = (Inr (), w')"
    and good_same: "same_event r r' \<Longrightarrow> good r' = good r"
begin

definition published_from :: "uuid set \<Rightarrow> OutboxEvent \<Rightarrow> OutboxEvent \<Rightarrow> bool" where
  "published_from ids r r' \<longleftrightarrow> Out_ID r' = Out_ID r \<and>
     (r' = r \<or> Out_Status r' = OutboxEventStatusPublished) \<and>
     (Out_ID r \<in> ids \<and> Out_Status r = OutboxEventStatusProcessing \<longrightarrow>
        Out_Status r' = OutboxEventStatusPublished)"

lemma processEvent_publishes:
  assumes "up" and "good e"
  shows "list_all2 (published_from {Out_ID e}) (rows_of T w) (rows_of T (processEvent E T cfg publish w e))"
proof -
  obtain w1 where p: "publish w e = (Inr (), w1)" using publish_good [OF assms] by blast
  have w1: "rows_of T w1 = rows_of T w" using publish_rows [of w e] p by simp
  have "env_outcome E (tick w1) = Success" using success [OF assms(1)] by (simp add: all_success_def)
  then have "rows_of T (processEvent E T cfg publish w e) = upd_where (in_processing (Out_ID e))
      (\<lambda>r. r\<lparr>Out_Status := OutboxEventStatusPublished, Out_PublishedAt := Some (env_db_now E (tick w1)),
         Out_FailedAt := None, Out_LockedAt := None, Out_LastError := None\<rparr>) (rows_of T w)"
    using p by (simp add: processEvent_def MarkPublished_def outbox_update_Success w1)
  then show ?thesis
    by (auto simp: published_from_def in_processing_def upd_where_def list_all2_map2
        intro!: list_all2_refl)
qed

lemma process_events_publishes:
  assumes "up" and "\<forall>e \<in> set es. good e"
  shows "list_all2 (published_from (Out_ID ` set es)) (rows_of T w)
    (rows_of T (process_events E T cfg publish w es))"
  using assms(2)
proof (induction es arbitrary: w)
  case (Cons e es)
  let ?w1 = "processEvent E T cfg publish (step w) e"
  have "list_all2 (published_from {Out_ID e}) (rows_of T w) (rows_of T ?w1)"
    using processEvent_publishes [OF assms(1), of e "step w" cfg] Cons.prems by simp
  moreover have "list_all2 (published_from (Out_ID ` set es)) (rows_of T ?w1)
      (rows_of T (process_events E T cfg publish ?w1 es))" using Cons by simp
  ultimately have "list_all2 (published_from (Out_ID ` set (e # es))) (rows_of T w)
      (rows_of T (process_events E T cfg publish ?w1 es))"
    by (rule list_all2_trans [rotated 1]) (auto simp: published_from_def)
  then show ?case using success [OF assms(1)] by (simp add: all_success_def)
qed (simp add: published_from_def list_all2_refl)

lemma processBatch_publishes:
  assumes "up" and "\<forall>r \<in> set (rows_of T w). good r"
    and "int (length (filter (claimable (env_locked E (tick w)) (env_db_now E (tick w))) (rows_of T w))) \<le> ob_BatchSize cfg"
  shows "list_all2 (\<lambda>r r'. claimable (env_locked E (tick w)) (env_db_now E (tick w)) r \<longrightarrow>
      Out_Status r' = OutboxEventStatusPublished)
    (rows_of T w) (rows_of T (processBatch E T cfg publish w))"
proof -
  let ?rows = "rows_of T w" and ?locked = "env_locked E (tick w)" and ?now = "env_db_now E (tick w)"
  let ?ids = "set (candidates ?locked ?now (ob_BatchSize cfg) ?rows)"
  let ?f = "\<lambda>r. r\<lparr>Out_Status := OutboxEventStatusProcessing, Out_LockedAt := Some ?now\<rparr>"
  let ?rows' = "upd_where (\<lambda>r. Out_ID r \<in> ?ids) ?f ?rows"
  let ?es = "sort_key (\<lambda>r. env_rank E (tick w) (Out_ID r)) (filter (\<lambda>r. Out_ID r \<in> ?ids) ?rows')"
  let ?w1 = "step (with_rows T ?rows' w)"
  have "env_outcome E (tick w) = Success" using success [OF assms(1)] by (simp add: all_success_def)
  then have claim: "ClaimPendingEvents E T w (ob_BatchSize cfg) = (Inr ?es, ?w1)"
    using assms(3) by (simp add: ClaimPendingEvents_def outbox_exec_def external_Success sql_claim_def Let_def)
  have "?ids = Out_ID ` {r \<in> set ?rows. claimable ?locked ?now r}"
    using assms(3) by (simp add: candidates_def nat_le_iff le_nat_iff)
  then have ids: "Out_ID r \<in> ?ids" if "r \<in> set ?rows" "claimable ?locked ?now r" for r
    using that by simp
  have f: "good (?f r) = good r" for r by (rule good_same) (simp add: same_event_def)
  have "\<forall>e \<in> set ?es. good e"
    using assms(2) by (auto simp: set_upd_where f)
  then have pub: "list_all2 (published_from (Out_ID ` set ?es)) ?rows'
      (rows_of T (processBatch E T cfg publish w))"
    using process_events_publishes [OF assms(1), of ?es ?w1 cfg] claim by (simp add: processBatch_def)
  have "Out_ID r \<in> Out_ID ` set ?es" if "r \<in> set ?rows" "claimable ?locked ?now r" for r
    using that ids by (intro image_eqI [of _ _ "?f r"]) (auto simp: set_upd_where)
  with ids have "list_all2 (\<lambda>r r'. Out_ID r' = Out_ID r \<and> (claimable ?locked ?now r \<longrightarrow>
      Out_Status r' = OutboxEventStatusProcessing \<and> Out_ID r \<in> Out_ID ` set ?es)) ?rows ?rows'"
    unfolding upd_where_def list_all2_map2 by (intro list.rel_refl_strong) auto
  then show ?thesis
    using pub by (rule list_all2_trans [rotated 1]) (auto simp: published_from_def)
qed

end

section \<open>The order service\<close>

definition order_sent :: "'e env_scheme \<Rightarrow> OrderTopics \<Rightarrow> OutboxEvent \<Rightarrow> ProducerMessage list \<Rightarrow> bool" where
  "order_sent E topics e ks \<longleftrightarrow>
     (\<exists>p \<in> set ks. PM_Topic p = messageTopic topics e \<and> PM_Key p = messageKey E e \<and>
        PM_Value p = Out_Payload e)"

lemma order_publisher_sent:
  "order_publisher E topics d w e = (Inr x, w') \<Longrightarrow> order_sent E topics e (kafka w')"
proof -
  let ?m = "\<lparr>Msg_Headers = [], Msg_Timestamp = zero_time, Msg_BlockTimestamp = zero_time,
         Msg_Key = messageKey E e, Msg_Value = Out_Payload e, Msg_Topic = messageTopic topics e,
         Msg_Partition = 0, Msg_Offset = 0\<rparr>"
  assume "order_publisher E topics d w e = (Inr x, w')"
  then have ok: "messageTopic topics e \<noteq> ''''" "SendMessage E w d ?m = (Inr x, w')"
    by (auto simp: order_publisher_def Let_def split: if_splits)
  obtain p where "offered d ?m p" "kafka w' = kafka w @ [p]"
    by (rule SendMessage_log [of d ?m E w]) (use ok in auto)
  with ok(1) show ?thesis by (auto simp: order_sent_def offered_def)
qed

lemma order_publisher_preserves:
  assumes "\<And>v. P v \<Longrightarrow> P (step v)" and "\<And>v p. P v \<Longrightarrow> P (v\<lparr>kafka := kafka v @ [p]\<rparr>)" and "P w"
  shows "P (snd (order_publisher E topics d w e))"
  using SendMessage_preserves [where P = P, OF assms, of E d] \<open>P w\<close> by (simp add: order_publisher_def Let_def)

interpretation order_table: outbox_laws order_outbox
  by unfold_locales (simp_all add: order_outbox_def step_def)

interpretation order_worker: outbox_service order_outbox "order_publisher E topics d" "order_sent E topics"
  for E topics d
proof (unfold_locales, goal_cases)
  case (1 w e)
  show ?case
    by (rule order_publisher_preserves [where P = "\<lambda>v. rows_of order_outbox v = rows_of order_outbox w"])
      simp_all
next
  case (2 w e)
  show ?case
    by (rule order_publisher_preserves [where P = "\<lambda>v. prefix (kafka w) (kafka v)"])
      (auto simp: prefix_def)
next
  case (3 w e x w')
  then show ?case by (rule order_publisher_sent)
qed (auto simp: order_sent_def messageTopic_def messageKey_def same_event_def prefix_def)

text \<open>A broker and a network that work: every message is handed over and acknowledged.\<close>

definition healthy :: "'e env_scheme \<Rightarrow> bool" where
  "healthy E \<longleftrightarrow> all_success E \<and>
     (\<forall>n. env_enqueue E n = EnqueueInput \<and> env_wait E n = WaitDone AckSuccess)"

lemma SendMessage_healthy: "healthy E \<Longrightarrow> \<exists>w'. SendMessage E w d m = (Inr (), w')"
  by (auto simp: healthy_def all_success_def SendMessage_def publish_def enqueue_def
      waitPublishResult_def result_of_def handleSuccess_def finish_def Let_def)

interpretation live_order_worker: live_outbox order_outbox "order_publisher E topics d"
  "order_sent E topics" E "healthy E" "\<lambda>e. messageTopic topics e \<noteq> []"
  for E topics d
proof (unfold_locales, goal_cases)
  case 1
  then show ?case by (simp add: healthy_def)
next
  case (2 e w)
  then show ?case using SendMessage_healthy [of E] by (simp add: order_publisher_def)
qed (simp add: same_event_def messageTopic_def)

lemma order_run_moves:
  assumes "outbox_ok (outbox (db w))"
    and "Run E order_outbox cfg (order_publisher E topics d) hasCtx w turns = (r, w')"
  shows "outbox_service.moves (order_sent E topics) cfg (outbox (db w)) (kafka w) (outbox (db w')) (kafka w')"
proof -
  have rows: "rows_of order_outbox v = outbox (db v)" for v by (simp add: order_outbox_def)
  have w': "w' = snd (Run E order_outbox cfg (order_publisher E topics d) hasCtx w turns)"
    using assms(2) by simp
  show ?thesis
    using assms(1) unfolding w' rows [symmetric] by (rule order_worker.Run_moves)
qed

text \<open>
  C18. Whatever fails while a worker of the order service runs, every row of the outbox keeps
  its identity, its payload and its place, its count of failures never goes down, and a row
  that is published or failed never changes again. The invariant of the table is kept.
\<close>

theorem outbox_rows_evolve:
  assumes "outbox_ok (outbox (db w))"
    and "Run E order_outbox cfg (order_publisher E topics d) hasCtx w turns = (r, w')"
  shows "list_all2 evolves (outbox (db w)) (outbox (db w')) \<and> outbox_ok (outbox (db w'))"
  using order_run_moves [OF assms] assms(1) by (auto simp: order_worker.moves_def elim!: list_all2_mono)

text \<open>
  C8. A worker marks an event as published only after the broker has accepted its message:
  each row that became published during a run has its payload in the log of the broker, under
  the topic of its type and the key of its aggregate.
\<close>

theorem published_only_after_send:
  assumes "outbox_ok (outbox (db w))"
    and "Run E order_outbox cfg (order_publisher E topics d) hasCtx w turns = (r, w')"
  shows "list_all2 (\<lambda>old new. Out_Status new = OutboxEventStatusPublished \<longrightarrow>
      Out_Status old = OutboxEventStatusPublished \<or> order_sent E topics new (kafka w'))
    (outbox (db w)) (outbox (db w'))"
proof -
  have "list_all2 (\<lambda>r r'. evolves r r' \<and> (Out_Status r' = OutboxEventStatusPublished \<longrightarrow>
      Out_Status r = OutboxEventStatusPublished \<or> order_sent E topics r (kafka w')))
    (outbox (db w)) (outbox (db w'))"
    using order_run_moves [OF assms] by (auto simp: order_worker.moves_def)
  then show ?thesis
    by (rule list_all2_mono)
      (auto simp: evolves_def same_event_def order_sent_def messageTopic_def messageKey_def)
qed

text \<open>
  A worker never counts more failures in a row than the configured number of retries,
  and one more in a row it has given up: an event is sent at most once more than it may be
  retried before it is marked as failed.
\<close>

theorem outbox_retries_bounded:
  assumes "outbox_ok (outbox (db w))" and "retries_bounded cfg (outbox (db w))"
    and "Run E order_outbox cfg (order_publisher E topics d) hasCtx w turns = (r, w')"
  shows "retries_bounded cfg (outbox (db w'))"
  using order_run_moves [OF assms(1,3)] assms(2) by (simp add: order_worker.moves_def)

text \<open>
  C29. When no call fails, one batch publishes every event that is waiting and available, if
  there are no more of them than the size of a batch.
\<close>

theorem waiting_events_get_published:
  assumes "healthy E"
    and "\<forall>e \<in> set (outbox (db w)). messageTopic topics e \<noteq> ''''"
    and "int (length (filter (claimable (env_locked E (tick w)) (env_db_now E (tick w))) (outbox (db w))))
      \<le> ob_BatchSize cfg"
  shows "list_all2 (\<lambda>old new. claimable (env_locked E (tick w)) (env_db_now E (tick w)) old \<longrightarrow>
      Out_Status new = OutboxEventStatusPublished)
    (outbox (db w)) (outbox (db (processBatch E order_outbox cfg (order_publisher E topics d) w)))"
proof -
  have rows: "rows_of order_outbox v = outbox (db v)" for v by (simp add: order_outbox_def)
  show ?thesis
    using assms unfolding rows [symmetric] by (rule live_order_worker.processBatch_publishes)
qed

text \<open>
  A batch claims at most as many events as its size, and only events that are waiting,
  available and not held by another worker; claimed rows are marked as being processed.
\<close>

theorem claim_bounded_and_available:
  assumes "outbox_ok (outbox (db w))"
    and "ClaimPendingEvents E order_outbox w limit = (Inr es, w')"
  shows "int (length es) \<le> limit \<and>
    (\<forall>e \<in> set es. Out_Status e = OutboxEventStatusProcessing \<and>
       (\<exists>r \<in> set (outbox (db w)). same_event r e \<and>
          claimable (env_locked E (tick w)) (env_db_now E (tick w)) r))"
proof -
  let ?rows = "outbox (db w)" and ?locked = "env_locked E (tick w)" and ?now = "env_db_now E (tick w)"
  let ?ids = "set (candidates ?locked ?now limit ?rows)"
  let ?f = "\<lambda>r. r\<lparr>Out_Status := OutboxEventStatusProcessing, Out_LockedAt := Some ?now\<rparr>"
  have "\<not> limit < 0" and es: "es = sort_key (\<lambda>r. env_rank E (tick w) (Out_ID r))
      (filter (\<lambda>r. Out_ID r \<in> ?ids) (upd_where (\<lambda>r. Out_ID r \<in> ?ids) ?f ?rows))"
    using assms(2)
    by (auto simp: ClaimPendingEvents_def outbox_exec_def external_def sql_claim_def Let_def order_outbox_def
        split: prod.splits sum.splits outcome.splits if_splits)
  have d: "distinct (map Out_ID ?rows)" using assms(1) by (simp add: outbox_ok_def)
  let ?rows' = "upd_where (\<lambda>r. Out_ID r \<in> ?ids) ?f ?rows"
  have "length es \<le> card ?ids"
    unfolding es length_sort using d by (intro length_filter_keys) (simp_all add: map_upd_where)
  also have "card ?ids \<le> nat limit"
    using card_length [of "candidates ?locked ?now limit ?rows"] by (simp add: candidates_def)
  finally have "length es \<le> nat limit" .
  moreover have "Out_Status e = OutboxEventStatusProcessing \<and> (\<exists>r \<in> set ?rows. same_event r e \<and>
      claimable ?locked ?now r)" if "e \<in> set es" for e
    using that order_worker.candidate_claimable [OF d] unfolding es
    by (auto simp: set_upd_where same_event_def)
  ultimately show ?thesis using \<open>\<not> limit < 0\<close> by (simp add: le_nat_iff)
qed

end
