(* ===== verification/Order_To_Broker.thy ===== *)
theory Order_To_Broker
  imports Order_Service Outbox_Delivery
begin

text \<open>
  The way of a new order to the broker: from \<open>CreateOrder\<close> through the outbox of the order service and
  its worker to the topic of new orders.
\<close>

text \<open>The message that announces an order: topic, key, and the encoded event of that very order.\<close>

definition announces ::
  "'e order_env_scheme \<Rightarrow> 'f env_scheme \<Rightarrow> OrderTopics \<Rightarrow> Order \<Rightarrow> uuid \<Rightarrow> instant \<Rightarrow> ProducerMessage \<Rightarrow> bool" where
  "announces E Ew topics ord eventID now msg \<longleftrightarrow>
     PM_Topic msg = Topic_OrderCreated topics \<and> PM_Key msg = uuid_String Ew (Order_ID ord) \<and>
     MarshalOrderCreated E (buildOrderCreatedEvent eventID ord now) = Inr (PM_Value msg)"

lemma sent_announces:
  assumes "created_event E u m ot p q i now e" and "order_sent Ew topics e ks"
  shows "\<exists>msg \<in> set ks. announces E Ew topics (buildOrder i u m ot p q now) (Out_EventID e) now msg"
  using assms by (auto simp: created_event_def order_sent_def announces_def messageTopic_def messageKey_def)

text \<open>
  C5. The way of a new order to the broker. When \<open>CreateOrder\<close> has changed the tables, and a worker
  of the outbox runs afterwards, whatever fails in either, the outbox ends with a row for the
  order placed, still with the identifier of the order; and once that row is marked as
  published, the log of the broker holds a message of the topic of new orders, with that identifier
  as its key, whose payload is the encoded event of that very order: its user, market, type, price
  and quantity.
\<close>

theorem placed_order_reaches_broker:
  assumes "CreateOrder E w cfg u m ot p q = (r, w1)" and "db w1 \<noteq> db w" and "outbox_ok (outbox (db w))"
    and "Run Ew order_outbox ocfg (order_publisher Ew topics d) hasCtx w1 turns = (r2, w2)"
  shows "\<exists>i now rows row. order_placed E u m ot p q (db w) i (db w1) \<and>
    outbox (db w2) = rows @ [row] \<and> length rows = length (outbox (db w)) \<and> Out_AggregateID row = i \<and>
    (Out_Status row = OutboxEventStatusPublished \<longrightarrow>
      (\<exists>msg \<in> set (kafka w2). announces E Ew topics (buildOrder i u m ot p q now) (Out_EventID row) now msg))"
proof -
  from CreateOrder_cases [OF assms(1)] assms(2)
  obtain i where placed: "order_placed E u m ot p q (db w) i (db w1)" by (auto split: sum.splits)
  then obtain now e where e: "created_event E u m ot p q i now e" "outbox_row_ok e"
      "Out_ID e \<notin> Out_ID ` set (outbox (db w))" "Out_EventID e \<notin> Out_EventID ` set (outbox (db w))"
      "outbox (db w1) = outbox (db w) @ [e]"
    by (auto simp: order_placed_def)
  with assms(3) have "outbox_ok (outbox (db w1))" by (auto simp: outbox_ok_def)
  from order_run_moves [OF this assms(4)]
  have "list_all2 (\<lambda>r r'. evolves r r' \<and> (Out_Status r' = OutboxEventStatusPublished \<longrightarrow>
      Out_Status r = OutboxEventStatusPublished \<or> order_sent Ew topics r (kafka w2)))
    (outbox (db w) @ [e]) (outbox (db w2))"
    unfolding order_worker.moves_def e(5) by blast
  then obtain rows row where rows: "outbox (db w2) = rows @ [row]" "length rows = length (outbox (db w))"
    and row: "evolves e row"
      "Out_Status row = OutboxEventStatusPublished \<longrightarrow>
        Out_Status e = OutboxEventStatusPublished \<or> order_sent Ew topics e (kafka w2)"
    by (auto simp: list_all2_append1 list_all2_Cons1 dest: list_all2_lengthD)
  have same: "Out_EventID row = Out_EventID e" "Out_AggregateID row = i"
    using row(1) e(1) by (auto simp: evolves_def same_event_def created_event_def)
  have "Out_Status e \<noteq> OutboxEventStatusPublished"
    using e(1) by (simp add: created_event_def)
  with row(2) sent_announces [OF e(1)] same placed rows show ?thesis by metis
qed

end
