(* ===== verification/Producer_Client.thy ===== *)
theory Producer_Client
  imports Kafka_Producer
begin

text \<open>
  The client of \<open>shared/infrastructure/kafka/producer/client.go\<close> with its callers, its loop of
  acknowledgements and its end all running at the same time, as a step relation. The theory shows
  that a caller is told of a success only when the broker has its message, that nobody needs to wait
  for ever once the client has ended, and that every answer a caller can get is one that the function
  \<open>publish\<close> of theory \<open>Kafka_Producer\<close> gives for some choices of its environment: what is proved of the
  services with that function holds for the concurrent client.
\<close>

section \<open>State\<close>

text \<open>
  A caller, numbered with its message, is before the call, in the \<open>select\<close> of \<open>enqueue\<close>, in that of
  \<open>waitPublishResult\<close>, has been answered, or has panicked: sending on a closed channel does, and the
  library closes its \<open>Input\<close> channel after \<open>AsyncClose\<close>. The library is what it has taken in and not yet reported,
  and the broker is the messages it has accepted. \<open>cl_input\<close>, \<open>cl_successes\<close> and \<open>cl_errors\<close> say
  whether the channel for messages and the two channels of the loop are open; \<open>cl_closing\<close> and \<open>cl_closed\<close> whether the channels of that name are closed.
\<close>

datatype caller = Ready | Enqueuing | Waiting | Answered "go_error + unit" | Panicked

record client =
  cl_callers :: "nat \<Rightarrow> caller"
  cl_requests :: "nat \<Rightarrow> publishRequest"
  cl_inFlight :: "nat set"
  cl_broker :: "nat set"
  cl_input :: bool
  cl_successes :: bool
  cl_errors :: bool
  cl_closing :: bool
  cl_closed :: bool

definition new_request :: "string \<Rightarrow> publishRequest" where
  "new_request topic = \<lparr>req_topic = topic, req_done = False, req_err = None\<rparr>"

definition NewClient :: "(nat \<Rightarrow> string) \<Rightarrow> client" where
  "NewClient topics = \<lparr>cl_callers = \<lambda>_. Ready, cl_requests = \<lambda>t. new_request (topics t), cl_inFlight = {},
     cl_broker = {}, cl_input = True, cl_successes = True, cl_errors = True, cl_closing = False, cl_closed = False\<rparr>"

definition answered :: "client \<Rightarrow> nat \<Rightarrow> go_error + unit \<Rightarrow> client" where
  "answered s t r = s\<lparr>cl_callers := (cl_callers s)(t := Answered r)\<rparr>"

definition finish_request :: "client \<Rightarrow> nat \<Rightarrow> go_error option \<Rightarrow> client" where
  "finish_request s t err = s\<lparr>cl_requests := (cl_requests s)(t := finish (cl_requests s t) err)\<rparr>"

section \<open>Steps\<close>

text \<open>The beginning of \<open>publish\<close>: the context is checked, and a request made.\<close>

inductive publish_step :: "client \<Rightarrow> client \<Rightarrow> bool" where
  refused: "cl_callers s t = Ready \<Longrightarrow> publish_step s (answered s t (Inl (fault_error f)))"
| begun: "cl_callers s t = Ready \<Longrightarrow> publish_step s (s\<lparr>cl_callers := (cl_callers s)(t := Enqueuing)\<rparr>)"

inductive enqueue_step :: "client \<Rightarrow> client \<Rightarrow> bool" where
  enqueue_ctx: "cl_callers s t = Enqueuing \<Longrightarrow>
     enqueue_step s (answered (finish_request s t (Some (fault_error f))) t (Inl (fault_error f)))"
| enqueue_closing: "cl_callers s t = Enqueuing \<Longrightarrow> cl_closing s \<Longrightarrow>
     enqueue_step s (answered (finish_request s t (Some (Kafka ErrProducerUnavailable))) t
       (Inl (Kafka ErrProducerUnavailable)))"
| enqueue_input: "cl_callers s t = Enqueuing \<Longrightarrow> cl_input s \<Longrightarrow>
     enqueue_step s (s\<lparr>cl_callers := (cl_callers s)(t := Waiting), cl_inFlight := insert t (cl_inFlight s)\<rparr>)"
| enqueue_panic: "cl_callers s t = Enqueuing \<Longrightarrow> \<not> cl_input s \<Longrightarrow>
     enqueue_step s (s\<lparr>cl_callers := (cl_callers s)(t := Panicked)\<rparr>)"

inductive wait_step :: "client \<Rightarrow> client \<Rightarrow> bool" where
  wait_done: "cl_callers s t = Waiting \<Longrightarrow> req_done (cl_requests s t) \<Longrightarrow>
     wait_step s (answered s t (result_of (cl_requests s t)))"
| wait_ctx: "cl_callers s t = Waiting \<Longrightarrow> wait_step s (answered s t (Inl (fault_error f)))"
| wait_closed_done: "cl_callers s t = Waiting \<Longrightarrow> cl_closed s \<Longrightarrow> req_done (cl_requests s t) \<Longrightarrow>
     wait_step s (answered s t (result_of (cl_requests s t)))"
| wait_closed: "cl_callers s t = Waiting \<Longrightarrow> cl_closed s \<Longrightarrow> \<not> req_done (cl_requests s t) \<Longrightarrow>
     wait_step s (answered (finish_request s t (Some (Kafka ErrProducerUnavailable))) t
       (Inl (Kafka ErrProducerUnavailable)))"

text \<open>
  The loop of acknowledgements: a success or an error of a message in flight while the channel for it
  is open, and its end when both are closed.
\<close>

inductive ack_step :: "client \<Rightarrow> client \<Rightarrow> bool" where
  ack_success: "cl_successes s \<Longrightarrow> t \<in> cl_inFlight s \<Longrightarrow> t \<in> cl_broker s \<Longrightarrow>
     ack_step s (s\<lparr>cl_requests := (cl_requests s)(t := handleSuccess (cl_requests s t)),
       cl_inFlight := cl_inFlight s - {t}\<rparr>)"
| ack_error: "cl_errors s \<Longrightarrow> t \<in> cl_inFlight s \<Longrightarrow>
     ack_step s (s\<lparr>cl_requests := (cl_requests s)(t := handleError (cl_requests s t) f),
       cl_inFlight := cl_inFlight s - {t}\<rparr>)"
| loop_end: "\<not> cl_successes s \<Longrightarrow> \<not> cl_errors s \<Longrightarrow> ack_step s (s\<lparr>cl_closed := True\<rparr>)"

inductive close_step :: "client \<Rightarrow> client \<Rightarrow> bool" where
  close: "close_step s (s\<lparr>cl_closing := True\<rparr>)"

text \<open>
  What is taken from the documentation of the library: the broker may get a message at any time
  while it is in flight, and the three channels are closed at some time after \<open>AsyncClose\<close>, not
  necessarily after everything in flight has been reported.
\<close>

inductive library_step :: "client \<Rightarrow> client \<Rightarrow> bool" where
  broker: "t \<in> cl_inFlight s \<Longrightarrow> library_step s (s\<lparr>cl_broker := insert t (cl_broker s)\<rparr>)"
| no_more_input: "cl_closing s \<Longrightarrow> library_step s (s\<lparr>cl_input := False\<rparr>)"
| no_more_successes: "cl_closing s \<Longrightarrow> library_step s (s\<lparr>cl_successes := False\<rparr>)"
| no_more_errors: "cl_closing s \<Longrightarrow> library_step s (s\<lparr>cl_errors := False\<rparr>)"

definition client_step :: "client \<Rightarrow> client \<Rightarrow> bool" where
  "client_step s s' \<longleftrightarrow> publish_step s s' \<or> enqueue_step s s' \<or> wait_step s s' \<or> ack_step s s' \<or>
     close_step s s' \<or> library_step s s'"

inductive client_reachable :: "(nat \<Rightarrow> string) \<Rightarrow> client \<Rightarrow> bool" for topics where
  initial: "client_reachable topics (NewClient topics)"
| later: "client_reachable topics s \<Longrightarrow> client_step s s' \<Longrightarrow> client_reachable topics s'"

lemmas step_cases = publish_step.cases enqueue_step.cases wait_step.cases ack_step.cases
  close_step.cases library_step.cases

section \<open>The invariant\<close>

text \<open>The answer of \<open>waitPublishResult\<close> for a case of its \<open>select\<close>, and of \<open>publish\<close> before it waits.\<close>

fun wait_answer :: "wait_case \<Rightarrow> go_error + unit" where
  "wait_answer (WaitDone AckSuccess) = Inr ()"
| "wait_answer (WaitDone (AckError f)) = Inl (fault_error f)"
| "wait_answer (WaitCtxDone f) = Inl (fault_error f)"
| "wait_answer (WaitClosed None) = Inl (Kafka ErrProducerUnavailable)"
| "wait_answer (WaitClosed (Some AckSuccess)) = Inr ()"
| "wait_answer (WaitClosed (Some (AckError f))) = Inl (fault_error f)"

lemma waitPublishResult_answer:
  "\<not> req_done r \<Longrightarrow> waitPublishResult E w r = (wait_answer (env_wait E (tick w)), step w)"
  by (cases "env_wait E (tick w)" rule: wait_answer.cases)
    (simp_all add: waitPublishResult_def result_of_def handleSuccess_def handleError_def finish_def Let_def
      split: ack.split)

definition early_answer :: "go_error + unit \<Rightarrow> bool" where
  "early_answer r \<longleftrightarrow> (\<exists>f. r = Inl (fault_error f)) \<or> r = Inl (Kafka ErrProducerUnavailable)"

text \<open>
  A request is finished with a success only when the broker has the message, and otherwise with an
  error of the library; every answer is that of a case, and a success again needs the broker.
\<close>

fun local_ok :: "caller \<Rightarrow> publishRequest \<Rightarrow> bool \<Rightarrow> bool \<Rightarrow> bool" where
  "local_ok Ready r inFlight broker \<longleftrightarrow> \<not> inFlight \<and> \<not> broker \<and> \<not> req_done r"
| "local_ok Enqueuing r inFlight broker \<longleftrightarrow> \<not> inFlight \<and> \<not> broker \<and> \<not> req_done r"
| "local_ok Panicked r inFlight broker \<longleftrightarrow> \<not> inFlight \<and> \<not> broker \<and> \<not> req_done r"
| "local_ok Waiting r inFlight broker \<longleftrightarrow>
     (req_done r \<longrightarrow> req_err r = None \<and> broker \<or> (\<exists>f. req_err r = Some (fault_error f)))"
| "local_ok (Answered a) r inFlight broker \<longleftrightarrow>
     early_answer a \<and> \<not> inFlight \<and> \<not> broker \<or> (\<exists>c. a = wait_answer c \<and> (a = Inr () \<longrightarrow> broker))"

definition caller_ok :: "client \<Rightarrow> nat \<Rightarrow> bool" where
  "caller_ok s t = local_ok (cl_callers s t) (cl_requests s t) (t \<in> cl_inFlight s) (t \<in> cl_broker s)"

definition client_ok :: "client \<Rightarrow> bool" where
  "client_ok s \<longleftrightarrow> (\<forall>t. caller_ok s t) \<and>
     (cl_closed s \<longrightarrow> \<not> cl_successes s \<and> \<not> cl_errors s) \<and>
     (\<not> cl_input s \<or> \<not> cl_successes s \<or> \<not> cl_errors s \<longrightarrow> cl_closing s)"

lemma client_ok_initial: "client_ok (NewClient topics)"
  by (simp add: client_ok_def caller_ok_def NewClient_def new_request_def)

lemma wait_answer_Inr: "wait_answer c = Inr () \<Longrightarrow> accepts c b"
  by (cases c rule: wait_answer.cases) (simp_all add: accepts_def split: ack.splits)

lemma ack_is_answer:
  "\<exists>c. Inr () = wait_answer c" "\<exists>c. Inl (fault_error f) = wait_answer c"
  by (rule exI [of _ "WaitDone AckSuccess"], simp) (rule exI [of _ "WaitDone (AckError f)"], simp)

lemma result_is_answer:
  "req_err r = None \<and> P \<or> (\<exists>f. req_err r = Some (fault_error f)) \<Longrightarrow>
     (\<exists>c. result_of r = wait_answer c) \<and> (result_of r = Inr () \<longrightarrow> P)"
  by (auto simp: result_of_def ack_is_answer)

lemma closed_is_answer: "\<exists>c. Inl (Kafka ErrProducerUnavailable) = wait_answer c"
  by (rule exI [of _ "WaitClosed None"]) simp

text \<open>
  A step touches one caller and its request; the others stay as they were. The premise is about
  that caller alone.
\<close>

lemma early_answers [simp]:
  "early_answer (Inl (fault_error f))" "early_answer (Inl (Kafka ErrProducerUnavailable))"
  by (auto simp: early_answer_def)

lemma client_okI:
  assumes "client_ok s" and "caller_ok s t \<Longrightarrow> caller_ok s' t" and "\<And>u. u \<noteq> t \<Longrightarrow> caller_ok s' u = caller_ok s u"
    and "cl_closed s' = cl_closed s" "cl_closing s' = cl_closing s" "cl_input s' = cl_input s"
    and "cl_successes s' = cl_successes s" "cl_errors s' = cl_errors s"
  shows "client_ok s'"
  using assms unfolding client_ok_def by metis

lemmas caller_simps = caller_ok_def answered_def finish_request_def finish_def

lemma publish_step_ok: "publish_step s s' \<Longrightarrow> client_ok s \<Longrightarrow> client_ok s'"
proof (induction rule: publish_step.induct)
  case (refused s t f)
  then show ?case by - (rule client_okI [of s t], assumption; simp add: caller_simps)
next
  case (begun s t)
  then show ?case by - (rule client_okI [of s t], assumption; simp add: caller_simps)
qed

lemma enqueue_step_ok: "enqueue_step s s' \<Longrightarrow> client_ok s \<Longrightarrow> client_ok s'"
proof (induction rule: enqueue_step.induct)
  case (enqueue_ctx s t f)
  then show ?case by - (rule client_okI [of s t], assumption; simp add: caller_simps)
next
  case (enqueue_closing s t)
  then show ?case by - (rule client_okI [of s t], assumption; simp add: caller_simps)
next
  case (enqueue_input s t)
  then show ?case by - (rule client_okI [of s t], assumption; simp add: caller_simps)
next
  case (enqueue_panic s t)
  then show ?case by - (rule client_okI [of s t], assumption; simp add: caller_simps)
qed

lemma result_ok:
  assumes "cl_callers s t = Waiting" "req_done (cl_requests s t)" "client_ok s"
  shows "client_ok (answered s t (result_of (cl_requests s t)))"
proof -
  have "caller_ok s t" using assms(3) by (simp add: client_ok_def)
  with assms(1,2) result_is_answer [of "cl_requests s t" "t \<in> cl_broker s"]
  have "caller_ok (answered s t (result_of (cl_requests s t))) t" by (simp add: caller_simps)
  with assms(3) show ?thesis by - (rule client_okI [of s t]; simp add: caller_simps)
qed

lemma wait_step_ok: "wait_step s s' \<Longrightarrow> client_ok s \<Longrightarrow> client_ok s'"
proof (induction rule: wait_step.induct)
  case (wait_done s t)
  then show ?case by (simp add: result_ok)
next
  case (wait_ctx s t f)
  then show ?case by - (rule client_okI [of s t], assumption; simp add: caller_simps ack_is_answer)
next
  case (wait_closed_done s t)
  then show ?case by (simp add: result_ok)
next
  case (wait_closed s t)
  then show ?case by - (rule client_okI [of s t], assumption; simp add: caller_simps closed_is_answer)
qed

lemma ack_step_ok: "ack_step s s' \<Longrightarrow> client_ok s \<Longrightarrow> client_ok s'"
proof (induction rule: ack_step.induct)
  case (ack_success s t)
  show ?case
    by (rule client_okI [OF ack_success(4), of t], cases "cl_callers s t")
      (use ack_success in \<open>auto simp: caller_simps handleSuccess_def\<close>)
next
  case (ack_error s t f)
  show ?case
    by (rule client_okI [OF ack_error(3), of t], cases "cl_callers s t")
      (use ack_error in \<open>auto simp: caller_simps handleError_def\<close>)
qed (simp add: client_ok_def caller_ok_def)

lemma library_step_ok: "library_step s s' \<Longrightarrow> client_ok s \<Longrightarrow> client_ok s'"
proof (induction rule: library_step.induct)
  case (broker t s)
  show ?case
    by (rule client_okI [OF broker(2), of t], cases "cl_callers s t")
      (use broker in \<open>auto simp: caller_simps\<close>)
qed (simp_all add: client_ok_def caller_ok_def)

lemma close_step_ok: "close_step s s' \<Longrightarrow> client_ok s \<Longrightarrow> client_ok s'"
  by (induction rule: close_step.induct) (simp add: client_ok_def caller_ok_def)

lemma client_reachable_ok: "client_reachable topics s \<Longrightarrow> client_ok s"
proof (induction rule: client_reachable.induct)
  case initial
  show ?case by (rule client_ok_initial)
next
  case (later s s')
  then show ?case
    unfolding client_step_def
    by (metis publish_step_ok enqueue_step_ok wait_step_ok ack_step_ok close_step_ok library_step_ok)
qed

section \<open>The answers of the client\<close>

lemma answered_ok: "client_reachable topics s \<Longrightarrow> cl_callers s t = Answered r \<Longrightarrow>
    early_answer r \<and> t \<notin> cl_inFlight s \<and> t \<notin> cl_broker s \<or>
    (\<exists>c. r = wait_answer c \<and> (r = Inr () \<longrightarrow> t \<in> cl_broker s))"
  using client_reachable_ok [of topics s] by (auto simp: client_ok_def caller_ok_def dest: spec [of _ t])

text \<open>A success is reported only for a message that the broker has.\<close>

lemma success_is_stored: "client_reachable topics s \<Longrightarrow> cl_callers s t = Answered (Inr ()) \<Longrightarrow> t \<in> cl_broker s"
  by (auto dest: answered_ok simp: early_answer_def)

text \<open>An answer is final: later acknowledgements do not change what a caller was told.\<close>

lemma answer_final_step: "client_step s s' \<Longrightarrow> cl_callers s t = Answered r \<Longrightarrow> cl_callers s' t = Answered r"
  unfolding client_step_def
  by (elim disjE; erule step_cases) (auto simp: answered_def finish_request_def)

lemma answer_final: "client_step\<^sup>*\<^sup>* s s' \<Longrightarrow> cl_callers s t = Answered r \<Longrightarrow> cl_callers s' t = Answered r"
  by (induction rule: rtranclp_induct) (auto intro: answer_final_step)

text \<open>
  Nobody waits for ever on a client that is closing: from every reachable state the loop of
  acknowledgements can end, and then a waiting caller has a case of its \<open>select\<close> to take.
\<close>

lemma closing_can_close:
  assumes "cl_closing s"
  shows "\<exists>s'. client_step\<^sup>*\<^sup>* s s' \<and> cl_closed s' \<and> cl_callers s' = cl_callers s"
proof -
  let ?a = "s\<lparr>cl_successes := False\<rparr>"
  let ?b = "?a\<lparr>cl_errors := False\<rparr>" let ?c = "?b\<lparr>cl_closed := True\<rparr>"
  have "client_step s ?a" unfolding client_step_def using no_more_successes [OF assms] by blast
  moreover have "client_step ?a ?b"
    unfolding client_step_def using no_more_errors [of ?a] assms by simp
  moreover have "client_step ?b ?c" unfolding client_step_def using loop_end [of ?b] by simp
  ultimately have "client_step\<^sup>*\<^sup>* s ?c" by (meson r_into_rtranclp rtranclp_trans)
  then show ?thesis by (intro exI [of _ ?c]) simp
qed

lemma wait_can_end:
  assumes "cl_closed s" "cl_callers s t = Waiting"
  shows "\<exists>s' r. wait_step s s' \<and> cl_callers s' t = Answered r"
proof (cases "req_done (cl_requests s t)")
  case True
  from wait_closed_done [OF assms(2,1) True] show ?thesis
    by (intro exI conjI) (assumption, simp add: answered_def)
next
  case False
  from wait_closed [OF assms(2,1) False] show ?thesis
    by (intro exI conjI) (assumption, simp add: answered_def)
qed

lemma closing_client_answers:
  assumes "cl_closing s" and "cl_callers s t \<notin> {Ready, Panicked}"
  shows "\<exists>s' r. client_step\<^sup>*\<^sup>* s s' \<and> cl_callers s' t = Answered r"
proof (cases "cl_callers s t")
  case Ready
  with assms show ?thesis by simp
next
  case Enqueuing
  let ?u = "answered (finish_request s t (Some (Kafka ErrProducerUnavailable))) t
      (Inl (Kafka ErrProducerUnavailable))"
  from enqueue_closing [OF Enqueuing assms(1)] have "client_step s ?u" by (simp add: client_step_def)
  moreover have "cl_callers ?u t = Answered (Inl (Kafka ErrProducerUnavailable))"
    by (simp add: answered_def)
  ultimately show ?thesis by blast
next
  case Waiting
  from closing_can_close [OF assms(1)] obtain s'
    where s': "client_step\<^sup>*\<^sup>* s s'" "cl_closed s'" "cl_callers s' t = Waiting"
    using Waiting by metis
  from wait_can_end [OF s'(2,3)] obtain s'' r
    where "wait_step s' s''" "cl_callers s'' t = Answered r" by blast
  with s'(1) show ?thesis by (metis client_step_def rtranclp.rtrancl_into_rtrancl)
next
  case Answered
  then show ?thesis by blast
next
  case Panicked
  with assms show ?thesis by simp
qed

text \<open>
  But a caller still in the \<open>select\<close> of \<open>enqueue\<close> may also meet the closed \<open>Input\<close> channel, and then it
  gets no answer, now or later.
\<close>

lemma closing_client_may_panic:
  assumes "cl_closing s" and "cl_callers s t = Enqueuing"
  shows "\<exists>s'. client_step\<^sup>*\<^sup>* s s' \<and> cl_callers s' t = Panicked"
proof -
  let ?a = "s\<lparr>cl_input := False\<rparr>"
  let ?b = "?a\<lparr>cl_callers := (cl_callers ?a)(t := Panicked)\<rparr>"
  have "client_step s ?a" unfolding client_step_def using no_more_input [OF assms(1)] by blast
  moreover have "client_step ?a ?b"
    unfolding client_step_def using enqueue_panic [of ?a t] assms(2) by simp
  ultimately have "client_step\<^sup>*\<^sup>* s ?b" by (meson r_into_rtranclp rtranclp_trans)
  then show ?thesis by (intro exI [of _ ?b]) simp
qed

lemma panic_final_step: "client_step s s' \<Longrightarrow> cl_callers s t = Panicked \<Longrightarrow> cl_callers s' t = Panicked"
  unfolding client_step_def
  by (elim disjE; erule step_cases) (auto simp: answered_def finish_request_def)

lemma panic_final: "client_step\<^sup>*\<^sup>* s s' \<Longrightarrow> cl_callers s t = Panicked \<Longrightarrow> cl_callers s' t = Panicked"
  by (induction rule: rtranclp_induct) (auto intro: panic_final_step)

text \<open>Nobody panics while the client has not been asked to close.\<close>

lemma open_client_step:
  "client_step s s' \<Longrightarrow> client_ok s \<Longrightarrow> \<not> cl_closing s' \<Longrightarrow>
     \<not> cl_closing s \<and> (cl_callers s t \<noteq> Panicked \<longrightarrow> cl_callers s' t \<noteq> Panicked)"
  unfolding client_step_def client_ok_def
  by (elim disjE; erule step_cases) (auto simp: answered_def finish_request_def)

lemma open_client_no_panic: "client_reachable topics s \<Longrightarrow> \<not> cl_closing s \<Longrightarrow> cl_callers s t \<noteq> Panicked"
proof (induction rule: client_reachable.induct)
  case (later s s')
  then show ?case using open_client_step client_reachable_ok by blast
qed (simp add: NewClient_def)

text \<open>The choices of the environment of \<open>publish\<close> that describe one caller of the client.\<close>

definition chosen :: "'e env_scheme \<Rightarrow> fault option \<Rightarrow> enqueue_case \<Rightarrow> wait_case \<Rightarrow> bool \<Rightarrow> 'e env_scheme" where
  "chosen E c q a b = E\<lparr>env_ctx := \<lambda>_. c, env_enqueue := \<lambda>_. q, env_wait := \<lambda>_. a, env_accepted := \<lambda>_. b\<rparr>"

lemma publish_refused: "publish (chosen E (Some f) q a b) w d m = (Inl (fault_error f), step w)"
  by (simp add: publish_def chosen_def)

lemma publish_closing:
  "publish (chosen E None EnqueueClosing a b) w d m =
     (Inl (Kafka ErrProducerUnavailable), step (step (step w)))"
  by (simp add: publish_def chosen_def enqueue_def Let_def)

lemma publish_waits:
  "fst (publish (chosen E None EnqueueInput a b) w d m) = wait_answer a"
  "kafka (snd (publish (chosen E None EnqueueInput a b) w d m)) = kafka w \<longleftrightarrow> \<not> accepts a b"
  by (simp_all add: publish_def chosen_def enqueue_def Let_def waitPublishResult_answer)

lemma answer_chosen:
  assumes "client_reachable topics s" and "cl_callers s t = Answered r"
  shows "\<exists>c q a. fst (publish (chosen E c q a (t \<in> cl_broker s)) w d m) = r \<and>
    (kafka (snd (publish (chosen E c q a (t \<in> cl_broker s)) w d m)) = kafka w \<longleftrightarrow> t \<notin> cl_broker s)"
proof -
  from answered_ok [OF assms] consider
      (fault) f where "r = Inl (fault_error f)" "t \<notin> cl_broker s"
    | (closing) "r = Inl (Kafka ErrProducerUnavailable)" "t \<notin> cl_broker s"
    | (waited) a where "r = wait_answer a" "r = Inr () \<longrightarrow> t \<in> cl_broker s"
    by (auto simp: early_answer_def)
  then show ?thesis
  proof cases
    case fault
    then show ?thesis by (intro exI [of _ "Some f"]) (simp add: publish_refused)
  next
    case closing
    then show ?thesis by (intro exI [of _ None] exI [of _ EnqueueClosing]) (simp add: publish_closing)
  next
    case waited
    then have "accepts a (t \<in> cl_broker s) \<longleftrightarrow> t \<in> cl_broker s"
      by (cases a rule: wait_answer.cases) (auto simp: accepts_def)
    with waited(1) show ?thesis
      by (intro exI [of _ None] exI [of _ EnqueueInput] exI [of _ a]) (simp add: publish_waits)
  qed
qed

lemma publish_log:
  "kafka (snd (publish E w d m)) = kafka w \<or>
   (\<exists>p. offered d m p \<and> kafka (snd (publish E w d m)) = kafka w @ [p])"
  by (rule SendMessage_log [where E = E and w = w and topic = d and m = m])
    (auto simp: SendMessage_def)

text \<open>
  C34. With any number of callers, the loop of acknowledgements, the broker and the end of the client
  running at the same time, every answer a caller gets is one that \<open>publish\<close> gives for some choice of
  its environment, and the log it leaves has the message of the call exactly if the broker has it.
\<close>

theorem client_refines_publish:
  assumes "client_reachable topics s" and "cl_callers s t = Answered r"
  shows "\<exists>c q a. fst (publish (chosen E c q a (t \<in> cl_broker s)) w d m) = r \<and>
    (if t \<in> cl_broker s
     then \<exists>p. offered d m p \<and> kafka (snd (publish (chosen E c q a (t \<in> cl_broker s)) w d m)) = kafka w @ [p]
     else kafka (snd (publish (chosen E c q a (t \<in> cl_broker s)) w d m)) = kafka w)"
proof -
  from answer_chosen [OF assms] obtain c q a where
    "fst (publish (chosen E c q a (t \<in> cl_broker s)) w d m) = r"
    "kafka (snd (publish (chosen E c q a (t \<in> cl_broker s)) w d m)) = kafka w \<longleftrightarrow> t \<notin> cl_broker s"
    by blast
  with publish_log [of "chosen E c q a (t \<in> cl_broker s)" w d m] show ?thesis
    by (intro exI [of _ c] exI [of _ q] exI [of _ a]) auto
qed

section \<open>A run\<close>

text \<open>One caller whose message is published; nobody else calls.\<close>

definition published_client :: "client" where
  "published_client = (NewClient (\<lambda>_. ''order.created''))\<lparr>cl_callers := (\<lambda>_. Ready)(0 := Answered (Inr ())),
     cl_requests := (\<lambda>_. new_request ''order.created'')(0 := handleSuccess (new_request ''order.created'')),
     cl_broker := {0}\<rparr>"

lemma published_client_reachable: "client_reachable (\<lambda>_. ''order.created'') published_client"
proof -
  let ?T = "\<lambda>_. ''order.created''"
  let ?s0 = "NewClient ?T"
  let ?s1 = "?s0\<lparr>cl_callers := (cl_callers ?s0)(0 := Enqueuing)\<rparr>"
  let ?s2 = "?s1\<lparr>cl_callers := (cl_callers ?s1)(0 := Waiting), cl_inFlight := insert 0 (cl_inFlight ?s1)\<rparr>"
  let ?s3 = "?s2\<lparr>cl_broker := insert 0 (cl_broker ?s2)\<rparr>"
  let ?s4 = "?s3\<lparr>cl_requests := (cl_requests ?s3)(0 := handleSuccess (cl_requests ?s3 0)),
     cl_inFlight := cl_inFlight ?s3 - {0}\<rparr>"
  let ?s5 = "answered ?s4 0 (result_of (cl_requests ?s4 0))"
  have "publish_step ?s0 ?s1" by (rule begun) (simp add: NewClient_def)
  then have "client_reachable ?T ?s1" using initial later client_step_def by blast
  moreover have "enqueue_step ?s1 ?s2" by (rule enqueue_input) (simp_all add: NewClient_def)
  ultimately have "client_reachable ?T ?s2" using later client_step_def by blast
  moreover have "library_step ?s2 ?s3" by (rule broker) simp
  ultimately have "client_reachable ?T ?s3" using later client_step_def by blast
  moreover have "ack_step ?s3 ?s4" by (rule ack_success) (simp_all add: NewClient_def)
  ultimately have "client_reachable ?T ?s4" using later client_step_def by blast
  moreover have "wait_step ?s4 ?s5"
    by (rule wait_done) (simp_all add: NewClient_def new_request_def handleSuccess_def finish_def)
  ultimately have "client_reachable ?T ?s5" using later client_step_def by blast
  moreover have "?s5 = published_client"
    by (simp add: published_client_def NewClient_def answered_def result_of_def new_request_def
        handleSuccess_def finish_def)
  ultimately show ?thesis by simp
qed

end
