(* ===== verification/Event_Fixtures.thy ===== *)
theory Event_Fixtures
  imports Order_Fixtures Kafka_Delivery Compensation Order_To_Broker Producer_Client
begin

text \<open>
  The environment of \<open>Order_Fixtures\<close> with a concrete codec of market events, and the properties
  of messages, compensation and outbox applied in it. The codec writes the fields of an event
  separated by a byte outside ASCII, and refuses identifiers that hold that byte.
\<close>

section \<open>A codec of market events\<close>

definition show_opt :: "int option \<Rightarrow> string" where
  "show_opt x = (case x of None \<Rightarrow> [] | Some i \<Rightarrow> show_int i)"

definition parse_opt :: "string \<Rightarrow> int option option" where
  "parse_opt s = (if s = [] then Some None else map_option Some (parse_int s))"

lemma parse_opt_show_opt [simp]: "parse_opt (show_opt x) = Some x"
proof (cases x)
  case (Some i)
  have "show_int i \<noteq> []" by (simp add: show_int_def)
  with Some show ?thesis by (simp add: parse_opt_def show_opt_def)
qed (simp add: parse_opt_def show_opt_def)

lemma show_opt_sep: "demo_sep \<notin> set (show_opt x)"
  using show_int_sep by (simp add: show_opt_def split: option.split)

definition ts_nanos :: "pb_Timestamp \<Rightarrow> int" where
  "ts_nanos t = pbts_Seconds t * 1000000000 + pbts_Nanos t"

definition ts_of :: "int \<Rightarrow> pb_Timestamp" where
  "ts_of n = \<lparr>pbts_Seconds = n div 1000000000, pbts_Nanos = n mod 1000000000\<rparr>"

definition ts_valid :: "pb_Timestamp \<Rightarrow> bool" where
  "ts_valid t \<longleftrightarrow> 0 \<le> pbts_Nanos t \<and> pbts_Nanos t < 1000000000"

definition opt_valid :: "pb_Timestamp option \<Rightarrow> bool" where
  "opt_valid x = (case x of None \<Rightarrow> True | Some t \<Rightarrow> ts_valid t)"

definition demo_MarshalMarket :: "pb_MarketStateChangedEvent \<Rightarrow> bytes option" where
  "demo_MarshalMarket m =
     (if demo_sep \<in> set (pbMS_EventId m) \<or> demo_sep \<in> set (pbMS_MarketId m) \<or>
         \<not> opt_valid (pbMS_DeletedAt m) \<or> \<not> opt_valid (pbMS_UpdatedAt m) then None
      else Some (pbMS_EventId m @ demo_sep # pbMS_MarketId m @ demo_sep #
        (if pbMS_Enabled m then ''1'' else ''0'') @ demo_sep #
        show_opt (map_option ts_nanos (pbMS_DeletedAt m)) @ demo_sep #
        show_opt (map_option ts_nanos (pbMS_UpdatedAt m))))"

definition demo_UnmarshalMarket :: "bytes \<Rightarrow> pb_MarketStateChangedEvent option" where
  "demo_UnmarshalMarket b =
     (case split_on demo_sep b of
        [e, m, en, d, u] \<Rightarrow>
          (case (parse_opt d, parse_opt u) of
             (Some d', Some u') \<Rightarrow> Some \<lparr>pbMS_EventId = e, pbMS_MarketId = m, pbMS_Enabled = (en = ''1''),
                pbMS_DeletedAt = map_option ts_of d', pbMS_UpdatedAt = map_option ts_of u'\<rparr>
           | _ \<Rightarrow> None)
      | _ \<Rightarrow> None)"

definition demo_codec :: market_codec where
  "demo_codec = \<lparr>proto_MarshalMarket = demo_MarshalMarket, proto_UnmarshalMarket = demo_UnmarshalMarket,
     timestamppb_New = ts_of, timestamppb_CheckValid = ts_valid, timestamppb_AsTime = ts_nanos\<rparr>"

lemma ts_of_nanos: "ts_valid t \<Longrightarrow> ts_of (ts_nanos t) = t"
  by (cases t) (simp add: ts_of_def ts_nanos_def ts_valid_def)

lemma ts_nanos_of: "ts_nanos (ts_of n) = n" "ts_valid (ts_of n)"
  by (simp_all add: ts_of_def ts_nanos_def ts_valid_def)

lemma ts_of_nanos_option: "opt_valid x \<Longrightarrow> map_option (ts_of \<circ> ts_nanos) x = x"
  by (cases x) (simp_all add: ts_of_nanos opt_valid_def)

lemma demo_sep_no_digit: "CHR ''1'' \<noteq> demo_sep" "CHR ''0'' \<noteq> demo_sep"
  by code_simp+

lemma demo_codec_is_ok: "codec_ok demo_codec"
  unfolding codec_ok_def
proof (intro conjI allI impI)
  fix m b assume "proto_MarshalMarket demo_codec m = Some b"
  then show "proto_UnmarshalMarket demo_codec b = Some m"
    using show_opt_sep demo_sep_no_digit
    by (cases m) (auto simp: demo_codec_def demo_MarshalMarket_def demo_UnmarshalMarket_def split_on_append
        split_on_none ts_of_nanos_option option.map_comp split: if_splits)
qed (simp_all add: demo_codec_def ts_nanos_of)

section \<open>Witnesses: compensation\<close>

definition demo_event :: MarketStateChangedEvent where
  "demo_event = \<lparr>MS_EventID = 50, MS_MarketID = 2, MS_Enabled = False, MS_DeletedAt = None,
     MS_UpdatedAt = 1700000000000000000\<rparr>"

definition demo_payload :: bytes where
  "demo_payload = projr (Marshal demo demo_codec demo_event)"

theorem market_event_roundtrip_witness:
  "Marshal demo demo_codec demo_event = Inr demo_payload \<and>
   UnmarshalMarketStateChanged demo demo_codec demo_payload = Inr demo_event"
proof -
  have m: "Marshal demo demo_codec demo_event = Inr demo_payload"
    unfolding demo_payload_def by (subst sum.collapse(2)) (code_simp | rule refl)+
  have "event_in_range demo_event"
    by (simp add: event_in_range_def demo_event_def zero_time_def max_timestamp_def)
  from market_event_roundtrip [OF demo_uuid_ok demo_codec_is_ok this m] m show ?thesis by blast
qed

text \<open>A book with one order of the market, and one waiting event.\<close>

definition demo_row :: OrderRow where
  "demo_row = \<lparr>row_id = 7, row_user_id = 1, row_market_id = 2, row_type = OrderTypeLimit,
     row_price = 500000000, row_quantity = 3, row_status = OrderStatusCreated,
     row_created_at = 1600000000000000000\<rparr>"

definition demo_waiting :: OutboxEvent where
  "demo_waiting = \<lparr>Out_ID = 31, Out_EventID = 32, Out_EventType = OrderCreatedEventType,
     Out_AggregateID = 7, Out_Payload = ''created'', Out_Status = OutboxEventStatusPending,
     Out_RetryCount = 0, Out_AvailableAt = 1600000000000000000, Out_CreatedAt = 1600000000000000000,
     Out_PublishedAt = None, Out_FailedAt = None, Out_LockedAt = None, Out_LastError = None\<rparr>"

definition demo_book :: order_world where
  "demo_book = demo_world\<lparr>db := \<lparr>orders = [demo_row], outbox = [demo_waiting], inbox = []\<rparr>\<rparr>"

abbreviation demo_process :: "order_world \<Rightarrow> (go_error + unit) \<times> order_world" where
  "demo_process w \<equiv> ProcessMarketStateChanged demo w demo_cfg ''market'' ''orders'' demo_payload demo_event"

definition demo_cancelled :: order_world where
  "demo_cancelled = snd (demo_process demo_book)"

lemma demo_process_run:
  "case demo_process demo_book of (r, w) \<Rightarrow>
     r = Inr () \<and> inbox_status (MS_EventID demo_event, ''orders'') (db w) = Some InboxEventStatusProcessed \<and>
     map row_status (orders (db w)) = [OrderStatusCancelled]"
  by code_simp

lemma demo_processed: "demo_process demo_book = (Inr (), demo_cancelled)"
  using demo_process_run by (simp add: demo_cancelled_def prod_eq_iff split_beta)

lemma demo_settled: "inbox_settled (db demo_book)"
  by (simp add: inbox_settled_def inbox_status_def demo_book_def demo_row_def)

lemma demo_inbox: "inbox_status (MS_EventID demo_event, ''orders'') (db demo_book) = None"
  "inbox_status (MS_EventID demo_event, ''orders'') (db demo_cancelled) = Some InboxEventStatusProcessed"
  using demo_process_run
  by (simp_all add: demo_cancelled_def split_beta) (simp add: inbox_status_def demo_book_def)

lemma demo_blocks: "blocks demo_event"
  by (simp add: blocks_def demo_event_def)

theorem disabled_market_orders_cancelled_witness:
  "map row_status (orders (db demo_book)) = [OrderStatusCreated] \<and>
   map row_status (orders (db demo_cancelled)) = [OrderStatusCancelled] \<and>
   orders_cancelled demo demo_event (db demo_book) (db demo_cancelled)"
proof -
  have "orders_cancelled demo demo_event (db demo_book) (db demo_cancelled)"
    using disabled_market_orders_cancelled [OF demo_processed demo_blocks demo_settled] demo_inbox(1)
    by simp
  moreover have "map row_status (orders (db demo_book)) = [OrderStatusCreated]" by (simp add: demo_book_def demo_row_def)
  moreover have "map row_status (orders (db demo_cancelled)) = [OrderStatusCancelled]"
    using demo_process_run by (simp add: demo_cancelled_def split_beta)
  ultimately show ?thesis by simp
qed

theorem market_event_exactly_once_witness: "db (snd (demo_process demo_cancelled)) = db demo_cancelled"
  by (rule market_event_exactly_once [OF demo_inbox(2)]) (simp add: prod_eq_iff)

definition demo_down :: order_env where
  "demo_down = demo\<lparr>env_outcome := \<lambda>n. Lost FaultDeadline\<rparr>"

theorem compensation_failure_atomic_witness:
  "orders (db (snd (ProcessMarketStateChanged demo_down demo_book demo_cfg ''market'' ''orders''
     demo_payload demo_event))) = orders (db demo_book)"
proof -
  let ?r = "ProcessMarketStateChanged demo_down demo_book demo_cfg ''market'' ''orders'' demo_payload demo_event"
  have "\<not> is_ok (fst ?r)" by code_simp
  then obtain e where "?r = (Inl e, snd ?r)" by (cases "fst ?r") (auto simp: prod_eq_iff)
  moreover have "unambiguous demo_down" by (simp add: unambiguous_def demo_down_def)
  ultimately show ?thesis using compensation_failure_atomic by blast
qed

lemma demo_book_ok: "db_ok (db demo_book)"
  by code_simp

theorem compensation_keeps_tables_ok_witness: "db_ok (db demo_cancelled) \<and> inbox_settled (db demo_cancelled)"
  by (rule compensation_keeps_tables_ok [OF demo_book_ok demo_settled demo_processed])

section \<open>Witnesses: consuming messages\<close>

definition demo_consumer :: ConsumerConfig where
  "demo_consumer = \<lparr>DLQEnabled = True, DLQPublisher = Some ''market.dlq'', DLQMaxMessageBytes = 1000000,
     MaxRetries = 2, RetryBackoff = 1000000, RetryJitter = Finite 0\<rparr>"

definition demo_message :: "bytes \<Rightarrow> int \<Rightarrow> ConsumerMessage" where
  "demo_message payload offset = \<lparr>CM_Headers = [], CM_Timestamp = 0, CM_BlockTimestamp = 0, CM_Key = ''2'',
     CM_Value = payload, CM_Topic = ''market'', CM_Partition = 0, CM_Offset = offset\<rparr>"

theorem market_offset_marked_only_when_settled_witness:
  "\<exists>ms'. subseq ms' [demo_message demo_payload 4, demo_message ''?'' 5] \<and> [4, 5] = map CM_Offset ms' \<and>
    (\<forall>m \<in> set ms'. market_event_processed demo demo_codec ''orders'' (startMessageProcessing m)
        (snd (consume_market_claim demo demo_codec demo_cfg demo_consumer ''orders'' (\<lambda>_. False) demo_book []
           [demo_message demo_payload 4, demo_message ''?'' 5])) \<or>
      in_dlq ''market.dlq'' (startMessageProcessing m)
        (kafka (snd (consume_market_claim demo demo_codec demo_cfg demo_consumer ''orders'' (\<lambda>_. False) demo_book []
           [demo_message demo_payload 4, demo_message ''?'' 5]))))"
proof -
  let ?c = "consume_market_claim demo demo_codec demo_cfg demo_consumer ''orders'' (\<lambda>_. False) demo_book []
    [demo_message demo_payload 4, demo_message ''?'' 5]"
  have f: "fst ?c = (None, [4, 5])" by code_simp
  have dlq: "dlq_configured demo_consumer ''market.dlq''"
    by (simp add: dlq_configured_def demo_consumer_def max_int64_def)
  have "?c = ((None, [4, 5]), snd ?c)" by (subst prod.collapse [symmetric]) (simp only: f)
  from market_offset_marked_only_when_settled [OF dlq demo_settled this] show ?thesis
    by (simp only: append_Nil)
qed

theorem malformed_message_not_retried_witness:
  "RetryMiddleware demo 2 1000000 (Finite 0) (handleMarketStateChanged demo demo_codec demo_cfg ''orders'') demo_book
     (startMessageProcessing (demo_message ''?'' 5)) =
   (Failed (NonRetryableError (Errorf ''MarketConsumer.handleMarketStateChanged: ''
      (NewError ''proto.UnmarshalMarketStateChanged'') '''')), demo_book)"
proof (rule malformed_message_not_retried)
  show "UnmarshalMarketStateChanged demo demo_codec (Msg_Value (startMessageProcessing (demo_message ''?'' 5))) =
      Inl (NewError ''proto.UnmarshalMarketStateChanged'')" by code_simp
qed (simp add: max_int64_def)

theorem truncate_longest_valid_prefix_witness:
  "length (truncateUTF8Bytes [CHR ''a'', char_of (195 :: nat), char_of (169 :: nat), CHR ''b''] 2) = 1 \<and>
   utf8_Valid (truncateUTF8Bytes [CHR ''a'', char_of (195 :: nat), char_of (169 :: nat), CHR ''b''] 2)"
proof -
  let ?s = "[CHR ''a'', char_of (195 :: nat), char_of (169 :: nat), CHR ''b'']"
  have "utf8_Valid (truncateUTF8Bytes ?s 2)"
    using truncate_longest_valid_prefix [of 2 ?s] by simp
  moreover have "length (truncateUTF8Bytes ?s 2) = 1" by code_simp
  ultimately show ?thesis by simp
qed

theorem dlq_message_fits_or_minimal_witness:
  "Msg_Value (buildDLQMessage demo (startMessageProcessing (demo_message ''?'' 5)) CtxCanceled 1 10) = ''?'' \<and>
   fst ` set (Msg_Headers (buildDLQMessage demo (startMessageProcessing (demo_message ''?'' 5)) CtxCanceled 1 10))
     \<subseteq> set dlqEssentialHeaders - {''dlq-error''}"
proof -
  let ?m = "startMessageProcessing (demo_message ''?'' 5)"
  have "\<not> messageSize (buildDLQMessage demo ?m CtxCanceled 1 10) \<le> 10" by code_simp
  then show ?thesis
    using dlq_message_fits_or_minimal [of 10 demo ?m CtxCanceled 1]
    by (simp add: startMessageProcessing_def demo_message_def)
qed

definition count_calls :: "nat base_scheme handler" where
  "count_calls v m = (Failed CtxCanceled, base.extend (base.truncate v) (Suc (base.more v)))"

definition no_calls :: "nat base_scheme" where
  "no_calls = base.extend \<lparr>tick = 0, kv = (\<lambda>k. None), kafka = []\<rparr> 0"

theorem retry_calls_bounded_witness:
  "base.more (snd (RetryMiddleware demo 2 1000000 (Finite 0) count_calls no_calls
     (startMessageProcessing (demo_message ''?'' 5)))) \<le> base.more no_calls + nat (max 0 2) + 1"
  by (rule retry_calls_bounded) (simp_all add: count_calls_def base.defs max_int64_def)

definition keep_all :: "order_world handler" where
  "keep_all v m = (Handled, v)"

theorem claim_marks_prefix_witness:
  "\<exists>k \<le> 2. [4, 5] = map CM_Offset (take k [demo_message ''?'' 4, demo_message ''!'' 5])"
proof -
  have "ConsumeClaim keep_all (\<lambda>_. False) demo_book [] [demo_message ''?'' 4, demo_message ''!'' 5] =
      ((None, [4, 5]), step (step demo_book))"
    by (simp add: handleMessage_def keep_all_def handleMessageResult_def demo_message_def)
  from claim_marks_prefix [OF _ this] show ?thesis by (simp add: keep_all_def numeral_2_eq_2)
qed

section \<open>Witnesses: the outbox\<close>

definition demo_topics :: OrderTopics where
  "demo_topics = \<lparr>Topic_OrderCreated = ''order.created'', Topic_OrderStatusUpdated = ''order.status''\<rparr>"

definition demo_outbox_cfg :: OutboxConfig where
  "demo_outbox_cfg = \<lparr>ob_PollInterval = 1000000000, ob_BatchSize = 10, ob_MaxRetries = 3,
     ob_ProcessingTimeout = 60000000000\<rparr>"

abbreviation demo_run :: "(go_error + unit) option \<times> order_world" where
  "demo_run \<equiv> Run demo order_outbox demo_outbox_cfg (order_publisher demo demo_topics ''d'') True demo_book
     [PollTick, CtxDone]"

lemma demo_outbox_ok: "outbox_ok (outbox (db demo_book))"
  by (simp add: demo_book_def outbox_ok_def outbox_row_ok_def demo_waiting_def)

lemma demo_run_eq: "demo_run = (fst demo_run, snd demo_run)"
  by simp

theorem outbox_rows_evolve_witness:
  "list_all2 evolves (outbox (db demo_book)) (outbox (db (snd demo_run))) \<and> outbox_ok (outbox (db (snd demo_run)))"
  by (rule outbox_rows_evolve [OF demo_outbox_ok demo_run_eq])

theorem published_only_after_send_witness:
  "map Out_Status (outbox (db (snd demo_run))) = [OutboxEventStatusPublished] \<and>
   order_sent demo demo_topics (hd (outbox (db (snd demo_run)))) (kafka (snd demo_run))"
proof -
  have s: "map Out_Status (outbox (db (snd demo_run))) = [OutboxEventStatusPublished]" by code_simp
  moreover have "order_sent demo demo_topics (hd (outbox (db (snd demo_run)))) (kafka (snd demo_run))"
    using published_only_after_send [OF demo_outbox_ok demo_run_eq] s
    by (auto simp: demo_book_def demo_waiting_def map_eq_Cons_conv)
  ultimately show ?thesis by simp
qed

theorem outbox_retries_bounded_witness: "retries_bounded demo_outbox_cfg (outbox (db (snd demo_run)))"
  by (rule outbox_retries_bounded [OF demo_outbox_ok _ demo_run_eq])
    (simp add: retries_bounded_def demo_book_def demo_waiting_def demo_outbox_cfg_def)

theorem waiting_events_get_published_witness:
  "map Out_Status (outbox (db (processBatch demo order_outbox demo_outbox_cfg
     (order_publisher demo demo_topics ''d'') demo_book))) = [OutboxEventStatusPublished]"
proof -
  have rows: "outbox (db demo_book) = [demo_waiting]" by (simp add: demo_book_def)
  have ready: "claimable (env_locked demo (tick demo_book)) (env_db_now demo (tick demo_book)) demo_waiting"
    by (simp add: claimable_def demo_def demo_waiting_def demo_book_def)
  have "healthy demo" by (simp add: healthy_def demo_success) (simp add: demo_def)
  from waiting_events_get_published [OF this, of demo_book demo_topics demo_outbox_cfg "''d''"] show ?thesis
    using ready
    by (simp add: rows messageTopic_def demo_topics_def demo_waiting_def [symmetric] demo_outbox_cfg_def
        list_all2_Cons1) (auto simp: demo_waiting_def)
qed

theorem claim_bounded_and_available_witness:
  "int (length (projr (fst (ClaimPendingEvents demo order_outbox demo_book 10)))) \<le> 10 \<and>
   map Out_Status (projr (fst (ClaimPendingEvents demo order_outbox demo_book 10))) = [OutboxEventStatusProcessing]"
proof -
  let ?c = "ClaimPendingEvents demo order_outbox demo_book 10"
  have e: "case fst ?c of Inl e \<Rightarrow> False
    | Inr events \<Rightarrow> map Out_Status events = [OutboxEventStatusProcessing]" by code_simp
  then have "?c = (Inr (projr (fst ?c)), snd ?c)" by (cases "fst ?c") (simp_all add: prod_eq_iff)
  from claim_bounded_and_available [OF demo_outbox_ok this]
  have "int (length (projr (fst ?c))) \<le> 10" by blast
  moreover have "map Out_Status (projr (fst ?c)) = [OutboxEventStatusProcessing]"
    using e by (cases "fst ?c") simp_all
  ultimately show ?thesis by simp
qed

text \<open>The order of the first fixtures, and a run of the worker after it.\<close>

abbreviation demo_order_run where
  "demo_order_run \<equiv> Run demo order_outbox demo_outbox_cfg (order_publisher demo demo_topics ''d'') True demo_after
     [PollTick, CtxDone]"

theorem placed_order_reaches_broker_witness:
  "map Out_Status (outbox (db (snd demo_order_run))) = [OutboxEventStatusPublished] \<and>
   (\<exists>i now eventID. \<exists>msg \<in> set (kafka (snd demo_order_run)).
      announces demo demo demo_topics (buildOrder i 1 2 OrderTypeLimit (Decimal 5 0) 3 now) eventID now msg)"
proof -
  have run: "map Out_Status (outbox (db (snd demo_order_run))) = [OutboxEventStatusPublished]" by code_simp
  have "db demo_after \<noteq> db demo_world" using demo_after_facts(2) by auto
  from placed_order_reaches_broker [OF demo_created this _ prod.collapse [symmetric], of demo demo_outbox_cfg demo_topics
      "''d''" True "[PollTick, CtxDone]"] run
  show ?thesis by (auto simp: outbox_ok_def)
qed

section \<open>Witness: a message that is passed over\<close>

text \<open>The database is down and the context ends during the first message; then both are back.\<close>

definition demo_stopping :: order_env where
  "demo_stopping = demo\<lparr>env_outcome := \<lambda>n. if n \<le> 4 then Lost FaultDeadline else Success,
     env_ctx := \<lambda>n. if n \<le> 4 then Some FaultCanceled else None\<rparr>"

abbreviation demo_handler :: "order_world handler" where
  "demo_handler \<equiv> handleMarketStateChanged demo_stopping demo_codec demo_cfg ''orders''"

lemma demo_stopping_run:
  "case demo_handler (step demo_book) (startMessageProcessing (demo_message demo_payload 4)) of (r, w) \<Rightarrow>
     (case r of Failed e \<Rightarrow> \<not> IsNonRetryableError e | _ \<Rightarrow> False) \<and>
     env_ctx demo_stopping (Suc (tick w)) \<noteq> None \<and>
     fst (demo_handler (step (step (step w))) (startMessageProcessing (demo_message demo_payload 5))) = Handled"
  by code_simp

theorem stopped_claim_passes_over_message_witness:
  "\<exists>r w'. consume_market_claim demo_stopping demo_codec demo_cfg demo_consumer ''orders'' (\<lambda>_. False) demo_book []
     [demo_message demo_payload 4, demo_message demo_payload 5] = ((r, [5]), w')"
proof -
  let ?m = "startMessageProcessing (demo_message demo_payload 4)"
  obtain r0 w1 where one: "demo_handler (step demo_book) ?m = (r0, w1)" by fastforce
  obtain err f where err: "r0 = Failed err" "\<not> IsNonRetryableError err"
      "env_ctx demo_stopping (Suc (tick w1)) = Some f"
      "fst (demo_handler (step (step (step w1))) (startMessageProcessing (demo_message demo_payload 5))) = Handled"
    using demo_stopping_run one by (auto split: hresult.splits)
  obtain r marks' w' where run: "consume_market_claim demo_stopping demo_codec demo_cfg demo_consumer ''orders''
      (\<lambda>_. False) demo_book [] [demo_message demo_payload 4, demo_message demo_payload 5] = ((r, marks'), w')"
    by (metis prod.exhaust)
  obtain w2 where two: "demo_handler (step (step (step w1))) (startMessageProcessing (demo_message demo_payload 5)) =
      (Handled, w2)"
    using err(4) by (metis prod.collapse)
  have "0 < MaxRetries demo_consumer" "MaxRetries demo_consumer < max_int64"
    by (simp_all add: demo_consumer_def max_int64_def)
  from stopped_claim_passes_over_message [OF run [unfolded consume_market_claim_def] this _ one [unfolded err(1)] err(2,3) _ two]
  have "marks' = [5]" by (auto simp: demo_message_def)
  with run show ?thesis by blast
qed

section \<open>Witness: the client of the producer\<close>

definition demo_offer :: Message where
  "demo_offer = \<lparr>Msg_Headers = [], Msg_Timestamp = zero_time, Msg_BlockTimestamp = zero_time,
     Msg_Key = ''1'', Msg_Value = ''2'', Msg_Topic = '''', Msg_Partition = 0, Msg_Offset = 0\<rparr>"

theorem client_refines_publish_witness:
  "\<exists>c q a. fst (publish (chosen demo c q a True) demo_book ''order.created'' demo_offer) = Inr () \<and>
    (\<exists>p. offered ''order.created'' demo_offer p \<and>
      kafka (snd (publish (chosen demo c q a True) demo_book ''order.created'' demo_offer)) = [p])"
proof -
  have "cl_callers published_client 0 = Answered (Inr ())" "0 \<in> cl_broker published_client"
    by (simp_all add: published_client_def)
  moreover have "kafka demo_book = []" by (simp add: demo_book_def demo_world_def)
  ultimately show ?thesis
    using client_refines_publish [OF published_client_reachable, of 0 "Inr ()" demo demo_book
        "''order.created''" demo_offer]
    by simp
qed

end
