(* ===== verification/Spot_Tables.thy ===== *)
theory Spot_Tables
  imports Outbox_Delivery Market_Event
begin

text \<open>
  The stores of the spot service: the tables of \<open>spotService/migrations\<close> with the stores over
  them (\<open>internal/infrastructure/postgres\<close>), the outbox and its worker, and the two caches of
  markets in Redis (\<open>internal/infrastructure/redis\<close>) with the converters of their entries.

  Rows of \<open>market_store\<close> are values of the domain's \<open>Market\<close>, since the data transfer object
  between them copies field by field. The JSON library and the collation of the database are
  parameters; any collation of a text column is the order of some rational keys.
\<close>

section \<open>Tables\<close>

record MarketRedisView =
  RV_ID :: string
  RV_Name :: string
  RV_Enabled :: bool
  RV_DeletedAtNs :: "int option"
  RV_UpdatedAtNs :: "int option"

record spot_env = env +
  json_MarshalMarket :: "MarketRedisView \<Rightarrow> string option"
  json_UnmarshalMarket :: "string \<Rightarrow> MarketRedisView option"
  json_MarshalMarkets :: "MarketRedisView list \<Rightarrow> string option"
  json_UnmarshalMarkets :: "string \<Rightarrow> MarketRedisView list option"
  collation_key :: "string \<Rightarrow> rat"

record spot_db =
  market_store :: "Market list"
  spot_outbox_rows :: "OutboxEvent list"
  cursors :: "PollerCursor list"

record spot_world = base +
  sdb :: spot_db
  lastSeenAt :: instant
  lastSeenID :: uuid

text \<open>One statement of the pool that only reads.\<close>

definition spot_query ::
  "'e env_scheme \<Rightarrow> 'a spot_world_scheme \<Rightarrow> (spot_db \<Rightarrow> go_error + 'r) \<Rightarrow>
   (go_error + 'r) \<times> 'a spot_world_scheme" where
  "spot_query E w stmt = external E w (\<lambda>v. (stmt (sdb v), v))"

section \<open>The market store\<close>

definition roleAdminKey :: string where "roleAdminKey = ''admin''"
definition roleViewerKey :: string where "roleViewerKey = ''viewer''"
definition roleUserKey :: string where "roleUserKey = ''user''"

text \<open>The three conditions on rows, and the order \<open>name, id\<close>.\<close>

definition role_sees :: "string \<Rightarrow> Market \<Rightarrow> bool" where
  "role_sees roleKey m =
     (if roleKey = roleAdminKey then True
      else if roleKey = roleViewerKey then Market_DeletedAt m = None
      else Market_DeletedAt m = None \<and> Market_Enabled m)"

definition sorted_markets :: "'e spot_env_scheme \<Rightarrow> string \<Rightarrow> Market list \<Rightarrow> Market list" where
  "sorted_markets E roleKey rows =
     sort_key (\<lambda>m. (collation_key E (Market_Name m), uint (Market_ID m)))
       (filter (role_sees roleKey) rows)"

text \<open>\<open>LIMIT\<close> and \<open>OFFSET\<close>: \<open>int (limit + 1)\<close> of a \<open>uint64\<close> wraps around and may be negative.\<close>

definition sql_markets_page ::
  "'e spot_env_scheme \<Rightarrow> string \<Rightarrow> int \<Rightarrow> int \<Rightarrow> spot_db \<Rightarrow> go_error + Market list" where
  "sql_markets_page E roleKey lmt ofs d =
     (if lmt < 0 then Inl (PgError ''2201W'' '''' ''LIMIT must not be negative'')
      else if ofs < 0 then Inl (PgError ''2201X'' '''' ''OFFSET must not be negative'')
      else Inr (take (nat lmt) (drop (nat ofs) (sorted_markets E roleKey (market_store d)))))"

definition loadMarketsPage ::
  "'e spot_env_scheme \<Rightarrow> 'a spot_world_scheme \<Rightarrow> string \<Rightarrow> 64 word \<Rightarrow> 64 word \<Rightarrow>
   (go_error + Market list) \<times> 'a spot_world_scheme" where
  "loadMarketsPage E w roleKey limit offset =
     (case spot_query E w (sql_markets_page E roleKey (sint (limit + 1)) (sint offset)) of
        (Inl err, w1) \<Rightarrow> (Inl (Errorf ''postgres.MarketStore.loadMarketsPage: '' err ''''), w1)
      | (Inr rows, w1) \<Rightarrow> (Inr rows, w1))"

definition hasAnyMarkets ::
  "'e env_scheme \<Rightarrow> 'a spot_world_scheme \<Rightarrow> (go_error + bool) \<times> 'a spot_world_scheme" where
  "hasAnyMarkets E w = spot_query E w (\<lambda>d. Inr (market_store d \<noteq> []))"

definition emptyPageResult ::
  "'e env_scheme \<Rightarrow> 'a spot_world_scheme \<Rightarrow> 64 word \<Rightarrow> (go_error + Market list) \<times> 'a spot_world_scheme" where
  "emptyPageResult E w offset =
     (if offset > 0 then (Inr [], w)
      else
        (case hasAnyMarkets E w of
           (Inl err, w1) \<Rightarrow> (Inl err, w1)
         | (Inr exists, w1) \<Rightarrow>
             if \<not> exists then (Inl (Repository ErrMarketStoreIsEmpty), w1) else (Inr [], w1)))"

definition GetMarketsPage ::
  "'e spot_env_scheme \<Rightarrow> 'a spot_world_scheme \<Rightarrow> string \<Rightarrow> 64 word \<Rightarrow> 64 word \<Rightarrow>
   (go_error + Market list) \<times> 'a spot_world_scheme" where
  "GetMarketsPage E w roleKey limit offset =
     (let op = ''postgres.MarketStore.GetMarketsPage'' in
      case loadMarketsPage E w roleKey limit offset of
        (Inl err, w1) \<Rightarrow> (Inl (Errorf (op @ '': '') err ''''), w1)
      | (Inr markets, w1) \<Rightarrow>
          if markets = [] then
            (case emptyPageResult E w1 offset of
               (Inl err, w2) \<Rightarrow> (Inl (Errorf (op @ '': '') err ''''), w2)
             | (Inr noRows, w2) \<Rightarrow> (Inr noRows, w2))
          else (Inr markets, w1))"

abbreviation RepoErrMarketNotFound :: go_error where
  "RepoErrMarketNotFound \<equiv> ErrMarketNotFound nil_uuid"

definition store_GetMarketByID ::
  "'e env_scheme \<Rightarrow> 'a spot_world_scheme \<Rightarrow> uuid \<Rightarrow> (go_error + Market) \<times> 'a spot_world_scheme" where
  "store_GetMarketByID E w i =
     (let op = ''postgres.MarketStore.GetMarketById'' in
      case spot_query E w (\<lambda>d. Inr (filter (\<lambda>m. Market_ID m = i) (market_store d))) of
        (Inl err, w1) \<Rightarrow> (Inl (Errorf (op @ '': '') err ''''), w1)
      | (Inr rows, w1) \<Rightarrow>
          (case CollectExactlyOneRow rows of
             Inl err \<Rightarrow>
               if errors_Is err PgNoRows
               then (Inl (Errorf (op @ '': '') RepoErrMarketNotFound ''''), w1)
               else (Inl (Errorf (op @ '': '') err ''''), w1)
           | Inr m \<Rightarrow> (Inr m, w1)))"

text \<open>The order \<open>(updated_at, id)\<close> of the cursor.\<close>

definition market_pos :: "Market \<Rightarrow> int \<times> int" where
  "market_pos m = (Market_UpdatedAt m, uint (Market_ID m))"

definition sql_updated_since ::
  "instant \<Rightarrow> uuid \<Rightarrow> int \<Rightarrow> spot_db \<Rightarrow> go_error + Market list" where
  "sql_updated_since updatedAt lastID limit d =
     (if limit < 0 then Inl (PgError ''2201W'' '''' ''LIMIT must not be negative'')
      else Inr (take (nat limit) (sort_key market_pos
        (filter (\<lambda>m. (pg_timestamp updatedAt, uint lastID) < market_pos m) (market_store d)))))"

definition ListUpdatedSince ::
  "'e env_scheme \<Rightarrow> 'a spot_world_scheme \<Rightarrow> instant \<Rightarrow> uuid \<Rightarrow> int \<Rightarrow>
   (go_error + Market list) \<times> 'a spot_world_scheme" where
  "ListUpdatedSince E w updatedAt lastID limit =
     (case spot_query E w (sql_updated_since updatedAt lastID limit) of
        (Inl err, w1) \<Rightarrow>
          (Inl (Errorf ''postgres.MarketStore.ListUpdatedSince: query updated markets: '' err ''''), w1)
      | (Inr rows, w1) \<Rightarrow> (Inr rows, w1))"

section \<open>Cursors, transactions and the outbox\<close>

definition cursor_Get ::
  "'e env_scheme \<Rightarrow> 'a spot_world_scheme \<Rightarrow> string \<Rightarrow> (go_error + PollerCursor) \<times> 'a spot_world_scheme" where
  "cursor_Get E w pollerName =
     (case spot_query E w (\<lambda>d. QueryRow (filter (\<lambda>c. Cursor_PollerName c = pollerName) (cursors d))) of
        (Inl err, w1) \<Rightarrow>
          if errors_Is err PgNoRows then (Inl PgNoRows, w1)
          else (Inl (Errorf ''CursorStore.Get: '' err ''''), w1)
      | (Inr cursor, w1) \<Rightarrow> (Inr cursor, w1))"

definition sql_save_cursor :: "PollerCursor \<Rightarrow> spot_db tx \<Rightarrow> go_error + unit \<times> spot_db" where
  "sql_save_cursor c t =
     (let d = tx_db t; row = c\<lparr>Cursor_LastSeenAt := pg_timestamp (Cursor_LastSeenAt c)\<rparr> in
      Inr ((), d\<lparr>cursors :=
        (if Cursor_PollerName c \<in> Cursor_PollerName ` set (cursors d)
         then upd_where (\<lambda>r. Cursor_PollerName r = Cursor_PollerName c) (\<lambda>_. row) (cursors d)
         else cursors d @ [row])\<rparr>))"

definition SaveCursorTransaction ::
  "'e env_scheme \<Rightarrow> 'a base_scheme \<Rightarrow> spot_db tx \<Rightarrow> PollerCursor \<Rightarrow>
   (go_error + spot_db tx) \<times> 'a base_scheme" where
  "SaveCursorTransaction E w t cursor =
     (case tx_exec E w t (sql_save_cursor cursor) of
        (Inl err, w1) \<Rightarrow> (Inl (Errorf ''CursorStore.SaveCursorTransaction: '' err ''''), w1)
      | (Inr (_, t1), w1) \<Rightarrow> (Inr t1, w1))"

definition BeginTransaction ::
  "'e env_scheme \<Rightarrow> 'a spot_world_scheme \<Rightarrow> (go_error + spot_db tx) \<times> 'a spot_world_scheme" where
  "BeginTransaction E w =
     (case external E w (\<lambda>v. (Inr \<lparr>tx_db = sdb v, tx_now = env_db_now E (tick v)\<rparr>, v)) of
        (Inl err, w1) \<Rightarrow> (Inl (Errorf ''OutboxStore.BeginTransaction: '' err ''''), w1)
      | (Inr t, w1) \<Rightarrow> (Inr t, w1))"

definition spot_SaveOutboxEvent ::
  "'e env_scheme \<Rightarrow> 'a base_scheme \<Rightarrow> spot_db tx \<Rightarrow> OutboxEvent \<Rightarrow>
   (go_error + spot_db tx) \<times> 'a base_scheme" where
  "spot_SaveOutboxEvent E w t event =
     (case tx_exec E w t (\<lambda>t. case outbox_insert (tx_now t) event (spot_outbox_rows (tx_db t)) of
             Inl err \<Rightarrow> Inl err
           | Inr rows \<Rightarrow> Inr ((), (tx_db t)\<lparr>spot_outbox_rows := rows\<rparr>)) of
        (Inl err, w1) \<Rightarrow> (Inl (Errorf ''OutboxStore.SaveOutboxEventTransaction: '' err ''''), w1)
      | (Inr (_, t1), w1) \<Rightarrow> (Inr t1, w1))"

definition commitTransaction ::
  "'e env_scheme \<Rightarrow> 'a spot_world_scheme \<Rightarrow> spot_db tx \<Rightarrow> (go_error + unit) \<times> 'a spot_world_scheme" where
  "commitTransaction E w t = external E w (\<lambda>v. (Inr (), v\<lparr>sdb := tx_db t\<rparr>))"

text \<open>The outbox of the spot service, its statements and its worker.\<close>

definition spot_outbox :: "'a spot_world_scheme outbox_table" where
  "spot_outbox = \<lparr>rows_of = \<lambda>w. spot_outbox_rows (sdb w),
     with_rows = \<lambda>rows w. w\<lparr>sdb := (sdb w)\<lparr>spot_outbox_rows := rows\<rparr>\<rparr>\<rparr>"

definition spot_ClaimPendingEvents ::
  "'e env_scheme \<Rightarrow> 'a spot_world_scheme \<Rightarrow> int \<Rightarrow> (go_error + OutboxEvent list) \<times> 'a spot_world_scheme" where
  "spot_ClaimPendingEvents E = ClaimPendingEvents E spot_outbox"

definition spot_MarkPublished ::
  "'e env_scheme \<Rightarrow> 'a spot_world_scheme \<Rightarrow> OutboxEvent \<Rightarrow> (go_error + unit) \<times> 'a spot_world_scheme" where
  "spot_MarkPublished E = MarkPublished E spot_outbox"

definition spot_ScheduleRetry ::
  "'e env_scheme \<Rightarrow> 'a spot_world_scheme \<Rightarrow> OutboxEvent \<Rightarrow> instant \<Rightarrow> string \<Rightarrow>
   (go_error + unit) \<times> 'a spot_world_scheme" where
  "spot_ScheduleRetry E = ScheduleRetry E spot_outbox"

definition spot_MarkFailed ::
  "'e env_scheme \<Rightarrow> 'a spot_world_scheme \<Rightarrow> OutboxEvent \<Rightarrow> string \<Rightarrow>
   (go_error + unit) \<times> 'a spot_world_scheme" where
  "spot_MarkFailed E = MarkFailed E spot_outbox"

definition spot_ReleaseStuckEvents ::
  "'e env_scheme \<Rightarrow> 'a spot_world_scheme \<Rightarrow> instant \<Rightarrow> (go_error + nat) \<times> 'a spot_world_scheme" where
  "spot_ReleaseStuckEvents E = ReleaseStuckEvents E spot_outbox"

definition spot_publisher ::
  "'e env_scheme \<Rightarrow> string \<Rightarrow> 'a base_scheme publisher" where
  "spot_publisher E topic w event = Send E w topic (messageKey E event) (Out_Payload event)"

definition spot_handleSendError ::
  "'e env_scheme \<Rightarrow> OutboxConfig \<Rightarrow> 'a spot_world_scheme \<Rightarrow> OutboxEvent \<Rightarrow> go_error \<Rightarrow> 'a spot_world_scheme" where
  "spot_handleSendError E cfg = handleSendError E spot_outbox cfg"

definition spot_processEvent ::
  "'e env_scheme \<Rightarrow> OutboxConfig \<Rightarrow> string \<Rightarrow> 'a spot_world_scheme \<Rightarrow> OutboxEvent \<Rightarrow> 'a spot_world_scheme" where
  "spot_processEvent E cfg topic = processEvent E spot_outbox cfg (spot_publisher E topic)"

definition spot_processBatch ::
  "'e env_scheme \<Rightarrow> OutboxConfig \<Rightarrow> string \<Rightarrow> 'a spot_world_scheme \<Rightarrow> 'a spot_world_scheme" where
  "spot_processBatch E cfg topic = processBatch E spot_outbox cfg (spot_publisher E topic)"

definition spot_releaseStuck ::
  "'e env_scheme \<Rightarrow> OutboxConfig \<Rightarrow> 'a spot_world_scheme \<Rightarrow> 'a spot_world_scheme" where
  "spot_releaseStuck E cfg = releaseStuck E spot_outbox cfg"

definition spot_Run ::
  "'e env_scheme \<Rightarrow> OutboxConfig \<Rightarrow> string \<Rightarrow> bool \<Rightarrow> 'a spot_world_scheme \<Rightarrow> worker_turn list \<Rightarrow>
   (go_error + unit) option \<times> 'a spot_world_scheme" where
  "spot_Run E cfg topic = Run E spot_outbox cfg (spot_publisher E topic)"

section \<open>The caches\<close>

definition view_ToDomain :: "'e env_scheme \<Rightarrow> MarketRedisView \<Rightarrow> go_error + Market" where
  "view_ToDomain E v =
     (case uuid_Parse E (RV_ID v) of
        None \<Rightarrow> Inl (NewError ''invalid UUID'')
      | Some i \<Rightarrow>
          Inr \<lparr>Market_ID = i, Market_Name = RV_Name v, Market_Enabled = RV_Enabled v,
               Market_DeletedAt = RV_DeletedAtNs v,
               Market_UpdatedAt = (case RV_UpdatedAtNs v of None \<Rightarrow> zero_time | Some t \<Rightarrow> t)\<rparr>)"

text \<open>\<open>UnixNano\<close> is an \<open>int64\<close>.\<close>

definition view_FromDomain :: "'e env_scheme \<Rightarrow> Market \<Rightarrow> MarketRedisView" where
  "view_FromDomain E m = \<lparr>RV_ID = uuid_String E (Market_ID m), RV_Name = Market_Name m,
     RV_Enabled = Market_Enabled m, RV_DeletedAtNs = map_option wrap64 (Market_DeletedAt m),
     RV_UpdatedAtNs = (if Market_UpdatedAt m = zero_time then None else Some (wrap64 (Market_UpdatedAt m)))\<rparr>"

definition cacheByIDKey :: "'e env_scheme \<Rightarrow> uuid \<Rightarrow> string" where
  "cacheByIDKey E i = ''market:by_id:'' @ uuid_String E i"

definition cacheKey :: "string \<Rightarrow> string" where
  "cacheKey roleKey = ''market:cache:'' @ roleKey"

definition decodeCachedMarket :: "'e spot_env_scheme \<Rightarrow> string \<Rightarrow> go_error + Market" where
  "decodeCachedMarket E data =
     (case json_UnmarshalMarket E data of
        None \<Rightarrow> Inl (NewError ''json_unmarshal'')
      | Some v \<Rightarrow> view_ToDomain E v)"

definition encodeMarket :: "'e spot_env_scheme \<Rightarrow> Market \<Rightarrow> go_error + string" where
  "encodeMarket E m =
     (case json_MarshalMarket E (view_FromDomain E m) of
        None \<Rightarrow> Inl (NewError ''json_marshal'')
      | Some data \<Rightarrow> Inr data)"

definition DeleteMarketByID ::
  "'e env_scheme \<Rightarrow> 'a base_scheme \<Rightarrow> uuid \<Rightarrow> (go_error + unit) \<times> 'a base_scheme" where
  "DeleteMarketByID E w i =
     (case cache_Delete E w (cacheByIDKey E i) of
        (Inl err, w1) \<Rightarrow> (Inl (Errorf ''redis.MarketByIDCacheRepository.DeleteMarketByID: '' err ''''), w1)
      | (Inr _, w1) \<Rightarrow> (Inr (), w1))"

definition SetMarketByID ::
  "'e spot_env_scheme \<Rightarrow> 'a base_scheme \<Rightarrow> Market \<Rightarrow> duration \<Rightarrow> (go_error + unit) \<times> 'a base_scheme" where
  "SetMarketByID E w market ttl =
     (let op = ''redis.MarketByIDCacheRepository.SetMarketByID'' in
      case encodeMarket E market of
        Inl err \<Rightarrow> (Inl (Errorf (op @ '': '') err ''''), w)
      | Inr data \<Rightarrow>
          (case cache_SetWithTTL E w (cacheByIDKey E (Market_ID market)) data ttl of
             (Inl err, w1) \<Rightarrow> (Inl (Errorf (op @ '': '') err ''''), w1)
           | (Inr _, w1) \<Rightarrow> (Inr (), w1)))"

definition cache_GetMarketByID ::
  "'e spot_env_scheme \<Rightarrow> 'a base_scheme \<Rightarrow> uuid \<Rightarrow> (go_error + Market) \<times> 'a base_scheme" where
  "cache_GetMarketByID E w i =
     (let op = ''redis.MarketByIDCacheRepository.GetMarketByID'' in
      case cache_Get E w (cacheByIDKey E i) of
        (Inl err, w1) \<Rightarrow>
          if errors_Is err ErrCacheNotFound then (Inl RepoErrMarketNotFound, w1)
          else (Inl (Errorf (op @ '': '') err ''''), w1)
      | (Inr data, w1) \<Rightarrow>
          (case decodeCachedMarket E data of
             Inl err \<Rightarrow> (Inl (Errorf (op @ '': '') (Repository ErrMarketCacheCorrupted) ''''),
                          snd (DeleteMarketByID E w1 i))
           | Inr m \<Rightarrow> (Inr m, w1)))"

fun views_ToDomain :: "'e env_scheme \<Rightarrow> MarketRedisView list \<Rightarrow> go_error + Market list" where
  "views_ToDomain E [] = Inr []"
| "views_ToDomain E (v # vs) =
     (case view_ToDomain E v of
        Inl err \<Rightarrow> Inl err
      | Inr m \<Rightarrow> (case views_ToDomain E vs of Inl err \<Rightarrow> Inl err | Inr ms \<Rightarrow> Inr (m # ms)))"

definition decodeCachedMarkets :: "'e spot_env_scheme \<Rightarrow> string \<Rightarrow> go_error + Market list" where
  "decodeCachedMarkets E data =
     (case json_UnmarshalMarkets E data of
        None \<Rightarrow> Inl (NewError ''json_unmarshal'')
      | Some vs \<Rightarrow> views_ToDomain E vs)"

definition encodeMarkets :: "'e spot_env_scheme \<Rightarrow> Market list \<Rightarrow> go_error + string" where
  "encodeMarkets E ms =
     (case json_MarshalMarkets E (map (view_FromDomain E) ms) of
        None \<Rightarrow> Inl (NewError ''json_marshal'')
      | Some data \<Rightarrow> Inr data)"

definition DeleteMarkets ::
  "'e env_scheme \<Rightarrow> 'a base_scheme \<Rightarrow> string \<Rightarrow> (go_error + unit) \<times> 'a base_scheme" where
  "DeleteMarkets E w roleKey =
     (case cache_Delete E w (cacheKey roleKey) of
        (Inl err, w1) \<Rightarrow> (Inl (Errorf ''redis.MarketCacheRepository.DeleteMarkets: '' err ''''), w1)
      | (Inr _, w1) \<Rightarrow> (Inr (), w1))"

definition SetMarkets ::
  "'e spot_env_scheme \<Rightarrow> 'a base_scheme \<Rightarrow> Market list \<Rightarrow> string \<Rightarrow> duration \<Rightarrow>
   (go_error + unit) \<times> 'a base_scheme" where
  "SetMarkets E w markets roleKey ttl =
     (let op = ''redis.MarketCacheRepository.SetMarkets'' in
      case encodeMarkets E markets of
        Inl err \<Rightarrow> (Inl (Errorf (op @ '': '') err ''''), w)
      | Inr data \<Rightarrow>
          (case cache_SetWithTTL E w (cacheKey roleKey) data ttl of
             (Inl err, w1) \<Rightarrow> (Inl (Errorf (op @ '': '') err ''''), w1)
           | (Inr _, w1) \<Rightarrow> (Inr (), w1)))"

definition GetMarkets ::
  "'e spot_env_scheme \<Rightarrow> 'a base_scheme \<Rightarrow> string \<Rightarrow> (go_error + Market list) \<times> 'a base_scheme" where
  "GetMarkets E w roleKey =
     (let op = ''redis.MarketCacheRepository.GetMarkets'' in
      case cache_Get E w (cacheKey roleKey) of
        (Inl err, w1) \<Rightarrow>
          if errors_Is err ErrCacheNotFound then (Inl (Repository RepoErrMarketsNotFound), w1)
          else (Inl (Errorf (op @ '': '') err ''''), w1)
      | (Inr data, w1) \<Rightarrow>
          (case decodeCachedMarkets E data of
             Inl err \<Rightarrow> (Inl (Errorf (op @ '': '') (Repository ErrMarketCacheCorrupted) ''''),
                          snd (DeleteMarkets E w1 roleKey))
           | Inr ms \<Rightarrow> (Inr ms, w1)))"

end
