(* ===== verification/Market_Viewer.thy ===== *)
theory Market_Viewer
  imports Spot_Tables
begin

text \<open>
  Reading markets: the service \<open>MarketViewer\<close>
  (\<open>spotService/internal/services/spot/market_viewer.go\<close>), the gRPC handlers in front of it
  (\<open>spotService/internal/grpc/spot/spot_instrument_handler.go\<close>) and the validation of the limits it
  is configured with (\<open>spotService/config/load.go\<close>).

  Limits and offsets are \<open>uint64\<close> values. The context of a request is the list of roles it
  carries, if it has one; its deadline is in the outcomes of the calls. \<open>singleflight\<close> lets
  callers that arrive during a call share its result; here every call runs for itself.
\<close>

section \<open>State and helpers\<close>

record MarketViewer =
  mv_cacheTTL :: duration
  mv_defaultLimit :: "64 word"
  mv_maxLimit :: "64 word"
  mv_cacheLimit :: "64 word"

type_synonym page = "Market list \<times> 64 word \<times> bool"

definition cacheRoleKeys :: "string list" where
  "cacheRoleKeys = [roleAdminKey, roleViewerKey, roleUserKey]"

definition MaxInt :: "64 word" where "MaxInt = 9223372036854775807"
definition MaxUint64 :: "64 word" where "MaxUint64 = 18446744073709551615"

definition buildPageResponse :: "Market list \<Rightarrow> 64 word \<Rightarrow> 64 word \<Rightarrow> page served" where
  "buildPageResponse markets limit offset =
     (let hasMore = int (length markets) > sint limit in
      if hasMore \<and> offset > MaxUint64 - limit then
        Returned (Inl (Errorf '''' (Service ErrInvalidPagination) '': next offset overflow''))
      else if hasMore then
        (if sint limit < 0 then Panics ''slice bounds out of range''
         else Returned (Inr (take (unat limit) markets, offset + limit, True)))
      else Returned (Inr (markets, 0, False)))"

definition UserRolesFromContext :: "UserRole list option \<Rightarrow> UserRole list option" where
  "UserRolesFromContext ctxRoles =
     (case ctxRoles of None \<Rightarrow> None | Some roles \<Rightarrow> if roles = [] then None else Some roles)"

fun effective_role :: "string \<Rightarrow> UserRole list \<Rightarrow> string" where
  "effective_role resultRole [] = resultRole"
| "effective_role resultRole (role # roles) =
     (if role = UserRoleAdmin then roleAdminKey
      else if role = UserRoleViewer then effective_role roleViewerKey roles
      else if role = UserRoleUser then
        effective_role (if resultRole = '''' then roleUserKey else resultRole) roles
      else effective_role resultRole roles)"

definition effectiveUserRole :: "UserRole list \<Rightarrow> string \<times> bool" where
  "effectiveUserRole roles = (let r = effective_role '''' roles in (r, r \<noteq> ''''))"

definition getRoleKeyFromContext :: "UserRole list option \<Rightarrow> go_error + string" where
  "getRoleKeyFromContext ctxRoles =
     (case UserRolesFromContext ctxRoles of
        None \<Rightarrow> Inl (Service ErrUserRoleNotSpecified)
      | Some roles \<Rightarrow>
          (case effectiveUserRole roles of
             (roleKey, ok) \<Rightarrow>
               if \<not> ok then Inl (Service ErrUserRoleNotSpecified) else Inr roleKey))"

definition normalizeLimit :: "64 word \<Rightarrow> 64 word \<Rightarrow> 64 word \<Rightarrow> 64 word" where
  "normalizeLimit limit defaultLimit maxLimit =
     (if limit = 0 then defaultLimit else if limit > maxLimit then maxLimit else limit)"

definition validateMarketAccess :: "string \<Rightarrow> Market \<Rightarrow> uuid \<Rightarrow> go_error + unit" where
  "validateMarketAccess roleKey market i =
     (if roleKey = roleAdminKey then Inr ()
      else if roleKey = roleViewerKey then
        (if Market_DeletedAt market \<noteq> None then Inl (ErrMarketNotFound i) else Inr ())
      else if roleKey = roleUserKey then
        (if Market_DeletedAt market \<noteq> None then Inl (ErrMarketNotFound i)
         else if \<not> Market_Enabled market then Inl (ErrDisabled i)
         else Inr ())
      else Inl (Service ErrUserRoleNotSpecified))"

text \<open>The limits the service is configured with.\<close>

definition show_word :: "64 word \<Rightarrow> string" where
  "show_word x = show_int (uint x)"

definition validateSpotViewMarkets :: "MarketViewer \<Rightarrow> go_error + unit" where
  "validateSpotViewMarkets cfg =
     (let maxInt = MaxInt; d = mv_defaultLimit cfg; m = mv_maxLimit cfg; c = mv_cacheLimit cfg in
      if d \<le> 0 then
        Inl (NewError (''view_markets.default_limit must be greater than 0, got '' @ show_word d))
      else if m \<le> 0 then
        Inl (NewError (''view_markets.max_limit must be greater than 0, got '' @ show_word m))
      else if c \<le> 0 then
        Inl (NewError (''view_markets.cache_limit must be greater than 0, got '' @ show_word c))
      else if d > maxInt then
        Inl (NewError (''view_markets.default_limit must be less than or equal to '' @ show_word maxInt @
          '', got '' @ show_word d))
      else if m > maxInt then
        Inl (NewError (''view_markets.max_limit must be less than or equal to '' @ show_word maxInt @
          '', got '' @ show_word m))
      else if c > maxInt then
        Inl (NewError (''view_markets.cache_limit must be less than or equal to '' @ show_word maxInt @
          '', got '' @ show_word c))
      else if d > m then
        Inl (NewError (''view_markets.default_limit must be less than or equal to view_markets.max_limit, '' @
          ''got default_limit='' @ show_word d @ '' max_limit='' @ show_word m))
      else if c < d then
        Inl (NewError (''view_markets.cache_limit must be greater than or equal to view_markets.default_limit, '' @
          ''got cache_limit='' @ show_word c @ '' default_limit='' @ show_word d))
      else Inr ())"

section \<open>Pages of markets\<close>

definition warmHeadCache ::
  "'e spot_env_scheme \<Rightarrow> MarketViewer \<Rightarrow> 'a spot_world_scheme \<Rightarrow> string \<Rightarrow> Market list \<Rightarrow>
   (go_error + unit) \<times> 'a spot_world_scheme" where
  "warmHeadCache E s w roleKey markets = SetMarkets E w markets roleKey (mv_cacheTTL s)"

definition tryLoadHeadPage ::
  "'e spot_env_scheme \<Rightarrow> MarketViewer \<Rightarrow> 'a spot_world_scheme \<Rightarrow> string \<Rightarrow> 64 word \<Rightarrow>
   page served \<times> 'a spot_world_scheme" where
  "tryLoadHeadPage E s w roleKey limit =
     (case GetMarkets E w roleKey of
        (Inr headMarkets, w1) \<Rightarrow> (buildPageResponse headMarkets limit 0, w1)
      | (Inl cacheError, w1) \<Rightarrow>
     (case GetMarketsPage E w1 roleKey (mv_cacheLimit s + 1) 0 of
        (Inl err, w2) \<Rightarrow>
          if errors_Is err (Repository ErrMarketStoreIsEmpty)
          then (Returned (Inl (Service ErrMarketsNotFound)), w2)
          else (Returned (Inl err), w2)
      | (Inr headMarkets, w2) \<Rightarrow>
     (case buildPageResponse headMarkets limit 0 of
        Panics p \<Rightarrow> (Panics p, w2)
      | Returned (Inl buildError) \<Rightarrow> (Returned (Inl buildError), w2)
      | Returned (Inr answer) \<Rightarrow>
          (Returned (Inr answer), snd (warmHeadCache E s w2 roleKey headMarkets)))))"

definition ViewMarkets ::
  "'e spot_env_scheme \<Rightarrow> MarketViewer \<Rightarrow> 'a spot_world_scheme \<Rightarrow> UserRole list option \<Rightarrow>
   64 word \<Rightarrow> 64 word \<Rightarrow> page served \<times> 'a spot_world_scheme" where
  "ViewMarkets E s w ctxRoles limit0 offset =
     (let op = ''MarketViewer.ViewMarkets'' in
      case getRoleKeyFromContext ctxRoles of
        Inl err \<Rightarrow> (Returned (Inl (Errorf (op @ '': '') err '''')), w)
      | Inr roleKey \<Rightarrow>
      (let limit = normalizeLimit limit0 (mv_defaultLimit s) (mv_maxLimit s) in
       if offset > MaxInt then
         (Returned (Inl (Errorf (op @ '': '') (Service ErrInvalidPagination) '''')), w)
       else if offset = 0 \<and> limit \<le> mv_cacheLimit s then
         (case tryLoadHeadPage E s w roleKey limit of
            (Panics p, w1) \<Rightarrow> (Panics p, w1)
          | (Returned (Inl headError), w1) \<Rightarrow> (Returned (Inl (Errorf (op @ '': '') headError '''')), w1)
          | (Returned (Inr answer), w1) \<Rightarrow> (Returned (Inr answer), w1))
       else
         (case GetMarketsPage E w roleKey limit offset of
            (Inl pageError, w1) \<Rightarrow>
              (let pageError = (if errors_Is pageError (Repository ErrMarketStoreIsEmpty)
                                then Service ErrMarketsNotFound else pageError)
               in (Returned (Inl (Errorf (op @ '': '') pageError '''')), w1))
          | (Inr markets, w1) \<Rightarrow>
              (case buildPageResponse markets limit offset of
                 Panics p \<Rightarrow> (Panics p, w1)
               | Returned (Inl buildError) \<Rightarrow>
                   (Returned (Inl (Errorf (op @ '': '') buildError '''')), w1)
               | Returned (Inr answer) \<Rightarrow> (Returned (Inr answer), w1)))))"

section \<open>One market\<close>

definition handleWarmupSetError ::
  "'e env_scheme \<Rightarrow> 'a spot_world_scheme \<Rightarrow> uuid \<Rightarrow> Market \<Rightarrow> bool \<Rightarrow> Market \<times> 'a spot_world_scheme" where
  "handleWarmupSetError E w i market cleanupCorruptedCache =
     (if \<not> cleanupCorruptedCache then (market, w)
      else (market, snd (DeleteMarketByID E w i)))"

definition loadMarketAndWarmCache ::
  "'e spot_env_scheme \<Rightarrow> MarketViewer \<Rightarrow> 'a spot_world_scheme \<Rightarrow> uuid \<Rightarrow> bool \<Rightarrow>
   (go_error + Market) \<times> 'a spot_world_scheme" where
  "loadMarketAndWarmCache E s w i cleanupCorruptedCache =
     (case cache_GetMarketByID E w i of
        (Inr market, w1) \<Rightarrow> (Inr market, w1)
      | (Inl _, w1) \<Rightarrow>
     (case store_GetMarketByID E w1 i of
        (Inl err, w2) \<Rightarrow> (Inl (Errorf ''MarketViewer.loadMarketAndWarmCache: '' err ''''), w2)
      | (Inr market, w2) \<Rightarrow>
     (case SetMarketByID E w2 market (mv_cacheTTL s) of
        (Inl _, w3) \<Rightarrow>
          (case handleWarmupSetError E w3 i market cleanupCorruptedCache of (m, w4) \<Rightarrow> (Inr m, w4))
      | (Inr _, w3) \<Rightarrow> (Inr market, w3))))"

definition getMarketWithSingleFlight ::
  "'e spot_env_scheme \<Rightarrow> MarketViewer \<Rightarrow> 'a spot_world_scheme \<Rightarrow> uuid \<Rightarrow> bool \<Rightarrow>
   (go_error + Market) \<times> 'a spot_world_scheme" where
  "getMarketWithSingleFlight E s w i cleanupCorruptedCache =
     (case loadMarketAndWarmCache E s w i cleanupCorruptedCache of
        (Inl err, w1) \<Rightarrow> (Inl (Errorf ''MarketViewer.getMarketWithSingleFlight: '' err ''''), w1)
      | (Inr market, w1) \<Rightarrow> (Inr market, w1))"

definition getMarketActual ::
  "'e spot_env_scheme \<Rightarrow> MarketViewer \<Rightarrow> 'a spot_world_scheme \<Rightarrow> uuid \<Rightarrow>
   (go_error + Market) \<times> 'a spot_world_scheme" where
  "getMarketActual E s w i =
     (case cache_GetMarketByID E w i of
        (Inr market, w1) \<Rightarrow> (Inr market, w1)
      | (Inl err, w1) \<Rightarrow>
          (let cleanupCorruptedCache = errors_Is err (Repository ErrMarketCacheCorrupted) in
           case getMarketWithSingleFlight E s w1 i cleanupCorruptedCache of
             (Inl err, w2) \<Rightarrow>
               if is_ErrMarketNotFound err then (Inl (ErrMarketNotFound i), w2)
               else (Inl (Errorf ''MarketViewer.getMarketActual: '' err ''''), w2)
           | (Inr market, w2) \<Rightarrow> (Inr market, w2)))"

definition GetMarketByID ::
  "'e spot_env_scheme \<Rightarrow> MarketViewer \<Rightarrow> 'a spot_world_scheme \<Rightarrow> UserRole list option \<Rightarrow> uuid \<Rightarrow>
   (go_error + Market) \<times> 'a spot_world_scheme" where
  "GetMarketByID E s w ctxRoles i =
     (let op = ''MarketViewer.GetMarketByID'' in
      case getRoleKeyFromContext ctxRoles of
        Inl err \<Rightarrow> (Inl (Errorf (op @ '': '') err ''''), w)
      | Inr roleKey \<Rightarrow>
     (case getMarketActual E s w i of
        (Inl err, w1) \<Rightarrow> (Inl err, w1)
      | (Inr market, w1) \<Rightarrow>
     (case validateMarketAccess roleKey market i of
        Inl err \<Rightarrow> (Inl (Errorf (op @ '': '') err ''''), w1)
      | Inr _ \<Rightarrow> (Inr market, w1))))"

section \<open>Refreshing the caches\<close>

fun delete_heads ::
  "'e env_scheme \<Rightarrow> 'a spot_world_scheme \<Rightarrow> string list \<Rightarrow> (go_error + unit) \<times> 'a spot_world_scheme" where
  "delete_heads E w [] = (Inr (), w)"
| "delete_heads E w (roleKey # roleKeys) =
     (case DeleteMarkets E w roleKey of
        (Inl err, w1) \<Rightarrow>
          (Inl (Errorf (''MarketViewer.invalidateMarketsCache: delete cache for role '' @ roleKey @ '': '')
                  err ''''), w1)
      | (Inr _, w1) \<Rightarrow> delete_heads E w1 roleKeys)"

definition invalidateMarketsCache ::
  "'e env_scheme \<Rightarrow> 'a spot_world_scheme \<Rightarrow> (go_error + unit) \<times> 'a spot_world_scheme" where
  "invalidateMarketsCache E w = delete_heads E w cacheRoleKeys"

fun refresh_heads ::
  "'e spot_env_scheme \<Rightarrow> MarketViewer \<Rightarrow> 'a spot_world_scheme \<Rightarrow> string list \<Rightarrow>
   (go_error + unit) \<times> 'a spot_world_scheme" where
  "refresh_heads E s w [] = (Inr (), w)"
| "refresh_heads E s w (roleKey # roleKeys) =
     (case GetMarketsPage E w roleKey (mv_cacheLimit s + 1) 0 of
        (Inl err, w1) \<Rightarrow>
          if errors_Is err (Repository ErrMarketStoreIsEmpty) then invalidateMarketsCache E w1
          else (Inl (Errorf (''MarketViewer.RefreshAll: load head cache for role '' @ roleKey @ '': '')
                       err ''''), w1)
      | (Inr markets, w1) \<Rightarrow>
          (case SetMarkets E w1 markets roleKey (mv_cacheTTL s) of
             (Inl err, w2) \<Rightarrow>
               (Inl (Errorf (''MarketViewer.RefreshAll: set cache for role '' @ roleKey @ '': '') err ''''), w2)
           | (Inr _, w2) \<Rightarrow> refresh_heads E s w2 roleKeys))"

definition RefreshAll ::
  "'e spot_env_scheme \<Rightarrow> MarketViewer \<Rightarrow> 'a spot_world_scheme \<Rightarrow> (go_error + unit) \<times> 'a spot_world_scheme" where
  "RefreshAll E s w = refresh_heads E s w cacheRoleKeys"

text \<open>The loop of \<open>InvalidateByIDs\<close>: the identifiers seen, and the errors so far.\<close>

fun invalidate_ids ::
  "'e env_scheme \<Rightarrow> 'a spot_world_scheme \<Rightarrow> uuid list \<Rightarrow> uuid set \<Rightarrow> go_error list \<Rightarrow>
   go_error list \<times> 'a spot_world_scheme" where
  "invalidate_ids E w [] seen errs = (errs, w)"
| "invalidate_ids E w (i # is) seen errs =
     (if i \<in> seen then invalidate_ids E w is seen errs
      else
        (case DeleteMarketByID E w i of
           (Inl err, w1) \<Rightarrow>
             invalidate_ids E w1 is (insert i seen) (errs @ [Errorf
               (''MarketViewer.InvalidateByIDs: delete market by id cache for market '' @
                uuid_String E i @ '': '') err ''''])
         | (Inr _, w1) \<Rightarrow> invalidate_ids E w1 is (insert i seen) errs))"

definition InvalidateByIDs ::
  "'e env_scheme \<Rightarrow> 'a spot_world_scheme \<Rightarrow> uuid list \<Rightarrow> (go_error + unit) \<times> 'a spot_world_scheme" where
  "InvalidateByIDs E w is =
     (if is = [] then (Inr (), w)
      else
        (case invalidate_ids E w is {} [] of
           (errs, w1) \<Rightarrow> (if errs \<noteq> [] then Inl (Joined errs) else Inr (), w1)))"

section \<open>The handlers\<close>

record pb_Market =
  pbM_Id :: string
  pbM_Name :: string
  pbM_Enabled :: bool
  pbM_DeletedAt :: "pb_Timestamp option"
  pbM_UpdatedAt :: "pb_Timestamp option"

record ViewMarketsResponse =
  VMR_Markets :: "pb_Market list"
  VMR_NextOffset :: "64 word"
  VMR_HasMore :: bool

definition MarketToProto :: "'e env_scheme \<Rightarrow> market_codec \<Rightarrow> Market \<Rightarrow> pb_Market" where
  "MarketToProto E C m =
     \<lparr>pbM_Id = uuid_String E (Market_ID m), pbM_Name = Market_Name m, pbM_Enabled = Market_Enabled m,
      pbM_DeletedAt = map_option (timestamppb_New C) (Market_DeletedAt m),
      pbM_UpdatedAt = (if Market_UpdatedAt m = zero_time then None
                       else Some (timestamppb_New C (Market_UpdatedAt m)))\<rparr>"

definition serverAPI_ViewMarkets ::
  "'e spot_env_scheme \<Rightarrow> market_codec \<Rightarrow> MarketViewer \<Rightarrow> 'a spot_world_scheme \<Rightarrow> UserRole list option \<Rightarrow>
   (64 word \<times> 64 word) option \<Rightarrow> ViewMarketsResponse served \<times> 'a spot_world_scheme" where
  "serverAPI_ViewMarkets E C s w ctxRoles request =
     (case request of
        None \<Rightarrow> (Returned (Inl (StatusError Code_InvalidArgument ''request is required'')), w)
      | Some (limit, offset) \<Rightarrow>
     (case ViewMarkets E s w ctxRoles limit offset of
        (Panics p, w1) \<Rightarrow> (Panics p, w1)
      | (Returned (Inl err), w1) \<Rightarrow> (Returned (Inl err), w1)
      | (Returned (Inr (markets, nextOffset, hasMore)), w1) \<Rightarrow>
          (Returned (Inr \<lparr>VMR_Markets = map (MarketToProto E C) markets,
             VMR_NextOffset = nextOffset, VMR_HasMore = hasMore\<rparr>), w1)))"

definition serverAPI_GetMarketByID ::
  "'e spot_env_scheme \<Rightarrow> market_codec \<Rightarrow> MarketViewer \<Rightarrow> 'a spot_world_scheme \<Rightarrow> UserRole list option \<Rightarrow>
   string option \<Rightarrow> (go_error + pb_Market) \<times> 'a spot_world_scheme" where
  "serverAPI_GetMarketByID E C s w ctxRoles request =
     (case request of
        None \<Rightarrow> (Inl (StatusError Code_InvalidArgument ''request is required''), w)
      | Some marketId \<Rightarrow>
     (case uuid_Parse E marketId of
        None \<Rightarrow> (Inl (StatusError Code_InvalidArgument ''invalid market_id''), w)
      | Some marketID \<Rightarrow>
     (case GetMarketByID E s w ctxRoles marketID of
        (Inl err, w1) \<Rightarrow> (Inl err, w1)
      | (Inr market, w1) \<Rightarrow> (Inr (MarketToProto E C market), w1))))"

end
