(* ===== verification/Market_Pages.thy ===== *)
theory Market_Pages
  imports Market_Viewer
begin

text \<open>
  What a caller of the market service gets: only markets its role may see, whatever the caches
  hold and whatever fails, and, page by page, exactly the list of them in order.
\<close>

section \<open>What the caches hold\<close>

text \<open>A property of every head page in the cache, by role and stored text.\<close>

definition cached_heads :: "(string \<Rightarrow> string \<Rightarrow> bool) \<Rightarrow> 'a base_scheme \<Rightarrow> bool" where
  "cached_heads Q w \<longleftrightarrow> (\<forall>role v x. kv w (cacheKey role) = Some (v, x) \<longrightarrow> Q role v)"

lemma cached_heads_step [simp]: "cached_heads Q (step w) = cached_heads Q w"
  by (simp add: cached_heads_def)

lemma cached_heads_external:
  "cached_heads Q w \<Longrightarrow> cached_heads Q (snd (act w)) \<Longrightarrow> cached_heads Q (snd (external E w act))"
  by (rule external_preserves [where P = "cached_heads Q"]) simp_all

lemma cacheKey_inject [simp]: "cacheKey r = cacheKey r' \<longleftrightarrow> r = r'"
  by (simp add: cacheKey_def)

lemma cacheKey_ByID [simp]: "cacheKey r \<noteq> cacheByIDKey E i" "cacheByIDKey E i \<noteq> cacheKey r"
  by (simp_all add: cacheKey_def cacheByIDKey_def)

lemma cached_heads_only_key: "only_key (cacheByIDKey E i) (cached_heads Q)"
  unfolding only_key_def cached_heads_def by simp

lemma cache_Delete_heads: "cached_heads Q w \<Longrightarrow> cached_heads Q (snd (cache_Delete E w key))"
  unfolding cache_Delete_def
  by (intro pres_intros [where P = "cached_heads Q"] cached_heads_external)
    (auto simp: cached_heads_def redis_DEL_def split: if_splits)

lemma cache_Get_heads: "cached_heads Q w \<Longrightarrow> cached_heads Q (snd (cache_Get E w key))"
  by (simp add: cache_Get_world)

lemma cache_Set_head:
  "cached_heads Q w \<Longrightarrow> Q role v \<Longrightarrow> cached_heads Q (snd (cache_SetWithTTL E w (cacheKey role) v ttl))"
  unfolding cache_SetWithTTL_def
  by (intro pres_intros [where P = "cached_heads Q"] cached_heads_external)
    (auto simp: cached_heads_def redis_SET_def redis_SET_PX_def redis_SET_KEEPTTL_def split: if_splits)

lemmas heads_intros = pres_intros [where P = "cached_heads Q" for Q]
  pres_sum [where P = "cached_heads Q" for Q] cached_heads_external
  cache_Delete_heads cache_Get_heads
  cache_SetWithTTL_preserves [OF cached_heads_only_key]

lemma spot_query_world [simp]: "snd (spot_query E w stmt) = step w"
  by (auto simp: spot_query_def external_def split: outcome.splits)

lemma GetMarketsPage_step:
  "snd (GetMarketsPage E w role l ofs) \<in> {step w, step (step w)}"
proof -
  have q: "spot_query E w stmt = (r, w') \<Longrightarrow> w' = step w" for stmt r w'
    and w :: "'a spot_world_scheme"
    by (metis snd_conv spot_query_world)
  show ?thesis
    by (auto simp: GetMarketsPage_def loadMarketsPage_def emptyPageResult_def hasAnyMarkets_def Let_def
        dest!: q split: prod.split sum.split if_split)
qed

lemma GetMarketsPage_heads:
  "cached_heads Q w \<Longrightarrow> cached_heads Q (snd (GetMarketsPage E w role l ofs))"
  using GetMarketsPage_step [of E w role l ofs] by auto

lemma GetMarkets_heads: "cached_heads Q w \<Longrightarrow> cached_heads Q (snd (GetMarkets E w role))"
  unfolding GetMarkets_def DeleteMarkets_def Let_def by (intro heads_intros) simp_all

lemma DeleteMarkets_heads: "cached_heads Q w \<Longrightarrow> cached_heads Q (snd (DeleteMarkets E w role))"
  unfolding DeleteMarkets_def by (intro heads_intros) simp_all

lemma SetMarkets_heads:
  assumes "cached_heads Q w" and "\<And>v. encodeMarkets E ms = Inr v \<Longrightarrow> Q role v"
  shows "cached_heads Q (snd (SetMarkets E w ms role ttl))"
proof (cases "encodeMarkets E ms")
  case (Inr v)
  have "cached_heads Q (snd (cache_SetWithTTL E w (cacheKey role) v ttl))"
    using assms Inr by (intro cache_Set_head) auto
  with Inr show ?thesis
    by (auto simp: SetMarkets_def Let_def split: prod.splits sum.splits)
qed (use assms(1) in \<open>simp add: SetMarkets_def\<close>)

text \<open>The operations on single markets leave the head pages alone.\<close>

lemma single_market_heads:
  "cached_heads Q w \<Longrightarrow> cached_heads Q (snd (DeleteMarketByID E w i))"
  "cached_heads Q w \<Longrightarrow> cached_heads Q (snd (SetMarketByID E w m ttl))"
  "cached_heads Q w \<Longrightarrow> cached_heads Q (snd (cache_GetMarketByID E w i))"
  unfolding DeleteMarketByID_def SetMarketByID_def cache_GetMarketByID_def Let_def
  by (intro heads_intros; simp)+

section \<open>Only visible markets are served\<close>

text \<open>
  What the code relies on of \<open>encoding/json\<close>: decoding the encoding of a slice or of a struct
  of plain fields gives it back, with its texts made valid UTF-8. The integers are \<open>int64\<close>.
\<close>

definition view_text :: "MarketRedisView \<Rightarrow> MarketRedisView" where
  "view_text v = v\<lparr>RV_ID := json_text (RV_ID v), RV_Name := json_text (RV_Name v)\<rparr>"

definition view_int64 :: "MarketRedisView \<Rightarrow> bool" where
  "view_int64 v \<longleftrightarrow>
     (\<forall>t \<in> set_option (RV_DeletedAtNs v) \<union> set_option (RV_UpdatedAtNs v). min_int64 \<le> t \<and> t \<le> max_int64)"

definition json_ok :: "'e spot_env_scheme \<Rightarrow> bool" where
  "json_ok E \<longleftrightarrow>
     (\<forall>vs b. list_all view_int64 vs \<longrightarrow> json_MarshalMarkets E vs = Some b \<longrightarrow>
        json_UnmarshalMarkets E b = Some (map view_text vs)) \<and>
     (\<forall>v b. view_int64 v \<longrightarrow> json_MarshalMarket E v = Some b \<longrightarrow>
        json_UnmarshalMarket E b = Some (view_text v))"

lemma view_FromDomain_int64 [simp]: "view_int64 (view_FromDomain E m)"
  by (cases "Market_DeletedAt m")
    (auto simp: view_int64_def view_FromDomain_def wrap64_range Let_def split: option.split if_split)

lemma json_markets:
  assumes "json_ok E" and "json_MarshalMarkets E (map (view_FromDomain E) ms) = Some v"
  shows "json_UnmarshalMarkets E v = Some (map view_text (map (view_FromDomain E) ms))"
proof -
  have "list_all view_int64 (map (view_FromDomain E) ms)" by (simp add: list_all_iff)
  then show ?thesis using assms by (simp add: json_ok_def del: map_map)
qed

definition head_sound :: "'e spot_env_scheme \<Rightarrow> string \<Rightarrow> string \<Rightarrow> bool" where
  "head_sound E role v \<longleftrightarrow>
     (case decodeCachedMarkets E v of Inl _ \<Rightarrow> True | Inr ms \<Rightarrow> list_all (role_sees role) ms)"

lemma views_ToDomain_Inr:
  "views_ToDomain E vs = Inr ms \<Longrightarrow> list_all2 (\<lambda>v m. view_ToDomain E v = Inr m) vs ms"
  by (induction vs arbitrary: ms) (auto split: sum.splits)

text \<open>Storing and reading back a market does not change who may see it.\<close>

lemma view_keeps_role:
  "view_ToDomain E (view_text (view_FromDomain E m)) = Inr m' \<Longrightarrow> role_sees role m' = role_sees role m"
  by (auto simp: view_text_def view_ToDomain_def view_FromDomain_def role_sees_def split: option.splits)

lemma encode_sound:
  assumes "json_ok E" and "encodeMarkets E ms = Inr v" and "list_all (role_sees role) ms"
  shows "head_sound E role v"
proof -
  have "json_UnmarshalMarkets E v = Some (map (\<lambda>m. view_text (view_FromDomain E m)) ms)"
    using json_markets [OF assms(1)] assms(2) by (auto simp: encodeMarkets_def comp_def split: option.splits)
  moreover have "list_all (role_sees role) ms'"
    if "list_all2 (\<lambda>m. \<lambda>m'. view_ToDomain E (view_text (view_FromDomain E m)) = Inr m') ms ms'" for ms'
    using that assms(3)
    by (induction rule: list_all2_induct) (auto simp: view_keeps_role)
  ultimately show ?thesis
    by (auto simp: head_sound_def decodeCachedMarkets_def list_all2_map1
        dest!: views_ToDomain_Inr split: sum.splits)
qed

lemma sorted_markets_visible: "list_all (role_sees role) (sorted_markets E role rows)"
  by (simp add: sorted_markets_def list_all_iff)

lemma GetMarketsPage_visible:
  "GetMarketsPage E w role l ofs = (Inr ms, w') \<Longrightarrow> list_all (role_sees role) ms"
  using sorted_markets_visible [of role E "market_store (sdb w)"]
  by (auto simp: GetMarketsPage_def loadMarketsPage_def emptyPageResult_def spot_query_def external_def
      sql_markets_page_def Let_def list_all_iff
      dest!: in_set_takeD in_set_dropD split: result_splits outcome.splits)

lemma GetMarkets_visible:
  "cached_heads (head_sound E) w \<Longrightarrow> GetMarkets E w role = (Inr ms, w') \<Longrightarrow> list_all (role_sees role) ms"
  unfolding cached_heads_def head_sound_def
  by (fastforce simp: GetMarkets_def Let_def redis_GET_def dest!: cache_Get_Inr split: result_splits)

lemma buildPageResponse_sub:
  "buildPageResponse ms limit ofs = Returned (Inr (ms', nxt, hasMore)) \<Longrightarrow> set ms' \<subseteq> set ms"
  by (auto simp: buildPageResponse_def Let_def dest: in_set_takeD split: if_splits)

lemma pres_served:
  assumes "P (snd m)" and "\<And>p w. P w \<Longrightarrow> P (snd (f p w))" and "\<And>e w. P w \<Longrightarrow> P (snd (g e w))"
    and "\<And>x w. P w \<Longrightarrow> P (snd (h x w))"
  shows "P (snd (case m of (Panics p, w) \<Rightarrow> f p w | (Returned (Inl e), w) \<Rightarrow> g e w
    | (Returned (Inr x), w) \<Rightarrow> h x w))"
  using assms by (cases m) (auto split: served.splits sum.splits)

lemma tryLoadHeadPage_sound:
  assumes json: "json_ok E" and heads: "cached_heads (head_sound E) w"
  shows "cached_heads (head_sound E) (snd (tryLoadHeadPage E s w role limit)) \<and>
    (fst (tryLoadHeadPage E s w role limit) = Returned (Inr (ms, nxt, hasMore)) \<longrightarrow>
       list_all (role_sees role) ms)"
proof (cases "GetMarkets E w role")
  case (Pair r w1)
  have h1: "cached_heads (head_sound E) w1"
    using GetMarkets_heads [OF heads, of E role] Pair by simp
  show ?thesis
  proof (cases r)
    case (Inr headMarkets)
    then show ?thesis
      using GetMarkets_visible [OF heads] Pair h1
      by (auto simp: tryLoadHeadPage_def list_all_iff dest!: buildPageResponse_sub)
  next
    case (Inl cacheError)
    obtain r2 w2 where page: "GetMarketsPage E w1 role (mv_cacheLimit s + 1) 0 = (r2, w2)" by fastforce
    have h2: "cached_heads (head_sound E) w2"
      using GetMarketsPage_heads [OF h1, of E role "mv_cacheLimit s + 1" 0] page by simp
    have warm: "cached_heads (head_sound E) (snd (warmHeadCache E s w2 role hm))"
      if "r2 = Inr hm" for hm
      unfolding warmHeadCache_def using that page GetMarketsPage_visible
      by (intro SetMarkets_heads h2 encode_sound [OF json]) auto
    show ?thesis
      using Pair Inl page h2 warm GetMarketsPage_visible [of E w1 role _ _ _ w2]
      by (auto simp: tryLoadHeadPage_def list_all_iff dest!: buildPageResponse_sub
          split: sum.split served.split)
  qed
qed

lemma ViewMarkets_sound:
  assumes "json_ok E" and heads: "cached_heads (head_sound E) w"
    and role: "getRoleKeyFromContext ctx = Inr role"
  shows "cached_heads (head_sound E) (snd (ViewMarkets E s w ctx limit ofs)) \<and>
    (fst (ViewMarkets E s w ctx limit ofs) = Returned (Inr (ms, nxt, hasMore)) \<longrightarrow>
       list_all (role_sees role) ms)"
proof -
  let ?l = "normalizeLimit limit (mv_defaultLimit s) (mv_maxLimit s)"
  obtain hr hw where head: "tryLoadHeadPage E s w role ?l = (hr, hw)" by fastforce
  obtain pr pw where page: "GetMarketsPage E w role ?l ofs = (pr, pw)" by fastforce
  have h: "cached_heads (head_sound E) hw"
    "hr = Returned (Inr (ms, nxt, hasMore)) \<Longrightarrow> list_all (role_sees role) ms" for ms nxt hasMore
    using tryLoadHeadPage_sound [OF assms(1) heads, of s role ?l] head by auto
  have p: "cached_heads (head_sound E) pw"
    using GetMarketsPage_heads [OF heads, of E role ?l ofs] page by simp
  show ?thesis
    using h p GetMarketsPage_visible [of E w role ?l ofs] heads
    by (auto simp: ViewMarkets_def role head page Let_def list_all_iff dest!: buildPageResponse_sub
        split: served.split sum.split)
qed

lemma GetMarketByID_heads:
  "cached_heads Q w \<Longrightarrow> cached_heads Q (snd (GetMarketByID E s w ctx i))"
  unfolding GetMarketByID_def getMarketActual_def getMarketWithSingleFlight_def loadMarketAndWarmCache_def
    handleWarmupSetError_def store_GetMarketByID_def Let_def
  by (intro heads_intros single_market_heads pres_plain [where P = "cached_heads Q"]) simp_all

lemma validateMarketAccess_sees:
  "validateMarketAccess role m i = Inr x \<Longrightarrow> role_sees role m"
  by (auto simp: validateMarketAccess_def role_sees_def split: if_splits)

lemma delete_heads_heads: "cached_heads Q w \<Longrightarrow> cached_heads Q (snd (delete_heads E w roles))"
proof (induction roles arbitrary: w)
  case (Cons role roles)
  then show ?case
    by (auto intro!: heads_intros DeleteMarkets_heads)
qed simp

lemma RefreshAll_heads:
  assumes "json_ok E" and "cached_heads (head_sound E) w"
  shows "cached_heads (head_sound E) (snd (RefreshAll E s w))"
proof -
  have "cached_heads (head_sound E) (snd (refresh_heads E s w roles))" for roles
    using assms(2)
  proof (induction roles arbitrary: w)
    case (Cons role roles)
    obtain r1 w1 where page: "GetMarketsPage E w role (mv_cacheLimit s + 1) 0 = (r1, w1)" by fastforce
    have h1: "cached_heads (head_sound E) w1"
      using GetMarketsPage_heads [OF Cons.prems, of E role "mv_cacheLimit s + 1" 0] page by simp
    have set: "cached_heads (head_sound E) (snd (SetMarkets E w1 ms role (mv_cacheTTL s)))"
      if "r1 = Inr ms" for ms
      using that page GetMarketsPage_visible
      by (intro SetMarkets_heads h1 encode_sound [OF assms(1)]) auto
    show ?case
      using Cons.IH h1 set
      by (auto simp: page invalidateMarketsCache_def delete_heads_heads
          split: sum.split prod.split)
  qed simp
  then show ?thesis by (simp add: RefreshAll_def)
qed

text \<open>
  C14. Whatever the environment does, a caller is served only markets its role may see (an
  administrator all, a viewer those not deleted, a user those not deleted and enabled), both
  page by page and one by one, as long as the cached head pages are sound; and every operation
  that writes head pages keeps them sound.
\<close>

theorem only_visible_markets_served:
  assumes "json_ok E" and "cached_heads (head_sound E) w"
    and "getRoleKeyFromContext ctx = Inr role"
  shows "(\<forall>ms nxt hasMore w'. ViewMarkets E s w ctx limit ofs = (Returned (Inr (ms, nxt, hasMore)), w') \<longrightarrow>
      list_all (role_sees role) ms) \<and>
    (\<forall>m w'. GetMarketByID E s w ctx i = (Inr m, w') \<longrightarrow> role_sees role m) \<and>
    cached_heads (head_sound E) (snd (ViewMarkets E s w ctx limit ofs)) \<and>
    cached_heads (head_sound E) (snd (GetMarketByID E s w ctx i)) \<and>
    cached_heads (head_sound E) (snd (RefreshAll E s w))"
proof (intro conjI allI impI)
  fix ms nxt hasMore w'
  assume "ViewMarkets E s w ctx limit ofs = (Returned (Inr (ms, nxt, hasMore)), w')"
  with ViewMarkets_sound [OF assms, of s limit ofs ms nxt hasMore] show "list_all (role_sees role) ms" by simp
next
  fix m w'
  assume "GetMarketByID E s w ctx i = (Inr m, w')"
  with assms(3) show "role_sees role m"
    by (auto simp: GetMarketByID_def Let_def dest: validateMarketAccess_sees split: prod.splits sum.splits)
qed (use ViewMarkets_sound [OF assms] GetMarketByID_heads RefreshAll_heads assms in auto)

section \<open>The pages together\<close>

text \<open>
  A client that asks for page after page, starting where the last answer told it to.
\<close>

fun view_all ::
  "'e spot_env_scheme \<Rightarrow> MarketViewer \<Rightarrow> 'a spot_world_scheme \<Rightarrow> UserRole list option \<Rightarrow>
   64 word \<Rightarrow> 64 word \<Rightarrow> nat \<Rightarrow> Market list option" where
  "view_all E s w ctx limit ofs 0 = None"
| "view_all E s w ctx limit ofs (Suc calls) =
     (case ViewMarkets E s w ctx limit ofs of
        (Returned (Inr (ms, nxt, hasMore)), w1) \<Rightarrow>
          if hasMore then map_option ((@) ms) (view_all E s w1 ctx limit nxt calls) else Some ms
      | _ \<Rightarrow> None)"

text \<open>Limits and tables far below the greatest \<open>int\<close>.\<close>

definition small :: "64 word \<Rightarrow> bool" where
  "small x \<longleftrightarrow> unat x < 2 ^ 61"

lemma word_sint: "unat (x :: 64 word) < 2 ^ 62 \<Longrightarrow> sint x = int (unat x)"
proof -
  assume a: "unat x < 2 ^ 62"
  have u: "uint x = int (unat x)" by simp
  have "int n < 2 ^ 63" if "n < 2 ^ 62" for n :: nat
    using that by simp
  from this [OF a] have "int (unat x) < 2 ^ 63" .
  then have "signed_take_bit 63 (uint x) = uint x"
    unfolding u by (intro signed_take_bit_int_eq_self) linarith+
  then show ?thesis unfolding sint_uint by simp
qed

lemma word_add: "unat (x :: 64 word) < 2 ^ 62 \<Longrightarrow> unat y < 2 ^ 62 \<Longrightarrow> unat (x + y) = unat x + unat y"
  by (intro unat_add_lem [THEN iffD1]) simp

lemma page_limit: "unat limit \<le> 2 ^ 61 \<Longrightarrow> sint (limit + 1 :: 64 word) = int (unat limit) + 1"
  using word_add [of limit 1] word_sint [of "limit + 1"] by simp

text \<open>One page out of a stretch of the list that is longer than the page.\<close>

lemma buildPageResponse_page:
  assumes "small limit" and "small ofs" and "unat limit < n"
  shows "buildPageResponse (take n (drop (unat ofs) S)) limit ofs =
    Returned (Inr (take (unat limit) (drop (unat ofs) S),
      if unat ofs + unat limit < length S then ofs + limit else 0,
      unat ofs + unat limit < length S))"
proof -
  have sint: "sint limit = int (unat limit)" using assms(1) by (intro word_sint) (simp add: small_def)
  have "unat (MaxUint64 - limit) = 18446744073709551615 - unat limit"
    using unsigned_less [of limit, where 'a = nat] by (subst unat_sub) (simp_all add: MaxUint64_def word_le_nat_alt)
  then have fits: "\<not> MaxUint64 - limit < ofs"
    using assms(1,2) by (simp add: word_less_nat_alt small_def)
  have more: "int (length (take n (drop (unat ofs) S))) > sint limit \<longleftrightarrow>
      unat ofs + unat limit < length S"
    unfolding sint using assms(3) by (auto simp del: of_nat_unat)
  have cut: "take (unat limit) (take n (drop (unat ofs) S)) = take (unat limit) (drop (unat ofs) S)"
    using assms(3) by (simp add: min_def)
  show ?thesis
  proof (cases "unat ofs + unat limit < length S")
    case True
    with fits show ?thesis
      unfolding buildPageResponse_def Let_def more cut by (simp add: sint)
  next
    case False
    then have "take n (drop (unat ofs) S) = take (unat limit) (drop (unat ofs) S)"
      using assms(3) by simp
    with False show ?thesis
      unfolding buildPageResponse_def Let_def more by simp
  qed
qed

lemma GetMarketsPage_ok:
  assumes "all_success E" and "unat limit \<le> 2 ^ 61" and "small ofs" and "market_store (sdb w) \<noteq> []"
  shows "\<exists>w' \<in> {step w, step (step w)}. GetMarketsPage E w role limit ofs =
    (Inr (take (unat limit + 1) (drop (unat ofs) (sorted_markets E role (market_store (sdb w))))), w')"
proof -
  have out: "env_outcome E n = Success" for n using assms(1) by (simp add: all_success_def)
  have ofs: "sint ofs = int (unat ofs)" using assms(3) by (intro word_sint) (simp add: small_def)
  have "sdb (step w) = sdb w" by (simp add: step_def)
  then show ?thesis
    using assms(4)
    by (auto simp: GetMarketsPage_def loadMarketsPage_def emptyPageResult_def hasAnyMarkets_def
        spot_query_def external_Success out sql_markets_page_def page_limit [OF assms(2)] ofs Let_def
        nat_add_distrib simp del: of_nat_unat)
qed

text \<open>
  A market whose instants are nanoseconds of an \<open>int64\<close> (the years 1678 to 2261) and whose name is
  valid UTF-8, as PostgreSQL keeps it, is read back from the cache as it was.
\<close>

definition market_in_range :: "Market \<Rightarrow> bool" where
  "market_in_range m \<longleftrightarrow> utf8_Valid (Market_Name m) \<and>
     (Market_UpdatedAt m = zero_time \<or> wrap64 (Market_UpdatedAt m) = Market_UpdatedAt m) \<and>
     (case Market_DeletedAt m of None \<Rightarrow> True | Some t \<Rightarrow> wrap64 t = t)"

lemma view_roundtrip:
  "uuid_ok E \<Longrightarrow> market_in_range m \<Longrightarrow> view_ToDomain E (view_text (view_FromDomain E m)) = Inr m"
  using json_text_valid [OF utf8_Valid_ascii [OF ascii_uuid_String], of E "Market_ID m"]
  by (cases m) (auto simp: uuid_ok_def view_ToDomain_def view_FromDomain_def view_text_def market_in_range_def
      json_text_valid split: option.splits)

lemma encode_decode:
  assumes "uuid_ok E" and "json_ok E" and "list_all market_in_range ms" and "encodeMarkets E ms = Inr v"
  shows "decodeCachedMarkets E v = Inr ms"
proof -
  have "views_ToDomain E (map view_text (map (view_FromDomain E) ms)) = Inr ms"
    using assms(3) by (induction ms) (simp_all add: view_roundtrip [OF assms(1)])
  moreover have "json_UnmarshalMarkets E v = Some (map view_text (map (view_FromDomain E) ms))"
    using json_markets [OF assms(2)] assms(4) by (auto simp: encodeMarkets_def split: option.splits)
  ultimately show ?thesis by (simp add: decodeCachedMarkets_def)
qed

definition head_current :: "'e spot_env_scheme \<Rightarrow> MarketViewer \<Rightarrow> Market list \<Rightarrow> string \<Rightarrow> string \<Rightarrow> bool" where
  "head_current E s rows role v \<longleftrightarrow>
     decodeCachedMarkets E v = Inr (take (unat (mv_cacheLimit s) + 2) (sorted_markets E role rows))"

text \<open>A setting in which nothing fails, and the limits, the table and the cache are as they should be.\<close>

definition settled :: "'e spot_env_scheme \<Rightarrow> MarketViewer \<Rightarrow> 'a spot_world_scheme \<Rightarrow> bool" where
  "settled E s w \<longleftrightarrow> all_success E \<and> uuid_ok E \<and> json_ok E \<and>
     validateSpotViewMarkets s = Inr () \<and> small (mv_maxLimit s) \<and> small (mv_cacheLimit s) \<and>
     market_store (sdb w) \<noteq> [] \<and> length (market_store (sdb w)) < 2 ^ 61 \<and>
     list_all market_in_range (market_store (sdb w)) \<and>
     cached_heads (head_current E s (market_store (sdb w))) w"

lemma sdb_more: "base.more w' = base.more w \<Longrightarrow> sdb w' = sdb (w :: 'a spot_world_scheme)"
  by (cases w; cases w') simp

lemma sdb_step [simp]: "sdb (step w) = sdb w"
  by (simp add: step_def)

lemma cache_more:
  "base.more w = m \<Longrightarrow> base.more (snd (cache_Get E w key)) = m"
  "base.more w = m \<Longrightarrow> base.more (snd (cache_Delete E w key)) = m"
  "base.more w = m \<Longrightarrow> base.more (snd (cache_SetWithTTL E w key v ttl)) = m"
  by (simp_all add: frame cache_Get_world)

lemmas more_intros = pres_intros [where P = "\<lambda>v. base.more v = m" for m]
  pres_sum [where P = "\<lambda>v. base.more v = m" for m] cache_more

lemma heads_sdb:
  "sdb (snd (GetMarkets E w role)) = sdb w"
  "sdb (snd (SetMarkets E w ms role ttl)) = sdb w"
  unfolding GetMarkets_def DeleteMarkets_def SetMarkets_def Let_def
  by (rule sdb_more, intro more_intros; simp)+

text \<open>One call in a settled world answers with the page of the reference and stays settled.\<close>

lemma GetMarkets_current:
  assumes "all_success E" and "cached_heads (head_current E s rows) w"
  shows "fst (GetMarkets E w role) = Inr (take (unat (mv_cacheLimit s) + 2) (sorted_markets E role rows)) \<or>
    (\<exists>err. fst (GetMarkets E w role) = Inl err)"
proof -
  have out: "env_outcome E (tick w) = Success" using assms(1) by (simp add: all_success_def)
  have "decodeCachedMarkets E v = Inr (take (unat (mv_cacheLimit s) + 2) (sorted_markets E role rows))"
    if "redis_GET t (kv w) (cacheKey role) = Some v" for t v
    using assms(2) that unfolding cached_heads_def head_current_def redis_GET_def
    by (auto split: option.splits if_splits)
  then show ?thesis
    by (auto simp: GetMarkets_def Let_def cache_Get_Success [OF out] split: option.split)
qed

lemma head_page:
  assumes "small l" and "unat l < n"
  shows "buildPageResponse (take n S) l 0 =
    Returned (Inr (take (unat l) S, if unat l < length S then l else 0, unat l < length S))"
  using buildPageResponse_page [OF assms(1) _ assms(2), of 0 S] by (simp add: small_def)

lemma tryLoadHeadPage_page:
  fixes w :: "'a spot_world_scheme" and l :: "64 word" and role :: string
  assumes "settled E s w" and "small l" and "l \<le> mv_cacheLimit s"
  defines "S \<equiv> sorted_markets E role (market_store (sdb w))"
  shows "\<exists>w'. tryLoadHeadPage E s w role l =
      (Returned (Inr (take (unat l) S, if unat l < length S then l else 0, unat l < length S)), w') \<and>
    cached_heads (head_current E s (market_store (sdb w))) w' \<and> sdb w' = sdb w"
proof -
  let ?c = "unat (mv_cacheLimit s)" and ?rows = "market_store (sdb w)"
  have ok: "all_success E" "uuid_ok E" "json_ok E" "?rows \<noteq> []" "list_all market_in_range ?rows"
    and c: "?c < 2 ^ 61" and heads: "cached_heads (head_current E s ?rows) w"
    using assms(1) by (simp_all add: settled_def small_def)
  have lc: "unat l < ?c + 2" using assms(3) by (simp add: word_le_nat_alt)
  have c1: "unat (mv_cacheLimit s + 1) = ?c + 1"
    using word_add [of "mv_cacheLimit s" 1] c by simp
  obtain r w1 where get: "GetMarkets E w role = (r, w1)" by fastforce
  have w1: "cached_heads (head_current E s ?rows) w1" "sdb w1 = sdb w"
    using GetMarkets_heads [OF heads, of E role] heads_sdb(1) [of E w role] get by simp_all
  consider (hit) "r = Inr (take (?c + 2) S)" | (miss) err where "r = Inl err"
    using GetMarkets_current [OF ok(1) heads, of role] get by (auto simp: S_def)
  then show ?thesis
  proof cases
    case hit
    then show ?thesis
      using get w1 head_page [OF assms(2) lc] by (simp add: tryLoadHeadPage_def)
  next
    case miss
    obtain w2 where page: "GetMarketsPage E w1 role (mv_cacheLimit s + 1) 0 = (Inr (take (?c + 2) S), w2)"
      and w2: "w2 \<in> {step w1, step (step w1)}"
      using GetMarketsPage_ok [OF ok(1), of "mv_cacheLimit s + 1" 0 w1 role] c c1 ok(4) w1(2)
      by (auto simp: S_def small_def)
    have "list_all market_in_range (take (?c + 2) S)"
      using ok(5) by (auto simp: S_def sorted_markets_def list_all_iff dest: in_set_takeD)
    then have "cached_heads (head_current E s ?rows) (snd (warmHeadCache E s w2 role (take (?c + 2) S)))"
      unfolding warmHeadCache_def using w1 w2 encode_decode [OF ok(2,3)]
      by (intro SetMarkets_heads) (auto simp: head_current_def S_def)
    moreover have "sdb (snd (warmHeadCache E s w2 role (take (?c + 2) S))) = sdb w"
      using w1 w2 by (auto simp: warmHeadCache_def heads_sdb)
    ultimately show ?thesis
      using get miss page head_page [OF assms(2) lc, of S] by (simp add: tryLoadHeadPage_def)
  qed
qed

lemma ViewMarkets_page:
  fixes w :: "'a spot_world_scheme" and ofs limit :: "64 word"
  assumes "settled E s w" and "getRoleKeyFromContext ctx = Inr role" and "small ofs"
  defines "S \<equiv> sorted_markets E role (market_store (sdb w))"
    and "l \<equiv> normalizeLimit limit (mv_defaultLimit s) (mv_maxLimit s)"
  shows "\<exists>w'. ViewMarkets E s w ctx limit ofs =
      (Returned (Inr (take (unat l) (drop (unat ofs) S),
         if unat ofs + unat l < length S then ofs + l else 0, unat ofs + unat l < length S)), w') \<and>
    settled E s w' \<and> sdb w' = sdb w"
proof -
  have ok: "all_success E" "uuid_ok E" "json_ok E" "small (mv_cacheLimit s)"
    "market_store (sdb w) \<noteq> []" "list_all market_in_range (market_store (sdb w))"
    and heads: "cached_heads (head_current E s (market_store (sdb w))) w"
    using assms(1) by (simp_all add: settled_def)
  have l: "small l"
    using assms(1) by (auto simp: settled_def l_def normalizeLimit_def validateSpotViewMarkets_def Let_def
        small_def word_less_nat_alt word_le_nat_alt not_less split: if_splits)
  have keep: "settled E s w'" if "sdb w' = sdb w" "cached_heads (head_current E s (market_store (sdb w))) w'"
    for w' using assms(1) that by (simp add: settled_def)
  have ofs: "\<not> MaxInt < ofs"
    using assms(3) by (simp add: small_def MaxInt_def word_less_nat_alt)
  show ?thesis
  proof (cases "ofs = 0 \<and> l \<le> mv_cacheLimit s")
    case True
    then show ?thesis
      using tryLoadHeadPage_page [OF assms(1) l, of role] keep ofs
      by (auto simp: ViewMarkets_def assms(2) l_def [symmetric] S_def [symmetric] Let_def)
  next
    case False
    obtain w' where page: "GetMarketsPage E w role l ofs = (Inr (take (unat l + 1) (drop (unat ofs) S)), w')"
      and w': "w' \<in> {step w, step (step w)}"
      using GetMarketsPage_ok [OF ok(1) _ assms(3) ok(5), of l role] l by (auto simp: small_def S_def)
    have "settled E s w'" "sdb w' = sdb w" using w' heads by (auto intro!: keep)
    moreover have "(ofs = 0 \<and> l \<le> mv_cacheLimit s) = False" using False by simp
    ultimately show ?thesis
      using page ofs buildPageResponse_page [OF l assms(3), of "unat l + 1" S]
      unfolding ViewMarkets_def Let_def assms(2) l_def [symmetric]
      by (cases "ofs = 0") simp_all
  qed
qed

lemma view_all_drops:
  assumes "settled E s w" and "getRoleKeyFromContext ctx = Inr role"
    and "length (sorted_markets E role (market_store (sdb w))) < unat ofs + calls" and "small ofs"
    and "unat ofs \<le> length (sorted_markets E role (market_store (sdb w)))"
  shows "view_all E s w ctx limit ofs calls =
    Some (drop (unat ofs) (sorted_markets E role (market_store (sdb w))))"
  using assms
proof (induction calls arbitrary: w ofs)
  case (Suc calls)
  let ?S = "sorted_markets E role (market_store (sdb w))"
    and ?l = "normalizeLimit limit (mv_defaultLimit s) (mv_maxLimit s)"
  obtain w' where view: "ViewMarkets E s w ctx limit ofs =
      (Returned (Inr (take (unat ?l) (drop (unat ofs) ?S),
         if unat ofs + unat ?l < length ?S then ofs + ?l else 0, unat ofs + unat ?l < length ?S)), w')"
    and w': "settled E s w'" "sdb w' = sdb w"
    using ViewMarkets_page [OF Suc.prems(1,2,4)] by blast
  have l: "0 < unat ?l" "small ?l"
    using Suc.prems(1) by (auto simp: unat_gt_0 settled_def normalizeLimit_def validateSpotViewMarkets_def Let_def
        small_def word_less_nat_alt word_le_nat_alt not_less split: if_splits)
  have len: "length ?S < 2 ^ 61"
    using Suc.prems(1)
    by (auto simp: settled_def sorted_markets_def intro: le_less_trans [OF length_filter_le])
  show ?case
  proof (cases "unat ofs + unat ?l < length ?S")
    case True
    have sum: "unat (ofs + ?l) = unat ofs + unat ?l"
      using word_add [of ofs ?l] l Suc.prems(4) by (simp add: small_def)
    have "view_all E s w' ctx limit (ofs + ?l) calls = Some (drop (unat ofs + unat ?l) ?S)"
      using Suc.IH [OF w'(1) Suc.prems(2), of "ofs + ?l"] Suc.prems(3) True sum l(1) len w'(2)
      by (simp add: small_def)
    then show ?thesis
      using True append_take_drop_id [of "unat ?l" "drop (unat ofs) ?S"]
      by (simp add: view add.commute del: append_take_drop_id)
  next
    case False
    then show ?thesis by (simp add: view)
  qed
qed simp

text \<open>\<open>RefreshAll\<close> leaves such a setting behind when it succeeds.\<close>

lemma SetMarkets_stores:
  assumes "all_success E" and "SetMarkets E w ms role ttl = (Inr (), w')"
  shows "\<exists>v x. encodeMarkets E ms = Inr v \<and> kv w' = (kv w)(cacheKey role \<mapsto> (v, x))"
  using assms
  by (auto simp: SetMarkets_def cache_SetWithTTL_def external_def all_success_def redis_SET_def redis_SET_PX_def
      redis_SET_KEEPTTL_def Let_def split: sum.splits if_splits prod.splits)

lemma refresh_heads_current:
  fixes w :: "'a spot_world_scheme"
  assumes "all_success E" and "uuid_ok E" and "json_ok E" and "small (mv_cacheLimit s)"
    and "market_store (sdb w) \<noteq> []" and "list_all market_in_range (market_store (sdb w))"
    and "\<And>role v x. role \<notin> set roles \<Longrightarrow> kv w (cacheKey role) = Some (v, x) \<Longrightarrow>
      head_current E s (market_store (sdb w)) role v"
    and "refresh_heads E s w roles = (Inr (), w')"
  shows "cached_heads (head_current E s (market_store (sdb w))) w' \<and> sdb w' = sdb w"
  using assms(5-)
proof (induction roles arbitrary: w)
  case Nil
  then show ?case by (auto simp: cached_heads_def)
next
  case (Cons role roles)
  let ?rows = "market_store (sdb w)" and ?c = "mv_cacheLimit s"
  let ?S = "take (unat ?c + 2) (sorted_markets E role ?rows)"
  have "unat (?c + 1) = unat ?c + 1" using word_add [of ?c 1] assms(4) by (simp add: small_def)
  then obtain w1 where page: "GetMarketsPage E w role (?c + 1) 0 = (Inr ?S, w1)" and w1: "w1 \<in> {step w, step (step w)}"
    using GetMarketsPage_ok [OF assms(1), of "?c + 1" 0 w role] assms(4) Cons.prems(1) by (auto simp: small_def)
  obtain w2 where set: "SetMarkets E w1 ?S role (mv_cacheTTL s) = (Inr (), w2)"
    and rest: "refresh_heads E s w2 roles = (Inr (), w')"
    using Cons.prems(4) by (auto simp: page split: prod.splits sum.splits)
  have sdb: "sdb w2 = sdb w" using heads_sdb(2) [of E w1 ?S role "mv_cacheTTL s"] set w1 by auto
  obtain v x where v: "encodeMarkets E ?S = Inr v" "kv w2 = (kv w1)(cacheKey role \<mapsto> (v, x))"
    using SetMarkets_stores [OF assms(1) set] by blast
  have "list_all market_in_range ?S"
    using Cons.prems(2) by (auto simp: sorted_markets_def list_all_iff dest: in_set_takeD)
  then have "head_current E s ?rows role v"
    using encode_decode [OF assms(2,3) _ v(1)] by (simp add: head_current_def)
  then have "head_current E s (market_store (sdb w2)) role' v'"
    if "role' \<notin> set roles" "kv w2 (cacheKey role') = Some (v', x')" for role' v' x'
    using that v(2) w1 Cons.prems(3) [of role' v' x'] sdb by (cases "role' = role") auto
  from Cons.IH [OF _ _ this rest] Cons.prems(1,2) sdb show ?case by simp
qed

lemma RefreshAll_settles:
  fixes w :: "'a spot_world_scheme"
  assumes "all_success E" and "uuid_ok E" and "json_ok E" and "validateSpotViewMarkets s = Inr ()"
    and "small (mv_maxLimit s)" and "small (mv_cacheLimit s)" and "market_store (sdb w) \<noteq> []"
    and "length (market_store (sdb w)) < 2 ^ 61" and "list_all market_in_range (market_store (sdb w))"
    and "\<And>role. role \<notin> set cacheRoleKeys \<Longrightarrow> kv w (cacheKey role) = None"
    and "RefreshAll E s w = (Inr (), w')"
  shows "settled E s w' \<and> sdb w' = sdb w"
  using refresh_heads_current [OF assms(1-3,6,7,9), of cacheRoleKeys w'] assms
  by (auto simp: settled_def RefreshAll_def)

text \<open>
  C15. When no call fails, the table is not empty and does not change meanwhile, and the head pages in
  the cache, if there are any, are those of the table, as \<open>RefreshAll\<close> leaves them, then a client that
  asks for page after page, from offset 0 and then from the offset each answer names, until it is
  told that there is no more, gets exactly the markets its role may see, in the order of names and
  identifiers, none twice and none left out, after at most one call more than there are such
  markets; whether or not the head page comes from the cache. The limits of the pages, the
  table and the instants of the markets are far from the limits of their types, and the names are
  valid UTF-8. Between changes of the table pages may overlap or leave out markets.
\<close>

theorem pages_list_visible_markets:
  assumes "settled E s w" and "getRoleKeyFromContext ctx = Inr role"
    and "length (filter (role_sees role) (market_store (sdb w))) < calls"
  shows "view_all E s w ctx limit 0 calls = Some (sorted_markets E role (market_store (sdb w)))"
  using view_all_drops [OF assms(1,2), of 0 calls limit] assms(3)
  by (simp add: small_def sorted_markets_def)

end
