(* ===== verification/Market_Poller.thy ===== *)
theory Market_Poller
  imports Market_Pages
begin

text \<open>
  Noticing that markets changed: the poller (\<open>spotService/internal/services/spot/market_poller.go\<close>)
  reads the markets updated after its cursor, batch by batch, and hands their events together
  with the new cursor to the producer (\<open>spotService/internal/services/producer/market_producer.go\<close>),
  which writes both in one transaction. Deadlines are outcomes of the calls and of the checks of
  the context. The loop of a poll has no bound in the code; here it is given a number of rounds,
  and \<open>None\<close> stands for a poll that has used them up.
\<close>

section \<open>The producer\<close>

definition buildOutboxEvent ::
  "'e env_scheme \<Rightarrow> market_codec \<Rightarrow> 'a base_scheme \<Rightarrow> MarketStateChangedEvent \<Rightarrow>
   (go_error + OutboxEvent) \<times> 'a base_scheme" where
  "buildOutboxEvent E C w event =
     (case Marshal E C event of
        Inl err \<Rightarrow> (Inl err, w)
      | Inr payload \<Rightarrow>
          (Inr \<lparr>Out_ID = env_uuid E (tick w), Out_EventID = MS_EventID event,
             Out_EventType = MarketStateChangedEventType, Out_AggregateID = MS_MarketID event,
             Out_Payload = payload, Out_Status = OutboxEventStatusPending, Out_RetryCount = 0,
             Out_AvailableAt = zero_time, Out_CreatedAt = zero_time, Out_PublishedAt = None,
             Out_FailedAt = None, Out_LockedAt = None, Out_LastError = None\<rparr>, step w))"

fun save_events ::
  "'e env_scheme \<Rightarrow> market_codec \<Rightarrow> 'a base_scheme \<Rightarrow> spot_db tx \<Rightarrow> MarketStateChangedEvent list \<Rightarrow>
   (go_error + spot_db tx) \<times> 'a base_scheme" where
  "save_events E C w t [] = (Inr t, w)"
| "save_events E C w t (event # events) =
     (let op = ''MarketProducer.PublishMarketStateChanged'' in
      case buildOutboxEvent E C w event of
        (Inl buildError, w1) \<Rightarrow> (Inl (Errorf (op @ '': build outbox event: '') buildError ''''), w1)
      | (Inr outboxEvent, w1) \<Rightarrow>
          (case spot_SaveOutboxEvent E w1 t outboxEvent of
             (Inl err, w2) \<Rightarrow> (Inl (Errorf (op @ '': save outbox event: '') err ''''), w2)
           | (Inr t1, w2) \<Rightarrow> save_events E C w2 t1 events))"

text \<open>The end of a transaction, which both ways of saving a cursor share.\<close>

definition save_cursor_and_commit ::
  "string \<Rightarrow> 'e env_scheme \<Rightarrow> 'a spot_world_scheme \<Rightarrow> spot_db tx \<Rightarrow> PollerCursor \<Rightarrow>
   (go_error + unit) \<times> 'a spot_world_scheme" where
  "save_cursor_and_commit op E w t cursor =
     (case SaveCursorTransaction E w t cursor of
        (Inl err, w1) \<Rightarrow> (Inl (Errorf (op @ '': save cursor: '') err ''''), w1)
      | (Inr t1, w1) \<Rightarrow>
          (case commitTransaction E w1 t1 of
             (Inl err, w2) \<Rightarrow> (Inl (Errorf (op @ '': commit: '') err ''''), w2)
           | (Inr _, w2) \<Rightarrow> (Inr (), w2)))"

definition saveCursor ::
  "'e env_scheme \<Rightarrow> 'a spot_world_scheme \<Rightarrow> PollerCursor \<Rightarrow> (go_error + unit) \<times> 'a spot_world_scheme" where
  "saveCursor E w cursor =
     (let op = ''MarketProducer.saveCursorOnly'' in
      case BeginTransaction E w of
        (Inl err, w1) \<Rightarrow> (Inl (Errorf (op @ '': begin tx: '') err ''''), w1)
      | (Inr t, w1) \<Rightarrow> save_cursor_and_commit op E w1 t cursor)"

definition PublishMarketStateChanged ::
  "'e env_scheme \<Rightarrow> market_codec \<Rightarrow> 'a spot_world_scheme \<Rightarrow> MarketStateChangedEvent list \<Rightarrow> PollerCursor \<Rightarrow>
   (go_error + unit) \<times> 'a spot_world_scheme" where
  "PublishMarketStateChanged E C w events cursor =
     (let op = ''MarketProducer.PublishMarketStateChanged'' in
      if events = [] then saveCursor E w cursor
      else
        (case BeginTransaction E w of
           (Inl err, w1) \<Rightarrow> (Inl (Errorf (op @ '': begin tx: '') err ''''), w1)
         | (Inr t, w1) \<Rightarrow>
             (case save_events E C w1 t events of
                (Inl err, w2) \<Rightarrow> (Inl err, w2)
              | (Inr t1, w2) \<Rightarrow> save_cursor_and_commit op E w2 t1 cursor)))"

section \<open>The poller\<close>

definition marketStateChangedPollerName :: string where
  "marketStateChangedPollerName = ''market_state_changed_poller''"

record MarketPoller =
  mp_cacheRefresher :: "MarketViewer option"
  mp_batchSize :: int

definition loadCursor ::
  "'e env_scheme \<Rightarrow> 'a spot_world_scheme \<Rightarrow> (go_error + unit) \<times> 'a spot_world_scheme" where
  "loadCursor E w =
     (case cursor_Get E w marketStateChangedPollerName of
        (Inl err, w1) \<Rightarrow>
          if errors_Is err PgNoRows then (Inr (), w1\<lparr>lastSeenAt := zero_time, lastSeenID := nil_uuid\<rparr>)
          else (Inl err, w1)
      | (Inr cursor, w1) \<Rightarrow>
          (Inr (), w1\<lparr>lastSeenAt := Cursor_LastSeenAt cursor, lastSeenID := Cursor_LastSeenID cursor\<rparr>))"

definition poller_Init ::
  "'e env_scheme \<Rightarrow> bool \<Rightarrow> 'a spot_world_scheme \<Rightarrow> (go_error + unit) \<times> 'a spot_world_scheme" where
  "poller_Init E hasCtx w =
     (if \<not> hasCtx then (Inl (NewError ''market poller init: nil context''), w)
      else
        (case loadCursor E w of
           (Inl err, w1) \<Rightarrow> (Inl (Errorf ''load market poller cursor: '' err ''''), w1)
         | (Inr _, w1) \<Rightarrow> (Inr (), w1)))"

fun buildMarketStateChangedEvents ::
  "'e env_scheme \<Rightarrow> 'a base_scheme \<Rightarrow> Market list \<Rightarrow>
   (go_error + MarketStateChangedEvent list) \<times> 'a base_scheme" where
  "buildMarketStateChangedEvents E w [] = (Inr [], w)"
| "buildMarketStateChangedEvents E w (market # markets) =
     (case env_ctx E (tick w) of
        Some f \<Rightarrow> (Inl (fault_error f), step w)
      | None \<Rightarrow>
          (let w1 = step w;
               event = \<lparr>MS_EventID = env_uuid E (tick w1), MS_MarketID = Market_ID market,
                 MS_Enabled = Market_Enabled market, MS_DeletedAt = Market_DeletedAt market,
                 MS_UpdatedAt = Market_UpdatedAt market\<rparr>
           in case buildMarketStateChangedEvents E (step w1) markets of
                (Inl err, w2) \<Rightarrow> (Inl err, w2)
              | (Inr events, w2) \<Rightarrow> (Inr (event # events), w2)))"

definition buildNextPollerCursor :: "Market list \<Rightarrow> PollerCursor" where
  "buildNextPollerCursor markets =
     \<lparr>Cursor_PollerName = marketStateChangedPollerName,
      Cursor_LastSeenAt = Market_UpdatedAt (last markets), Cursor_LastSeenID = Market_ID (last markets)\<rparr>"

text \<open>A batch, first without its query: what follows once the markets have been read.\<close>

definition processMarkets ::
  "'e env_scheme \<Rightarrow> market_codec \<Rightarrow> MarketPoller \<Rightarrow> 'a spot_world_scheme \<Rightarrow> Market list \<Rightarrow>
   (go_error + uuid list \<times> bool) \<times> 'a spot_world_scheme" where
  "processMarkets E C p w markets =
     (if markets = [] then (Inr ([], False), w)
      else
        (case buildMarketStateChangedEvents E w markets of
           (Inl err, w1) \<Rightarrow> (Inl err, w1)
         | (Inr events, w1) \<Rightarrow>
             (let nextCursor = buildNextPollerCursor markets in
              case PublishMarketStateChanged E C w1 events nextCursor of
                (Inl err, w2) \<Rightarrow> (Inl err, w2)
              | (Inr _, w2) \<Rightarrow>
                  (Inr (map Market_ID markets, int (length markets) = mp_batchSize p),
                   w2\<lparr>lastSeenAt := Cursor_LastSeenAt nextCursor,
                      lastSeenID := Cursor_LastSeenID nextCursor\<rparr>))))"

definition processNextBatch ::
  "'e env_scheme \<Rightarrow> market_codec \<Rightarrow> MarketPoller \<Rightarrow> 'a spot_world_scheme \<Rightarrow>
   (go_error + uuid list \<times> bool) \<times> 'a spot_world_scheme" where
  "processNextBatch E C p w =
     (case ListUpdatedSince E w (lastSeenAt w) (lastSeenID w) (mp_batchSize p) of
        (Inl err, w1) \<Rightarrow> (Inl err, w1)
      | (Inr markets, w1) \<Rightarrow> processMarkets E C p w1 markets)"

definition refreshCache ::
  "'e spot_env_scheme \<Rightarrow> MarketPoller \<Rightarrow> 'a spot_world_scheme \<Rightarrow> uuid list \<Rightarrow> 'a spot_world_scheme" where
  "refreshCache E p w updatedIDs =
     (if updatedIDs = [] then w
      else
        (case mp_cacheRefresher p of
           None \<Rightarrow> w
         | Some refresher \<Rightarrow>
             snd (RefreshAll E refresher (snd (InvalidateByIDs E w updatedIDs)))))"

fun poll_loop ::
  "'e env_scheme \<Rightarrow> market_codec \<Rightarrow> MarketPoller \<Rightarrow> nat \<Rightarrow> uuid list \<Rightarrow> 'a spot_world_scheme \<Rightarrow>
   (go_error + unit) option \<times> uuid list \<times> 'a spot_world_scheme" where
  "poll_loop E C p 0 updatedIDs w = (None, updatedIDs, w)"
| "poll_loop E C p (Suc rounds) updatedIDs w =
     (case env_ctx E (tick w) of
        Some f \<Rightarrow> (Some (Inl (fault_error f)), updatedIDs, step w)
      | None \<Rightarrow>
          (case processNextBatch E C p (step w) of
             (Inl err, w1) \<Rightarrow> (Some (Inl err), updatedIDs, w1)
           | (Inr (batchUpdatedIDs, hasMore), w1) \<Rightarrow>
               if \<not> hasMore then (Some (Inr ()), updatedIDs @ batchUpdatedIDs, w1)
               else poll_loop E C p rounds (updatedIDs @ batchUpdatedIDs) w1))"

definition poll ::
  "'e spot_env_scheme \<Rightarrow> market_codec \<Rightarrow> MarketPoller \<Rightarrow> nat \<Rightarrow> 'a spot_world_scheme \<Rightarrow>
   (go_error + unit) option \<times> 'a spot_world_scheme" where
  "poll E C p rounds w =
     (case poll_loop E C p rounds [] w of
        (None, updatedIDs, w1) \<Rightarrow> (None, w1)
      | (Some r, updatedIDs, w1) \<Rightarrow> (Some r, refreshCache E p w1 updatedIDs))"

datatype poller_turn = PollerDone | PollerTick

text \<open>After a failed poll: an error, unless the context of the poller is done.\<close>

definition stop_poller ::
  "'e env_scheme \<Rightarrow> string \<Rightarrow> go_error \<Rightarrow> 'a base_scheme \<Rightarrow> (go_error + unit) option \<times> 'a base_scheme" where
  "stop_poller E what err w =
     (Some (if env_ctx E (tick w) \<noteq> None then Inr () else Inl (Errorf (what @ '': '') err '''')), step w)"

fun poller_loop ::
  "'e spot_env_scheme \<Rightarrow> market_codec \<Rightarrow> MarketPoller \<Rightarrow> nat \<Rightarrow> 'a spot_world_scheme \<Rightarrow> poller_turn list \<Rightarrow>
   (go_error + unit) option \<times> 'a spot_world_scheme" where
  "poller_loop E C p rounds w [] = (None, w)"
| "poller_loop E C p rounds w (PollerDone # turns) = (Some (Inr ()), w)"
| "poller_loop E C p rounds w (PollerTick # turns) =
     (case poll E C p rounds w of
        (None, w1) \<Rightarrow> (None, w1)
      | (Some (Inl err), w1) \<Rightarrow> stop_poller E ''scheduled poll'' err w1
      | (Some (Inr _), w1) \<Rightarrow> poller_loop E C p rounds w1 turns)"

definition poller_Run ::
  "'e spot_env_scheme \<Rightarrow> market_codec \<Rightarrow> MarketPoller \<Rightarrow> nat \<Rightarrow> bool \<Rightarrow> 'a spot_world_scheme \<Rightarrow>
   poller_turn list \<Rightarrow> (go_error + unit) option \<times> 'a spot_world_scheme" where
  "poller_Run E C p rounds hasCtx w turns =
     (if \<not> hasCtx then (Some (Inl (NewError ''market poller run: nil context'')), w)
      else
        (case poll E C p rounds w of
           (None, w1) \<Rightarrow> (None, w1)
         | (Some (Inl err), w1) \<Rightarrow> stop_poller E ''initial poll'' err w1
         | (Some (Inr _), w1) \<Rightarrow> poller_loop E C p rounds w1 turns))"

end
