(* ===== verification/Market_Feed.thy ===== *)
theory Market_Feed
  imports Market_Poller
begin

text \<open>
  What the poller guarantees: the events in the outbox and the cursor move together, one event
  for each market that was updated, in the order of the updates, whatever fails; a poll ends; and
  when nothing fails it leaves no update behind.
\<close>

section \<open>Cursors and the order of updates\<close>

type_synonym position = "int \<times> int"

definition db_cursor :: "spot_db \<Rightarrow> position" where
  "db_cursor d =
     (case filter (\<lambda>c. Cursor_PollerName c = marketStateChangedPollerName) (cursors d) of
        [] \<Rightarrow> (zero_time, 0)
      | c # _ \<Rightarrow> (Cursor_LastSeenAt c, uint (Cursor_LastSeenID c)))"

definition seen :: "'a spot_world_scheme \<Rightarrow> position" where
  "seen w = (pg_timestamp (lastSeenAt w), uint (lastSeenID w))"

definition updates_between :: "spot_db \<Rightarrow> position \<Rightarrow> position \<Rightarrow> Market list" where
  "updates_between d a b =
     filter (\<lambda>m. a < market_pos m \<and> market_pos m \<le> b) (sort_key market_pos (market_store d))"

definition updates_after :: "spot_db \<Rightarrow> position \<Rightarrow> Market list" where
  "updates_after d a = filter (\<lambda>m. a < market_pos m) (sort_key market_pos (market_store d))"

text \<open>The tables: keys are unique, and timestamps have the precision of the database.\<close>

definition spot_ok :: "spot_db \<Rightarrow> bool" where
  "spot_ok d \<longleftrightarrow> distinct (map Market_ID (market_store d)) \<and>
     list_all (\<lambda>m. pg_timestamp (Market_UpdatedAt m) = Market_UpdatedAt m) (market_store d) \<and>
     distinct (map Cursor_PollerName (cursors d)) \<and>
     list_all (\<lambda>c. pg_timestamp (Cursor_LastSeenAt c) = Cursor_LastSeenAt c) (cursors d) \<and>
     outbox_ok (spot_outbox_rows d)"

lemma sort_key_strict:
  assumes "distinct (map k xs)"
  shows "sorted_wrt (\<lambda>x y. k x < k y) (sort_key k xs)"
proof -
  have "sorted (map k (sort_key k xs))" "distinct (map k (sort_key k xs))"
    using assms by (simp_all add: distinct_map)
  then have "sorted_wrt (<) (map k (sort_key k xs))" by (simp add: strict_sorted_iff)
  then show ?thesis by (simp add: sorted_wrt_map)
qed

lemma market_pos_distinct:
  "distinct (map Market_ID ms) \<Longrightarrow> distinct (map market_pos ms)"
  by (auto simp: distinct_map inj_on_def market_pos_def word_uint_eq_iff)

lemma sql_updated_since_Inr:
  assumes "sql_updated_since at' i n d = Inr ms"
  shows "ms = take (nat n) (updates_after d (pg_timestamp at', uint i)) \<and> 0 \<le> n"
  using assms by (auto simp: sql_updated_since_def updates_after_def filter_sort split: if_splits)

text \<open>A prefix of a strictly sorted list is what lies up to its last element.\<close>

lemma take_strict:
  assumes "sorted_wrt (\<lambda>x y. (k x :: 'k :: linorder) < k y) xs" and "take n xs \<noteq> []"
  shows "take n xs = filter (\<lambda>x. k x \<le> k (last (take n xs))) xs"
proof -
  let ?a = "take n xs" and ?b = "drop n xs"
  have split: "sorted_wrt (\<lambda>x y. k x < k y) (?a @ ?b)" using assms(1) by simp
  have "k x \<le> k (last ?a)" if "x \<in> set ?a" for x
  proof -
    have "sorted_wrt (\<lambda>x y. k x < k y) (butlast ?a @ [last ?a])"
      using split assms(2) by (simp add: sorted_wrt_append)
    then show ?thesis
      using that assms(2) by (metis (mono_tags, lifting) UnE append_butlast_last_id list.set_intros(1)
          order.strict_implies_order order_refl set_append set_ConsD sorted_wrt_append list.set(1) empty_iff)
  qed
  moreover have "\<not> k x \<le> k (last ?a)" if "x \<in> set ?b" for x
    using split that last_in_set [OF assms(2)] unfolding sorted_wrt_append not_le by blast
  ultimately have "filter (\<lambda>x. k x \<le> k (last ?a)) (?a @ ?b) = ?a"
    by (simp only: filter_append) (simp add: filter_id_conv filter_empty_conv)
  then show ?thesis by simp
qed

lemma filter_between:
  assumes "sorted_wrt (\<lambda>x y. (k x :: 'k :: linorder) < k y) xs" and "a \<le> b" and "b \<le> c"
  shows "filter (\<lambda>x. a < k x \<and> k x \<le> b) xs @ filter (\<lambda>x. b < k x \<and> k x \<le> c) xs =
    filter (\<lambda>x. a < k x \<and> k x \<le> c) xs"
  using assms
proof (induction xs)
  case (Cons x xs)
  have "filter (\<lambda>x. a < k x \<and> k x \<le> b) xs = []" if "b < k x"
    using Cons.prems(1) that by (fastforce simp: filter_empty_conv)
  with Cons show ?case by (auto simp: not_le not_less)
qed simp

lemma updates_sorted:
  "spot_ok d \<Longrightarrow> sorted_wrt (\<lambda>x y. market_pos x < market_pos y) (sort_key market_pos (market_store d))"
  by (intro sort_key_strict market_pos_distinct) (simp add: spot_ok_def)

lemma updates_between_trans:
  "spot_ok d \<Longrightarrow> a \<le> b \<Longrightarrow> b \<le> c \<Longrightarrow>
     updates_between d a b @ updates_between d b c = updates_between d a c"
  unfolding updates_between_def by (rule filter_between [OF updates_sorted])

lemma batch_is_between:
  assumes "spot_ok d" and "ms = take n (updates_after d a)" and "ms \<noteq> []"
  shows "ms = updates_between d a (market_pos (last ms)) \<and> a < market_pos (last ms)"
proof -
  have sorted: "sorted_wrt (\<lambda>x y. market_pos x < market_pos y) (updates_after d a)"
    unfolding updates_after_def using updates_sorted [OF assms(1)] by (rule sorted_wrt_filter)
  have "ms = filter (\<lambda>m. market_pos m \<le> market_pos (last ms)) (updates_after d a)"
    using take_strict [OF sorted, of n] assms(2,3) by simp
  moreover have "last ms \<in> set (updates_after d a)"
    using assms(2,3) last_in_set in_set_takeD by metis
  ultimately show ?thesis
    by (auto simp: updates_between_def updates_after_def conj_commute)
qed

lemma updates_after_batch:
  assumes "spot_ok d" and "ms = take n (updates_after d a)" and "ms \<noteq> []"
  shows "length (updates_after d (market_pos (last ms))) + length ms = length (updates_after d a)"
proof -
  let ?b = "market_pos (last ms)"
  have b: "ms = updates_between d a ?b" "a < ?b" using batch_is_between [OF assms] by auto
  have "length (filter (\<lambda>m. a < market_pos m \<and> market_pos m \<le> ?b) xs) +
      length (filter (\<lambda>m. ?b < market_pos m) xs) = length (filter (\<lambda>m. a < market_pos m) xs)" for xs
    using b(2) by (induction xs) auto
  moreover have "length ms = length (updates_between d a ?b)" using b(1) by (rule arg_cong)
  ultimately show ?thesis unfolding updates_between_def updates_after_def by (simp add: add.commute)
qed

section \<open>What a batch writes\<close>

definition event_for :: "'e env_scheme \<Rightarrow> market_codec \<Rightarrow> Market \<Rightarrow> OutboxEvent \<Rightarrow> bool" where
  "event_for E C m row \<longleftrightarrow>
     Out_EventType row = MarketStateChangedEventType \<and> Out_AggregateID row = Market_ID m \<and>
     Out_Status row = OutboxEventStatusPending \<and>
     Marshal E C \<lparr>MS_EventID = Out_EventID row, MS_MarketID = Market_ID m, MS_Enabled = Market_Enabled m,
       MS_DeletedAt = Market_DeletedAt m, MS_UpdatedAt = Market_UpdatedAt m\<rparr> = Inr (Out_Payload row)"

definition describes :: "Market \<Rightarrow> MarketStateChangedEvent \<Rightarrow> bool" where
  "describes m ev \<longleftrightarrow> ev = \<lparr>MS_EventID = MS_EventID ev, MS_MarketID = Market_ID m,
     MS_Enabled = Market_Enabled m, MS_DeletedAt = Market_DeletedAt m, MS_UpdatedAt = Market_UpdatedAt m\<rparr>"

lemma buildMarketStateChangedEvents_more:
  "base.more (snd (buildMarketStateChangedEvents E w ms)) = base.more w"
  by (induction E w ms rule: buildMarketStateChangedEvents.induct)
    (auto simp: Let_def split: option.split prod.split sum.split)

lemma buildMarketStateChangedEvents_describes:
  "buildMarketStateChangedEvents E w ms = (Inr evs, w') \<Longrightarrow> list_all2 describes ms evs"
  by (induction E w ms arbitrary: evs w' rule: buildMarketStateChangedEvents.induct)
    (auto simp: Let_def describes_def split: option.splits prod.splits sum.splits)

lemma spot_exec_step: "tx_exec E w t stmt = (r, w') \<Longrightarrow> w' = step w"
  by (metis snd_conv tx_exec_world)

lemma spot_exec_Inr:
  "tx_exec E w t stmt = (Inr (x, t'), w') \<Longrightarrow> \<exists>d. stmt t = Inr (x, d) \<and> t' = t\<lparr>tx_db := d\<rparr> \<and> w' = step w"
  by (auto simp: tx_exec_def external_def split: outcome.splits sum.splits)

lemma spot_SaveOutboxEvent_Inr:
  assumes "spot_SaveOutboxEvent E w t e = (Inr t', w')"
  shows "w' = step w \<and> (\<exists>rows. outbox_insert (tx_now t) e (spot_outbox_rows (tx_db t)) = Inr rows \<and>
    t' = t\<lparr>tx_db := (tx_db t)\<lparr>spot_outbox_rows := rows\<rparr>\<rparr>)"
  using assms
  by (auto simp: spot_SaveOutboxEvent_def dest!: spot_exec_Inr split: prod.splits sum.splits)

lemma spot_SaveOutboxEvent_step: "spot_SaveOutboxEvent E w t e = (r, w') \<Longrightarrow> w' = step w"
  by (auto simp: spot_SaveOutboxEvent_def dest!: spot_exec_step split: prod.splits sum.splits)

lemma save_events_more: "base.more (snd (save_events E C w t evs)) = base.more w"
  by (induction evs arbitrary: w t)
    (auto simp: Let_def buildOutboxEvent_def dest!: spot_SaveOutboxEvent_step split: prod.split sum.split)

lemma save_events_rows:
  assumes "save_events E C w t evs = (Inr t', w')" and "list_all2 describes ms evs"
  shows "\<exists>rows. t' = t\<lparr>tx_db := (tx_db t)\<lparr>spot_outbox_rows := spot_outbox_rows (tx_db t) @ rows\<rparr>\<rparr> \<and>
    list_all2 (event_for E C) ms rows \<and>
    (outbox_ok (spot_outbox_rows (tx_db t)) \<longrightarrow> outbox_ok (spot_outbox_rows (tx_db t')))"
  using assms
proof (induction evs arbitrary: w t ms)
  case (Cons ev evs)
  obtain m ms' where ms: "ms = m # ms'" "describes m ev" "list_all2 describes ms' evs"
    using Cons.prems(2) by (auto simp: list_all2_Cons2)
  obtain payload where pay: "Marshal E C ev = Inr payload"
    using Cons.prems(1) by (auto simp: Let_def buildOutboxEvent_def split: sum.splits)
  let ?e = "\<lparr>Out_ID = env_uuid E (tick w), Out_EventID = MS_EventID ev,
             Out_EventType = MarketStateChangedEventType, Out_AggregateID = MS_MarketID ev,
             Out_Payload = payload, Out_Status = OutboxEventStatusPending, Out_RetryCount = 0,
             Out_AvailableAt = zero_time, Out_CreatedAt = zero_time, Out_PublishedAt = None,
             Out_FailedAt = None, Out_LockedAt = None, Out_LastError = None\<rparr>"
  obtain t1 w1 where save: "spot_SaveOutboxEvent E (step w) t ?e = (Inr t1, w1)"
    and rest: "save_events E C w1 t1 evs = (Inr t', w')"
    using Cons.prems(1) pay by (auto simp: Let_def buildOutboxEvent_def split: prod.splits sum.splits)
  obtain rows where ins: "outbox_insert (tx_now t) ?e (spot_outbox_rows (tx_db t)) = Inr rows"
    and t1: "t1 = t\<lparr>tx_db := (tx_db t)\<lparr>spot_outbox_rows := rows\<rparr>\<rparr>"
    using spot_SaveOutboxEvent_Inr [OF save] by auto
  obtain row where row: "rows = spot_outbox_rows (tx_db t) @ [row]" "event_for E C m row"
    using ins pay ms(2)
    by (cases ev) (auto simp: outbox_insert_def event_for_def describes_def split: if_splits)
  obtain rows' where "t' = t1\<lparr>tx_db := (tx_db t1)\<lparr>spot_outbox_rows := spot_outbox_rows (tx_db t1) @ rows'\<rparr>\<rparr>"
    "list_all2 (event_for E C) ms' rows'"
    "outbox_ok (spot_outbox_rows (tx_db t1)) \<longrightarrow> outbox_ok (spot_outbox_rows (tx_db t'))"
    using Cons.IH [OF rest ms(3)] by blast
  with ms(1) row t1 ins outbox_insert_ok [of "spot_outbox_rows (tx_db t)"] show ?case
    by (intro exI [of _ "row # rows'"]) auto
qed simp

lemma save_cursor_moves:
  assumes "spot_ok (tx_db t)" and "Cursor_PollerName c = marketStateChangedPollerName"
    and "sql_save_cursor c t = Inr (x, d)"
  shows "db_cursor d = (pg_timestamp (Cursor_LastSeenAt c), uint (Cursor_LastSeenID c)) \<and> spot_ok d \<and>
    market_store d = market_store (tx_db t) \<and> spot_outbox_rows d = spot_outbox_rows (tx_db t)"
proof -
  let ?P = "\<lambda>r. Cursor_PollerName r = marketStateChangedPollerName"
  let ?row = "c\<lparr>Cursor_LastSeenAt := pg_timestamp (Cursor_LastSeenAt c)\<rparr>"
  have upd: "filter ?P (upd_where ?P (\<lambda>_. ?row) cs) = map (\<lambda>_. ?row) (filter ?P cs)" for cs
    using assms(2) by (induction cs) auto
  have "filter ?P (cursors d) = map (\<lambda>_. ?row) (filter ?P (cursors (tx_db t))) \<and>
      filter ?P (cursors (tx_db t)) \<noteq> [] \<or> filter ?P (cursors d) = [?row]"
  proof (cases "marketStateChangedPollerName \<in> Cursor_PollerName ` set (cursors (tx_db t))")
    case True
    then obtain c' where "c' \<in> set (cursors (tx_db t))" "Cursor_PollerName c' = marketStateChangedPollerName"
      by (rule imageE) simp
    then have "filter ?P (cursors (tx_db t)) \<noteq> []" by (auto simp: filter_empty_conv)
    with True show ?thesis using assms(2,3) by (auto simp: sql_save_cursor_def Let_def upd)
  next
    case False
    then have "filter ?P (cursors (tx_db t)) = []" by (intro filter_False) (metis image_eqI)
    with False show ?thesis using assms(2,3) by (auto simp: sql_save_cursor_def Let_def)
  qed
  then have "db_cursor d = (pg_timestamp (Cursor_LastSeenAt c), uint (Cursor_LastSeenID c))"
    by (auto simp: db_cursor_def split: list.split)
  moreover have "spot_ok d" "market_store d = market_store (tx_db t)"
    "spot_outbox_rows d = spot_outbox_rows (tx_db t)"
    using assms
    by (auto simp: sql_save_cursor_def Let_def spot_ok_def map_upd_where intro!: list_all_upd_where
        split: if_splits)
  ultimately show ?thesis by simp
qed

section \<open>Cursor and outbox move together\<close>

definition moved :: "'e env_scheme \<Rightarrow> market_codec \<Rightarrow> spot_db \<Rightarrow> spot_db \<Rightarrow> bool" where
  "moved E C d d' \<longleftrightarrow> market_store d' = market_store d \<and> (spot_ok d \<longrightarrow> spot_ok d') \<and>
     db_cursor d \<le> db_cursor d' \<and>
     (\<exists>rows. spot_outbox_rows d' = spot_outbox_rows d @ rows \<and>
        list_all2 (event_for E C) (updates_between d (db_cursor d) (db_cursor d')) rows)"

lemma moved_refl [simp]: "moved E C d d"
proof -
  have none: "(\<lambda>m. db_cursor d < market_pos m \<and> market_pos m \<le> db_cursor d) = (\<lambda>m. False)"
    by (rule ext) (auto simp: not_less)
  show ?thesis unfolding moved_def updates_between_def none by simp
qed

lemma moved_trans:
  assumes "spot_ok d" and "moved E C d d1" and "moved E C d1 d2"
  shows "moved E C d d2"
proof -
  let ?c = "db_cursor d" and ?c1 = "db_cursor d1" and ?c2 = "db_cursor d2"
  have same: "updates_between d1 a b = updates_between d a b" for a b
    using assms(2) by (simp add: moved_def updates_between_def)
  have le: "?c \<le> ?c1" "?c1 \<le> ?c2" using assms(2,3) by (simp_all add: moved_def)
  obtain rows1 rows2
    where rows: "spot_outbox_rows d1 = spot_outbox_rows d @ rows1" "spot_outbox_rows d2 = spot_outbox_rows d1 @ rows2"
      "list_all2 (event_for E C) (updates_between d ?c ?c1) rows1"
      "list_all2 (event_for E C) (updates_between d ?c1 ?c2) rows2"
    using assms(2,3) unfolding moved_def same by blast
  have "list_all2 (event_for E C) (updates_between d ?c ?c2) (rows1 @ rows2)"
    unfolding updates_between_trans [OF assms(1) le, symmetric] using rows(3,4) by (rule list_all2_appendI)
  with rows(1,2) le assms(2,3) show ?thesis by (auto simp: moved_def)
qed

lemma sdb_update_more: "base.more w1 = base.more w \<Longrightarrow> base.more (step w1\<lparr>sdb := d\<rparr>) = base.more (w\<lparr>sdb := d\<rparr>)"
  by (cases w; cases w1) (simp add: step_def)

text \<open>The outcome of publishing a batch: nothing, or the rows and the cursor together.\<close>

lemma Publish_world:
  assumes "PublishMarketStateChanged E C w evs c = (r, w')" and "list_all2 describes ms evs" and "ms \<noteq> []"
    and "spot_ok (sdb w)" and "Cursor_PollerName c = marketStateChangedPollerName"
  shows "base.more w' = base.more w \<and> (\<exists>err. r = Inl err) \<or>
    (\<exists>d rows. base.more w' = base.more (w\<lparr>sdb := d\<rparr>) \<and> market_store d = market_store (sdb w) \<and> spot_ok d \<and>
       db_cursor d = (pg_timestamp (Cursor_LastSeenAt c), uint (Cursor_LastSeenID c)) \<and>
       spot_outbox_rows d = spot_outbox_rows (sdb w) @ rows \<and> list_all2 (event_for E C) ms rows \<and>
       (unambiguous E \<longrightarrow> r = Inr ()))"
proof -
  have evs: "evs \<noteq> []" using assms(2,3) by auto
  obtain r0 w0 where b: "BeginTransaction E w = (r0, w0)" by fastforce
  then have w0: "w0 = step w"
    by (auto simp: BeginTransaction_def external_def split: outcome.splits prod.splits sum.splits)
  have t: "tx_db t = sdb w" if "r0 = Inr t" for t
    using b that by (auto simp: BeginTransaction_def external_def split: outcome.splits prod.splits sum.splits)
  show ?thesis
  proof (cases r0)
    case (Inr t)
    obtain r1 w1 where s: "save_events E C w0 t evs = (r1, w1)" by fastforce
    have w1: "base.more w1 = base.more w"
      using save_events_more [of E C w0 t evs] s w0 by simp
    show ?thesis
    proof (cases r1)
      case r1: (Inr t1)
      obtain rows where t1: "tx_db t1 = (sdb w)\<lparr>spot_outbox_rows := spot_outbox_rows (sdb w) @ rows\<rparr>"
        and rows: "list_all2 (event_for E C) ms rows" and "spot_ok (tx_db t1)"
        using save_events_rows [of E C w0 t evs t1 w1 ms] s r1 assms(2,4) t [OF Inr]
        by (auto simp: spot_ok_def)
      obtain d where d: "sql_save_cursor c t1 = Inr ((), d)" by (simp add: sql_save_cursor_def Let_def)
      note cur = save_cursor_moves [OF \<open>spot_ok (tx_db t1)\<close> assms(5) d]
      have "base.more w' = base.more w \<and> (\<exists>err. r = Inl err) \<or>
          base.more w' = base.more (w\<lparr>sdb := d\<rparr>) \<and> (unambiguous E \<longrightarrow> r = Inr ())"
        using assms(1) evs b Inr s r1 d w1 sdb_update_more [OF w1]
        by (auto simp: PublishMarketStateChanged_def save_cursor_and_commit_def SaveCursorTransaction_def
            commitTransaction_def tx_exec_def external_def unambiguous_def Let_def
            split: outcome.splits prod.splits sum.splits)
      then show ?thesis using cur t1 rows by auto
    qed (use assms(1) evs b Inr s w1 in \<open>auto simp: PublishMarketStateChanged_def Let_def\<close>)
  qed (use assms(1) evs b w0 in \<open>auto simp: PublishMarketStateChanged_def Let_def\<close>)
qed

definition synced :: "'a spot_world_scheme \<Rightarrow> bool" where
  "synced w \<longleftrightarrow> seen w = db_cursor (sdb w)"

lemma seen_more: "base.more w' = base.more w \<Longrightarrow> seen w' = seen (w :: 'a spot_world_scheme)"
  by (cases w; cases w') (simp add: seen_def)

lemma seen_sdb_more:
  "base.more w' = base.more (w\<lparr>sdb := d\<rparr>) \<Longrightarrow> seen w' = seen w \<and> sdb w' = d"
  by (cases w; cases w') (simp add: seen_def)

lemma ListUpdatedSince_world: "ListUpdatedSince E w t i n = (r, w') \<Longrightarrow> w' = step w"
  by (auto simp: ListUpdatedSince_def spot_query_def external_def
      split: outcome.splits prod.splits sum.splits)

lemma ListUpdatedSince_Inr:
  "ListUpdatedSince E w t i n = (Inr ms, w') \<Longrightarrow>
     ms = take (nat n) (updates_after (sdb w) (pg_timestamp t, uint i)) \<and> 0 \<le> n"
  by (auto simp: ListUpdatedSince_def spot_query_def external_def sql_updated_since_Inr
      split: outcome.splits prod.splits sum.splits dest: sql_updated_since_Inr)

text \<open>
  The three ways a batch ends: nothing was written; the rows and the cursor were written but
  the answer was lost; they were written and the poller moved on.
\<close>

definition idle_batch ::
  "'a spot_world_scheme \<Rightarrow> go_error + uuid list \<times> bool \<Rightarrow> 'a spot_world_scheme \<Rightarrow> bool" where
  "idle_batch w r w' \<longleftrightarrow> sdb w' = sdb w \<and> seen w' = seen w \<and> (\<forall>ids. r \<noteq> Inr (ids, True))"

definition written_batch ::
  "'e env_scheme \<Rightarrow> market_codec \<Rightarrow> int \<Rightarrow> Market list \<Rightarrow> 'a spot_world_scheme \<Rightarrow>
   go_error + uuid list \<times> bool \<Rightarrow> 'a spot_world_scheme \<Rightarrow> bool" where
  "written_batch E C batchSize ms w r w' \<longleftrightarrow>
     market_store (sdb w') = market_store (sdb w) \<and> spot_ok (sdb w') \<and>
     db_cursor (sdb w') = market_pos (last ms) \<and>
     (\<exists>rows. spot_outbox_rows (sdb w') = spot_outbox_rows (sdb w) @ rows \<and> list_all2 (event_for E C) ms rows) \<and>
     (\<forall>ids hasMore. r = Inr (ids, hasMore) \<longrightarrow>
        seen w' = market_pos (last ms) \<and> hasMore = (int (length ms) = batchSize)) \<and>
     (\<forall>err. r = Inl err \<longrightarrow> seen w' = seen w \<and> \<not> unambiguous E)"

lemma idle_batchI: "base.more w' = base.more w \<Longrightarrow> idle_batch w (Inl err) w'"
  unfolding idle_batch_def using sdb_more seen_more by blast

lemma publish_batch:
  assumes "PublishMarketStateChanged E C w2 evs (buildNextPollerCursor ms) = (r3, w3)"
    and "base.more w2 = base.more w" and "list_all2 describes ms evs" and "ms \<noteq> []"
    and "spot_ok (sdb w)" and aligned: "pg_timestamp (Market_UpdatedAt (last ms)) = Market_UpdatedAt (last ms)"
  shows "base.more w3 = base.more w \<and> (\<exists>err. r3 = Inl err) \<or>
    (\<exists>d rows. base.more w3 = base.more (w\<lparr>sdb := d\<rparr>) \<and> market_store d = market_store (sdb w) \<and>
       spot_ok d \<and> db_cursor d = market_pos (last ms) \<and>
       spot_outbox_rows d = spot_outbox_rows (sdb w) @ rows \<and> list_all2 (event_for E C) ms rows \<and>
       (unambiguous E \<longrightarrow> r3 = Inr ()))"
proof -
  let ?c = "buildNextPollerCursor ms"
  have pos: "(pg_timestamp (Cursor_LastSeenAt ?c), uint (Cursor_LastSeenID ?c)) = market_pos (last ms)"
    using aligned by (simp add: buildNextPollerCursor_def market_pos_def)
  have name: "Cursor_PollerName ?c = marketStateChangedPollerName" by (simp add: buildNextPollerCursor_def)
  have sdb2: "sdb w2 = sdb w" using assms(2) by (rule sdb_more)
  have upd: "base.more (w2\<lparr>sdb := d\<rparr>) = base.more (w\<lparr>sdb := d\<rparr>)" for d
    using assms(2) by (cases w; cases w2) simp
  show ?thesis
    using Publish_world [OF assms(1,3,4) _ name] assms(5)
    unfolding sdb2 pos upd assms(2) by blast
qed

lemma processMarkets_cases:
  assumes run: "processMarkets E C p w ms = (r, w')" and some: "ms \<noteq> []" and ok: "spot_ok (sdb w)"
    and aligned: "pg_timestamp (Market_UpdatedAt (last ms)) = Market_UpdatedAt (last ms)"
  shows "idle_batch w r w' \<and> (\<exists>err. r = Inl err) \<or> written_batch E C (mp_batchSize p) ms w r w'"
proof -
  obtain r2 w2 where b: "buildMarketStateChangedEvents E w ms = (r2, w2)" by fastforce
  have w2: "base.more w2 = base.more w" using buildMarketStateChangedEvents_more [of E w ms] b by simp
  show ?thesis
  proof (cases r2)
    case (Inl e)
    with run some b w2 show ?thesis by (auto simp: processMarkets_def intro!: idle_batchI)
  next
    case (Inr evs)
    let ?c = "buildNextPollerCursor ms"
    obtain r3 w3 where pub: "PublishMarketStateChanged E C w2 evs ?c = (r3, w3)" by fastforce
    have rw: "r = (case r3 of Inl err \<Rightarrow> Inl err
          | Inr _ \<Rightarrow> Inr (map Market_ID ms, int (length ms) = mp_batchSize p))"
      "w' = (case r3 of Inl err \<Rightarrow> w3 | Inr _ \<Rightarrow> w3\<lparr>lastSeenAt := Cursor_LastSeenAt ?c,
          lastSeenID := Cursor_LastSeenID ?c\<rparr>)"
      using run some b Inr pub by (auto simp: processMarkets_def Let_def split: sum.splits)
    have seen: "seen (w3\<lparr>lastSeenAt := Cursor_LastSeenAt ?c, lastSeenID := Cursor_LastSeenID ?c\<rparr>) =
        market_pos (last ms)"
      using aligned by (simp add: seen_def buildNextPollerCursor_def market_pos_def)
    have evs: "list_all2 describes ms evs"
      using buildMarketStateChangedEvents_describes b Inr by blast
    show ?thesis
      using publish_batch [OF pub w2 evs some ok aligned]
    proof (elim disjE conjE exE)
      fix err assume "base.more w3 = base.more w" "r3 = Inl err"
      then show ?thesis using rw by (auto intro!: idle_batchI)
    next
      fix d rows assume d: "base.more w3 = base.more (w\<lparr>sdb := d\<rparr>)" "market_store d = market_store (sdb w)"
        "spot_ok d" "db_cursor d = market_pos (last ms)"
        "spot_outbox_rows d = spot_outbox_rows (sdb w) @ rows" "list_all2 (event_for E C) ms rows"
        "unambiguous E \<longrightarrow> r3 = Inr ()"
      have "sdb w' = d" "seen w3 = seen w" using seen_sdb_more [OF d(1)] rw by (auto split: sum.split)
      then show ?thesis using d some rw seen by (auto simp: written_batch_def split: sum.splits)
    qed
  qed
qed

lemma batch_cases:
  fixes w :: "'a spot_world_scheme"
  assumes run: "processNextBatch E C p w = (r, w')" and ok: "spot_ok (sdb w)"
  defines "ms \<equiv> take (nat (mp_batchSize p)) (updates_after (sdb w) (seen w))"
  shows "idle_batch w r w' \<and> (ms = [] \<or> (\<exists>err. r = Inl err)) \<or>
    ms \<noteq> [] \<and> written_batch E C (mp_batchSize p) ms w r w'"
proof -
  obtain r1 w1 where q: "ListUpdatedSince E w (lastSeenAt w) (lastSeenID w) (mp_batchSize p) = (r1, w1)"
    by fastforce
  have w1: "w1 = step w" using ListUpdatedSince_world [OF q] .
  then have same: "sdb w1 = sdb w" "seen w1 = seen w" by (simp_all add: seen_def step_def)
  consider (lost) e where "r1 = Inl e" | (none) "r1 = Inr ms" "ms = []" | (some) "r1 = Inr ms" "ms \<noteq> []"
    using ListUpdatedSince_Inr [of E w "lastSeenAt w" "lastSeenID w" "mp_batchSize p"] q
    by (cases r1) (auto simp: seen_def ms_def)
  then show ?thesis
  proof cases
    case some
    then have run1: "processMarkets E C p w1 ms = (r, w')" using run q by (simp add: processNextBatch_def)
    have "last ms \<in> set (updates_after (sdb w) (seen w))"
      using some(2) last_in_set in_set_takeD unfolding ms_def by metis
    then have "pg_timestamp (Market_UpdatedAt (last ms)) = Market_UpdatedAt (last ms)"
      using ok by (auto simp: updates_after_def spot_ok_def list_all_iff)
    from processMarkets_cases [OF run1 some(2) _ this] ok same some(2) show ?thesis
      by (auto simp: idle_batch_def written_batch_def)
  qed (use run q same in \<open>auto simp: processNextBatch_def processMarkets_def idle_batch_def\<close>)
qed

lemma written_moved:
  assumes "spot_ok (sdb w)" and "synced w" and "ms \<noteq> []"
    and "ms = take n (updates_after (sdb w) (seen w))" and "written_batch E C size' ms w r w'"
  shows "moved E C (sdb w) (sdb w')"
proof -
  have "ms = updates_between (sdb w) (db_cursor (sdb w)) (market_pos (last ms)) \<and>
      db_cursor (sdb w) < market_pos (last ms)"
    using batch_is_between [OF assms(1,4,3)] assms(2) by (simp add: synced_def)
  with assms(5) show ?thesis by (auto simp: moved_def written_batch_def)
qed

lemma synced_step [simp]: "synced (step w) = synced w" "seen (step w) = seen w"
  by (simp_all add: synced_def seen_def step_def)

lemma batch_moved:
  assumes "processNextBatch E C p w = (r, w')" and "spot_ok (sdb w)" and "synced w"
  shows "moved E C (sdb w) (sdb w') \<and> (\<forall>x. r = Inr x \<longrightarrow> synced w')"
  using batch_cases [OF assms(1,2)]
proof (elim disjE conjE, goal_cases)
  case 3
  then show ?case
    using written_moved [OF assms(2,3) 3(1) refl 3(2)] 3(2)
    by (auto simp: synced_def written_batch_def simp del: take_eq_Nil)
qed (use assms(3) in \<open>auto simp: idle_batch_def synced_def\<close>)

lemma poll_loop_moved:
  assumes "poll_loop E C p n ids w = (r, ids', w')" and "spot_ok (sdb w)" and "synced w"
  shows "moved E C (sdb w) (sdb w') \<and> ((\<forall>err. r \<noteq> Some (Inl err)) \<longrightarrow> synced w')"
  using assms
proof (induction E C p n ids w arbitrary: r w' rule: poll_loop.induct)
  case (2 E C p n ids w)
  obtain b w1 where batch: "processNextBatch E C p (step w) = (b, w1)" by fastforce
  have m: "moved E C (sdb w) (sdb w1)" "\<And>x. b = Inr x \<Longrightarrow> synced w1"
    using batch_moved [OF batch] "2.prems"(2,3) by simp_all
  have ok: "spot_ok (sdb w1)" using m(1) "2.prems"(2) by (simp add: moved_def)
  show ?case
  proof (cases "env_ctx E (tick w)")
    case None
    show ?thesis
    proof (cases b)
      case (Inr x)
      obtain bids hm where x: "x = (bids, hm)" by fastforce
      show ?thesis
      proof (cases hm)
        case True
        have "moved E C (sdb w1) (sdb w') \<and> ((\<forall>err. r \<noteq> Some (Inl err)) \<longrightarrow> synced w')"
          using "2.IH" [OF None batch [symmetric] Inr x [symmetric] _ _ ok m(2) [OF Inr], of r w'] "2.prems"(1) True
          by (simp add: None batch Inr x)
        then show ?thesis using moved_trans [OF "2.prems"(2) m(1)] by blast
      qed (use "2.prems"(1) None batch Inr x m in auto)
    qed (use "2.prems"(1) None batch m in auto)
  qed (use "2.prems" in auto)
qed simp

lemma GetMarketsPage_more: "base.more (snd (GetMarketsPage E w role l ofs)) = base.more w"
  using GetMarketsPage_step [of E w role l ofs] by auto

lemma SetMarkets_more: "base.more w = m \<Longrightarrow> base.more (snd (SetMarkets E w ms role ttl)) = m"
  unfolding SetMarkets_def Let_def by (intro more_intros; simp)

lemma DeleteMarkets_more: "base.more w = m \<Longrightarrow> base.more (snd (DeleteMarkets E w role)) = m"
  unfolding DeleteMarkets_def by (intro more_intros; simp)

lemma DeleteMarketByID_more: "base.more w = m \<Longrightarrow> base.more (snd (DeleteMarketByID E w i)) = m"
  unfolding DeleteMarketByID_def by (intro more_intros; simp)

lemma delete_heads_more: "base.more w = m \<Longrightarrow> base.more (snd (delete_heads E w roles)) = m"
proof (induction roles arbitrary: w)
  case (Cons role roles)
  show ?case
    unfolding delete_heads.simps by (intro more_intros DeleteMarkets_more Cons.IH Cons.prems)
qed simp

lemma RefreshAll_more: "base.more w = m \<Longrightarrow> base.more (snd (RefreshAll E s w)) = m"
proof -
  have "base.more w = m \<Longrightarrow> base.more (snd (refresh_heads E s w roles)) = m" for roles
  proof (induction roles arbitrary: w)
    case (Cons role roles)
    then show ?case
      unfolding refresh_heads.simps invalidateMarketsCache_def
      by (intro more_intros SetMarkets_more delete_heads_more) (simp_all add: GetMarketsPage_more)
  qed simp
  then show "base.more w = m \<Longrightarrow> ?thesis" by (simp add: RefreshAll_def)
qed

lemma InvalidateByIDs_more: "base.more (snd (InvalidateByIDs E w is)) = base.more w"
proof -
  have "base.more (snd (invalidate_ids E w is seen errs)) = base.more w" for seen errs
  proof (induction E w "is" seen errs rule: invalidate_ids.induct)
    case (2 E w i "is" seen errs)
    show ?case
      using 2 DeleteMarketByID_more [of w "base.more w" E i]
      by (auto split: prod.split sum.split)
  qed simp
  then show ?thesis by (auto simp: InvalidateByIDs_def split: prod.split) (metis snd_conv)
qed

lemma refreshCache_more: "base.more (refreshCache E p w ids) = base.more w"
  by (auto simp: refreshCache_def RefreshAll_more InvalidateByIDs_more split: option.split)

lemma poll_moved:
  assumes "poll E C p rounds w = (r, w')" and "spot_ok (sdb w)" and "synced w"
  shows "moved E C (sdb w) (sdb w') \<and> ((\<forall>err. r \<noteq> Some (Inl err)) \<longrightarrow> synced w')"
proof -
  obtain r1 ids w1 where loop: "poll_loop E C p rounds [] w = (r1, ids, w1)" by (metis prod_cases3)
  then have w': "base.more w' = base.more w1" "r = r1"
    using assms(1) by (auto simp: poll_def refreshCache_more split: option.splits)
  have "sdb w' = sdb w1" "seen w' = seen w1" using w'(1) by (simp_all add: sdb_more [of w'] seen_more [of w'])
  then show ?thesis
    using poll_loop_moved [OF loop assms(2,3)] w'(2) by (simp add: synced_def)
qed

lemma stop_poller_sdb [simp]: "sdb (snd (stop_poller E what err w)) = sdb w"
  by (simp add: stop_poller_def)

lemma poller_loop_moved:
  assumes "spot_ok (sdb w)" and "synced w"
  shows "moved E C (sdb w) (sdb (snd (poller_loop E C p rounds w turns)))"
  using assms
proof (induction E C p rounds w turns rule: poller_loop.induct)
  case (3 E C p rounds w turns)
  obtain r w1 where poll: "poll E C p rounds w = (r, w1)" by fastforce
  have m: "moved E C (sdb w) (sdb w1)" "(\<forall>err. r \<noteq> Some (Inl err)) \<longrightarrow> synced w1"
    using poll_moved [OF poll "3.prems"] by simp_all
  have ok: "spot_ok (sdb w1)" using m(1) "3.prems"(1) by (simp add: moved_def)
  show ?case
  proof (cases "r = Some (Inr ())")
    case True
    then have "moved E C (sdb w1) (sdb (snd (poller_loop E C p rounds w1 turns)))"
      using "3.IH" poll ok m(2) by simp
    then show ?thesis using True poll moved_trans [OF "3.prems"(1) m(1)] by simp
  qed (use poll m(1) in \<open>auto split: option.split sum.split\<close>)
qed simp_all

lemma poller_Init_synced:
  assumes "poller_Init E hasCtx w = (Inr (), w')" and "spot_ok (sdb w)"
  shows "sdb w' = sdb w \<and> synced w'"
proof -
  have zero: "pg_timestamp zero_time = zero_time" by (simp add: pg_timestamp_def zero_time_def)
  have al: "pg_timestamp (Cursor_LastSeenAt c) = Cursor_LastSeenAt c" if "c \<in> set (cursors (sdb w))" for c
    using assms(2) that by (auto simp: spot_ok_def list_all_iff)
  let ?cs = "filter (\<lambda>c. Cursor_PollerName c = marketStateChangedPollerName) (cursors (sdb w))"
  have "w' = (step w)\<lparr>lastSeenAt := zero_time, lastSeenID := nil_uuid\<rparr> \<and> ?cs = [] \<or>
      (\<exists>c cs. ?cs = c # cs \<and>
         w' = (step w)\<lparr>lastSeenAt := Cursor_LastSeenAt c, lastSeenID := Cursor_LastSeenID c\<rparr>)"
    using assms(1)
    by (auto simp: poller_Init_def loadCursor_def cursor_Get_def spot_query_def external_def QueryRow_def
        split: if_splits outcome.splits list.splits prod.splits sum.splits)
  then show ?thesis
  proof (elim disjE conjE exE)
    fix c cs assume c: "?cs = c # cs" and w': "w' = (step w)\<lparr>lastSeenAt := Cursor_LastSeenAt c, lastSeenID := Cursor_LastSeenID c\<rparr>"
    have "c \<in> set ?cs" using c by (simp only: list.set_intros)
    then have "c \<in> set (cursors (sdb w))" by simp
    then show ?thesis using al [of c] c w' by (simp add: synced_def seen_def db_cursor_def)
  qed (simp add: synced_def seen_def db_cursor_def zero)
qed

lemma run_moved:
  assumes "spot_ok (sdb w)" and "poller_Init E hasCtx w = (Inr (), w1)"
    and "poller_Run E C p rounds hasCtx' w1 turns = (r, w')"
  shows "moved E C (sdb w) (sdb w')"
proof -
  have w1: "sdb w1 = sdb w" "synced w1" using poller_Init_synced [OF assms(2,1)] by simp_all
  have "moved E C (sdb w1) (sdb (snd (poller_loop E C p rounds w1 (PollerTick # turns))))"
    using w1 assms(1) by (intro poller_loop_moved) simp_all
  moreover have "sdb w' = sdb (snd (poller_loop E C p rounds w1 (PollerTick # turns))) \<or> sdb w' = sdb w1"
    using assms(3)
    by (auto simp: poller_Run_def stop_poller_def split: if_splits prod.splits option.splits sum.splits)
  ultimately show ?thesis using w1(1) by auto
qed

section \<open>The life of the poller\<close>

text \<open>
  The poller lives as long as the service: its runs are started again after an error, with the
  cursor it has in memory, and the market table changes meanwhile. Its life is therefore a sequence
  of batches and of changes by others: the administrators who update markets, the outbox worker,
  and a new start of the service, which loads the cursor again. Others may also change the tables
  within a batch, between its query and its transaction. The result is, for each batch, the market
  table at its query and the rows it has added to the outbox.
\<close>

datatype 'w feed_op = Others "'w \<Rightarrow> 'w" | Batch "'w \<Rightarrow> 'w"

definition interruptedBatch ::
  "'e env_scheme \<Rightarrow> market_codec \<Rightarrow> MarketPoller \<Rightarrow> ('a spot_world_scheme \<Rightarrow> 'a spot_world_scheme) \<Rightarrow>
   'a spot_world_scheme \<Rightarrow> (go_error + uuid list \<times> bool) \<times> 'a spot_world_scheme" where
  "interruptedBatch E C p g w =
     (case ListUpdatedSince E w (lastSeenAt w) (lastSeenID w) (mp_batchSize p) of
        (Inl err, w1) \<Rightarrow> (Inl err, g w1)
      | (Inr markets, w1) \<Rightarrow> processMarkets E C p (g w1) markets)"

lemma interruptedBatch_id: "interruptedBatch E C p (\<lambda>v. v) = processNextBatch E C p"
  by (rule ext) (simp add: interruptedBatch_def processNextBatch_def)

fun feed_run ::
  "'e env_scheme \<Rightarrow> market_codec \<Rightarrow> MarketPoller \<Rightarrow> 'a spot_world_scheme feed_op list \<Rightarrow>
   'a spot_world_scheme \<Rightarrow> (Market list \<times> OutboxEvent list) list \<times> 'a spot_world_scheme" where
  "feed_run E C p [] w = ([], w)"
| "feed_run E C p (Others f # ops) w = feed_run E C p ops (f w)"
| "feed_run E C p (Batch g # ops) w =
     (let w1 = snd (interruptedBatch E C p g w);
          written = drop (length (spot_outbox_rows (sdb (g (step w))))) (spot_outbox_rows (sdb w1))
      in case feed_run E C p ops w1 of
           (trace, w2) \<Rightarrow> ((market_store (sdb w), written) # trace, w2))"

text \<open>
  What the poller relies on: a market that others have changed gets a time of update that lies
  after every position that has been read or saved so far; nobody else moves the cursor.
\<close>

definition read_upto :: "'e env_scheme \<Rightarrow> MarketPoller \<Rightarrow> 'a spot_world_scheme \<Rightarrow> position" where
  "read_upto E p w =
     (case fst (ListUpdatedSince E w (lastSeenAt w) (lastSeenID w) (mp_batchSize p)) of
        Inl _ \<Rightarrow> db_cursor (sdb w)
      | Inr ms \<Rightarrow> if ms = [] then db_cursor (sdb w) else max (db_cursor (sdb w)) (market_pos (last ms)))"

definition changes_later :: "position \<Rightarrow> 'a spot_world_scheme \<Rightarrow> 'a spot_world_scheme \<Rightarrow> bool" where
  "changes_later b w w' \<longleftrightarrow> (spot_ok (sdb w) \<longrightarrow> spot_ok (sdb w')) \<and>
     db_cursor (sdb w') = db_cursor (sdb w) \<and> seen w' \<in> {seen w, db_cursor (sdb w)} \<and>
     (\<forall>m \<in> set (market_store (sdb w')). m \<in> set (market_store (sdb w)) \<or> b < market_pos m)"

fun feed_fair ::
  "'e env_scheme \<Rightarrow> market_codec \<Rightarrow> MarketPoller \<Rightarrow> 'a spot_world_scheme feed_op list \<Rightarrow>
   'a spot_world_scheme \<Rightarrow> bool" where
  "feed_fair E C p [] w = True"
| "feed_fair E C p (Others f # ops) w =
     (changes_later (db_cursor (sdb w)) w (f w) \<and> feed_fair E C p ops (f w))"
| "feed_fair E C p (Batch g # ops) w =
     (changes_later (read_upto E p w) (step w) (g (step w)) \<and> seen (g (step w)) = seen w \<and>
      feed_fair E C p ops (snd (interruptedBatch E C p g w)))"

text \<open>One batch of such a life.\<close>

lemma read_markets:
  assumes "ListUpdatedSince E w (lastSeenAt w) (lastSeenID w) n = (Inr ms, w1)" and "ms \<noteq> []" and "spot_ok (sdb w)"
  shows "ms = updates_between (sdb w) (seen w) (market_pos (last ms)) \<and> seen w < market_pos (last ms) \<and>
    pg_timestamp (Market_UpdatedAt (last ms)) = Market_UpdatedAt (last ms)"
proof -
  have ms: "ms = take (nat n) (updates_after (sdb w) (seen w))"
    using ListUpdatedSince_Inr [OF assms(1)] by (simp add: seen_def)
  then have "last ms \<in> set (updates_after (sdb w) (seen w))"
    using last_in_set [OF assms(2)] in_set_takeD by metis
  then have "pg_timestamp (Market_UpdatedAt (last ms)) = Market_UpdatedAt (last ms)"
    using assms(3) by (auto simp: updates_after_def spot_ok_def list_all_iff)
  with batch_is_between [OF assms(3) ms assms(2)] show ?thesis by blast
qed

lemma interrupted_cases:
  fixes w :: "'a spot_world_scheme"
  assumes run: "interruptedBatch E C p g w = (r, w')" and ok: "spot_ok (sdb w)"
    and later: "changes_later (read_upto E p w) (step w) (g (step w))"
  defines "v \<equiv> g (step w)"
  shows "idle_batch v r w' \<or>
    (\<exists>ms. ms \<noteq> [] \<and> written_batch E C (mp_batchSize p) ms v r w' \<and> market_pos (last ms) \<le> read_upto E p w \<and>
       ms = updates_between (sdb w) (seen w) (market_pos (last ms)) \<and> seen w < market_pos (last ms))"
proof -
  obtain r1 w1 where q: "ListUpdatedSince E w (lastSeenAt w) (lastSeenID w) (mp_batchSize p) = (r1, w1)"
    by fastforce
  have w1: "w1 = step w" using ListUpdatedSince_world [OF q] .
  have okv: "spot_ok (sdb v)" using later ok by (simp add: changes_later_def v_def)
  show ?thesis
  proof (cases "\<exists>ms. r1 = Inr ms \<and> ms \<noteq> []")
    case True
    then obtain ms where r1: "r1 = Inr ms" and some: "ms \<noteq> []" by blast
    note rd = read_markets [OF q [unfolded r1] some ok]
    have "processMarkets E C p v ms = (r, w')" using run q w1 r1 by (simp add: interruptedBatch_def v_def)
    from processMarkets_cases [OF this some okv] rd
    have "idle_batch v r w' \<or> written_batch E C (mp_batchSize p) ms v r w'" by blast
    moreover have "market_pos (last ms) \<le> read_upto E p w" using some by (simp add: read_upto_def q r1)
    ultimately show ?thesis using rd some by blast
  next
    case False
    with run q w1 show ?thesis
      by (cases r1) (auto simp: interruptedBatch_def processMarkets_def idle_batch_def v_def)
  qed
qed

text \<open>The invariant of the poller's life, for the markets whose events have been written.\<close>

definition feed_inv :: "'e env_scheme \<Rightarrow> position \<Rightarrow> 'a spot_world_scheme \<Rightarrow> Market list \<Rightarrow> bool" where
  "feed_inv E start w ms \<longleftrightarrow> spot_ok (sdb w) \<and> start \<le> seen w \<and> seen w \<le> db_cursor (sdb w) \<and>
     (\<forall>m \<in> set ms. start < market_pos m) \<and>
     (\<forall>m \<in> set (market_store (sdb w)). start < market_pos m \<and> market_pos m \<le> db_cursor (sdb w) \<longrightarrow> m \<in> set ms) \<and>
     (unambiguous E \<longrightarrow> seen w = db_cursor (sdb w) \<and> sorted_wrt (\<lambda>m m'. market_pos m < market_pos m') ms \<and>
        (\<forall>m \<in> set ms. market_pos m \<le> db_cursor (sdb w)))"

lemma feed_inv_later:
  assumes "feed_inv E start w ms" and "changes_later b w w'" and "db_cursor (sdb w) \<le> b"
  shows "feed_inv E start w' ms"
proof -
  let ?c = "db_cursor (sdb w)"
  have inv: "spot_ok (sdb w)" "start \<le> seen w" "seen w \<le> ?c" "\<forall>m \<in> set ms. start < market_pos m"
    "\<forall>m \<in> set (market_store (sdb w)). start < market_pos m \<and> market_pos m \<le> ?c \<longrightarrow> m \<in> set ms"
    and unamb: "unambiguous E \<longrightarrow> seen w = ?c \<and> sorted_wrt (\<lambda>m m'. market_pos m < market_pos m') ms \<and>
      (\<forall>m \<in> set ms. market_pos m \<le> ?c)"
    using assms(1) unfolding feed_inv_def by blast+
  have new: "spot_ok (sdb w')" "db_cursor (sdb w') = ?c" "seen w' = seen w \<or> seen w' = ?c"
    "\<forall>m \<in> set (market_store (sdb w')). m \<in> set (market_store (sdb w)) \<or> b < market_pos m"
    using assms(2) inv(1) unfolding changes_later_def by blast+
  have "m \<in> set ms" if "m \<in> set (market_store (sdb w'))" "start < market_pos m" "market_pos m \<le> ?c" for m
  proof -
    have "\<not> b < market_pos m" using that(3) assms(3) by (simp add: not_less)
    with new(4) that inv(5) show ?thesis by blast
  qed
  then show ?thesis using inv(2-4) unamb new(1-3) unfolding feed_inv_def by auto
qed

lemma read_upto_ge: "db_cursor (sdb w) \<le> read_upto E p w"
  by (auto simp: read_upto_def split: sum.split)

lemma feed_inv_step: "feed_inv E start (step w) ms = feed_inv E start w ms"
  by (simp add: feed_inv_def)

lemma idle_inv:
  assumes "feed_inv E start w ms" and "idle_batch w r w'"
  shows "feed_inv E start w' ms"
  using assms unfolding feed_inv_def idle_batch_def by metis

lemma updates_between_iff:
  "m \<in> set (updates_between d a b) \<longleftrightarrow> m \<in> set (market_store d) \<and> a < market_pos m \<and> market_pos m \<le> b"
  by (auto simp: updates_between_def)

lemma written_inv:
  assumes inv: "feed_inv E start w acc" and later: "changes_later b w v" and same: "seen v = seen w"
    and "market_pos (last ms) \<le> b" and ms: "ms = updates_between (sdb w) (seen w) (market_pos (last ms))"
    and "seen w < market_pos (last ms)" and wr: "written_batch E C n ms v r w'"
  shows "feed_inv E start w' (acc @ ms)"
proof -
  let ?p = "market_pos (last ms)" and ?c = "db_cursor (sdb w)"
  have in_ms: "m \<in> set ms \<longleftrightarrow> m \<in> set (market_store (sdb w)) \<and> seen w < market_pos m \<and> market_pos m \<le> ?p" for m
    using arg_cong [OF ms, of "\<lambda>ms. m \<in> set ms"] updates_between_iff by blast
  have start: "start \<le> seen w" "seen w \<le> ?c"
    and acc: "\<forall>m \<in> set acc. start < market_pos m"
      "\<forall>m \<in> set (market_store (sdb w)). start < market_pos m \<and> market_pos m \<le> ?c \<longrightarrow> m \<in> set acc"
    and unamb: "unambiguous E \<longrightarrow> seen w = ?c \<and> sorted_wrt (\<lambda>m m'. market_pos m < market_pos m') acc \<and>
      (\<forall>m \<in> set acc. market_pos m \<le> ?c)" and ok: "spot_ok (sdb w)"
    using inv unfolding feed_inv_def by blast+
  have v: "\<forall>m \<in> set (market_store (sdb v)). m \<in> set (market_store (sdb w)) \<or> b < market_pos m"
    using later unfolding changes_later_def by blast+
  have w': "market_store (sdb w') = market_store (sdb v)" "spot_ok (sdb w')" "db_cursor (sdb w') = ?p"
    "(\<forall>x. r = Inr x \<longrightarrow> seen w' = ?p)" "\<forall>err. r = Inl err \<longrightarrow> seen w' = seen v \<and> \<not> unambiguous E"
    using wr unfolding written_batch_def by auto
  have pos: "start < market_pos m" if "m \<in> set (acc @ ms)" for m
    using that acc(1) in_ms start(1) by auto
  have covered: "m \<in> set (acc @ ms)"
    if "m \<in> set (market_store (sdb w'))" "start < market_pos m" "market_pos m \<le> ?p" for m
  proof -
    have "\<not> b < market_pos m" using that(3) assms(4) by (simp add: not_less)
    then have "m \<in> set (market_store (sdb w))" using that(1) v w'(1) by auto
    then show ?thesis using that(2,3) acc(2) in_ms start(2) by (cases "seen w < market_pos m") auto
  qed
  have "seen w' = ?p \<or> seen w' = seen w \<and> \<not> unambiguous E"
    using w'(4,5) same by (cases r) auto
  then have seen: "start \<le> seen w'" "seen w' \<le> ?p" "unambiguous E \<longrightarrow> seen w' = ?p"
    using start assms(6) by auto
  have "sorted_wrt (\<lambda>m m'. market_pos m < market_pos m') ms"
    by (subst ms, unfold updates_between_def) (intro sorted_wrt_filter updates_sorted ok)
  then have "sorted_wrt (\<lambda>m m'. market_pos m < market_pos m') (acc @ ms) \<and> (\<forall>m \<in> set (acc @ ms). market_pos m \<le> ?p)"
    if "unambiguous E"
  proof -
    have "seen w = ?c" "sorted_wrt (\<lambda>m m'. market_pos m < market_pos m') acc" "\<forall>m \<in> set acc. market_pos m \<le> ?c"
      using unamb that by blast+
    then show ?thesis
      using \<open>sorted_wrt _ ms\<close> in_ms assms(6) by (fastforce simp: sorted_wrt_append)
  qed
  then show ?thesis using pos covered seen w'(2,3) unfolding feed_inv_def by auto
qed

text \<open>What the rows of one batch are: one event for each market it has read, in their order.\<close>

definition batch_events ::
  "'e env_scheme \<Rightarrow> market_codec \<Rightarrow> Market list \<times> OutboxEvent list \<Rightarrow> Market list \<Rightarrow> bool" where
  "batch_events E C entry ms \<longleftrightarrow> set ms \<subseteq> set (fst entry) \<and> list_all2 (event_for E C) ms (snd entry)"

lemma feed_batch:
  fixes w :: "'a spot_world_scheme"
  assumes inv: "feed_inv E start w acc" and later: "changes_later (read_upto E p w) (step w) (g (step w))"
    and same: "seen (g (step w)) = seen w" and run: "interruptedBatch E C p g w = (r, w')"
  shows "\<exists>ms. feed_inv E start w' (acc @ ms) \<and> batch_events E C
    (market_store (sdb w), drop (length (spot_outbox_rows (sdb (g (step w))))) (spot_outbox_rows (sdb w'))) ms"
proof -
  let ?v = "g (step w)"
  have ok: "spot_ok (sdb w)" using inv by (simp add: feed_inv_def)
  have later': "changes_later (read_upto E p w) w ?v" using later by (simp add: changes_later_def)
  show ?thesis
    using interrupted_cases [OF run ok later]
  proof (elim disjE exE conjE)
    assume idle: "idle_batch ?v r w'"
    then have "feed_inv E start w' (acc @ [])"
      using idle_inv [OF feed_inv_later [OF inv later' read_upto_ge] idle] by simp
    moreover have "sdb w' = sdb ?v" using idle by (simp add: idle_batch_def)
    ultimately show ?thesis by (intro exI [of _ "[]"]) (simp add: batch_events_def)
  next
    fix ms assume wr: "written_batch E C (mp_batchSize p) ms ?v r w'"
      and le: "market_pos (last ms) \<le> read_upto E p w" and gt: "seen w < market_pos (last ms)"
      and ms: "ms = updates_between (sdb w) (seen w) (market_pos (last ms))"
    have "m \<in> set (market_store (sdb w))" if "m \<in> set ms" for m
      using that arg_cong [OF ms, of "\<lambda>ms. m \<in> set ms"] updates_between_iff by blast
    then have "set ms \<subseteq> set (market_store (sdb w))" by blast
    moreover have "list_all2 (event_for E C) ms (drop (length (spot_outbox_rows (sdb ?v))) (spot_outbox_rows (sdb w')))"
      using wr by (auto simp: written_batch_def)
    ultimately show ?thesis
      using written_inv [OF inv later' same le ms gt wr] by (auto simp: batch_events_def)
  qed
qed

lemma feed_run_inv:
  assumes "feed_inv E start w acc" and "feed_fair E C p ops w" and "feed_run E C p ops w = (trace, w')"
  shows "\<exists>mss. list_all2 (batch_events E C) trace mss \<and> feed_inv E start w' (acc @ concat mss)"
  using assms
proof (induction ops arbitrary: w acc trace)
  case (Cons x ops)
  show ?case
  proof (cases x)
    case (Others f)
    with Cons.prems have "feed_inv E start (f w) acc"
      using feed_inv_later [of E start w acc "db_cursor (sdb w)" "f w"] by simp
    with Cons Others show ?thesis by simp
  next
    case (Batch g)
    obtain r w1 where run: "interruptedBatch E C p g w = (r, w1)" by fastforce
    let ?new = "drop (length (spot_outbox_rows (sdb (g (step w))))) (spot_outbox_rows (sdb w1))"
    obtain tr where rest: "feed_run E C p ops w1 = (tr, w')" and trace: "trace = (market_store (sdb w), ?new) # tr"
      using Cons.prems(3) Batch run by (auto simp: Let_def split: prod.splits)
    obtain ms where ms: "feed_inv E start w1 (acc @ ms)" "batch_events E C (market_store (sdb w), ?new) ms"
      using feed_batch [OF Cons.prems(1) _ _ run] Cons.prems(2) Batch by auto
    have "feed_fair E C p ops w1" using Cons.prems(2) Batch run by simp
    from Cons.IH [OF ms(1) this rest] obtain mss where
      "list_all2 (batch_events E C) tr mss" "feed_inv E start w' ((acc @ ms) @ concat mss)" by blast
    with ms(2) trace show ?thesis by (intro exI [of _ "ms # mss"]) simp
  qed
qed auto

text \<open>Runs of the poller, and a start of the service, are such lives.\<close>

definition lives ::
  "'e env_scheme \<Rightarrow> market_codec \<Rightarrow> MarketPoller \<Rightarrow> 'a spot_world_scheme \<Rightarrow> 'a spot_world_scheme \<Rightarrow> bool" where
  "lives E C p w w' \<longleftrightarrow> (\<exists>ops. feed_fair E C p ops w \<and> snd (feed_run E C p ops w) = w')"

lemma feed_append:
  "feed_fair E C p (ops @ ops') w \<longleftrightarrow>
     feed_fair E C p ops w \<and> feed_fair E C p ops' (snd (feed_run E C p ops w))"
  "snd (feed_run E C p (ops @ ops') w) = snd (feed_run E C p ops' (snd (feed_run E C p ops w)))"
  by (induction E C p ops w rule: feed_run.induct) (auto simp: Let_def split: prod.split)

lemma lives_trans: "lives E C p w w1 \<Longrightarrow> lives E C p w1 w2 \<Longrightarrow> lives E C p w w2"
  unfolding lives_def using feed_append by metis

lemma lives_others: "changes_later (db_cursor (sdb w)) w w' \<Longrightarrow> lives E C p w w'"
  unfolding lives_def by (rule exI [of _ "[Others (\<lambda>_. w')]"]) simp

lemma lives_more:
  fixes w :: "'a spot_world_scheme"
  assumes "base.more w' = base.more w" shows "lives E C p w w'"
  by (rule lives_others) (simp add: changes_later_def sdb_more [OF assms] seen_more [OF assms])

lemma lives_batch: "lives E C p w (snd (processNextBatch E C p w))"
  unfolding lives_def interruptedBatch_id [symmetric]
  by (rule exI [of _ "[Batch (\<lambda>v. v)]"])
    (auto simp: changes_later_def Let_def split: prod.split)

lemma poll_loop_lives: "lives E C p w (snd (snd (poll_loop E C p n ids w)))"
proof (induction E C p n ids w rule: poll_loop.induct)
  case (1 E C p ids w)
  show ?case by (simp add: lives_more)
next
  case (2 E C p n ids w)
  have step: "lives E C p w (step w)" by (rule lives_more) simp
  obtain b w1 where batch: "processNextBatch E C p (step w) = (b, w1)" by fastforce
  have w1: "lives E C p w w1" using lives_trans [OF step lives_batch] batch by (metis snd_conv)
  show ?case
    using step w1 lives_trans [OF w1] "2.IH" [OF _ batch [symmetric]] batch
    by (auto split: option.split sum.split)
qed

lemma poll_lives: "lives E C p w (snd (poll E C p rounds w))"
proof -
  obtain r ids w1 where loop: "poll_loop E C p rounds [] w = (r, ids, w1)" by (metis prod_cases3)
  then have w1: "lives E C p w w1" using poll_loop_lives by (metis snd_conv)
  have "lives E C p w1 (refreshCache E p w1 ids)" by (rule lives_more) (rule refreshCache_more)
  with w1 loop show ?thesis by (auto simp: poll_def intro: lives_trans split: option.split)
qed

lemma stop_poller_lives: "lives E C p w (snd (stop_poller E what err w))"
  by (rule lives_more) (simp add: stop_poller_def)

lemma poller_loop_lives: "lives E C p w (snd (poller_loop E C p rounds w turns))"
proof (induction E C p rounds w turns rule: poller_loop.induct)
  case (3 E C p rounds w turns)
  obtain r w1 where poll: "poll E C p rounds w = (r, w1)" by fastforce
  have w1: "lives E C p w w1" using poll_lives [of E C p w rounds] poll by simp
  show ?case
    using poll w1 "3.IH" lives_trans [OF w1] lives_trans [OF w1 stop_poller_lives]
    by (auto split: option.split sum.split)
qed (simp_all add: lives_more)

lemma Run_lives: "lives E C p w (snd (poller_Run E C p rounds hasCtx w turns))"
proof -
  obtain r w1 where poll: "poll E C p rounds w = (r, w1)" by fastforce
  have w1: "lives E C p w w1" using poll_lives [of E C p w rounds] poll by simp
  show ?thesis
    using poll w1 lives_trans [OF w1 poller_loop_lives] lives_trans [OF w1 stop_poller_lives] lives_more [of w w]
    by (auto simp: poller_Run_def split: option.split sum.split)
qed

lemma Init_lives:
  assumes "poller_Init E hasCtx w = (Inr (), w')" and "spot_ok (sdb w)"
  shows "lives E C p w w'"
  using poller_Init_synced [OF assms] by (intro lives_others) (simp add: changes_later_def synced_def)

text \<open>
  C6. Over the whole life of the poller, from the moment it has loaded its cursor: any
  sequence of batches, of runs that are started again after an error with the cursor in memory, of
  starts of the service, and of updates of the market table in between, while each update gets a
  time after everything the poller has read. The rows a batch adds to the outbox are one event for
  each market it has read, in order and with the state it has read, for markets that lie after the
  cursor the poller started with. No update is skipped, even when the answer to a commit is lost:
  every market of the table up to the saved cursor has an event. And when every error means
  that nothing happened, the events are written once and in the order of the updates; after a commit
  whose answer was lost the poller still has the old cursor and may write an event again. Every run
  of the poller is such a sequence.
\<close>

theorem poller_writes_each_update_once:
  assumes "spot_ok (sdb w0)" and "poller_Init E hasCtx w0 = (Inr (), w)"
    and "feed_fair E C p ops w" and "feed_run E C p ops w = (trace, w')"
  shows "\<exists>mss. list_all2 (\<lambda>(table, rows) ms. set ms \<subseteq> set table \<and> list_all2 (event_for E C) ms rows) trace mss \<and>
    (\<forall>m \<in> set (concat mss). db_cursor (sdb w0) < market_pos m) \<and>
    (\<forall>m \<in> set (market_store (sdb w')).
       db_cursor (sdb w0) < market_pos m \<and> market_pos m \<le> db_cursor (sdb w') \<longrightarrow> m \<in> set (concat mss)) \<and>
    (unambiguous E \<longrightarrow> sorted_wrt (\<lambda>m m'. market_pos m < market_pos m') (concat mss) \<and>
       (\<forall>m \<in> set (concat mss). market_pos m \<le> db_cursor (sdb w'))) \<and>
    spot_ok (sdb w') \<and> lives E C p w (snd (poller_Run E C p rounds hasCtx' w turns))"
proof -
  have w: "sdb w = sdb w0" "seen w = db_cursor (sdb w0)"
    using poller_Init_synced [OF assms(2,1)] by (simp_all add: synced_def)
  then have "feed_inv E (db_cursor (sdb w0)) w []" using assms(1) by (auto simp: feed_inv_def)
  from feed_run_inv [OF this assms(3,4)] obtain mss
    where mss: "list_all2 (batch_events E C) trace mss" "feed_inv E (db_cursor (sdb w0)) w' (concat mss)"
    by auto
  have "list_all2 (\<lambda>(table, rows) ms. set ms \<subseteq> set table \<and> list_all2 (event_for E C) ms rows) trace mss"
    using mss(1) by (rule list_all2_mono) (auto simp: batch_events_def)
  with mss(2) Run_lives show ?thesis unfolding feed_inv_def by blast
qed

section \<open>A poll ends\<close>

lemma batch_shrinks:
  assumes "processNextBatch E C p w = (Inr (ids, True), w')" and "spot_ok (sdb w)"
  shows "length (updates_after (sdb w') (seen w')) + length (take (nat (mp_batchSize p)) (updates_after (sdb w) (seen w)))
      = length (updates_after (sdb w) (seen w)) \<and>
    0 < length (take (nat (mp_batchSize p)) (updates_after (sdb w) (seen w))) \<and> spot_ok (sdb w')"
proof -
  let ?ms = "take (nat (mp_batchSize p)) (updates_after (sdb w) (seen w))"
  have w: "?ms \<noteq> []" "written_batch E C (mp_batchSize p) ?ms w (Inr (ids, True)) w'"
    using batch_cases [OF assms] by (auto simp: idle_batch_def)
  have "updates_after (sdb w') a = updates_after (sdb w) a" for a
    using w(2) by (simp add: updates_after_def written_batch_def)
  moreover have "seen w' = market_pos (last ?ms)" "spot_ok (sdb w')"
    using w(2) unfolding written_batch_def by blast+
  moreover have "0 < length ?ms" using w(1) length_greater_0_conv by blast
  ultimately show ?thesis
    using updates_after_batch [OF assms(2) refl w(1)] by (simp del: length_take take_eq_Nil length_greater_0_conv)
qed

lemma poll_loop_ends:
  assumes "spot_ok (sdb w)" and "length (updates_after (sdb w) (seen w)) < rounds"
  shows "fst (poll_loop E C p rounds ids w) \<noteq> None"
  using assms
proof (induction E C p rounds ids w rule: poll_loop.induct)
  case (2 E C p rounds ids w)
  obtain b w1 where batch: "processNextBatch E C p (step w) = (b, w1)" by fastforce
  have "fst (poll_loop E C p rounds (ids @ bids) w1) \<noteq> None"
    if "env_ctx E (tick w) = None" "b = Inr (bids, True)" for bids
    using "2.IH" [OF that(1) batch [symmetric] that(2) refl] batch_shrinks [of E C p "step w" bids w1]
      batch that "2.prems" by (simp del: length_take length_greater_0_conv)
  then show ?case
    by (auto simp: batch split: option.split sum.split)
qed simp

text \<open>
  C27. A poll ends: the loop has no bound of its own, but every batch that asks for another one
  has moved the cursor, so as many rounds as there are markets, and one more, are enough,
  whatever the batch size is and whatever fails.
\<close>

theorem poll_terminates:
  assumes "spot_ok (sdb w)" and "length (market_store (sdb w)) < rounds"
  shows "\<exists>r w'. poll E C p rounds w = (Some r, w')"
proof -
  have "length (updates_after (sdb w) (seen w)) \<le> length (market_store (sdb w))"
    using length_filter_le [of _ "sort_key market_pos (market_store (sdb w))"]
    by (simp add: updates_after_def)
  then have "fst (poll_loop E C p rounds [] w) \<noteq> None" using assms by (intro poll_loop_ends) auto
  then show ?thesis by (auto simp: poll_def split: prod.splits option.splits)
qed

section \<open>When nothing fails, nothing is left behind\<close>

text \<open>
  Fresh UUIDs: up to the step \<open>N\<close> the generator gives out no identifier twice, and the
  identifiers in the outbox are none it has yet to give out.
\<close>

definition smooth :: "'e env_scheme \<Rightarrow> market_codec \<Rightarrow> nat \<Rightarrow> bool" where
  "smooth E C N \<longleftrightarrow> all_success E \<and> inj_on (env_uuid E) {..<N} \<and> (\<forall>ev. \<exists>b. Marshal E C ev = Inr b)"

definition fresh :: "'e env_scheme \<Rightarrow> nat \<Rightarrow> nat \<Rightarrow> OutboxEvent list \<Rightarrow> bool" where
  "fresh E N n rows \<longleftrightarrow>
     (\<forall>row \<in> set rows. \<forall>k. n \<le> k \<and> k < N \<longrightarrow> Out_ID row \<noteq> env_uuid E k \<and> Out_EventID row \<noteq> env_uuid E k)"

lemma fresh_mono: "fresh E N n rows \<Longrightarrow> n \<le> m \<Longrightarrow> fresh E N m rows"
  by (auto simp: fresh_def)

lemma smoothD:
  assumes "smooth E C N"
  shows "env_outcome E n = Success" "env_ctx E n = None" "\<exists>b. Marshal E C ev = Inr b"
    "j < N \<Longrightarrow> k < N \<Longrightarrow> env_uuid E j = env_uuid E k \<longleftrightarrow> j = k"
  using assms by (auto simp: smooth_def all_success_def inj_on_def)

lemma buildMarketStateChangedEvents_success:
  assumes "smooth E C N" and "tick w + 2 * length ms \<le> N"
  shows "\<exists>evs w'. buildMarketStateChangedEvents E w ms = (Inr evs, w') \<and> tick w' = tick w + 2 * length ms \<and>
    distinct (map MS_EventID evs) \<and>
    (\<forall>ev \<in> set evs. \<exists>k. tick w \<le> k \<and> k < tick w' \<and> MS_EventID ev = env_uuid E k)"
  using assms(2)
proof (induction ms arbitrary: w)
  case (Cons m ms)
  obtain evs w' where rest: "buildMarketStateChangedEvents E (step (step w)) ms = (Inr evs, w')"
    "tick w' = Suc (Suc (tick w)) + 2 * length ms" "distinct (map MS_EventID evs)"
    "\<forall>ev \<in> set evs. \<exists>k. Suc (Suc (tick w)) \<le> k \<and> k < tick w' \<and> MS_EventID ev = env_uuid E k"
    using Cons.IH [of "step (step w)"] Cons.prems by auto
  have "env_uuid E (Suc (tick w)) \<noteq> MS_EventID ev" if ev: "ev \<in> set evs" for ev
  proof -
    obtain k where "Suc (Suc (tick w)) \<le> k" "k < tick w'" "MS_EventID ev = env_uuid E k"
      using bspec [OF rest(4) ev] by blast
    then show ?thesis using smoothD(4) [OF assms(1), of "Suc (tick w)" k] rest(2) Cons.prems by simp
  qed
  then have new: "env_uuid E (Suc (tick w)) \<notin> MS_EventID ` set evs" by blast
  have "\<forall>ev \<in> set evs. \<exists>k. tick w \<le> k \<and> k < tick w' \<and> MS_EventID ev = env_uuid E k"
    using rest(4) by (meson Suc_leD)
  moreover have "\<exists>k. tick w \<le> k \<and> k < tick w' \<and> env_uuid E (Suc (tick w)) = env_uuid E k"
    using rest(2) by (intro exI [of _ "Suc (tick w)"]) simp
  ultimately show ?case using rest(1-3) new by (simp add: smoothD(2) [OF assms(1)] Let_def)
qed simp

lemma spot_SaveOutboxEvent_success:
  assumes "env_outcome E (tick w) = Success" and "Out_ID e \<notin> Out_ID ` set (spot_outbox_rows (tx_db t))"
    and "Out_EventID e \<notin> Out_EventID ` set (spot_outbox_rows (tx_db t))"
  shows "\<exists>row. spot_SaveOutboxEvent E w t e =
      (Inr (t\<lparr>tx_db := (tx_db t)\<lparr>spot_outbox_rows := spot_outbox_rows (tx_db t) @ [row]\<rparr>\<rparr>), step w) \<and>
    Out_ID row = Out_ID e \<and> Out_EventID row = Out_EventID e"
proof -
  obtain row where "outbox_insert (tx_now t) e (spot_outbox_rows (tx_db t)) =
      Inr (spot_outbox_rows (tx_db t) @ [row])"
    and row: "Out_ID row = Out_ID e" "Out_EventID row = Out_EventID e"
    using assms(2,3) by (auto simp: outbox_insert_def)
  then have "spot_SaveOutboxEvent E w t e =
      (Inr (t\<lparr>tx_db := (tx_db t)\<lparr>spot_outbox_rows := spot_outbox_rows (tx_db t) @ [row]\<rparr>\<rparr>), step w)"
    using assms(1) by (simp add: spot_SaveOutboxEvent_def tx_exec_def external_Success)
  with row show ?thesis by blast
qed

text \<open>Events that can be saved: their identifiers are old, pairwise different and not in the outbox.\<close>

definition savable :: "'e env_scheme \<Rightarrow> nat \<Rightarrow> OutboxEvent list \<Rightarrow> MarketStateChangedEvent list \<Rightarrow> bool" where
  "savable E n rows evs \<longleftrightarrow> distinct (map MS_EventID evs) \<and>
     (\<forall>ev \<in> set evs. MS_EventID ev \<notin> Out_EventID ` set rows \<and> (\<exists>k < n. MS_EventID ev = env_uuid E k))"

lemma savable_mono: "savable E n rows evs \<Longrightarrow> n \<le> m \<Longrightarrow> savable E m rows evs"
  unfolding savable_def by (meson less_le_trans)

lemma savable_Cons:
  assumes "savable E n rows (ev # evs)" and "Out_EventID row = MS_EventID ev"
  shows "savable E n (rows @ [row]) evs"
proof -
  have "MS_EventID ev' \<noteq> MS_EventID ev" if "ev' \<in> set evs" for ev'
    using assms(1) that unfolding savable_def by (simp, metis image_eqI)
  with assms show ?thesis by (auto simp: savable_def)
qed

lemma save_events_success:
  assumes "smooth E C N" and "fresh E N (tick w) (spot_outbox_rows (tx_db t))"
    and "savable E (tick w) (spot_outbox_rows (tx_db t)) evs" and "tick w + 2 * length evs \<le> N"
  shows "\<exists>t' w'. save_events E C w t evs = (Inr t', w') \<and> tick w' = tick w + 2 * length evs \<and>
    fresh E N (tick w') (spot_outbox_rows (tx_db t'))"
  using assms(2-)
proof (induction evs arbitrary: w t)
  case (Cons ev evs)
  obtain payload where pay: "Marshal E C ev = Inr payload" using smoothD(3) [OF assms(1)] by blast
  obtain e w1 where e: "buildOutboxEvent E C w ev = (Inr e, w1)" and w1: "w1 = step w"
    and ids: "Out_ID e = env_uuid E (tick w)" "Out_EventID e = MS_EventID ev"
    by (simp add: buildOutboxEvent_def pay)
  have new: "Out_ID e \<noteq> Out_ID row" if "row \<in> set (spot_outbox_rows (tx_db t))" for row
    using Cons.prems(1,3) that unfolding ids(1) fresh_def by fastforce
  then have "Out_ID e \<notin> Out_ID ` set (spot_outbox_rows (tx_db t))" by blast
  moreover have "Out_EventID e \<notin> Out_EventID ` set (spot_outbox_rows (tx_db t))"
    using Cons.prems(2) by (simp add: ids(2) savable_def)
  ultimately obtain row where save: "spot_SaveOutboxEvent E w1 t e =
      (Inr (t\<lparr>tx_db := (tx_db t)\<lparr>spot_outbox_rows := spot_outbox_rows (tx_db t) @ [row]\<rparr>\<rparr>), step w1)"
    and row: "Out_ID row = Out_ID e" "Out_EventID row = Out_EventID e"
    using spot_SaveOutboxEvent_success [OF smoothD(1) [OF assms(1)], of e t w1] by auto
  let ?t = "t\<lparr>tx_db := (tx_db t)\<lparr>spot_outbox_rows := spot_outbox_rows (tx_db t) @ [row]\<rparr>\<rparr>"
  obtain k where k: "k < tick w" "MS_EventID ev = env_uuid E k"
    using Cons.prems(2) by (auto simp: savable_def)
  have "Out_ID row \<noteq> env_uuid E j \<and> Out_EventID row \<noteq> env_uuid E j" if "Suc (Suc (tick w)) \<le> j" "j < N" for j
    using smoothD(4) [OF assms(1), of "tick w" j] smoothD(4) [OF assms(1), of k j] that k row ids by simp
  then have "fresh E N (tick (step w1)) (spot_outbox_rows (tx_db ?t))"
    using fresh_mono [OF Cons.prems(1), of "Suc (Suc (tick w))"] w1 by (simp add: fresh_def)
  moreover have "savable E (tick (step w1)) (spot_outbox_rows (tx_db ?t)) evs"
    using savable_Cons [OF savable_mono [OF Cons.prems(2), of "Suc (Suc (tick w))"], of row] row ids w1 by simp
  ultimately obtain t' w' where "save_events E C (step w1) ?t evs = (Inr t', w')"
    "tick w' = tick w + 2 * length (ev # evs)" "fresh E N (tick w') (spot_outbox_rows (tx_db t'))"
    using Cons.IH [of "step w1" ?t] Cons.prems(3) w1 by auto
  then show ?case using e save by (simp add: Let_def)
qed simp

lemma Publish_success:
  assumes "smooth E C N" and "fresh E N (tick w) (spot_outbox_rows (sdb w))"
    and "savable E (tick w) (spot_outbox_rows (sdb w)) evs" and "evs \<noteq> []"
    and "tick w + 2 * length evs + 1 \<le> N"
  shows "\<exists>w'. PublishMarketStateChanged E C w evs c = (Inr (), w') \<and> tick w' = tick w + 2 * length evs + 3 \<and>
    fresh E N (tick w') (spot_outbox_rows (sdb w'))"
proof -
  note out = smoothD(1) [OF assms(1)]
  let ?t = "\<lparr>tx_db = sdb w, tx_now = env_db_now E (tick w)\<rparr>"
  have b: "BeginTransaction E w = (Inr ?t, step w)"
    by (simp add: BeginTransaction_def external_Success out)
  have "fresh E N (tick (step w)) (spot_outbox_rows (tx_db ?t))"
    using assms(2) by (auto intro: fresh_mono)
  moreover have "savable E (tick (step w)) (spot_outbox_rows (tx_db ?t)) evs"
    using assms(3) by (auto intro: savable_mono)
  ultimately obtain t1 w1 where s: "save_events E C (step w) ?t evs = (Inr t1, w1)"
    "tick w1 = Suc (tick w) + 2 * length evs" "fresh E N (tick w1) (spot_outbox_rows (tx_db t1))"
    using save_events_success [OF assms(1), of "step w" ?t evs] assms(5) by auto
  obtain d where d: "sql_save_cursor c t1 = Inr ((), d)" "spot_outbox_rows d = spot_outbox_rows (tx_db t1)"
    by (simp add: sql_save_cursor_def Let_def)
  then have "PublishMarketStateChanged E C w evs c = (Inr (), step (step w1\<lparr>sdb := d\<rparr>))"
    using assms(4) b s(1)
    by (simp add: PublishMarketStateChanged_def save_cursor_and_commit_def SaveCursorTransaction_def
        commitTransaction_def tx_exec_def external_Success out Let_def)
  then show ?thesis using s(2,3) d(2) by (auto intro: fresh_mono)
qed

lemma built_savable:
  assumes "fresh E N n rows" and "distinct (map MS_EventID evs)" and "m \<le> N"
    and "\<forall>ev \<in> set evs. \<exists>k. n \<le> k \<and> k < m \<and> MS_EventID ev = env_uuid E k"
  shows "savable E m rows evs"
  unfolding savable_def
proof (intro conjI ballI assms(2))
  fix ev assume "ev \<in> set evs"
  then obtain k where k: "n \<le> k" "k < m" "MS_EventID ev = env_uuid E k" using assms(4) by blast
  have "k < N" using k(2) assms(3) by simp
  then have "Out_EventID row \<noteq> MS_EventID ev" if "row \<in> set rows" for row
    using assms(1) that k(1) by (simp add: fresh_def k(3))
  then show "MS_EventID ev \<notin> Out_EventID ` set rows" by (metis imageE)
  show "\<exists>k < m. MS_EventID ev = env_uuid E k" by (intro exI [of _ k] conjI k)
qed

lemma batch_success:
  fixes w :: "'a spot_world_scheme"
  assumes "smooth E C N" and "fresh E N (tick w) (spot_outbox_rows (sdb w))" and "0 < mp_batchSize p"
  defines "ms \<equiv> take (nat (mp_batchSize p)) (updates_after (sdb w) (seen w))"
  assumes "tick w + 4 * length ms + 2 \<le> N"
  shows "\<exists>ids hasMore w'. processNextBatch E C p w = (Inr (ids, hasMore), w') \<and>
    tick w' \<le> tick w + 4 * length ms + 4 \<and> fresh E N (tick w') (spot_outbox_rows (sdb w'))"
proof -
  obtain ms' where "ListUpdatedSince E w (lastSeenAt w) (lastSeenID w) (mp_batchSize p) = (Inr ms', step w)"
    using smoothD(1) [OF assms(1)] assms(3)
    by (simp add: ListUpdatedSince_def spot_query_def external_Success sql_updated_since_def)
  with ListUpdatedSince_Inr [OF this]
  have q: "ListUpdatedSince E w (lastSeenAt w) (lastSeenID w) (mp_batchSize p) = (Inr ms, step w)"
    by (simp add: ms_def seen_def)
  show ?thesis
  proof (cases "ms = []")
    case True
    then show ?thesis using q assms(2) by (auto simp: processNextBatch_def processMarkets_def intro: fresh_mono)
  next
    case False
    obtain evs w2 where b: "buildMarketStateChangedEvents E (step w) ms = (Inr evs, w2)"
      "tick w2 = Suc (tick w) + 2 * length ms" "distinct (map MS_EventID evs)"
      and ids: "\<forall>ev \<in> set evs. \<exists>k. Suc (tick w) \<le> k \<and> k < tick w2 \<and> MS_EventID ev = env_uuid E k"
      using buildMarketStateChangedEvents_success [OF assms(1), of "step w" ms] assms(5) by auto
    have sdb2: "sdb w2 = sdb w"
      using buildMarketStateChangedEvents_more [of E "step w" ms] b(1) sdb_more [of w2 w] by simp
    have len: "length evs = length ms"
      using buildMarketStateChangedEvents_describes [OF b(1)] by (simp add: list_all2_lengthD)
    have "fresh E N (tick w2) (spot_outbox_rows (sdb w2))"
      using assms(2) b(2) unfolding sdb2 by (auto intro: fresh_mono)
    moreover have "savable E (tick w2) (spot_outbox_rows (sdb w2)) evs"
      unfolding sdb2
      by (rule built_savable [OF fresh_mono [OF assms(2)] b(3) _ ids]) (use b(2) assms(5) in auto)
    moreover have "evs \<noteq> []" using len False by auto
    ultimately obtain w3 where "PublishMarketStateChanged E C w2 evs (buildNextPollerCursor ms) = (Inr (), w3)"
      "tick w3 = tick w2 + 2 * length evs + 3" "fresh E N (tick w3) (spot_outbox_rows (sdb w3))"
      using Publish_success [OF assms(1), of w2 evs "buildNextPollerCursor ms"] b(2) len assms(5) by auto
    then show ?thesis using q False b(1,2) len by (simp add: processNextBatch_def processMarkets_def Let_def)
  qed
qed

lemma last_batch:
  assumes "processNextBatch E C p w = (Inr (ids, False), w')" and "spot_ok (sdb w)" and "0 < mp_batchSize p"
  shows "updates_after (sdb w') (seen w') = []"
proof -
  let ?U = "updates_after (sdb w) (seen w)" and ?n = "nat (mp_batchSize p)"
  show ?thesis
    using batch_cases [OF assms(1,2)]
  proof (elim disjE conjE, goal_cases)
    case 1
    then show ?case using assms(3) by (simp add: idle_batch_def)
  next
    case 3
    have "length (take ?n ?U) = length ?U"
      using 3(2) assms(3) by (auto simp: written_batch_def min_def split: if_splits)
    moreover have "updates_after (sdb w') a = updates_after (sdb w) a" for a
      using 3(2) by (simp add: updates_after_def written_batch_def)
    moreover have "seen w' = market_pos (last (take ?n ?U))" using 3(2) by (auto simp: written_batch_def)
    ultimately show ?case using updates_after_batch [OF assms(2) refl 3(1)] by (simp del: length_take)
  qed simp
qed

lemma poll_loop_complete:
  assumes "smooth E C N" and "0 < mp_batchSize p" and "spot_ok (sdb w)"
    and "fresh E N (tick w) (spot_outbox_rows (sdb w))" and "length (updates_after (sdb w) (seen w)) < rounds"
    and "tick w + 9 * length (updates_after (sdb w) (seen w)) + 5 \<le> N"
  shows "\<exists>ids' w'. poll_loop E C p rounds ids w = (Some (Inr ()), ids', w') \<and>
    updates_after (sdb w') (seen w') = []"
  using assms(3-)
proof (induction rounds arbitrary: w ids)
  case (Suc rounds)
  let ?n = "length (updates_after (sdb w) (seen w))"
    and ?k = "length (take (nat (mp_batchSize p)) (updates_after (sdb w) (seen w)))"
  have k: "?k \<le> ?n" by simp
  have "fresh E N (tick (step w)) (spot_outbox_rows (sdb (step w)))"
    using Suc.prems(2) by (auto intro: fresh_mono)
  moreover have "tick (step w) + 4 * ?k + 2 \<le> N" using Suc.prems(4) k by simp
  ultimately obtain bids hasMore w1 where batch: "processNextBatch E C p (step w) = (Inr (bids, hasMore), w1)"
    "tick w1 \<le> Suc (tick w) + 4 * ?k + 4" "fresh E N (tick w1) (spot_outbox_rows (sdb w1))"
    using batch_success [OF assms(1) _ assms(2), of "step w"] by (auto simp del: length_take)
  show ?case
  proof (cases hasMore)
    case True
    have s: "length (updates_after (sdb w1) (seen w1)) + ?k = ?n" "0 < ?k" "spot_ok (sdb w1)"
      using batch_shrinks [of E C p "step w" bids w1] batch(1) True Suc.prems(1) by (simp_all del: length_take length_greater_0_conv)
    then have "length (updates_after (sdb w1) (seen w1)) < rounds"
      "tick w1 + 9 * length (updates_after (sdb w1) (seen w1)) + 5 \<le> N"
      using Suc.prems(3,4) batch(2) by linarith+
    then show ?thesis
      using Suc.IH [of w1 "ids @ bids"] s(3) batch True smoothD(2) [OF assms(1)] by simp
  next
    case False
    then show ?thesis
      using last_batch [of E C p "step w" bids w1] batch(1) assms(2) Suc.prems(1) smoothD(2) [OF assms(1)] by simp
  qed
qed simp

text \<open>
  C28. When no call fails, UUIDs are fresh and events can be encoded, one poll catches up: it
  returns without an error, the outbox has gained one event for every market updated after the
  cursor, in the order of the updates, and no update is left after the new cursor.
\<close>

theorem poll_catches_up:
  assumes "smooth E C N" and "0 < mp_batchSize p" and "spot_ok (sdb w)" and "seen w = db_cursor (sdb w)"
    and "fresh E N (tick w) (spot_outbox_rows (sdb w))" and "length (market_store (sdb w)) < rounds"
    and "tick w + 9 * length (market_store (sdb w)) + 5 \<le> N"
  shows "\<exists>w' rows. poll E C p rounds w = (Some (Inr ()), w') \<and>
    spot_outbox_rows (sdb w') = spot_outbox_rows (sdb w) @ rows \<and>
    list_all2 (event_for E C) (updates_after (sdb w) (db_cursor (sdb w))) rows \<and>
    updates_after (sdb w') (db_cursor (sdb w')) = []"
proof -
  have "length (updates_after (sdb w) (seen w)) \<le> length (market_store (sdb w))"
    using length_filter_le [of _ "sort_key market_pos (market_store (sdb w))"]
    by (simp add: updates_after_def)
  then obtain ids w1 where loop: "poll_loop E C p rounds [] w = (Some (Inr ()), ids, w1)"
    and none: "updates_after (sdb w1) (seen w1) = []"
    using poll_loop_complete [OF assms(1,2,3,5), of rounds "[]"] assms(6,7) by auto
  have m: "moved E C (sdb w) (sdb w1)" "seen w1 = db_cursor (sdb w1)"
    using poll_loop_moved [OF loop assms(3)] assms(4) by (simp_all add: synced_def)
  have "updates_after (sdb w1) (db_cursor (sdb w1)) = []" using none m(2) by simp
  then have all: "updates_between (sdb w) (db_cursor (sdb w)) (db_cursor (sdb w1)) =
      updates_after (sdb w) (db_cursor (sdb w))"
    using m(1) unfolding updates_between_def updates_after_def moved_def
    by (auto simp: filter_empty_conv not_less intro!: filter_cong)
  have "poll E C p rounds w = (Some (Inr ()), refreshCache E p w1 ids)" by (simp add: poll_def loop)
  moreover have "sdb (refreshCache E p w1 ids) = sdb w1" by (rule sdb_more) (rule refreshCache_more)
  ultimately show ?thesis using m none all by (auto simp: moved_def)
qed

end
