(* ===== verification/Market_Delivery.thy ===== *)
theory Market_Delivery
  imports Market_Feed
begin

text \<open>
  The outbox of the spot service and its worker have the contract of the outbox
  (theory \<open>Outbox_Delivery\<close>), so its lemmas hold for them; and what a reader of the market topic
  finds for the rows that the worker has marked as published.
\<close>

section \<open>The worker of the spot service\<close>

definition spot_sent :: "'e env_scheme \<Rightarrow> string \<Rightarrow> OutboxEvent \<Rightarrow> ProducerMessage list \<Rightarrow> bool" where
  "spot_sent E topic e ks \<longleftrightarrow>
     (\<exists>p \<in> set ks. PM_Topic p = topic \<and> PM_Key p = messageKey E e \<and> PM_Value p = Out_Payload e)"

lemma spot_publisher_sent:
  assumes "spot_publisher E topic w e = (Inr x, w')"
  shows "spot_sent E topic e (kafka w')"
proof -
  let ?m = "\<lparr>Msg_Headers = [], Msg_Timestamp = zero_time, Msg_BlockTimestamp = zero_time,
      Msg_Key = messageKey E e, Msg_Value = Out_Payload e, Msg_Topic = '''', Msg_Partition = 0, Msg_Offset = 0\<rparr>"
  have ok: "SendMessage E w topic ?m = (Inr x, w')"
    using assms by (simp add: spot_publisher_def Send_def)
  obtain p where "offered topic ?m p" "kafka w' = kafka w @ [p]"
    by (rule SendMessage_log [of topic ?m E w]) (use ok in auto)
  then show ?thesis by (auto simp: spot_sent_def offered_def)
qed

lemma spot_publisher_preserves:
  assumes "\<And>v. P v \<Longrightarrow> P (step v)" and "\<And>v p. P v \<Longrightarrow> P (v\<lparr>kafka := kafka v @ [p]\<rparr>)" and "P w"
  shows "P (snd (spot_publisher E topic w e))"
  using SendMessage_preserves [where P = P, OF assms, of E] by (simp add: spot_publisher_def Send_def)

interpretation spot_table: outbox_laws spot_outbox
  by unfold_locales (simp_all add: spot_outbox_def step_def)

interpretation spot_worker: outbox_service spot_outbox "spot_publisher E topic" "spot_sent E topic"
  for E topic
proof (unfold_locales, goal_cases)
  case (1 w e)
  show ?case
    by (rule spot_publisher_preserves [where P = "\<lambda>v. rows_of spot_outbox v = rows_of spot_outbox w"])
      simp_all
next
  case (2 w e)
  show ?case
    by (rule spot_publisher_preserves [where P = "\<lambda>v. prefix (kafka w) (kafka v)"])
      (auto simp: prefix_def)
next
  case (3 w e x w')
  then show ?case by (rule spot_publisher_sent)
qed (auto simp: spot_sent_def messageKey_def same_event_def prefix_def)

interpretation live_spot_worker: live_outbox spot_outbox "spot_publisher E topic"
  "spot_sent E topic" E "healthy E" "\<lambda>e. True"
  for E topic
proof (unfold_locales, goal_cases)
  case 1
  then show ?case by (simp add: healthy_def)
next
  case (2 e w)
  then show ?case using SendMessage_healthy [of E] by (simp add: spot_publisher_def Send_def)
qed simp

lemma spot_run_moves:
  assumes "outbox_ok (spot_outbox_rows (sdb w))" and "spot_Run E cfg topic hasCtx w turns = (r, w')"
  shows "outbox_service.moves (spot_sent E topic) cfg (spot_outbox_rows (sdb w)) (kafka w)
    (spot_outbox_rows (sdb w')) (kafka w')"
proof -
  have rows: "rows_of spot_outbox v = spot_outbox_rows (sdb v)" for v by (simp add: spot_outbox_def)
  have w': "w' = snd (Run E spot_outbox cfg (spot_publisher E topic) hasCtx w turns)"
    using assms(2) by (simp add: spot_Run_def)
  show ?thesis
    using assms(1) unfolding w' rows [symmetric] by (rule spot_worker.Run_moves)
qed

section \<open>What a reader of the market topic finds\<close>

definition market_event_in_range :: "Market \<Rightarrow> bool" where
  "market_event_in_range m \<longleftrightarrow> zero_time \<le> Market_UpdatedAt m \<and> Market_UpdatedAt m \<le> max_timestamp \<and>
     (case Market_DeletedAt m of None \<Rightarrow> True | Some t \<Rightarrow> zero_time \<le> t \<and> t \<le> max_timestamp)"

text \<open>A message that decodes to the state of a market, under the identifier of an event.\<close>

definition reports :: "'e env_scheme \<Rightarrow> market_codec \<Rightarrow> string \<Rightarrow> Market \<Rightarrow> uuid \<Rightarrow> ProducerMessage \<Rightarrow> bool" where
  "reports E C topic m eventID p \<longleftrightarrow> PM_Topic p = topic \<and> PM_Key p = uuid_String E (Market_ID m) \<and>
     UnmarshalMarketStateChanged E C (PM_Value p) =
       Inr \<lparr>MS_EventID = eventID, MS_MarketID = Market_ID m, MS_Enabled = Market_Enabled m,
            MS_DeletedAt = Market_DeletedAt m, MS_UpdatedAt = Market_UpdatedAt m\<rparr>"

lemma event_for_reports:
  assumes "uuid_ok E" and "codec_ok C" and "market_event_in_range m" and "event_for E C m row"
    and "same_event row row'" and "spot_sent E topic row' ks"
  shows "\<exists>p \<in> set ks. reports E C topic m (Out_EventID row') p"
proof -
  let ?ev = "\<lparr>MS_EventID = Out_EventID row', MS_MarketID = Market_ID m, MS_Enabled = Market_Enabled m,
      MS_DeletedAt = Market_DeletedAt m, MS_UpdatedAt = Market_UpdatedAt m\<rparr>"
  have "Marshal E C ?ev = Inr (Out_Payload row')" "Out_AggregateID row' = Market_ID m"
    using assms(4,5) by (simp_all add: event_for_def same_event_def)
  moreover have "event_in_range ?ev"
    using assms(3) by (simp add: event_in_range_def market_event_in_range_def)
  ultimately show ?thesis
    using unmarshal_marshal [OF assms(1,2)] assms(6) by (auto simp: reports_def spot_sent_def messageKey_def)
qed

text \<open>The rows of a run of the poller, after a run of the worker.\<close>

definition delivered :: "'e env_scheme \<Rightarrow> market_codec \<Rightarrow> string \<Rightarrow> ProducerMessage list \<Rightarrow> Market \<Rightarrow> OutboxEvent \<Rightarrow> bool" where
  "delivered E C topic ks m row \<longleftrightarrow> Out_AggregateID row = Market_ID m \<and>
     (Out_Status row = OutboxEventStatusPublished \<longrightarrow> (\<exists>p \<in> set ks. reports E C topic m (Out_EventID row) p))"

lemma worker_delivers:
  assumes "spot_ok d" and "moved E C d (sdb w)" and "spot_Run E cfg topic hasCtx w turns = (r, w')"
    and "uuid_ok E" and "codec_ok C" and "list_all market_event_in_range (market_store d)"
  shows "list_all2 (delivered E C topic (kafka w')) (updates_between d (db_cursor d) (db_cursor (sdb w)))
    (drop (length (spot_outbox_rows d)) (spot_outbox_rows (sdb w')))"
proof -
  let ?ms = "updates_between d (db_cursor d) (db_cursor (sdb w))"
  obtain rows where rows: "spot_outbox_rows (sdb w) = spot_outbox_rows d @ rows" "list_all2 (event_for E C) ?ms rows"
    and ok: "outbox_ok (spot_outbox_rows (sdb w))"
    using assms(1,2) by (auto simp: moved_def spot_ok_def)
  let ?old = "spot_outbox_rows d" and ?new = "spot_outbox_rows (sdb w')"
  have "list_all2 (\<lambda>row row'. evolves row row' \<and> (Out_Status row' = OutboxEventStatusPublished \<longrightarrow>
      Out_Status row = OutboxEventStatusPublished \<or> spot_sent E topic row (kafka w'))) (?old @ rows) ?new"
    using spot_run_moves [OF ok assms(3)] rows(1) by (simp add: spot_worker.moves_def)
  from list_all2_dropI [OF this, of "length ?old"]
  have new: "list_all2 (\<lambda>row row'. evolves row row' \<and> (Out_Status row' = OutboxEventStatusPublished \<longrightarrow>
      Out_Status row = OutboxEventStatusPublished \<or> spot_sent E topic row (kafka w'))) rows (drop (length ?old) ?new)"
    by simp
  have "list_all market_event_in_range ?ms"
    using assms(6) by (auto simp: updates_between_def list_all_iff)
  with rows(2) have "list_all2 (\<lambda>m row. market_event_in_range m \<and> event_for E C m row) ?ms rows"
    by (auto simp: list_all2_conv_all_nth list_all_length)
  from this new show ?thesis
  proof (rule list_all2_trans [rotated])
    fix m row row'
    assume m: "market_event_in_range m \<and> event_for E C m row"
      and row: "evolves row row' \<and> (Out_Status row' = OutboxEventStatusPublished \<longrightarrow>
        Out_Status row = OutboxEventStatusPublished \<or> spot_sent E topic row (kafka w'))"
    have same: "same_event row row'" using row by (simp add: evolves_def)
    show "delivered E C topic (kafka w') m row'"
      using m row same event_for_reports [OF assms(4,5) _ _ same, of m topic "kafka w'"] spot_worker.sent_same [OF same]
      by (auto simp: delivered_def event_for_def same_event_def)
  qed
qed

end
