(* ===== verification/Market_To_Orders.thy ===== *)
theory Market_To_Orders
  imports Market_Delivery Compensation
begin

text \<open>
  The way of a market update through both services: from the table of markets through the
  poller, the outbox and the worker of the spot service to the broker, and from the broker
  through the handler of the order service to the orders.
\<close>

lemma list_all2_mem1: "list_all2 Q xs ys \<Longrightarrow> x \<in> set xs \<Longrightarrow> \<exists>y \<in> set ys. Q x y"
  by (induction xs ys rule: list_all2_induct) auto

text \<open>Reading an event depends on the environment only by the parser of UUIDs.\<close>

lemma Unmarshal_cong:
  "uuid_Parse E' = uuid_Parse E \<Longrightarrow> UnmarshalMarketStateChanged E' C b = UnmarshalMarketStateChanged E C b"
  by (simp add: UnmarshalMarketStateChanged_def FromProtoMarketStateChanged_def parseUUIDRequired_def
      split: option.split)

lemma handled_report_cancels:
  assumes "UnmarshalMarketStateChanged E C (Msg_Value msg) = Inr ev" and "blocks ev"
    and "inbox_settled (db v)" and "inbox_status (MS_EventID ev, g) (db v) \<noteq> Some InboxEventStatusProcessed"
    and "handleMarketStateChanged E C cfg g v msg = (Handled, v')"
  shows "\<forall>r \<in> set (orders (db v')). \<not> row_active (MS_MarketID ev) r"
proof -
  have "ProcessMarketStateChanged E v cfg (Msg_Topic msg) g (Msg_Value msg) ev = (Inr (), v')"
    using assms(1,5) by (auto simp: handleMarketStateChanged_def Let_def split: prod.splits sum.splits)
  from first_delivery_compensates [OF this assms(2-4)] show ?thesis by simp
qed

text \<open>
  C4. The way of a market update through both services. A poller of the spot service starts and
  runs, then a worker of its outbox runs, whatever fails on the way. For each market that the
  poller has passed and that is disabled or deleted there is a row in the outbox; and once that
  row is marked as published, the log of the broker holds a message of the market topic such that
  whenever the order service handles it with success for the first time, no active order of that
  market is left.
\<close>

theorem closed_market_reaches_orders:
  assumes "spot_ok (sdb w)" and "poller_Init Es hasCtx w = (Inr (), w1)"
    and "poller_Run Es C p rounds hasCtx1 w1 turns = (r1, w2)"
    and "spot_Run Es cfg topic hasCtx2 w2 wturns = (r2, w3)"
    and "uuid_ok Es" and "uuid_Parse Eo = uuid_Parse Es" and "codec_ok C"
    and "list_all market_event_in_range (market_store (sdb w))"
    and "m \<in> set (updates_between (sdb w) (db_cursor (sdb w)) (db_cursor (sdb w2)))"
    and "\<not> (Market_Enabled m \<and> Market_DeletedAt m = None)"
  shows "\<exists>row \<in> set (spot_outbox_rows (sdb w3)). Out_AggregateID row = Market_ID m \<and>
    (Out_Status row = OutboxEventStatusPublished \<longrightarrow>
      (\<exists>q \<in> set (kafka w3). PM_Topic q = topic \<and>
        (\<forall>msg v v'. Msg_Value msg = PM_Value q \<and> inbox_settled (db v) \<and>
           inbox_status (Out_EventID row, g) (db v) \<noteq> Some InboxEventStatusProcessed \<and>
           handleMarketStateChanged Eo C ocfg g v msg = (Handled, v') \<longrightarrow>
           (\<forall>r \<in> set (orders (db v')). \<not> row_active (Market_ID m) r))))"
proof -
  have "moved Es C (sdb w) (sdb w2)" by (rule run_moved [OF assms(1-3)])
  from worker_delivers [OF assms(1) this assms(4,5,7,8)] assms(9)
  obtain row where row: "row \<in> set (spot_outbox_rows (sdb w3))" "delivered Es C topic (kafka w3) m row"
    by (blast dest: list_all2_mem1 in_set_dropD)
  let ?ev = "\<lparr>MS_EventID = Out_EventID row, MS_MarketID = Market_ID m, MS_Enabled = Market_Enabled m,
      MS_DeletedAt = Market_DeletedAt m, MS_UpdatedAt = Market_UpdatedAt m\<rparr>"
  have "\<forall>r \<in> set (orders (db v')). \<not> row_active (Market_ID m) r"
    if "reports Es C topic m (Out_EventID row) q" "Msg_Value msg = PM_Value q" "inbox_settled (db v)"
      "inbox_status (Out_EventID row, g) (db v) \<noteq> Some InboxEventStatusProcessed"
      "handleMarketStateChanged Eo C ocfg g v msg = (Handled, v')"
    for q msg v v'
  proof -
    have "UnmarshalMarketStateChanged Eo C (Msg_Value msg) = Inr ?ev"
      using that(1,2) Unmarshal_cong [OF assms(6)] by (simp add: reports_def)
    then show ?thesis
      using handled_report_cancels [of Eo C msg ?ev v g ocfg v'] that(3-5) assms(10) by (simp add: blocks_def)
  qed
  with row show ?thesis unfolding delivered_def by (fastforce simp: reports_def)
qed

end
