(* ===== verification/Spot_Fixtures.thy ===== *)
theory Spot_Fixtures
  imports Event_Fixtures Market_To_Orders
begin

text \<open>
  A concrete environment and world for the spot service, and the properties of its viewer, its
  poller and the way of an update to the orders applied in it. The JSON codec separates fields
  and entries by two bytes outside ASCII, and refuses names that hold them.
\<close>

section \<open>The environment\<close>

definition list_sep :: char where "list_sep = CHR 0xFE"

definition plain :: "string \<Rightarrow> bool" where
  "plain s \<longleftrightarrow> demo_sep \<notin> set s \<and> list_sep \<notin> set s"

definition write_view :: "MarketRedisView \<Rightarrow> string" where
  "write_view v = RV_ID v @ demo_sep # RV_Name v @ demo_sep # (if RV_Enabled v then ''1'' else ''0'') @ demo_sep #
     show_opt (RV_DeletedAtNs v) @ demo_sep # show_opt (RV_UpdatedAtNs v)"

definition read_view :: "string \<Rightarrow> MarketRedisView option" where
  "read_view s =
     (case split_on demo_sep s of
        [i, n, e, d, u] \<Rightarrow>
          (case (parse_opt d, parse_opt u) of
             (Some d', Some u') \<Rightarrow> Some \<lparr>RV_ID = i, RV_Name = n, RV_Enabled = (e = ''1''),
                RV_DeletedAtNs = d', RV_UpdatedAtNs = u'\<rparr>
           | _ \<Rightarrow> None)
      | _ \<Rightarrow> None)"

definition view_plain :: "MarketRedisView \<Rightarrow> bool" where
  "view_plain v \<longleftrightarrow> plain (RV_ID v) \<and> plain (RV_Name v)"

fun write_views :: "MarketRedisView list \<Rightarrow> string" where
  "write_views [] = ''''"
| "write_views (v # vs) = write_view v @ list_sep # write_views vs"

fun read_all :: "string list \<Rightarrow> MarketRedisView list option" where
  "read_all [] = None"
| "read_all [s] = (if s = '''' then Some [] else None)"
| "read_all (s # t # ss) =
     (case (read_view s, read_all (t # ss)) of (Some v, Some vs) \<Rightarrow> Some (v # vs) | _ \<Rightarrow> None)"

lemma read_write_view: "view_plain v \<Longrightarrow> read_view (write_view v) = Some v"
  using show_opt_sep demo_sep_no_digit
  by (cases v) (auto simp: read_view_def write_view_def view_plain_def plain_def split_on_append split_on_none)

lemma show_opt_plain: "plain (show_opt x)"
proof -
  have "\<not> is_digit list_sep" "list_sep \<noteq> CHR ''-''" by code_simp+
  then have "list_sep \<notin> set (show_int i)" for i using show_int_chars [of list_sep i] by auto
  then show ?thesis
    using show_opt_sep by (simp add: plain_def show_opt_def split: option.split)
qed

lemma write_view_sep: "view_plain v \<Longrightarrow> list_sep \<notin> set (write_view v)"
proof -
  have "list_sep \<noteq> demo_sep" "list_sep \<noteq> CHR ''1''" "list_sep \<noteq> CHR ''0''" by code_simp+
  then show "view_plain v \<Longrightarrow> ?thesis"
    using show_opt_plain by (auto simp: write_view_def view_plain_def plain_def)
qed

lemma read_write_views: "list_all view_plain vs \<Longrightarrow> read_all (split_on list_sep (write_views vs)) = Some vs"
proof (induction vs)
  case (Cons v vs)
  obtain t ss where "split_on list_sep (write_views vs) = t # ss" by (cases "split_on list_sep (write_views vs)") auto
  with Cons show ?case by (simp add: split_on_append write_view_sep read_write_view)
qed simp

definition demo_spot :: spot_env where
  "demo_spot = \<lparr>env_outcome = env_outcome demo, env_ctx = env_ctx demo, env_now = env_now demo,
     env_redis_ms = env_redis_ms demo, env_db_now = env_db_now demo, env_uuid = env_uuid demo,
     env_rank = env_rank demo, env_locked = env_locked demo, env_enqueue = env_enqueue demo,
     env_wait = env_wait demo, env_accepted = env_accepted demo, env_inject = env_inject demo,
     env_rand = env_rand demo, env_float_duration = env_float_duration demo, uuid_String = uuid_String demo, uuid_Parse = uuid_Parse demo,
     duration_String = duration_String demo,
     json_MarshalMarket = \<lambda>v. if view_plain (view_text v) then Some (write_view (view_text v)) else None,
     json_UnmarshalMarket = read_view,
     json_MarshalMarkets = \<lambda>vs. if list_all view_plain (map view_text vs)
       then Some (write_views (map view_text vs)) else None,
     json_UnmarshalMarkets = \<lambda>s. read_all (split_on list_sep s),
     collation_key = \<lambda>s. case s of [] \<Rightarrow> 0 | c # _ \<Rightarrow> of_nat (of_char c)\<rparr>"

lemma demo_spot_json: "json_ok demo_spot"
  by (simp add: json_ok_def demo_spot_def read_write_view read_write_views list_all_iff)

lemma demo_spot_uuid: "uuid_ok demo_spot"
  using demo_uuid_ok by (simp add: uuid_ok_def demo_spot_def)

lemma demo_spot_success: "all_success demo_spot"
  using demo_success(1) by (simp add: all_success_def demo_spot_def)

definition demo_market :: "uuid \<Rightarrow> string \<Rightarrow> bool \<Rightarrow> instant option \<Rightarrow> Market" where
  "demo_market i name en del = \<lparr>Market_ID = i, Market_Name = name, Market_Enabled = en,
     Market_DeletedAt = del, Market_UpdatedAt = 1700000000000000000 + 1000 * uint i\<rparr>"

definition demo_markets :: "Market list" where
  "demo_markets = [demo_market 3 ''XRP'' True (Some 1700000000000000000), demo_market 2 ''ETH'' False None,
     demo_market 1 ''BTC'' True None]"

definition demo_spot_world :: spot_world where
  "demo_spot_world = \<lparr>tick = 0, kv = (\<lambda>k. None), kafka = [],
     sdb = \<lparr>market_store = demo_markets, spot_outbox_rows = [], cursors = []\<rparr>,
     lastSeenAt = zero_time, lastSeenID = 0\<rparr>"

definition demo_viewer :: MarketViewer where
  "demo_viewer = \<lparr>mv_cacheTTL = 60000000000, mv_defaultLimit = 2, mv_maxLimit = 10, mv_cacheLimit = 5\<rparr>"

definition demo_poller :: MarketPoller where
  "demo_poller = \<lparr>mp_cacheRefresher = None, mp_batchSize = 2\<rparr>"

lemma demo_no_heads: "cached_heads Q demo_spot_world"
  by (simp add: cached_heads_def demo_spot_world_def)

lemma demo_settled_viewer: "settled demo_spot demo_viewer demo_spot_world"
proof -
  have "validateSpotViewMarkets demo_viewer = Inr ()" by code_simp
  moreover have "list_all market_in_range (market_store (sdb demo_spot_world))"
    by (simp add: demo_spot_world_def demo_markets_def demo_market_def market_in_range_def wrap64_def
        utf8_Valid_ascii ascii_code)
  ultimately show ?thesis
    by (simp add: settled_def demo_spot_success demo_spot_uuid demo_spot_json demo_no_heads small_def)
      (simp add: demo_viewer_def demo_spot_world_def demo_markets_def)
qed

lemma demo_viewer_role: "getRoleKeyFromContext (Some [UserRoleUser, UserRoleViewer]) = Inr roleViewerKey"
  by code_simp

section \<open>Witnesses\<close>

theorem pages_list_visible_markets_witness:
  "view_all demo_spot demo_viewer demo_spot_world (Some [UserRoleUser, UserRoleViewer]) 1 0 3 =
     Some (sorted_markets demo_spot roleViewerKey demo_markets) \<and>
   map Market_Name (sorted_markets demo_spot roleViewerKey demo_markets) = [''BTC'', ''ETH'']"
proof -
  have "map Market_Name (sorted_markets demo_spot roleViewerKey demo_markets) = [''BTC'', ''ETH'']" by code_simp
  moreover have "length (filter (role_sees roleViewerKey) (market_store (sdb demo_spot_world))) < 3" by code_simp
  ultimately show ?thesis
    using pages_list_visible_markets [OF demo_settled_viewer demo_viewer_role] by (simp add: demo_spot_world_def)
qed

abbreviation demo_viewed where
  "demo_viewed \<equiv> ViewMarkets demo_spot demo_viewer demo_spot_world (Some [UserRoleUser, UserRoleViewer]) 1 0"

lemma demo_viewed_eq: "demo_viewed = (Returned (Inr ([demo_market 1 ''BTC'' True None], 1, True)), snd demo_viewed)"
proof -
  have "fst demo_viewed = Returned (Inr ([demo_market 1 ''BTC'' True None], 1, True))" by code_simp
  then show ?thesis by (simp add: prod_eq_iff)
qed

theorem only_visible_markets_served_witness:
  "fst (ViewMarkets demo_spot demo_viewer demo_spot_world (Some [UserRoleUser, UserRoleViewer]) 1 0) =
     Returned (Inr ([demo_market 1 ''BTC'' True None], 1, True)) \<and>
   list_all (role_sees roleViewerKey) [demo_market 1 ''BTC'' True None] \<and>
   cached_heads (head_sound demo_spot)
     (snd (ViewMarkets demo_spot demo_viewer demo_spot_world (Some [UserRoleUser, UserRoleViewer]) 1 0))"
proof -
  have r: "fst demo_viewed = Returned (Inr ([demo_market 1 ''BTC'' True None], 1, True))"
    using demo_viewed_eq by (metis fst_conv)
  with demo_viewed_eq only_visible_markets_served [OF demo_spot_json demo_no_heads demo_viewer_role, of demo_viewer 1 0 1]
  show ?thesis by blast
qed

lemma demo_spot_ok: "spot_ok (sdb demo_spot_world)"
  by code_simp

definition demo_initialized :: spot_world where
  "demo_initialized = snd (poller_Init demo_spot True demo_spot_world)"

lemma demo_init: "poller_Init demo_spot True demo_spot_world = (Inr (), demo_initialized)"
proof -
  have "is_ok (fst (poller_Init demo_spot True demo_spot_world))" by code_simp
  then show ?thesis
    by (cases "fst (poller_Init demo_spot True demo_spot_world)") (simp_all add: demo_initialized_def prod_eq_iff)
qed

text \<open>
  A life of the poller: the answer to the commit of its first batch is lost, so the second batch,
  of a new run, writes the same events again; then an administrator changes the first market, and the
  third batch writes the event of the market that was left and of the change.
\<close>

definition demo_lost :: spot_env where
  "demo_lost = demo_spot\<lparr>env_outcome := (\<lambda>n. if n = 12 then Applied FaultDeadline else Success)\<rparr>"

definition demo_update :: "spot_world \<Rightarrow> spot_world" where
  "demo_update w = w\<lparr>sdb := (sdb w)\<lparr>market_store :=
     map (\<lambda>m. if Market_ID m = 1 then m\<lparr>Market_Enabled := False, Market_UpdatedAt := 1700000000000005000\<rparr> else m)
       (market_store (sdb w))\<rparr>\<rparr>"

definition demo_life :: "spot_world feed_op list" where
  "demo_life = [Batch (\<lambda>w. w), Batch (\<lambda>w. w), Others demo_update, Batch (\<lambda>w. w)]"

definition demo_lived :: "(Market list \<times> OutboxEvent list) list \<times> spot_world" where
  "demo_lived = feed_run demo_lost demo_codec demo_poller demo_life demo_initialized"

lemma demo_lost_init: "poller_Init demo_lost True demo_spot_world = (Inr (), demo_initialized)"
proof -
  have "is_ok (fst (poller_Init demo_lost True demo_spot_world))" by code_simp
  moreover have "snd (poller_Init demo_lost True demo_spot_world) = demo_initialized"
    by (simp add: demo_initialized_def poller_Init_def loadCursor_def cursor_Get_def spot_query_def external_def
        demo_lost_def demo_spot_def demo_def demo_spot_world_def)
  ultimately show ?thesis
    by (cases "fst (poller_Init demo_lost True demo_spot_world)") (simp_all add: prod_eq_iff)
qed

lemma demo_life_fair: "feed_fair demo_lost demo_codec demo_poller demo_life demo_initialized"
  by code_simp

lemma demo_lived_result:
  "(case demo_lived of (trace, w) \<Rightarrow> (map (map Out_AggregateID \<circ> snd) trace, db_cursor (sdb w),
     map market_pos (market_store (sdb w)))) =
   ([[1, 2], [1, 2], [3, 1]], (1700000000000005000, 1),
    [(1700000000000003000, 3), (1700000000000002000, 2), (1700000000000005000, 1)])"
  by code_simp

theorem poller_writes_each_update_once_witness:
  "\<exists>mss. map (map Market_ID) mss = [[1, 2], [1, 2], [3, 1]] \<and>
    set (market_store (sdb (snd demo_lived))) \<subseteq> set (concat mss)"
proof -
  have "feed_run demo_lost demo_codec demo_poller demo_life demo_initialized = (fst demo_lived, snd demo_lived)"
    by (simp add: demo_lived_def)
  from poller_writes_each_update_once [OF demo_spot_ok demo_lost_init demo_life_fair this] obtain mss where
    mss: "list_all2 (\<lambda>(table, rows) ms. set ms \<subseteq> set table \<and> list_all2 (event_for demo_lost demo_codec) ms rows)
      (fst demo_lived) mss"
    and all: "\<forall>m \<in> set (market_store (sdb (snd demo_lived))). db_cursor (sdb demo_spot_world) < market_pos m \<and>
      market_pos m \<le> db_cursor (sdb (snd demo_lived)) \<longrightarrow> m \<in> set (concat mss)"
    by blast
  have ids: "list_all2 (event_for E C) ms rows \<Longrightarrow> map Market_ID ms = map Out_AggregateID rows" for E :: spot_env and C ms rows
    by (induction rule: list_all2_induct) (simp_all add: event_for_def)
  have "map (map Market_ID) mss = map (map Out_AggregateID \<circ> snd) (fst demo_lived)"
    using mss by (induction rule: list_all2_induct) (auto simp: ids)
  then have "map (map Market_ID) mss = [[1, 2], [1, 2], [3, 1]]"
    using demo_lived_result by (simp add: split_beta)
  moreover have "db_cursor (sdb demo_spot_world) < market_pos m \<and> market_pos m \<le> db_cursor (sdb (snd demo_lived))"
    if "m \<in> set (market_store (sdb (snd demo_lived)))" for m
  proof -
    have "market_pos m \<in> set (map market_pos (market_store (sdb (snd demo_lived))))" using that by simp
    moreover have "db_cursor (sdb demo_spot_world) = (zero_time, 0)" by code_simp
    ultimately show ?thesis using demo_lived_result by (auto simp: split_beta zero_time_def)
  qed
  ultimately show ?thesis using all by (intro exI [of _ mss]) blast
qed

theorem poll_terminates_witness:
  "\<exists>r w'. poll demo_spot demo_codec (demo_poller\<lparr>mp_batchSize := 1\<rparr>) 4 demo_spot_world = (Some r, w')"
  by (rule poll_terminates [OF demo_spot_ok]) (simp add: demo_spot_world_def demo_markets_def)

lemma demo_spot_smooth: "smooth demo_spot demo_codec 100"
proof -
  have "Marshal demo_spot demo_codec ev \<noteq> Inl e" for ev e
    using show_int_sep
    by (simp add: Marshal_def demo_codec_def demo_MarshalMarket_def ToProto_def demo_spot_def demo_def
        demo_uuid_String_def opt_valid_def ts_nanos_of split: option.split)
  then have "\<exists>b. Marshal demo_spot demo_codec ev = Inr b" for ev
    by (cases "Marshal demo_spot demo_codec ev") auto
  moreover have "inj_on (env_uuid demo_spot) {..<100}"
  proof (rule inj_onI)
    fix j k :: nat assume "j \<in> {..<100}" "k \<in> {..<100}" and eq: "env_uuid demo_spot j = env_uuid demo_spot k"
    then have "unat (of_nat j :: uuid) = j" "unat (of_nat k :: uuid) = k"
      by (simp_all add: unat_of_nat)
    moreover have "(of_nat j :: uuid) = of_nat k" using eq by (simp add: demo_spot_def demo_def)
    ultimately show "j = k" by metis
  qed
  ultimately show ?thesis by (simp add: smooth_def demo_spot_success)
qed

theorem poll_catches_up_witness:
  "(\<exists>w' rows. poll demo_spot demo_codec demo_poller 4 demo_spot_world = (Some (Inr ()), w') \<and>
    spot_outbox_rows (sdb w') = spot_outbox_rows (sdb demo_spot_world) @ rows \<and>
    list_all2 (event_for demo_spot demo_codec)
      (updates_after (sdb demo_spot_world) (db_cursor (sdb demo_spot_world))) rows \<and>
    updates_after (sdb w') (db_cursor (sdb w')) = [])"
  by (rule poll_catches_up [OF demo_spot_smooth _ demo_spot_ok])
    (simp_all add: demo_poller_def demo_spot_world_def demo_markets_def fresh_def seen_def db_cursor_def
      pg_timestamp_def zero_time_def)

text \<open>A table with one disabled market, and the world after the poller, and after the worker.\<close>

definition demo_closed :: Market where
  "demo_closed = demo_market 2 ''ETH'' False None"

definition demo_closed_world :: spot_world where
  "demo_closed_world = demo_spot_world\<lparr>sdb := \<lparr>market_store = [demo_closed], spot_outbox_rows = [], cursors = []\<rparr>\<rparr>"

abbreviation demo_closed_init :: "(go_error + unit) \<times> spot_world" where
  "demo_closed_init \<equiv> poller_Init demo_spot True demo_closed_world"

abbreviation demo_closed_poll :: "(go_error + unit) option \<times> spot_world" where
  "demo_closed_poll \<equiv> poller_Run demo_spot demo_codec demo_poller 2 True (snd demo_closed_init) [PollerDone]"

abbreviation demo_closed_send :: "(go_error + unit) option \<times> spot_world" where
  "demo_closed_send \<equiv> spot_Run demo_spot demo_outbox_cfg ''market'' True (snd demo_closed_poll) [CtxDone]"

lemma demo_closed_run:
  "case demo_closed_init of (r0, w0) \<Rightarrow>
     r0 = Inr () \<and>
     (case poller_Run demo_spot demo_codec demo_poller 2 True w0 [PollerDone] of (r1, w1) \<Rightarrow>
        db_cursor (sdb w1) = market_pos demo_closed \<and>
        (case spot_Run demo_spot demo_outbox_cfg ''market'' True w1 [CtxDone] of (r2, w2) \<Rightarrow>
           list_all (\<lambda>r. Out_Status r = OutboxEventStatusPublished) (spot_outbox_rows (sdb w2))))"
  by code_simp

lemma demo_closed_init_ok: "fst demo_closed_init = Inr ()"
  using demo_closed_run by (simp add: split_beta)

lemma demo_closed_ok: "spot_ok (sdb demo_closed_world)"
  by code_simp

lemma demo_closed_range: "list_all market_event_in_range (market_store (sdb demo_closed_world))"
  by code_simp

lemma demo_closed_cursor:
  "db_cursor (sdb demo_closed_world) < market_pos demo_closed"
  "db_cursor (sdb (snd demo_closed_poll)) = market_pos demo_closed"
proof -
  show "db_cursor (sdb demo_closed_world) < market_pos demo_closed" by code_simp
qed (use demo_closed_run in \<open>simp add: split_beta\<close>)

lemma demo_closed_listed:
  "demo_closed \<in> set (updates_between (sdb demo_closed_world) (db_cursor (sdb demo_closed_world))
     (db_cursor (sdb (snd demo_closed_poll))))"
  using demo_closed_cursor(1) unfolding demo_closed_cursor(2)
  by (simp add: updates_between_def) (simp add: demo_closed_world_def)

lemma demo_closed_published:
  "list_all (\<lambda>r. Out_Status r = OutboxEventStatusPublished) (spot_outbox_rows (sdb (snd demo_closed_send)))"
  using demo_closed_run by (simp add: split_beta)

theorem closed_market_reaches_orders_witness:
  "\<exists>row \<in> set (spot_outbox_rows (sdb (snd demo_closed_send))). Out_AggregateID row = 2 \<and>
     Out_Status row = OutboxEventStatusPublished \<and> (\<exists>q \<in> set (kafka (snd demo_closed_send)). PM_Topic q = ''market'')"
proof -
  have init: "demo_closed_init = (Inr (), snd demo_closed_init)"
    using demo_closed_init_ok by (simp add: prod_eq_iff)
  have parse: "uuid_Parse demo = uuid_Parse demo_spot" by (simp add: demo_spot_def)
  have closed: "\<not> (Market_Enabled demo_closed \<and> Market_DeletedAt demo_closed = None)" "Market_ID demo_closed = 2"
    by (simp_all add: demo_closed_def demo_market_def)
  from closed_market_reaches_orders [OF demo_closed_ok init prod.collapse [symmetric] prod.collapse [symmetric]
      demo_spot_uuid parse demo_codec_is_ok demo_closed_range demo_closed_listed closed(1), where g = "''orders''" and ocfg = demo_cfg]
  show ?thesis using demo_closed_published closed(2) by (fastforce simp: list_all_iff)
qed

end
