(* ===== verification/Auth_Tokens.thy ===== *)
theory Auth_Tokens
  imports Environment
begin

text \<open>
  The tokens both services rely on: the roles of a user as they stand in a token
  (\<open>shared/models/user_roles.go\<close>, \<open>shared/auth/jwt/user_roles.go\<close>), the claims
  (\<open>shared/auth/jwt/claims.go\<close>) and the manager that issues and reads tokens
  (\<open>shared/auth/jwt/manager.go\<close>). The library \<open>golang-jwt\<close>, which signs and verifies, is an
  argument.
\<close>

section \<open>Roles\<close>

definition ParseUserRole :: "unicode_tables \<Rightarrow> string \<Rightarrow> UserRole \<times> bool" where
  "ParseUserRole U raw =
     (let v = strings_ToUpper U (strings_TrimSpace raw) in
      if v = ''ROLE_USER'' then (UserRoleUser, True)
      else if v = ''ROLE_ADMIN'' then (UserRoleAdmin, True)
      else if v = ''ROLE_VIEWER'' then (UserRoleViewer, True)
      else (UserRoleUnspecified, False))"

text \<open>The loop keeps each role once, where it occurs first.\<close>

fun parse_roles :: "unicode_tables \<Rightarrow> string list \<Rightarrow> UserRole list \<Rightarrow> go_error + UserRole list" where
  "parse_roles U [] out = Inr out"
| "parse_roles U (raw # rawRoles) out =
     (case ParseUserRole U raw of
        (role, ok) \<Rightarrow>
          if \<not> ok \<or> role = UserRoleUnspecified then Inl (Auth ErrInvalidUserRoles)
          else if role \<in> set out then parse_roles U rawRoles out
          else parse_roles U rawRoles (out @ [role]))"

definition ParseUserRolesClaims :: "unicode_tables \<Rightarrow> string list \<Rightarrow> go_error + UserRole list" where
  "ParseUserRolesClaims U rawRoles =
     (if rawRoles = [] then Inl (Auth ErrMissingUserRoles)
      else (case parse_roles U rawRoles [] of
          Inl err \<Rightarrow> Inl err
        | Inr out \<Rightarrow> if out = [] then Inl (Auth ErrMissingUserRoles) else Inr out))"

fun role_claims :: "UserRole list \<Rightarrow> string list \<Rightarrow> string list" where
  "role_claims [] out = out"
| "role_claims (role # roles) out =
     (if role = UserRoleUnspecified then role_claims roles out
      else if UserRole_String role \<in> set out then role_claims roles out
      else role_claims roles (out @ [UserRole_String role]))"

definition UserRolesToClaims :: "UserRole list \<Rightarrow> go_error + string list" where
  "UserRolesToClaims roles =
     (if roles = [] then Inl (Auth ErrBuildTokenClaimsFailed)
      else (let out = role_claims roles [] in
        if out = [] then Inl (Auth ErrBuildTokenClaimsFailed) else Inr out))"

text \<open>Roles that come out of a token: at least one, none twice, and each of the three.\<close>

definition known_roles :: "UserRole set" where
  "known_roles = {UserRoleUser, UserRoleAdmin, UserRoleViewer}"

definition token_roles :: "UserRole list \<Rightarrow> bool" where
  "token_roles roles \<longleftrightarrow> roles \<noteq> [] \<and> distinct roles \<and>
     set roles \<subseteq> known_roles"

lemma ParseUserRole_known:
  "ParseUserRole U raw = (role, ok) \<Longrightarrow> ok \<Longrightarrow> role \<in> known_roles"
  by (auto simp: ParseUserRole_def Let_def known_roles_def split: if_splits)

lemma parse_roles_known:
  assumes "parse_roles U raws out = Inr roles"
    and "distinct out" and "set out \<subseteq> known_roles"
  shows "distinct roles \<and> set roles \<subseteq> known_roles"
  using assms
proof (induction U raws out rule: parse_roles.induct)
  case (2 U raw raws out)
  obtain role ok where r: "ParseUserRole U raw = (role, ok)" by force
  with "2.prems" have ok: "ok" "role \<noteq> UserRoleUnspecified" by (auto split: if_splits)
  with r "2.prems"(1) "2.IH" [OF r [symmetric]] "2.prems"(2,3) ParseUserRole_known [OF r]
  show ?case by (auto split: if_splits)
qed simp

lemma ParseUserRolesClaims_roles: "ParseUserRolesClaims U raws = Inr roles \<Longrightarrow> token_roles roles"
  using parse_roles_known [of U raws "[]" roles]
  by (auto simp: ParseUserRolesClaims_def token_roles_def split: sum.splits if_splits)

text \<open>Issuing a token for such roles and reading it gives them back.\<close>

lemma ParseUserRole_String:
  "role \<in> known_roles \<Longrightarrow>
     ParseUserRole U (UserRole_String role) = (role, True)"
proof -
  have "ParseUserRole U ''ROLE_USER'' = (UserRoleUser, True)"
    "ParseUserRole U ''ROLE_ADMIN'' = (UserRoleAdmin, True)"
    "ParseUserRole U ''ROLE_VIEWER'' = (UserRoleViewer, True)"
    by code_simp+
  then show "role \<in> known_roles \<Longrightarrow> ?thesis"
    by (auto simp: UserRole_String_def UserRole_defs known_roles_def)
qed

lemma UserRole_String_inject:
  "r \<in> known_roles \<Longrightarrow>
   s \<in> known_roles \<Longrightarrow>
   UserRole_String r = UserRole_String s \<longleftrightarrow> r = s"
  by (auto simp: UserRole_String_def UserRole_defs known_roles_def)

lemma role_claims_distinct:
  assumes "distinct (out @ roles)" and "set (out @ roles) \<subseteq> known_roles"
  shows "role_claims roles (map UserRole_String out) = map UserRole_String (out @ roles)"
  using assms
proof (induction roles arbitrary: out)
  case (Cons role roles)
  then have "role \<noteq> UserRoleUnspecified" by (auto simp: UserRole_defs known_roles_def)
  moreover have "UserRole_String role \<notin> UserRole_String ` set out"
    using Cons.prems UserRole_String_inject by auto
  moreover have "role_claims roles (map UserRole_String (out @ [role])) =
      map UserRole_String ((out @ [role]) @ roles)"
    using Cons.prems by (intro Cons.IH) auto
  ultimately show ?case by simp
qed simp

lemma UserRolesToClaims_roles:
  "token_roles roles \<Longrightarrow> UserRolesToClaims roles = Inr (map UserRole_String roles)"
  using role_claims_distinct [of "[]" roles]
  by (auto simp: token_roles_def UserRolesToClaims_def Let_def)

lemma parse_roles_String:
  assumes "distinct (out @ roles)" and "set roles \<subseteq> known_roles"
  shows "parse_roles U (map UserRole_String roles) out = Inr (out @ roles)"
  using assms
proof (induction roles arbitrary: out)
  case (Cons role roles)
  then have "parse_roles U (map UserRole_String roles) (out @ [role]) = Inr ((out @ [role]) @ roles)"
    by (intro Cons.IH) auto
  moreover have "role \<noteq> UserRoleUnspecified" using Cons.prems by (auto simp: UserRole_defs known_roles_def)
  ultimately show ?case using Cons.prems ParseUserRole_String [of role U] by simp
qed simp

lemma ParseUserRolesClaims_String:
  "token_roles roles \<Longrightarrow> ParseUserRolesClaims U (map UserRole_String roles) = Inr roles"
  using parse_roles_String [of "[]" roles U] by (auto simp: token_roles_def ParseUserRolesClaims_def)

section \<open>Tokens\<close>

definition TokenTypeAccess :: string where "TokenTypeAccess = ''access''"
definition TokenTypeRefresh :: string where "TokenTypeRefresh = ''refresh''"

text \<open>The registered claims the manager uses, and its own.\<close>

record Claims =
  Cl_ID :: string
  Cl_Subject :: string
  Cl_IssuedAt :: instant
  Cl_ExpiresAt :: instant
  Cl_TokenType :: string
  Cl_SessionID :: string
  Cl_UserRoles :: "string list"

text \<open>
  \<open>golang-jwt\<close>: dates are cut to its precision; \<open>SignedString\<close> may fail; \<open>ParseWithClaims\<close> at
  an instant gives the claims of a valid token, or an error that is \<open>ErrTokenExpired\<close> or not.
\<close>

datatype jwt_error = JwtTokenExpired | JwtOtherError

record jwt_lib =
  jwt_NewNumericDate :: "instant \<Rightarrow> instant"
  jwt_SignedString :: "bytes \<Rightarrow> Claims \<Rightarrow> string option"
  jwt_ParseWithClaims :: "instant \<Rightarrow> bytes \<Rightarrow> string \<Rightarrow> jwt_error + Claims"

record Manager =
  mgr_secret :: bytes
  mgr_accessTTL :: duration
  mgr_refreshTTL :: duration

definition GenerateAccessToken ::
  "'e env_scheme \<Rightarrow> jwt_lib \<Rightarrow> Manager \<Rightarrow> 'a base_scheme \<Rightarrow> uuid \<Rightarrow> UserRole list \<Rightarrow> string \<Rightarrow>
   go_error + string" where
  "GenerateAccessToken E J m w userID roles sessionID =
     (let now = env_now E (tick w) in
      case UserRolesToClaims roles of
        Inl err \<Rightarrow> Inl err
      | Inr userRoles \<Rightarrow>
          (case jwt_SignedString J (mgr_secret m)
               \<lparr>Cl_ID = '''', Cl_Subject = uuid_String E userID,
                Cl_IssuedAt = jwt_NewNumericDate J now,
                Cl_ExpiresAt = jwt_NewNumericDate J (now + mgr_accessTTL m),
                Cl_TokenType = TokenTypeAccess, Cl_SessionID = sessionID,
                Cl_UserRoles = userRoles\<rparr> of
             None \<Rightarrow> Inl (Auth ErrSignAccessTokenFailed)
           | Some token \<Rightarrow> Inr token))"

definition GenerateRefreshToken ::
  "'e env_scheme \<Rightarrow> jwt_lib \<Rightarrow> Manager \<Rightarrow> 'a base_scheme \<Rightarrow> uuid \<Rightarrow> UserRole list \<Rightarrow> string \<Rightarrow> string \<Rightarrow>
   go_error + string" where
  "GenerateRefreshToken E J m w userID roles jti sessionID =
     (let now = env_now E (tick w) in
      case UserRolesToClaims roles of
        Inl err \<Rightarrow> Inl err
      | Inr userRoles \<Rightarrow>
          (case jwt_SignedString J (mgr_secret m)
               \<lparr>Cl_ID = jti, Cl_Subject = uuid_String E userID,
                Cl_IssuedAt = jwt_NewNumericDate J now,
                Cl_ExpiresAt = jwt_NewNumericDate J (now + mgr_refreshTTL m),
                Cl_TokenType = TokenTypeRefresh, Cl_SessionID = sessionID,
                Cl_UserRoles = userRoles\<rparr> of
             None \<Rightarrow> Inl (Auth ErrSignRefreshTokenFailed)
           | Some token \<Rightarrow> Inr token))"

definition ParseToken ::
  "'e env_scheme \<Rightarrow> jwt_lib \<Rightarrow> Manager \<Rightarrow> 'a base_scheme \<Rightarrow> string \<Rightarrow> string \<Rightarrow> go_error + Claims" where
  "ParseToken E J m w tokenString expectedType =
     (case jwt_ParseWithClaims J (env_now E (tick w)) (mgr_secret m) tokenString of
        Inl JwtTokenExpired \<Rightarrow> Inl (Auth ErrTokenExpired)
      | Inl JwtOtherError \<Rightarrow> Inl (Auth ErrInvalidToken)
      | Inr claims \<Rightarrow>
          if Cl_TokenType claims \<noteq> expectedType then Inl (Auth ErrInvalidTokenType)
          else if Cl_Subject claims = '''' then Inl (Auth ErrMissingTokenSubject)
          else if Cl_SessionID claims = '''' then Inl (Auth ErrMissingTokenSessionID)
          else Inr claims)"

text \<open>
  What the code relies on of the library: a token it signed is valid with the same secret
  until it expires and carries the claims it was signed with, for texts of ASCII and dates that are
  cut to its precision and far from the limits of a \<open>float64\<close>, as which it reads their seconds; a
  date is cut by less than a second; and what a token says does not change while it is valid.
\<close>

definition ascii_claims :: "Claims \<Rightarrow> bool" where
  "ascii_claims c \<longleftrightarrow> ascii (Cl_ID c) \<and> ascii (Cl_Subject c) \<and> ascii (Cl_TokenType c) \<and>
     ascii (Cl_SessionID c) \<and> list_all ascii (Cl_UserRoles c)"

definition second :: duration where "second = 1000000000"

definition json_date :: "jwt_lib \<Rightarrow> instant \<Rightarrow> bool" where
  "json_date J t \<longleftrightarrow> (\<exists>a. t = jwt_NewNumericDate J a) \<and> \<bar>t\<bar> < 2 ^ 53 * second"

definition jwt_reads_signed :: "jwt_lib \<Rightarrow> bool" where
  "jwt_reads_signed J \<longleftrightarrow>
     (\<forall>secret c token t. ascii_claims c \<longrightarrow> json_date J (Cl_IssuedAt c) \<longrightarrow> json_date J (Cl_ExpiresAt c) \<longrightarrow>
        jwt_SignedString J secret c = Some token \<longrightarrow> t < Cl_ExpiresAt c \<longrightarrow>
        jwt_ParseWithClaims J t secret token = Inr c) \<and>
     (\<forall>t. t - second < jwt_NewNumericDate J t \<and> jwt_NewNumericDate J t \<le> t)"

text \<open>An instant whose date can be written, whatever the cut.\<close>

definition date_range :: "instant \<Rightarrow> bool" where
  "date_range t \<longleftrightarrow> \<bar>t\<bar> + second < 2 ^ 53 * second"

lemma json_date_cut: "jwt_reads_signed J \<Longrightarrow> date_range t \<Longrightarrow> json_date J (jwt_NewNumericDate J t)"
proof -
  assume "jwt_reads_signed J" "date_range t"
  then have "t - second < jwt_NewNumericDate J t" "jwt_NewNumericDate J t \<le> t"
    by (simp_all add: jwt_reads_signed_def)
  with \<open>date_range t\<close> show ?thesis unfolding json_date_def date_range_def
    by (intro conjI) (blast, linarith)
qed

definition jwt_steady :: "jwt_lib \<Rightarrow> bool" where
  "jwt_steady J \<longleftrightarrow>
     (\<forall>secret token t t' c c'. jwt_ParseWithClaims J t secret token = Inr c \<longrightarrow>
        jwt_ParseWithClaims J t' secret token = Inr c' \<longrightarrow> c = c')"

lemma ascii_role [simp]: "ascii (UserRole_String role)"
proof -
  have "ascii ''ROLE_USER''" "ascii ''ROLE_ADMIN''" "ascii ''ROLE_VIEWER''" "ascii ''ROLE_UNSPECIFIED''"
    by code_simp+
  then show ?thesis by (simp add: UserRole_String_def)
qed

lemma ascii_types [simp]: "ascii TokenTypeAccess" "ascii TokenTypeRefresh"
  by code_simp+

text \<open>An access token is read back with its user, roles and session, and never as a refresh token.\<close>

lemma access_token_read:
  assumes "jwt_reads_signed J" and "uuid_ok E" and "token_roles roles" and "ascii sessionID" and "sessionID \<noteq> ''''"
    and "GenerateAccessToken E J m w userID roles sessionID = Inr token"
    and "env_now E (tick v) \<le> env_now E (tick w) + mgr_accessTTL m - second"
    and "date_range (env_now E (tick w))" and "date_range (env_now E (tick w) + mgr_accessTTL m)"
  shows "\<exists>c. ParseToken E J m v token TokenTypeAccess = Inr c \<and> Cl_Subject c = uuid_String E userID \<and>
    Cl_SessionID c = sessionID \<and> ParseUserRolesClaims U (Cl_UserRoles c) = Inr roles \<and>
    ParseToken E J m v token TokenTypeRefresh = Inl (Auth ErrInvalidTokenType)"
proof -
  define c where "c = \<lparr>Cl_ID = '''', Cl_Subject = uuid_String E userID,
    Cl_IssuedAt = jwt_NewNumericDate J (env_now E (tick w)),
    Cl_ExpiresAt = jwt_NewNumericDate J (env_now E (tick w) + mgr_accessTTL m),
    Cl_TokenType = TokenTypeAccess, Cl_SessionID = sessionID, Cl_UserRoles = map UserRole_String roles\<rparr>"
  have signed: "jwt_SignedString J (mgr_secret m) c = Some token"
    using assms(6) by (auto simp: GenerateAccessToken_def Let_def UserRolesToClaims_roles [OF assms(3)] c_def
        split: option.splits)
  have ac: "ascii_claims c"
    using assms(2,4) by (simp add: ascii_claims_def c_def ascii_uuid_String list_all_iff) (simp add: ascii_def)
  have "env_now E (tick v) < Cl_ExpiresAt c"
    using assms(1,7) unfolding jwt_reads_signed_def c_def by simp (metis diff_add_cancel less_le_trans add_le_cancel_right le_less_trans)
  moreover have "json_date J (Cl_IssuedAt c)" "json_date J (Cl_ExpiresAt c)"
    using json_date_cut [OF assms(1)] assms(8,9) by (simp_all add: c_def)
  ultimately have "jwt_ParseWithClaims J (env_now E (tick v)) (mgr_secret m) token = Inr c"
    using assms(1) signed ac unfolding jwt_reads_signed_def by blast
  moreover have "uuid_String E userID \<noteq> ''''" using assms(2) by (simp add: uuid_ok_def)
  ultimately show ?thesis
    using assms(5) ParseUserRolesClaims_String [OF assms(3)]
    by (simp add: ParseToken_def c_def TokenTypeAccess_def TokenTypeRefresh_def)
qed

end
