(* ===== verification/Grpc_Server.thy ===== *)
theory Grpc_Server
  imports Auth_Tokens
begin

text \<open>
  What stands between a request and its handler in both services: the request context
  (\<open>shared/requestctx\<close>), the interceptors that authenticate, limit, recover and map errors
  (\<open>shared/interceptors\<close>), and their chain (\<open>provideGRPCServer\<close> of both services). The
  interceptors that trace, count and log come in with the theory \<open>Observability\<close>, which shows
  that they leave answers and services alone.
\<close>

section \<open>The request context\<close>

text \<open>
  The metadata of the request, which gRPC keys by lower-case names, the metadata of calls
  made on its behalf, and the values the interceptors add. A nil context is \<open>None\<close>.
\<close>

type_synonym metadata = "(string \<times> string list) list"

record grpc_ctx =
  ctx_incoming :: "metadata option"
  ctx_outgoing :: "metadata option"
  ctx_userID :: "uuid option"
  ctx_userRoles :: "UserRole list option"

definition md_Get :: "metadata \<Rightarrow> string \<Rightarrow> string list" where
  "md_Get md k = (case map_of md k of None \<Rightarrow> [] | Some vs \<Rightarrow> vs)"

definition md_Set :: "metadata \<Rightarrow> string \<Rightarrow> string list \<Rightarrow> metadata" where
  "md_Set md k vs = (k, vs) # filter (\<lambda>(k', _). k' \<noteq> k) md"

definition ContextWithUserID :: "grpc_ctx option \<Rightarrow> uuid \<Rightarrow> grpc_ctx option" where
  "ContextWithUserID ctx userID =
     (case ctx of None \<Rightarrow> None | Some c \<Rightarrow> Some (c\<lparr>ctx_userID := Some userID\<rparr>))"

definition UserIDFromContext :: "grpc_ctx option \<Rightarrow> uuid option" where
  "UserIDFromContext ctx = (case ctx of None \<Rightarrow> None | Some c \<Rightarrow> ctx_userID c)"

definition ContextWithUserRoles :: "grpc_ctx option \<Rightarrow> UserRole list \<Rightarrow> grpc_ctx option" where
  "ContextWithUserRoles ctx roles =
     (case ctx of None \<Rightarrow> None | Some c \<Rightarrow> Some (c\<lparr>ctx_userRoles := Some roles\<rparr>))"

section \<open>The interceptors\<close>

type_synonym ('w, 'r) grpc_handler = "'w \<Rightarrow> grpc_ctx \<Rightarrow> 'r served \<times> 'w"

definition authorizationHeader :: string where "authorizationHeader = ''authorization''"
definition bearerPrefix :: string where "bearerPrefix = ''bearer ''"

definition bearerTokenFromContext :: "unicode_tables \<Rightarrow> grpc_ctx \<Rightarrow> go_error + string" where
  "bearerTokenFromContext U ctx =
     (case ctx_incoming ctx of
        None \<Rightarrow> Inl (Auth ErrMissingMetadata)
      | Some md \<Rightarrow>
          (case md_Get md authorizationHeader of
             [] \<Rightarrow> Inl (Auth ErrMissingAuthToken)
           | v # _ \<Rightarrow>
               (let authHeader = strings_TrimSpace v;
                    lower = strings_ToLower U authHeader
                in if \<not> prefix bearerPrefix lower then Inl (Auth ErrMissingAuthToken)
                   else
                     (let tokenString = strings_TrimSpace (drop (length bearerPrefix) authHeader) in
                      if tokenString = '''' then Inl (Auth ErrMissingAuthToken)
                      else Inr tokenString))))"

definition makeSkipMethods :: "string list \<Rightarrow> string list" where
  "makeSkipMethods methods = filter (\<lambda>m. m \<noteq> '''') (map strings_TrimSpace methods)"

definition shouldSkip :: "string \<Rightarrow> string list \<Rightarrow> bool" where
  "shouldSkip fullMethod skipMethods \<longleftrightarrow> fullMethod \<in> set skipMethods"

definition auth_UnaryServerInterceptor ::
  "'e env_scheme \<Rightarrow> jwt_lib \<Rightarrow> unicode_tables \<Rightarrow> Manager \<Rightarrow> string list \<Rightarrow> string \<Rightarrow>
   ('a base_scheme, 'r) grpc_handler \<Rightarrow> ('a base_scheme, 'r) grpc_handler" where
  "auth_UnaryServerInterceptor E J U m skip fullMethod handler w ctx =
     (if shouldSkip fullMethod (makeSkipMethods skip) then handler w ctx
      else
        (case bearerTokenFromContext U ctx of
           Inl err \<Rightarrow> (Returned (Inl err), w)
         | Inr tokenString \<Rightarrow>
             (case ParseToken E J m w tokenString TokenTypeAccess of
                Inl err \<Rightarrow> (Returned (Inl err), w)
              | Inr claims \<Rightarrow>
                  (case ParseUserRolesClaims U (Cl_UserRoles claims) of
                     Inl err \<Rightarrow> (Returned (Inl err), w)
                   | Inr userRoles \<Rightarrow>
                       (case uuid_Parse E (Cl_Subject claims) of
                          None \<Rightarrow> (Returned (Inl (Auth ErrInvalidUserIDInToken)), w)
                        | Some userID \<Rightarrow>
                            (case ContextWithUserID (Some ctx) userID of
                               None \<Rightarrow> (Returned (Inl (Auth ErrInternalAuthContext)), w)
                             | Some ctx1 \<Rightarrow>
                                 (case ContextWithUserRoles (Some ctx1) userRoles of
                                    None \<Rightarrow> (Returned (Inl (Auth ErrInternalAuthContext)), w)
                                  | Some ctx2 \<Rightarrow> handler w ctx2)))))))"

text \<open>
  The limiter of a method is that of \<open>golang.org/x/time/rate\<close>, an argument: whether the limiter
  with a rate and a burst allows the call at a step. Methods without a positive limit have none.
\<close>

definition ratelimit_UnaryServerInterceptor ::
  "(string \<Rightarrow> int \<Rightarrow> int \<Rightarrow> nat \<Rightarrow> bool) \<Rightarrow> (string \<times> int) list \<Rightarrow> string \<Rightarrow>
   ('a base_scheme, 'r) grpc_handler \<Rightarrow> ('a base_scheme, 'r) grpc_handler" where
  "ratelimit_UnaryServerInterceptor allow methodsLimit fullMethod handler w ctx =
     (case map_of (filter (\<lambda>(_, rps). 0 < rps) methodsLimit) fullMethod of
        None \<Rightarrow> handler w ctx
      | Some rps \<Rightarrow>
          if \<not> allow fullMethod rps (wrap64 (rps * 3)) (tick w)
          then (Returned (Inl (StatusError Code_ResourceExhausted ''too many requests'')), w)
          else handler w ctx)"

definition recovery_UnaryServerInterceptor ::
  "('w \<Rightarrow> 'c \<Rightarrow> 'r served \<times> 'w) \<Rightarrow> 'w \<Rightarrow> 'c \<Rightarrow> 'r served \<times> 'w" where
  "recovery_UnaryServerInterceptor handler w ctx =
     (case handler w ctx of
        (Panics r, w1) \<Rightarrow> (Returned (Inl (StatusError Code_Internal ''internal error'')), w1)
      | (Returned r, w1) \<Rightarrow> (Returned r, w1))"

text \<open>\<open>validate\<close> is \<open>protovalidate\<close> with the rules of the \<open>.proto\<close> files: the text of a violation.\<close>

definition validate_UnaryServerInterceptor ::
  "string option \<Rightarrow> ('w \<Rightarrow> 'c \<Rightarrow> 'r served \<times> 'w) \<Rightarrow> 'w \<Rightarrow> 'c \<Rightarrow> 'r served \<times> 'w" where
  "validate_UnaryServerInterceptor violation handler w ctx =
     (case violation of
        Some what \<Rightarrow> (Returned (Inl (StatusError Code_InvalidArgument what)), w)
      | None \<Rightarrow> handler w ctx)"

definition errors_Interceptor ::
  "'e env_scheme \<Rightarrow> ('w, 'r) grpc_handler \<Rightarrow> ('w, 'r) grpc_handler" where
  "errors_Interceptor E handler w ctx =
     (case handler w ctx of
        (Panics r, w1) \<Rightarrow> (Panics r, w1)
      | (Returned r, w1) \<Rightarrow>
          (Returned (errors_UnaryServerInterceptor (uuid_String E) (duration_String E) r), w1))"

text \<open>
  On the way out: a call the order service makes on behalf of a request carries the
  \<open>authorization\<close> header of that request.
\<close>

definition UnaryClientAuthInterceptor :: "'x grpc_ctx_scheme \<Rightarrow> 'x grpc_ctx_scheme" where
  "UnaryClientAuthInterceptor ctx =
     (case ctx_incoming ctx of
        None \<Rightarrow> ctx
      | Some incomingMetadata \<Rightarrow>
          (case md_Get incomingMetadata authorizationHeader of
             [] \<Rightarrow> ctx
           | authHeader # _ \<Rightarrow>
               (let outgoing = (case ctx_outgoing ctx of None \<Rightarrow> [] | Some md \<Rightarrow> md)
                in ctx\<lparr>ctx_outgoing := Some (md_Set outgoing authorizationHeader [authHeader])\<rparr>)))"

section \<open>The chain\<close>

record server =
  srv_manager :: Manager
  srv_skipMethods :: "string list"
  srv_methodsLimit :: "(string \<times> int) list"
  srv_allow :: "string \<Rightarrow> int \<Rightarrow> int \<Rightarrow> nat \<Rightarrow> bool"

text \<open>
  \<open>grpc.ChainUnaryInterceptor(validator, recoverer, tracer, meter, logger, errorsMapper,
  authenticator, rateLimiter)\<close>, the first outermost, on a request that arrives with metadata.
\<close>

definition serve ::
  "'e env_scheme \<Rightarrow> jwt_lib \<Rightarrow> unicode_tables \<Rightarrow> server \<Rightarrow> string \<Rightarrow> string option \<Rightarrow>
   ('a base_scheme, 'r) grpc_handler \<Rightarrow> 'a base_scheme \<Rightarrow> metadata \<Rightarrow> 'r served \<times> 'a base_scheme" where
  "serve E J U srv fullMethod violation handler w md =
     validate_UnaryServerInterceptor violation
       (recovery_UnaryServerInterceptor
         (errors_Interceptor E
           (auth_UnaryServerInterceptor E J U (srv_manager srv) (srv_skipMethods srv) fullMethod
             (ratelimit_UnaryServerInterceptor (srv_allow srv) (srv_methodsLimit srv) fullMethod handler))))
       w \<lparr>ctx_incoming = Some md, ctx_outgoing = None, ctx_userID = None, ctx_userRoles = None\<rparr>"

section \<open>What the chain guarantees\<close>

text \<open>The user and the roles a request proves with its bearer token.\<close>

definition authenticated ::
  "'e env_scheme \<Rightarrow> jwt_lib \<Rightarrow> unicode_tables \<Rightarrow> server \<Rightarrow> 'a base_scheme \<Rightarrow> metadata \<Rightarrow>
   (uuid \<times> UserRole list) option" where
  "authenticated E J U srv w md =
     (case bearerTokenFromContext U
          \<lparr>ctx_incoming = Some md, ctx_outgoing = None, ctx_userID = None, ctx_userRoles = None\<rparr> of
        Inl _ \<Rightarrow> None
      | Inr token \<Rightarrow>
          (case ParseToken E J (srv_manager srv) w token TokenTypeAccess of
             Inl _ \<Rightarrow> None
           | Inr c \<Rightarrow>
               (case ParseUserRolesClaims U (Cl_UserRoles c) of
                  Inl _ \<Rightarrow> None
                | Inr roles \<Rightarrow>
                    (case uuid_Parse E (Cl_Subject c) of
                       None \<Rightarrow> None
                     | Some u \<Rightarrow> Some (u, roles)))))"

lemma auth_errors_mapped:
  "mapError us ds (Auth a) =
     (if isAuthFailure (Auth a) then StatusError Code_Unauthenticated ''authentication failed''
      else StatusError Code_Internal ''internal error'')"
  by (cases a) (simp_all add: mapError_def isNotFoundError_def isSpotDependencyError_def isBreakerError_def
      isAuthFailure_def isAuthInternalFailure_def FromContextError_def)

lemma bearer_Inl: "bearerTokenFromContext U ctx = Inl e \<Longrightarrow> \<exists>a. e = Auth a \<and> isAuthFailure e"
  by (auto simp: bearerTokenFromContext_def isAuthFailure_def Let_def
      split: option.splits list.splits if_splits)

lemma ParseToken_Inl: "ParseToken E J m w token ty = Inl e \<Longrightarrow> \<exists>a. e = Auth a \<and> isAuthFailure e"
  by (auto simp: ParseToken_def isAuthFailure_def split: sum.splits jwt_error.splits if_splits)

lemma parse_roles_Inl: "parse_roles U raws out = Inl e \<Longrightarrow> e = Auth ErrInvalidUserRoles"
  by (induction U raws out rule: parse_roles.induct) (auto split: prod.splits if_splits)

lemma roles_Inl: "ParseUserRolesClaims U raws = Inl e \<Longrightarrow> \<exists>a. e = Auth a \<and> isAuthFailure e"
  by (auto simp: ParseUserRolesClaims_def isAuthFailure_def dest: parse_roles_Inl
      split: sum.splits if_splits)

text \<open>The context a request arrives with, and the one its handler sees.\<close>

abbreviation arrived :: "metadata \<Rightarrow> grpc_ctx" where
  "arrived md \<equiv> \<lparr>ctx_incoming = Some md, ctx_outgoing = None, ctx_userID = None, ctx_userRoles = None\<rparr>"

abbreviation proven :: "metadata \<Rightarrow> uuid \<Rightarrow> UserRole list \<Rightarrow> grpc_ctx" where
  "proven md u roles \<equiv>
     \<lparr>ctx_incoming = Some md, ctx_outgoing = None, ctx_userID = Some u, ctx_userRoles = Some roles\<rparr>"

lemma auth_proven:
  assumes "authenticated E J U srv w md = Some (u, roles)"
    and "\<not> shouldSkip fullMethod (makeSkipMethods (srv_skipMethods srv))"
  shows "auth_UnaryServerInterceptor E J U (srv_manager srv) (srv_skipMethods srv) fullMethod handler w
    (arrived md) = handler w (proven md u roles)"
proof -
  obtain token c where "bearerTokenFromContext U (arrived md) = Inr token"
    "ParseToken E J (srv_manager srv) w token TokenTypeAccess = Inr c"
    "ParseUserRolesClaims U (Cl_UserRoles c) = Inr roles" "uuid_Parse E (Cl_Subject c) = Some u"
    using assms(1) by (auto simp: authenticated_def split: sum.splits option.splits)
  with assms(2) show ?thesis
    by (simp add: auth_UnaryServerInterceptor_def ContextWithUserID_def ContextWithUserRoles_def)
qed

lemma auth_refused:
  assumes "authenticated E J U srv w md = None"
    and "\<not> shouldSkip fullMethod (makeSkipMethods (srv_skipMethods srv))"
  shows "\<exists>e. (\<exists>a. e = Auth a) \<and> isAuthFailure e \<and>
    auth_UnaryServerInterceptor E J U (srv_manager srv) (srv_skipMethods srv) fullMethod handler w
      (arrived md) = (Returned (Inl e), w)"
proof (cases "bearerTokenFromContext U (arrived md)")
  case (Inl e)
  with bearer_Inl [OF Inl] assms(2) show ?thesis by (simp add: auth_UnaryServerInterceptor_def)
next
  case token: (Inr token)
  show ?thesis
  proof (cases "ParseToken E J (srv_manager srv) w token TokenTypeAccess")
    case (Inl e)
    with ParseToken_Inl [OF Inl] token assms(2) show ?thesis by (simp add: auth_UnaryServerInterceptor_def)
  next
    case claims: (Inr c)
    show ?thesis
    proof (cases "ParseUserRolesClaims U (Cl_UserRoles c)")
      case (Inl e)
      with roles_Inl [OF Inl] token claims assms(2) show ?thesis
        by (simp add: auth_UnaryServerInterceptor_def)
    next
      case (Inr roles)
      with token claims assms have "uuid_Parse E (Cl_Subject c) = None"
        by (simp add: authenticated_def split: option.splits)
      with token claims Inr assms(2) show ?thesis
        by (simp add: auth_UnaryServerInterceptor_def isAuthFailure_def)
    qed
  qed
qed

text \<open>Where the chain goes: to an answer of its own, or to the handler with the proven user.\<close>

lemma serve_refused:
  assumes "authenticated E J U srv w md = None"
    and "\<not> shouldSkip fullMethod (makeSkipMethods (srv_skipMethods srv))"
  shows "serve E J U srv fullMethod violation handler w md =
    (Returned (Inl (case violation of
        None \<Rightarrow> StatusError Code_Unauthenticated ''authentication failed''
      | Some what \<Rightarrow> StatusError Code_InvalidArgument what)), w)"
proof -
  obtain e a where "e = Auth a" "isAuthFailure e"
    "auth_UnaryServerInterceptor E J U (srv_manager srv) (srv_skipMethods srv) fullMethod
      (ratelimit_UnaryServerInterceptor (srv_allow srv) (srv_methodsLimit srv) fullMethod handler) w
      (arrived md) = (Returned (Inl e), w)"
    using auth_refused [OF assms] by blast
  then show ?thesis
    by (simp add: serve_def validate_UnaryServerInterceptor_def recovery_UnaryServerInterceptor_def
        errors_Interceptor_def errors_UnaryServerInterceptor_def auth_errors_mapped split: option.split)
qed

lemma serve_proven:
  assumes "authenticated E J U srv w md = Some (u, roles)"
    and "\<not> shouldSkip fullMethod (makeSkipMethods (srv_skipMethods srv))"
    and "serve E J U srv fullMethod violation handler w md = (r, w')"
  shows "(w' = w \<and> (\<exists>c what. r = Returned (Inl (StatusError c what)))) \<or>
    (\<exists>q. handler w (proven md u roles) = (q, w') \<and>
       r = (case q of Panics _ \<Rightarrow> Returned (Inl (StatusError Code_Internal ''internal error''))
              | Returned x \<Rightarrow> Returned (errors_UnaryServerInterceptor (uuid_String E) (duration_String E) x)))"
proof -
  have mapped: "mapError us ds (StatusError Code_ResourceExhausted x) = StatusError Code_ResourceExhausted x" for us ds x
    by (simp add: mapError_def)
  show ?thesis
    using assms(3)
    unfolding serve_def validate_UnaryServerInterceptor_def recovery_UnaryServerInterceptor_def
      errors_Interceptor_def auth_proven [OF assms(1,2)] ratelimit_UnaryServerInterceptor_def
    by (auto simp: errors_UnaryServerInterceptor_def mapped
        split: option.splits served.splits prod.splits if_splits)
qed

lemma serve_skipped:
  assumes "shouldSkip fullMethod (makeSkipMethods (srv_skipMethods srv))"
    and "serve E J U srv fullMethod violation handler w md = (r, w')"
  shows "w' = w \<or> (\<exists>q. handler w (arrived md) = (q, w'))"
  using assms
  by (auto simp: serve_def validate_UnaryServerInterceptor_def recovery_UnaryServerInterceptor_def
      errors_Interceptor_def auth_UnaryServerInterceptor_def ratelimit_UnaryServerInterceptor_def
      split: option.splits served.splits prod.splits if_splits)

end
