(* ===== verification/Order_Handler.thy ===== *)
theory Order_Handler
  imports Order_Service Grpc_Server
begin

text \<open>
  The gRPC handler of the order service (\<open>grpc/order/order_handler.go\<close>) with the mapping of its
  enumerations (\<open>application/dto/inbound/proto_mapper.go\<close>) and the checks of prices
  (\<open>domain/models/shared/order.go\<close>), behind the chain of interceptors: what a request must have
  been for an order to be in the table.
\<close>

section \<open>Decimals\<close>

definition IsPositive :: "'e order_env_scheme \<Rightarrow> decimal \<Rightarrow> bool" where
  "IsPositive E d = dec_IsPositive E d"

definition countIntegerDigits :: "string \<Rightarrow> int" where
  "countIntegerDigits integerPart =
     (let trimmed = dropWhile (\<lambda>c. c = CHR ''0'') integerPart in
      if trimmed = '''' then 0 else int (length trimmed))"

definition countFractionalDigits :: "string \<Rightarrow> int" where
  "countFractionalDigits fractionalPart =
     (let trimmed = rev (dropWhile (\<lambda>c. c = CHR ''0'') (rev fractionalPart)) in int (length trimmed))"

text \<open>\<open>strings.SplitN(raw, ".", 2)\<close>: before the first point, and after it if there is one.\<close>

definition FitsNumeric :: "'e order_env_scheme \<Rightarrow> decimal \<Rightarrow> int \<Rightarrow> int \<Rightarrow> bool" where
  "FitsNumeric E d maxPrecision maxScale =
     (let raw0 = dec_String E d;
          raw = (if prefix ''-'' raw0 then drop 1 raw0 else raw0);
          parts = (case index_byte (CHR ''.'') raw of
              None \<Rightarrow> (raw, None) | Some i \<Rightarrow> (take i raw, Some (drop (Suc i) raw)));
          integerDigits = countIntegerDigits (fst parts);
          fractionalDigits = (case snd parts of None \<Rightarrow> 0 | Some f \<Rightarrow> countFractionalDigits f);
          maxIntegerDigits = maxPrecision - maxScale
      in integerDigits \<le> maxIntegerDigits \<and> fractionalDigits \<le> maxScale)"

section \<open>Requests and answers\<close>

text \<open>
  Enumerations of protobuf are open: a number outside them arrives as it is. A missing price
  is \<open>None\<close>.
\<close>

record CreateOrderRequest =
  CR_MarketId :: string
  CR_OrderType :: int
  CR_Price :: "string option"
  CR_Quantity :: int

definition TypeFromProto :: "int \<Rightarrow> OrderType" where
  "TypeFromProto t =
     (if t = 1 then OrderTypeLimit
      else if t = 2 then OrderTypeMarket
      else if t = 3 then OrderTypeStopLoss
      else if t = 4 then OrderTypeTakeProfit
      else OrderTypeUnspecified)"

definition StatusToProto :: "OrderStatus \<Rightarrow> int" where
  "StatusToProto s =
     (if s = OrderStatusCreated then 1
      else if s = OrderStatusPending then 2
      else if s = OrderStatusFilled then 3
      else if s = OrderStatusCancelled then 4
      else 0)"

definition minQuantity :: int where "minQuantity = 0"
definition pricePrecision :: int where "pricePrecision = 18"
definition priceScale :: int where "priceScale = 8"

definition invalid_argument :: "string \<Rightarrow> go_error" where
  "invalid_argument what = StatusError Code_InvalidArgument what"

definition validateCreateRequest :: "CreateOrderRequest option \<Rightarrow> go_error + unit" where
  "validateCreateRequest request =
     (case request of
        None \<Rightarrow> Inl (invalid_argument ''request is required'')
      | Some req \<Rightarrow>
          if CR_MarketId req = '''' then Inl (invalid_argument ''market_id is required'')
          else if CR_OrderType req = 0 then Inl (invalid_argument ''order_type is required'')
          else if CR_Quantity req \<le> minQuantity then Inl (invalid_argument ''quantity must be > 0'')
          else Inr ())"

definition validatePrice ::
  "'e order_env_scheme \<Rightarrow> CreateOrderRequest option \<Rightarrow> go_error + decimal" where
  "validatePrice E request =
     (case request of
        None \<Rightarrow> Inl (invalid_argument ''request is required'')
      | Some req \<Rightarrow>
          (case CR_Price req of
             None \<Rightarrow> Inl (invalid_argument ''price is required'')
           | Some price \<Rightarrow>
               (case NewDecimal E price of
                  Inl _ \<Rightarrow> Inl (invalid_argument ''price must be a valid decimal number'')
                | Inr validPrice \<Rightarrow>
                    if \<not> IsPositive E validPrice then Inl (invalid_argument ''price must be > 0'')
                    else if \<not> FitsNumeric E validPrice pricePrecision priceScale then
                      Inl (invalid_argument
                        ''price must have at most 10 integer digits and 8 fractional digits'')
                    else Inr validPrice)))"

section \<open>The handlers\<close>

definition serverAPI_CreateOrder ::
  "'e order_env_scheme \<Rightarrow> OrderConfig \<Rightarrow> 'a order_world_scheme \<Rightarrow> grpc_ctx \<Rightarrow>
   CreateOrderRequest option \<Rightarrow> (go_error + string \<times> int) \<times> 'a order_world_scheme" where
  "serverAPI_CreateOrder E cfg w ctx request =
     (case validateCreateRequest request of
        Inl err \<Rightarrow> (Inl err, w)
      | Inr _ \<Rightarrow>
     (case UserIDFromContext (Some ctx) of
        None \<Rightarrow> (Inl (StatusError Code_Unauthenticated ''user_id not found in token''), w)
      | Some userID \<Rightarrow>
     (case uuid_Parse E (CR_MarketId (the request)) of
        None \<Rightarrow> (Inl (invalid_argument ''market_id must be a valid UUID''), w)
      | Some marketID \<Rightarrow>
     (case validatePrice E request of
        Inl err \<Rightarrow> (Inl err, w)
      | Inr orderPrice \<Rightarrow>
          (let orderType = TypeFromProto (CR_OrderType (the request));
               orderQuantity = CR_Quantity (the request)
           in case CreateOrder E w cfg userID marketID orderType orderPrice orderQuantity of
                (Inl err, w1) \<Rightarrow> (Inl err, w1)
              | (Inr (orderID, orderStatus), w1) \<Rightarrow>
                  (Inr (uuid_String E orderID, StatusToProto orderStatus), w1))))))"

definition serverAPI_GetOrderStatus ::
  "'e order_env_scheme \<Rightarrow> OrderConfig \<Rightarrow> 'a order_world_scheme \<Rightarrow> grpc_ctx \<Rightarrow>
   string option \<Rightarrow> (go_error + int) \<times> 'a order_world_scheme" where
  "serverAPI_GetOrderStatus E cfg w ctx request =
     (case request of
        None \<Rightarrow> (Inl (invalid_argument ''request is required''), w)
      | Some orderId \<Rightarrow>
          if orderId = '''' then (Inl (invalid_argument ''order_id is required''), w)
          else
            (case UserIDFromContext (Some ctx) of
               None \<Rightarrow> (Inl (StatusError Code_Unauthenticated ''user_id not found in token''), w)
             | Some userID \<Rightarrow>
                 (case uuid_Parse E orderId of
                    None \<Rightarrow> (Inl (invalid_argument ''order_id must be a valid UUID''), w)
                  | Some orderID \<Rightarrow>
                      (case GetOrderStatus E w cfg orderID userID of
                         (Inl err, w1) \<Rightarrow> (Inl err, w1)
                       | (Inr orderStatus, w1) \<Rightarrow> (Inr (StatusToProto orderStatus), w1)))))"

definition CreateOrder_FullMethodName :: string where
  "CreateOrder_FullMethodName = ''/order.v1.OrderService/CreateOrder''"

definition GetOrderStatus_FullMethodName :: string where
  "GetOrderStatus_FullMethodName = ''/order.v1.OrderService/GetOrderStatus''"

definition serve_CreateOrder ::
  "'e order_env_scheme \<Rightarrow> jwt_lib \<Rightarrow> unicode_tables \<Rightarrow> server \<Rightarrow> OrderConfig \<Rightarrow> string option \<Rightarrow>
   'a order_world_scheme \<Rightarrow> metadata \<Rightarrow> CreateOrderRequest option \<Rightarrow>
   (string \<times> int) served \<times> 'a order_world_scheme" where
  "serve_CreateOrder E J U srv cfg violation w md request =
     serve E J U srv CreateOrder_FullMethodName violation
       (\<lambda>w ctx. case serverAPI_CreateOrder E cfg w ctx request of (r, w1) \<Rightarrow> (Returned r, w1)) w md"

definition serve_GetOrderStatus ::
  "'e order_env_scheme \<Rightarrow> jwt_lib \<Rightarrow> unicode_tables \<Rightarrow> server \<Rightarrow> OrderConfig \<Rightarrow> string option \<Rightarrow>
   'a order_world_scheme \<Rightarrow> metadata \<Rightarrow> string option \<Rightarrow> int served \<times> 'a order_world_scheme" where
  "serve_GetOrderStatus E J U srv cfg violation w md request =
     serve E J U srv GetOrderStatus_FullMethodName violation
       (\<lambda>w ctx. case serverAPI_GetOrderStatus E cfg w ctx request of (r, w1) \<Rightarrow> (Returned r, w1)) w md"

section \<open>What a request must have been\<close>

lemma serverAPI_CreateOrder_anonymous:
  "ctx_userID ctx = None \<Longrightarrow> snd (serverAPI_CreateOrder E cfg w ctx request) = w"
  by (simp add: serverAPI_CreateOrder_def UserIDFromContext_def split: sum.split)

lemma serverAPI_CreateOrder_effect:
  assumes "serverAPI_CreateOrder E cfg w ctx request = (r, w')" and "db w' \<noteq> db w"
  shows "\<exists>req u m p i. request = Some req \<and> ctx_userID ctx = Some u \<and>
    uuid_Parse E (CR_MarketId req) = Some m \<and> validatePrice E request = Inr p \<and> 0 < CR_Quantity req \<and>
    CR_OrderType req \<noteq> 0 \<and>
    order_placed E u m (TypeFromProto (CR_OrderType req)) p (CR_Quantity req) (db w) i (db w')"
  using assms
  by (auto simp: serverAPI_CreateOrder_def UserIDFromContext_def validateCreateRequest_def minQuantity_def Let_def
      dest!: CreateOrder_cases
      split: option.splits sum.splits prod.splits if_splits)

text \<open>
  C10. A request changes the table of orders only if it carries, as its bearer token, a valid
  access token of a user; then exactly one order is added, and it is that user's, on the
  market, of the type, the quantity and the price of the request, where the price is positive
  and has at most 10 integer and 8 fractional digits.
\<close>

theorem orders_only_for_authenticated_user:
  assumes "serve_CreateOrder E J U srv cfg violation w md request = (r, w')" and "db w' \<noteq> db w"
  shows "\<exists>req u roles m p i. request = Some req \<and> authenticated E J U srv w md = Some (u, roles) \<and>
    uuid_Parse E (CR_MarketId req) = Some m \<and> validatePrice E request = Inr p \<and>
    IsPositive E p \<and> FitsNumeric E p 18 8 \<and> 0 < CR_Quantity req \<and> CR_OrderType req \<noteq> 0 \<and>
    order_placed E u m (TypeFromProto (CR_OrderType req)) p (CR_Quantity req) (db w) i (db w')"
proof -
  let ?h = "\<lambda>w ctx. case serverAPI_CreateOrder E cfg w ctx request of (r, w1) \<Rightarrow> (Returned r, w1)"
  have served: "serve E J U srv CreateOrder_FullMethodName violation ?h w md = (r, w')"
    using assms(1) by (simp add: serve_CreateOrder_def)
  have ns: "\<not> shouldSkip CreateOrder_FullMethodName (makeSkipMethods (srv_skipMethods srv))"
    using serve_skipped [OF _ served] serverAPI_CreateOrder_anonymous [of "arrived md" E cfg w request] assms(2)
    by (auto split: prod.splits)
  have "authenticated E J U srv w md \<noteq> None"
  proof
    assume "authenticated E J U srv w md = None"
    from serve_refused [OF this ns, of violation ?h] served assms(2) show False by simp
  qed
  then obtain u roles where u: "authenticated E J U srv w md = Some (u, roles)" by auto
  from serve_proven [OF u ns served] assms(2)
  obtain q where "serverAPI_CreateOrder E cfg w (proven md u roles) request = (q, w')"
    by (auto split: prod.splits)
  from serverAPI_CreateOrder_effect [OF this assms(2)] u show ?thesis
    by (auto simp: validatePrice_def pricePrecision_def priceScale_def split: option.splits sum.splits if_splits)
qed

text \<open>
  Without a valid access token no method that requires one is executed: whatever the
  handler would do, the world is as before, and the answer, unless the request already fails
  the rules of its message, is the status \<open>Unauthenticated\<close> with a text that names no reason.
\<close>

theorem unauthenticated_request_rejected:
  assumes "authenticated E J U srv w md = None"
    and "\<not> shouldSkip fullMethod (makeSkipMethods (srv_skipMethods srv))"
    and "serve E J U srv fullMethod violation handler w md = (r, w')"
  shows "w' = w \<and> (case violation of
      None \<Rightarrow> r = Returned (Inl (StatusError Code_Unauthenticated ''authentication failed''))
    | Some what \<Rightarrow> r = Returned (Inl (StatusError Code_InvalidArgument what)))"
  using serve_refused [OF assms(1,2), of violation handler] assms(3) by (auto split: option.split)

end
