(* ===== verification/Spot_Client.thy ===== *)
theory Spot_Client
  imports Market_Viewer Order_Service Grpc_Server
begin

text \<open>
  The client through which the order service asks the spot service
  (\<open>shared/client/grpc/spot_client.go\<close>, \<open>mapper/mapper.go\<close>, \<open>breaker/circuit_breaker.go\<close>, and
  \<open>order_client.go\<close>). What the network answers and whether the circuit breaker of \<open>gobreaker\<close>
  lets a call pass are arguments. The theory shows what a failure of the spot service looks like
  to a client of the order service, and that the market an order is placed on is one the spot
  service has served as open.
\<close>

section \<open>The circuit breaker\<close>

text \<open>The breaker lets a call pass, or answers with one of its two errors without calling.\<close>

datatype breaker_verdict = BreakerAdmits | BreakerIsOpen | BreakerHalfOpenFull

definition breaker_Execute :: "breaker_verdict \<Rightarrow> (go_error + 'r) \<Rightarrow> go_error + 'r" where
  "breaker_Execute v result =
     (case v of
        BreakerAdmits \<Rightarrow> result
      | BreakerIsOpen \<Rightarrow> Inl BreakerOpenState
      | BreakerHalfOpenFull \<Rightarrow> Inl BreakerTooManyRequests)"

text \<open>When the breaker opens; a call that failed for a reason of the caller is no failure.\<close>

definition ReadyToTrip :: "32 word \<Rightarrow> 32 word \<Rightarrow> bool" where
  "ReadyToTrip maxFailures consecutiveFailures \<longleftrightarrow> consecutiveFailures \<ge> maxFailures"

definition breaker_count :: "32 word \<Rightarrow> go_error option \<Rightarrow> 32 word" where
  "breaker_count consecutiveFailures err =
     (if isSuccessfulCall err then 0 else consecutiveFailures + 1)"

section \<open>Markets of the wire\<close>

definition requiredTimestampUTC ::
  "market_codec \<Rightarrow> string \<Rightarrow> pb_Timestamp option \<Rightarrow> go_error + instant" where
  "requiredTimestampUTC C field ts =
     (case ts of
        None \<Rightarrow> Inl (NewError (field @ '' is required''))
      | Some timestamp \<Rightarrow>
          if \<not> timestamppb_CheckValid C timestamp then Inl (NewError (''invalid '' @ field))
          else Inr (timestamppb_AsTime C timestamp))"

definition optionalTimestampUTC ::
  "market_codec \<Rightarrow> string \<Rightarrow> pb_Timestamp option \<Rightarrow> go_error + instant option" where
  "optionalTimestampUTC C field ts =
     (case ts of
        None \<Rightarrow> Inr None
      | Some timestamp \<Rightarrow>
          if \<not> timestamppb_CheckValid C timestamp then Inl (NewError (''invalid '' @ field))
          else Inr (Some (timestamppb_AsTime C timestamp)))"

definition MarketFromProto ::
  "'e env_scheme \<Rightarrow> market_codec \<Rightarrow> pb_Market option \<Rightarrow> go_error + Market" where
  "MarketFromProto E C market =
     (case market of
        None \<Rightarrow> Inl (NewError ''proto market is nil'')
      | Some mk \<Rightarrow>
     (case uuid_Parse E (pbM_Id mk) of
        None \<Rightarrow> Inl (NewError (''invalid market id '' @ pbM_Id mk))
      | Some i \<Rightarrow>
     (case requiredTimestampUTC C ''updated_at'' (pbM_UpdatedAt mk) of
        Inl err \<Rightarrow> Inl err
      | Inr updatedAt \<Rightarrow>
     (case optionalTimestampUTC C ''deleted_at'' (pbM_DeletedAt mk) of
        Inl err \<Rightarrow> Inl err
      | Inr deletedAt \<Rightarrow>
          Inr \<lparr>Market_ID = i, Market_Name = pbM_Name mk, Market_Enabled = pbM_Enabled mk,
               Market_DeletedAt = deletedAt, Market_UpdatedAt = updatedAt\<rparr>))))"

section \<open>Errors of the spot service\<close>

definition breaker_or_deadline :: "go_error \<Rightarrow> bool" where
  "breaker_or_deadline err \<longleftrightarrow>
     errors_Is err CtxDeadlineExceeded \<or> errors_Is err BreakerOpenState \<or>
     errors_Is err BreakerTooManyRequests"

definition mapViewMarketsError :: "go_error \<Rightarrow> go_error" where
  "mapViewMarketsError err =
     (if errors_Is err CtxCanceled then CtxCanceled
      else if breaker_or_deadline err then Joined [Service ErrSpotUnavailable, err]
      else
        (case find_status err of
           None \<Rightarrow> Joined [Service ErrSpotInternalFailure, err]
         | Some code \<Rightarrow>
             if code = Code_NotFound then Joined [Service ErrMarketsNotFound, err]
             else if code \<in> {Code_Unavailable, Code_DeadlineExceeded} then Joined [Service ErrSpotUnavailable, err]
             else if code = Code_Unauthenticated then Joined [Service ErrSpotUnauthenticated, err]
             else if code = Code_PermissionDenied then Joined [Service ErrSpotPermissionDenied, err]
             else if code = Code_ResourceExhausted then Joined [Service ErrSpotRateLimited, err]
             else Joined [Service ErrSpotInternalFailure, err]))"

definition mapGetMarketByIDError :: "go_error \<Rightarrow> uuid \<Rightarrow> go_error" where
  "mapGetMarketByIDError err marketID =
     (if errors_Is err CtxCanceled then CtxCanceled
      else if breaker_or_deadline err then Joined [Service ErrSpotUnavailable, ErrUnavailable marketID, err]
      else
        (case find_status err of
           None \<Rightarrow> Joined [Service ErrSpotInternalFailure, err]
         | Some code \<Rightarrow>
             if code = Code_NotFound then Joined [ErrMarketNotFound marketID, err]
             else if code = Code_FailedPrecondition then Joined [ErrDisabled marketID, err]
             else if code \<in> {Code_Unavailable, Code_DeadlineExceeded} then
               Joined [Service ErrSpotUnavailable, ErrUnavailable marketID, err]
             else if code = Code_Unauthenticated then
               Joined [Service ErrSpotUnauthenticated, ErrUnavailable marketID, err]
             else if code = Code_PermissionDenied then
               Joined [Service ErrSpotPermissionDenied, ErrUnavailable marketID, err]
             else if code = Code_ResourceExhausted then
               Joined [Service ErrSpotRateLimited, ErrUnavailable marketID, err]
             else Joined [Service ErrSpotInternalFailure, err]))"

section \<open>The clients\<close>

fun markets_from_proto ::
  "'e env_scheme \<Rightarrow> market_codec \<Rightarrow> pb_Market list \<Rightarrow> go_error + Market list" where
  "markets_from_proto E C [] = Inr []"
| "markets_from_proto E C (m # ms) =
     (case MarketFromProto E C (Some m) of
        Inl err \<Rightarrow> Inl (Errorf ''map market from proto: '' err '''')
      | Inr market \<Rightarrow>
          (case markets_from_proto E C ms of
             Inl err \<Rightarrow> Inl err
           | Inr markets \<Rightarrow> Inr (market # markets)))"

definition client_ViewMarkets ::
  "'e env_scheme \<Rightarrow> market_codec \<Rightarrow> breaker_verdict \<Rightarrow>
   (64 word \<Rightarrow> 64 word \<Rightarrow> go_error + ViewMarketsResponse) \<Rightarrow> 64 word \<Rightarrow> 64 word \<Rightarrow> go_error + page" where
  "client_ViewMarkets E C v api limit offset =
     (case breaker_Execute v (api limit offset) of
        Inl err \<Rightarrow> Inl (mapViewMarketsError err)
      | Inr response \<Rightarrow>
          (case markets_from_proto E C (VMR_Markets response) of
             Inl err \<Rightarrow> Inl err
           | Inr out \<Rightarrow> Inr (out, VMR_NextOffset response, VMR_HasMore response)))"

definition client_GetMarketByID ::
  "'e env_scheme \<Rightarrow> market_codec \<Rightarrow> breaker_verdict \<Rightarrow> (string \<Rightarrow> go_error + pb_Market option) \<Rightarrow> uuid \<Rightarrow>
   go_error + Market" where
  "client_GetMarketByID E C v api i =
     (case breaker_Execute v (api (uuid_String E i)) of
        Inl err \<Rightarrow> Inl (mapGetMarketByIDError err i)
      | Inr response \<Rightarrow>
          (case MarketFromProto E C response of
             Inl err \<Rightarrow> Inl (Errorf ''map market from proto: '' err '''')
           | Inr market \<Rightarrow> Inr market))"

text \<open>The client of the order service passes requests and answers on.\<close>

definition orderclient_CreateOrder ::
  "breaker_verdict \<Rightarrow> ('q \<Rightarrow> go_error + 'r) \<Rightarrow> 'q \<Rightarrow> go_error + 'r" where
  "orderclient_CreateOrder v api request =
     (case breaker_Execute v (api request) of Inl err \<Rightarrow> Inl err | Inr result \<Rightarrow> Inr result)"

definition orderclient_GetOrderStatus ::
  "breaker_verdict \<Rightarrow> ('q \<Rightarrow> go_error + 'r) \<Rightarrow> 'q \<Rightarrow> go_error + 'r" where
  "orderclient_GetOrderStatus v api request =
     (case breaker_Execute v (api request) of Inl err \<Rightarrow> Inl err | Inr result \<Rightarrow> Inr result)"

section \<open>Markets arrive as they were sent\<close>

definition wire_range :: "Market \<Rightarrow> bool" where
  "wire_range m \<longleftrightarrow> zero_time < Market_UpdatedAt m \<and> Market_UpdatedAt m \<le> max_timestamp \<and>
     (case Market_DeletedAt m of None \<Rightarrow> True | Some t \<Rightarrow> zero_time \<le> t \<and> t \<le> max_timestamp)"

lemma MarketFromProto_ToProto:
  assumes "uuid_ok E" and "codec_ok C" and "wire_range m"
  shows "MarketFromProto E C (Some (MarketToProto E C m)) = Inr m"
  using assms
  by (cases m) (auto simp: MarketFromProto_def MarketToProto_def requiredTimestampUTC_def optionalTimestampUTC_def
      wire_range_def uuid_ok_def codec_ok_def split: option.splits)

lemma markets_from_proto_ToProto:
  assumes "uuid_ok E" and "codec_ok C" and "list_all wire_range ms"
  shows "markets_from_proto E C (map (MarketToProto E C) ms) = Inr ms"
  using assms(3)
  by (induction ms) (simp_all add: MarketFromProto_ToProto [OF assms(1,2)])

text \<open>Whatever the range, the two facts an order depends on survive.\<close>

lemma MarketFromProto_open:
  assumes "MarketFromProto E C (Some (MarketToProto E C m)) = Inr m'"
  shows "Market_Enabled m' = Market_Enabled m \<and> (Market_DeletedAt m' = None \<longleftrightarrow> Market_DeletedAt m = None)"
  using assms
  by (auto simp: MarketFromProto_def MarketToProto_def optionalTimestampUTC_def
      split: option.splits sum.splits if_splits)

text \<open>
  C32. What the spot service answers to \<open>ViewMarkets\<close> and \<open>GetMarketByID\<close>, the client of the
  order service reads back unchanged, markets, next offset and whether there is more, for
  markets with instants of the years 1 to 9999 and an update later than the zero time.
\<close>

theorem spot_answers_read_back:
  assumes "uuid_ok E" and "codec_ok C" and "uuid_String Es = uuid_String E" and "uuid_Parse Es = uuid_Parse E"
  shows "(\<forall>ms nxt hasMore w'. ViewMarkets Es s w roles limit ofs = (Returned (Inr (ms, nxt, hasMore)), w') \<and>
        list_all wire_range ms \<longrightarrow>
      client_ViewMarkets E C BreakerAdmits
        (\<lambda>l k. case fst (serverAPI_ViewMarkets Es C s w roles (Some (l, k))) of
           Returned answer \<Rightarrow> answer | Panics _ \<Rightarrow> Inl (StatusError Code_Internal ''internal error''))
        limit ofs = Inr (ms, nxt, hasMore)) \<and>
    (\<forall>mk w'. GetMarketByID Es s w roles i = (Inr mk, w') \<and> wire_range mk \<longrightarrow>
      client_GetMarketByID E C BreakerAdmits
        (\<lambda>k. map_sum id Some (fst (serverAPI_GetMarketByID Es C s w roles (Some k)))) i = Inr mk)"
proof -
  have same: "MarketToProto Es C = MarketToProto E C"
    using assms(3) by (simp add: MarketToProto_def fun_eq_iff)
  then show ?thesis
    using assms markets_from_proto_ToProto [OF assms(1,2)] MarketFromProto_ToProto [OF assms(1,2)]
    by (auto simp: serverAPI_ViewMarkets_def serverAPI_GetMarketByID_def client_ViewMarkets_def
        client_GetMarketByID_def breaker_Execute_def uuid_ok_def)
qed

section \<open>Orders only on markets the spot service has served as open\<close>

text \<open>
  C17. When the order service asks the spot service through this client, and each call that
  arrives there is answered by its handler, then an order is placed only on a market that
  \<open>GetMarketByID\<close> of the spot service has served, to the caller's roles, as enabled and not
  deleted, whatever the breaker, the network and the caches did.
\<close>

theorem order_market_served_as_open:
  assumes "CreateOrder E w cfg u m ot p q = (r, w')" and "db w' \<noteq> db w"
    and "\<And>n i. spot_GetMarketByID E n i = client_GetMarketByID E C (verdict n) (api n) i"
    and "\<And>n s pm. api n s = Inr pm \<Longrightarrow>
      \<exists>pm' w2. pm = Some pm' \<and> serverAPI_GetMarketByID Es C mv (ws n) roles (Some s) = (Inr pm', w2)"
    and "uuid_ok E" and "uuid_Parse Es = uuid_Parse E"
  shows "\<exists>n mk w2. GetMarketByID Es mv (ws n) roles m = (Inr mk, w2) \<and>
    Market_Enabled mk \<and> Market_DeletedAt mk = None"
proof -
  obtain n mk where "client_GetMarketByID E C (verdict n) (api n) m = Inr mk"
    and mk: "Market_Enabled mk" "Market_DeletedAt mk = None"
    using created_on_open_market [OF assms(1,2)] assms(3) by metis
  then obtain pm where pm: "api n (uuid_String E m) = Inr pm" "MarketFromProto E C pm = Inr mk"
    by (auto simp: client_GetMarketByID_def breaker_Execute_def split: sum.splits breaker_verdict.splits)
  obtain pm' w2 where "pm = Some pm'"
    and h: "serverAPI_GetMarketByID Es C mv (ws n) roles (Some (uuid_String E m)) = (Inr pm', w2)"
    using assms(4) [OF pm(1)] by blast
  moreover obtain mk0 where "GetMarketByID Es mv (ws n) roles m = (Inr mk0, w2)" "pm' = MarketToProto Es C mk0"
    using h assms(5,6) by (auto simp: serverAPI_GetMarketByID_def uuid_ok_def split: sum.splits prod.splits option.splits)
  moreover have "MarketFromProto E C x = MarketFromProto Es C x" for x
    by (cases x) (simp_all add: MarketFromProto_def assms(6))
  ultimately show ?thesis
    using MarketFromProto_open [of Es C mk0 mk] pm(2) mk by metis
qed

section \<open>What a failure looks like\<close>

text \<open>
  What a client of the order service is told when the spot service cannot answer: a call
  the breaker refuses, an error without a status and the status \<open>Unknown\<close> become \<open>Unavailable\<close>, a
  cancelled or late call keeps its code, and every other status of the spot service reaches
  the client with its own code.
\<close>

theorem spot_failure_status:
  "let told = (\<lambda>err. status_Code (mapError us ds (Errorf pre (mapGetMarketByIDError err m) post))) in
   told BreakerOpenState = Code_Unavailable \<and> told BreakerTooManyRequests = Code_Unavailable \<and>
   told (NetError x) = Code_Unavailable \<and> told CtxCanceled = Code_Canceled \<and>
   told CtxDeadlineExceeded = Code_DeadlineExceeded \<and>
   told (StatusError c x) = (if c = Code_Unknown then Code_Unavailable else c)"
  unfolding Let_def status_Code_mapError_Errorf
  by (simp add: mapGetMarketByIDError_def breaker_or_deadline_def mapError_def FromContextError_def
      isNotFoundError_def isSpotDependencyError_def status_Code_def)

end
