(* ===== verification/Config.thy ===== *)
theory Config
  imports Go_Errors Go_Strings
begin

text \<open>
  The configuration of the services (\<open>shared/config/config.go\<close>) and the validations they share
  (\<open>shared/config/validate.go\<close>). How a duration and a floating-point number are printed is an
  argument; a number of the type \<open>float64\<close> is a rational, an infinity or not a number.
\<close>

section \<open>Numbers and texts\<close>

record go_format =
  fmt_unicode :: unicode_tables
  fmt_duration :: "duration \<Rightarrow> string"
  fmt_float :: "float64 \<Rightarrow> string"

section \<open>The sections of the configuration\<close>

text \<open>
  One record for each struct, with its fields in their order; \<open>ConsumerSettings\<close>,
  \<open>OutboxSettings\<close>, \<open>OrderSettings\<close> and \<open>SpotSettings\<close> are \<open>ConsumerConfig\<close>, \<open>OutboxConfig\<close>,
  \<open>OrderConfig\<close> and \<open>SpotConfig\<close>.
\<close>

record ServiceConfig =
  svc_Address :: string
  svc_Name :: string
  svc_MaxRecvMsgSize :: int
  svc_DBURI :: string

record ViewMarketsConfig =
  vm_DefaultLimit :: "64 word"
  vm_MaxLimit :: "64 word"
  vm_CacheLimit :: "64 word"

record LoggingConfig =
  log_Level :: string
  log_Format :: string
  log_ContextFieldsMax :: int

record TimeoutsConfig =
  to_Service :: duration
  to_Check :: duration

record HealthConfig =
  hc_CheckInterval :: duration
  hc_SuccessThreshold :: int
  hc_FailureThreshold :: int

record CircuitBreakerConfig =
  cb_MaxRequests :: "32 word"
  cb_Interval :: duration
  cb_Timeout :: duration
  cb_MaxFailures :: "32 word"

record PostgresPoolConfig =
  pg_MaxConnections :: int
  pg_MinConnections :: int
  pg_MaxConnLifetime :: duration
  pg_MaxConnIdleTime :: duration

record IdempotencyConfig =
  id_RequestTTL :: duration
  id_CompleteAttempts :: int
  id_CompleteAttemptTimeout :: duration
  id_CompleteRetryDelay :: duration
  id_CleanupTimeout :: duration

record RedisConfig =
  rd_Host :: string
  rd_Port :: int
  rd_ConnectionTimeout :: duration
  rd_PoolSize :: int
  rd_MinIdle :: int
  rd_MaxIdle :: int
  rd_MaxActiveConns :: int
  rd_IdleTimeout :: duration
  rd_ConnMaxLifetime :: duration
  rd_CacheTTL :: duration
  rd_MarketBlockTTL :: duration
  rd_Idempotency :: IdempotencyConfig

record ProducerConfig =
  pr_MaxRetries :: int
  pr_RetryBackoff :: duration
  pr_Timeout :: duration
  pr_Compression :: string
  pr_ChannelBufferSize :: int

record ConsumerSettings =
  co_GroupID :: string
  co_SessionTimeout :: duration
  co_HeartbeatInterval :: duration
  co_MaxRetries :: int
  co_RetryBackoff :: duration
  co_RetryJitter :: float64
  co_MaxMessageBytes :: int
  co_DLQEnabled :: bool
  co_DLQMaxMessageBytes :: int
  co_RestartBackoff :: duration

record TopicsConfig =
  tp_OrderCreated :: string
  tp_OrderStatusUpdated :: string
  tp_MarketStateChanged :: string
  tp_MarketStateChangedDLQ :: string

record OutboxSettings =
  os_PollInterval :: duration
  os_BatchSize :: int
  os_BatchTimeout :: duration
  os_MaxRetries :: int
  os_ProcessingTimeout :: duration

record KafkaConfig =
  kf_Brokers :: "string list"
  kf_Producer :: ProducerConfig
  kf_Consumer :: ConsumerSettings
  kf_Topics :: TopicsConfig
  kf_Outbox :: OutboxSettings

record MarketPollerConfig =
  po_PollInterval :: duration
  po_ProcessingTimeout :: duration
  po_BatchSize :: int
  po_RestartBackoff :: duration

record RateLimiterByUserConfig =
  ru_CreateOrder :: int
  ru_GetOrderStatus :: int
  ru_Window :: duration

record OrderGRPCRateLimitConfig =
  og_CreateOrder :: int
  og_GetOrderStatus :: int
  og_RefreshToken :: int

record SpotGRPCRateLimitConfig =
  sg_ViewMarkets :: int
  sg_GetMarketByID :: int

record TracingConfig =
  tr_CollectorEndpoint :: string
  tr_Environment :: string
  tr_ServiceVersion :: string

record MetricsConfig =
  mt_HTTPAddress :: string
  mt_ReadTimeout :: duration
  mt_WriteTimeout :: duration
  mt_IdleTimeout :: duration
  mt_ShutdownTimeout :: duration

record KeepAliveConfig =
  ka_PingTime :: duration
  ka_PingTimeout :: duration
  ka_MinPingInterval :: duration
  ka_PermitWithoutStream :: bool

record AuthVerifierConfig =
  av_JWTSecret :: string
  av_SkipMethods :: "string list"

record AuthIssuerConfig =
  ai_AccessTokenTTL :: duration
  ai_RefreshTokenTTL :: duration

record RetryConfig =
  rt_MaxAttempts :: "64 word"
  rt_InitialBackoff :: duration
  rt_Jitter :: float64
  rt_PerRetryTimeout :: duration

record OrderSettings =
  oc_Service :: ServiceConfig
  oc_SpotAddress :: string
  oc_Timeouts :: TimeoutsConfig
  oc_Log :: LoggingConfig
  oc_AuthVerifier :: AuthVerifierConfig
  oc_Health :: HealthConfig
  oc_AuthIssuer :: AuthIssuerConfig
  oc_CircuitBreaker :: CircuitBreakerConfig
  oc_PostgresPool :: PostgresPoolConfig
  oc_GRPCRateLimit :: OrderGRPCRateLimitConfig
  oc_RateLimitByUser :: RateLimiterByUserConfig
  oc_Redis :: RedisConfig
  oc_Tracing :: TracingConfig
  oc_Metrics :: MetricsConfig
  oc_KeepAlive :: KeepAliveConfig
  oc_Retry :: RetryConfig
  oc_Kafka :: KafkaConfig

record SpotSettings =
  sc_Service :: ServiceConfig
  sc_ViewMarkets :: ViewMarketsConfig
  sc_Log :: LoggingConfig
  sc_AuthVerifier :: AuthVerifierConfig
  sc_Timeouts :: TimeoutsConfig
  sc_Health :: HealthConfig
  sc_PostgresPool :: PostgresPoolConfig
  sc_GRPCRateLimit :: SpotGRPCRateLimitConfig
  sc_Redis :: RedisConfig
  sc_Tracing :: TracingConfig
  sc_Metrics :: MetricsConfig
  sc_KeepAlive :: KeepAliveConfig
  sc_Kafka :: KafkaConfig
  sc_MarketPoller :: MarketPollerConfig

definition Redis_Address :: "RedisConfig \<Rightarrow> string" where
  "Redis_Address r = rd_Host r @ '':'' @ show_int (rd_Port r)"

section \<open>Addresses\<close>

text \<open>\<open>%q\<close> of a value.\<close>

definition quoted :: "go_format \<Rightarrow> string \<Rightarrow> string" where
  "quoted F s = strconv_Quote (fmt_unicode F) s"

definition ValidateTCPAddress :: "go_format \<Rightarrow> string \<Rightarrow> string \<Rightarrow> bool \<Rightarrow> go_error + unit" where
  "ValidateTCPAddress F fieldName raw allowEmptyHost =
     (let v = strings_TrimSpace raw in
      if v = '''' then Inl (NewError (fieldName @ '' is required''))
      else
        (case SplitHostPort v of
           Inl why \<Rightarrow>
             Inl (Errorf (fieldName @ '' must be a valid host:port, got '' @ quoted F v @ '': '')
               (NewError (''address '' @ v @ '': '' @ why)) '''')
         | Inr (host, port) \<Rightarrow>
             if \<not> allowEmptyHost \<and> host = '''' then
               Inl (NewError (fieldName @ '' must include host, got '' @ quoted F v))
             else if port = '''' then
               Inl (NewError (fieldName @ '' must include port, got '' @ quoted F v))
             else Inr ()))"

section \<open>Validations\<close>

text \<open>The texts most checks share, for durations and for integers.\<close>

definition not_positive_duration :: "go_format \<Rightarrow> string \<Rightarrow> duration \<Rightarrow> go_error" where
  "not_positive_duration F field d = NewError (field @ '' must be greater than 0, got '' @ fmt_duration F d)"

definition not_positive :: "string \<Rightarrow> int \<Rightarrow> go_error" where
  "not_positive field n = NewError (field @ '' must be greater than 0, got '' @ show_int n)"

definition negative_duration :: "go_format \<Rightarrow> string \<Rightarrow> duration \<Rightarrow> go_error" where
  "negative_duration F field d =
     NewError (field @ '' must be greater than or equal to 0, got '' @ fmt_duration F d)"

definition negative :: "string \<Rightarrow> int \<Rightarrow> go_error" where
  "negative field n = NewError (field @ '' must be greater than or equal to 0, got '' @ show_int n)"

definition not_less :: "go_format \<Rightarrow> string \<Rightarrow> duration \<Rightarrow> string \<Rightarrow> duration \<Rightarrow> go_error" where
  "not_less F field d bound b =
     NewError (field @ '' ('' @ fmt_duration F d @ '') must be less than '' @ bound @ '' ('' @
       fmt_duration F b @ '')'')"

definition ValidateServiceConfig :: "go_format \<Rightarrow> string \<Rightarrow> ServiceConfig \<Rightarrow> bool \<Rightarrow> go_error + unit" where
  "ValidateServiceConfig F p cfg allowEmptyHost =
     (if strings_TrimSpace (svc_Name cfg) = '''' then Inl (NewError (p @ ''.name is required''))
      else if svc_MaxRecvMsgSize cfg \<le> 0 then
        Inl (not_positive (p @ ''.max_recv_msg_size'') (svc_MaxRecvMsgSize cfg))
      else ValidateTCPAddress F (p @ ''.address'') (svc_Address cfg) allowEmptyHost)"

definition ValidateHealthConfig :: "go_format \<Rightarrow> string \<Rightarrow> HealthConfig \<Rightarrow> go_error + unit" where
  "ValidateHealthConfig F p cfg =
     (if hc_CheckInterval cfg \<le> 0 then
        Inl (not_positive_duration F (p @ ''.check_interval'') (hc_CheckInterval cfg))
      else if hc_SuccessThreshold cfg \<le> 0 then
        Inl (not_positive (p @ ''.success_threshold'') (hc_SuccessThreshold cfg))
      else if hc_FailureThreshold cfg \<le> 0 then
        Inl (not_positive (p @ ''.failure_threshold'') (hc_FailureThreshold cfg))
      else Inr ())"

definition ValidatePostgresPoolConfig ::
  "go_format \<Rightarrow> string \<Rightarrow> PostgresPoolConfig \<Rightarrow> go_error + unit" where
  "ValidatePostgresPoolConfig F p cfg =
     (if pg_MaxConnections cfg < 0 then Inl (negative (p @ ''.max_conns'') (pg_MaxConnections cfg))
      else if pg_MinConnections cfg < 0 then Inl (negative (p @ ''.min_conns'') (pg_MinConnections cfg))
      else if pg_MaxConnLifetime cfg < 0 then
        Inl (negative_duration F (p @ ''.max_conn_lifetime'') (pg_MaxConnLifetime cfg))
      else if pg_MaxConnIdleTime cfg < 0 then
        Inl (negative_duration F (p @ ''.max_conn_idle_time'') (pg_MaxConnIdleTime cfg))
      else if pg_MaxConnections cfg > 0 \<and> pg_MinConnections cfg > pg_MaxConnections cfg then
        Inl (NewError (p @ ''.min_conns ('' @ show_int (pg_MinConnections cfg) @
          '') must be less than or equal to max_conns ('' @ show_int (pg_MaxConnections cfg) @ '')''))
      else Inr ())"

definition ValidateMetricsConfig :: "go_format \<Rightarrow> string \<Rightarrow> MetricsConfig \<Rightarrow> go_error + unit" where
  "ValidateMetricsConfig F p cfg =
     (case ValidateTCPAddress F (p @ ''.http_address'') (mt_HTTPAddress cfg) True of
        Inl err \<Rightarrow> Inl err
      | Inr _ \<Rightarrow>
          if mt_ReadTimeout cfg \<le> 0 then
            Inl (not_positive_duration F (p @ ''.read_timeout'') (mt_ReadTimeout cfg))
          else if mt_WriteTimeout cfg \<le> 0 then
            Inl (not_positive_duration F (p @ ''.write_timeout'') (mt_WriteTimeout cfg))
          else if mt_IdleTimeout cfg \<le> 0 then
            Inl (not_positive_duration F (p @ ''.idle_timeout'') (mt_IdleTimeout cfg))
          else if mt_ShutdownTimeout cfg \<le> 0 then
            Inl (not_positive_duration F (p @ ''.shutdown_timeout'') (mt_ShutdownTimeout cfg))
          else Inr ())"

definition ValidateTracingConfig :: "go_format \<Rightarrow> string \<Rightarrow> TracingConfig \<Rightarrow> go_error + unit" where
  "ValidateTracingConfig F p cfg =
     (case ValidateTCPAddress F (p @ ''.exporter_otlp_endpoint'') (tr_CollectorEndpoint cfg) False of
        Inl err \<Rightarrow> Inl err
      | Inr _ \<Rightarrow>
          if strings_TrimSpace (tr_Environment cfg) = '''' then
            Inl (NewError (p @ ''.environment is required''))
          else if strings_TrimSpace (tr_ServiceVersion cfg) = '''' then
            Inl (NewError (p @ ''.service_version is required''))
          else Inr ())"

definition ValidateKeepAliveConfig :: "go_format \<Rightarrow> string \<Rightarrow> KeepAliveConfig \<Rightarrow> go_error + unit" where
  "ValidateKeepAliveConfig F p cfg =
     (if ka_PingTime cfg \<le> 0 then Inl (not_positive_duration F (p @ ''.ping_time'') (ka_PingTime cfg))
      else if ka_PingTimeout cfg \<le> 0 then
        Inl (not_positive_duration F (p @ ''.ping_timeout'') (ka_PingTimeout cfg))
      else if ka_MinPingInterval cfg \<le> 0 then
        Inl (not_positive_duration F (p @ ''.min_ping_interval'') (ka_MinPingInterval cfg))
      else if ka_PingTimeout cfg \<ge> ka_PingTime cfg then
        Inl (not_less F (p @ ''.ping_timeout'') (ka_PingTimeout cfg) ''ping_time'' (ka_PingTime cfg))
      else if ka_MinPingInterval cfg \<ge> ka_PingTime cfg then
        Inl (not_less F (p @ ''.min_ping_interval'') (ka_MinPingInterval cfg) ''ping_time'' (ka_PingTime cfg))
      else Inr ())"

definition ValidateRedisBaseConfig ::
  "go_format \<Rightarrow> string \<Rightarrow> RedisConfig \<Rightarrow> duration \<Rightarrow> go_error + unit" where
  "ValidateRedisBaseConfig F p cfg serviceTimeout =
     (if strings_TrimSpace (rd_Host cfg) = '''' then Inl (NewError (p @ ''.host is required''))
      else if rd_Port cfg \<le> 0 \<or> rd_Port cfg > 65535 then
        Inl (NewError (p @ ''.port must be between 1 and 65535, got '' @ show_int (rd_Port cfg)))
      else if rd_ConnectionTimeout cfg \<le> 0 then
        Inl (not_positive_duration F (p @ ''.connection_timeout'') (rd_ConnectionTimeout cfg))
      else if serviceTimeout > 0 \<and> rd_ConnectionTimeout cfg \<ge> serviceTimeout then
        Inl (not_less F (p @ ''.connection_timeout'') (rd_ConnectionTimeout cfg) ''service_timeout'' serviceTimeout)
      else if rd_PoolSize cfg < 0 then Inl (negative (p @ ''.pool_size'') (rd_PoolSize cfg))
      else if rd_MinIdle cfg < 0 then Inl (negative (p @ ''.min_idle'') (rd_MinIdle cfg))
      else if rd_MaxIdle cfg < 0 then Inl (negative (p @ ''.max_idle'') (rd_MaxIdle cfg))
      else if rd_MaxActiveConns cfg < 0 then
        Inl (negative (p @ ''.max_active_conns'') (rd_MaxActiveConns cfg))
      else if rd_IdleTimeout cfg < 0 then
        Inl (negative_duration F (p @ ''.idle_timeout'') (rd_IdleTimeout cfg))
      else if rd_ConnMaxLifetime cfg < 0 then
        Inl (negative_duration F (p @ ''.max_conn_lifetime'') (rd_ConnMaxLifetime cfg))
      else Inr ())"

text \<open>The loop over the brokers, from an index.\<close>

fun validate_brokers :: "go_format \<Rightarrow> string \<Rightarrow> nat \<Rightarrow> string list \<Rightarrow> go_error + unit" where
  "validate_brokers F p i [] = Inr ()"
| "validate_brokers F p i (broker # brokers) =
     (case ValidateTCPAddress F (p @ ''['' @ show_int (int i) @ '']'') broker False of
        Inl err \<Rightarrow> Inl err
      | Inr _ \<Rightarrow> validate_brokers F p (Suc i) brokers)"

definition ValidateKafkaBrokers :: "go_format \<Rightarrow> string \<Rightarrow> string list \<Rightarrow> go_error + unit" where
  "ValidateKafkaBrokers F p brokers =
     (if brokers = [] then Inl (NewError (p @ '' must contain at least one broker''))
      else validate_brokers F p 0 brokers)"

definition NormalizeKafkaCompression :: "unicode_tables \<Rightarrow> string \<Rightarrow> string" where
  "NormalizeKafkaCompression U raw = strings_ToLower U (strings_TrimSpace raw)"

definition ValidateKafkaProducerConfig :: "go_format \<Rightarrow> string \<Rightarrow> ProducerConfig \<Rightarrow> go_error + unit" where
  "ValidateKafkaProducerConfig F p cfg =
     (if pr_Timeout cfg \<le> 0 then Inl (not_positive_duration F (p @ ''.timeout'') (pr_Timeout cfg))
      else if pr_RetryBackoff cfg \<le> 0 then
        Inl (not_positive_duration F (p @ ''.retry_backoff'') (pr_RetryBackoff cfg))
      else if pr_MaxRetries cfg < 0 then Inl (negative (p @ ''.max_retries'') (pr_MaxRetries cfg))
      else if pr_ChannelBufferSize cfg < 0 then
        Inl (NewError (p @ ''.channel_buffer_size must be >= 0, got '' @ show_int (pr_ChannelBufferSize cfg)))
      else if NormalizeKafkaCompression (fmt_unicode F) (pr_Compression cfg) \<in>
          set [''none'', ''gzip'', ''snappy'', ''lz4'', ''zstd''] then Inr ()
      else Inl (NewError (p @ ''.compression must be one of: none, gzip, snappy, lz4, zstd; got '' @
        quoted F (pr_Compression cfg))))"

definition ValidateKafkaConsumerConfig :: "go_format \<Rightarrow> string \<Rightarrow> ConsumerSettings \<Rightarrow> go_error + unit" where
  "ValidateKafkaConsumerConfig F p cfg =
     (if strings_TrimSpace (co_GroupID cfg) = '''' then Inl (NewError (p @ ''.group_id is required''))
      else if co_SessionTimeout cfg \<le> 0 then
        Inl (not_positive_duration F (p @ ''.session_timeout'') (co_SessionTimeout cfg))
      else if co_HeartbeatInterval cfg \<le> 0 then
        Inl (not_positive_duration F (p @ ''.heartbeat_interval'') (co_HeartbeatInterval cfg))
      else if co_HeartbeatInterval cfg \<ge> co_SessionTimeout cfg then
        Inl (not_less F (p @ ''.heartbeat_interval'') (co_HeartbeatInterval cfg) ''session_timeout''
          (co_SessionTimeout cfg))
      else if co_RetryBackoff cfg \<le> 0 then
        Inl (not_positive_duration F (p @ ''.retry_backoff'') (co_RetryBackoff cfg))
      else if float_less_rat (co_RetryJitter cfg) 0 \<or> float_greater_rat (co_RetryJitter cfg) 1 then
        Inl (NewError (p @ ''.retry_jitter must be between 0 and 1 inclusive, got '' @
          fmt_float F (co_RetryJitter cfg)))
      else if co_MaxRetries cfg < 0 then Inl (negative (p @ ''.max_retries'') (co_MaxRetries cfg))
      else if co_MaxMessageBytes cfg \<le> 0 then
        Inl (not_positive (p @ ''.max_message_bytes'') (co_MaxMessageBytes cfg))
      else if co_DLQMaxMessageBytes cfg < 0 then
        Inl (negative (p @ ''.dlq_max_message_bytes'') (co_DLQMaxMessageBytes cfg))
      else if co_DLQEnabled cfg \<and> co_DLQMaxMessageBytes cfg \<le> 0 then
        Inl (NewError (p @ ''.dlq_max_message_bytes must be greater than 0 when dlq_enabled=true, got '' @
          show_int (co_DLQMaxMessageBytes cfg)))
      else if co_RestartBackoff cfg \<le> 0 then
        Inl (not_positive_duration F (p @ ''.restart_backoff'') (co_RestartBackoff cfg))
      else if co_DLQEnabled cfg \<and> co_DLQMaxMessageBytes cfg < co_MaxMessageBytes cfg then
        Inl (NewError (p @ ''.dlq_max_message_bytes ('' @ show_int (co_DLQMaxMessageBytes cfg) @
          '') must be greater than or equal to '' @ p @ ''.max_message_bytes ('' @
          show_int (co_MaxMessageBytes cfg) @ '') when dlq_enabled=true''))
      else Inr ())"

definition ValidateOutboxConfig :: "go_format \<Rightarrow> string \<Rightarrow> OutboxSettings \<Rightarrow> go_error + unit" where
  "ValidateOutboxConfig F p cfg =
     (if os_PollInterval cfg \<le> 0 then
        Inl (not_positive_duration F (p @ ''.poll_interval'') (os_PollInterval cfg))
      else if os_ProcessingTimeout cfg \<le> 0 then
        Inl (not_positive_duration F (p @ ''.processing_timeout'') (os_ProcessingTimeout cfg))
      else if os_BatchTimeout cfg \<le> 0 then
        Inl (not_positive_duration F (p @ ''.batch_timeout'') (os_BatchTimeout cfg))
      else if os_BatchSize cfg \<le> 0 then Inl (not_positive (p @ ''.batch_size'') (os_BatchSize cfg))
      else if os_MaxRetries cfg < 0 then Inl (negative (p @ ''.max_retries'') (os_MaxRetries cfg))
      else if os_BatchTimeout cfg \<ge> os_ProcessingTimeout cfg then
        Inl (not_less F (p @ ''.batch_timeout'') (os_BatchTimeout cfg) ''processing_timeout''
          (os_ProcessingTimeout cfg))
      else Inr ())"

end
