(* ===== verification/Auth_Session.thy ===== *)
theory Auth_Session
  imports Auth_Tokens Idempotency_Store
begin

text \<open>
  Refreshing tokens in the order service: the session store (\<open>shared/auth/session/store.go\<close>),
  the store of refresh tokens with its scripts
  (\<open>orderService/internal/infrastructure/redis/auth/refresh_token_store.go\<close>), the service
  (\<open>services/auth/auth_service.go\<close>) and its gRPC handler (\<open>grpc/auth/auth_handler.go\<close>). A refresh
  token is used at most once, whatever fails, and only the one issued last is accepted.
\<close>

section \<open>Sessions and refresh tokens in Redis\<close>

definition SessionKey :: "'e env_scheme \<Rightarrow> uuid \<Rightarrow> string" where
  "SessionKey E userID = ''auth_session:'' @ uuid_String E userID"

definition refreshKey :: "'e env_scheme \<Rightarrow> uuid \<Rightarrow> string \<Rightarrow> string" where
  "refreshKey E userID jti = ''refresh:'' @ uuid_String E userID @ '':'' @ jti"

definition currentRefreshKey :: "'e env_scheme \<Rightarrow> uuid \<Rightarrow> string" where
  "currentRefreshKey E userID = ''auth_refresh:'' @ uuid_String E userID"

definition IsSessionActive ::
  "'e env_scheme \<Rightarrow> 'a base_scheme \<Rightarrow> uuid \<Rightarrow> string \<Rightarrow> (go_error + bool) \<times> 'a base_scheme" where
  "IsSessionActive E w userID sessionID =
     (case cache_Get E w (SessionKey E userID) of
        (Inl err, w1) \<Rightarrow>
          if errors_Is err ErrCacheNotFound then (Inr False, w1)
          else (Inl (Errorf ''get active session: '' err ''''), w1)
      | (Inr raw, w1) \<Rightarrow> (Inr (raw = sessionID), w1))"

text \<open>
  A script runs at one instant of the server's clock. \<open>PSETEX\<close> refuses a time to live that is
  not positive; it is the first command of both scripts that writes, so the script then
  changes nothing. In Lua a missing key is \<open>false\<close>, which differs from every string.
\<close>

definition rotateScript ::
  "int \<Rightarrow> keyspace \<Rightarrow> string \<Rightarrow> string \<Rightarrow> string \<Rightarrow> string \<Rightarrow> int \<Rightarrow> string \<Rightarrow> string \<Rightarrow>
   (go_error + int) \<times> keyspace" where
  "rotateScript t ks oldRefreshKey newRefreshKey sessionKey pointerKey ttlMs oldSessionID newSessionID =
     (if redis_GET t ks sessionKey \<noteq> Some oldSessionID then (Inr 0, ks)
      else if \<not> redis_EXISTS t ks oldRefreshKey then (Inr 0, ks)
      else
        (let trackedRefreshKey = redis_GET t ks pointerKey in
         if trackedRefreshKey \<noteq> None \<and> trackedRefreshKey \<noteq> Some '''' \<and>
            trackedRefreshKey \<noteq> Some oldRefreshKey then (Inr 0, ks)
         else if ttlMs \<le> 0 then (Inl invalid_expire, ks)
         else
           (let ks1 = redis_SET_PX t ks newRefreshKey ''1'' ttlMs;
                ks2 = redis_SET_PX t ks1 sessionKey newSessionID ttlMs;
                ks3 = redis_SET_PX t ks2 pointerKey newRefreshKey ttlMs
            in (Inr 1, redis_DEL ks3 oldRefreshKey))))"

text \<open>\<open>DEL\<close> of the tracked token comes before the writes here, and stays when they are refused.\<close>

definition replaceScript ::
  "int \<Rightarrow> keyspace \<Rightarrow> string \<Rightarrow> string \<Rightarrow> string \<Rightarrow> int \<Rightarrow> string \<Rightarrow> (go_error + int) \<times> keyspace" where
  "replaceScript t ks newRefreshKey sessionKey pointerKey ttlMs sessionID =
     (let ks0 = (case redis_GET t ks pointerKey of
            None \<Rightarrow> ks
          | Some oldRefreshKey \<Rightarrow> if oldRefreshKey \<noteq> '''' then redis_DEL ks oldRefreshKey else ks)
      in if ttlMs \<le> 0 then (Inl invalid_expire, ks0)
         else
           (let ks1 = redis_SET_PX t ks0 newRefreshKey ''1'' ttlMs;
                ks2 = redis_SET_PX t ks1 sessionKey sessionID ttlMs
            in (Inr 1, redis_SET_PX t ks2 pointerKey newRefreshKey ttlMs)))"

definition Replace ::
  "'e env_scheme \<Rightarrow> 'a base_scheme \<Rightarrow> duration \<Rightarrow> uuid \<Rightarrow> string \<Rightarrow> string \<Rightarrow>
   (go_error + unit) \<times> 'a base_scheme" where
  "Replace E w ttl userID newJTI newSessionID =
     (case external E w (\<lambda>v. case replaceScript (env_redis_ms E (tick v)) (kv v)
              (refreshKey E userID newJTI) (SessionKey E userID) (currentRefreshKey E userID)
              (Milliseconds ttl) newSessionID of
            (res, ks) \<Rightarrow> (res, v\<lparr>kv := ks\<rparr>)) of
        (Inl err, w1) \<Rightarrow> (Inl (Errorf ''replace refresh token: lua script error: '' err ''''), w1)
      | (Inr _, w1) \<Rightarrow> (Inr (), w1))"

definition Rotate ::
  "'e env_scheme \<Rightarrow> 'a base_scheme \<Rightarrow> duration \<Rightarrow> uuid \<Rightarrow> string \<Rightarrow> string \<Rightarrow> string \<Rightarrow> string \<Rightarrow>
   (go_error + bool) \<times> 'a base_scheme" where
  "Rotate E w ttl userID oldJTI oldSessionID newJTI newSessionID =
     (case external E w (\<lambda>v. case rotateScript (env_redis_ms E (tick v)) (kv v)
              (refreshKey E userID oldJTI) (refreshKey E userID newJTI) (SessionKey E userID)
              (currentRefreshKey E userID) (Milliseconds ttl) oldSessionID newSessionID of
            (res, ks) \<Rightarrow> (res, v\<lparr>kv := ks\<rparr>)) of
        (Inl err, w1) \<Rightarrow> (Inl (Errorf ''rotate refresh token: lua script error: '' err ''''), w1)
      | (Inr result, w1) \<Rightarrow> (Inr (result = 1), w1))"

section \<open>The service\<close>

record AuthService =
  as_jwtManager :: Manager
  as_refreshTTL :: duration

definition validateRefreshToken ::
  "'e env_scheme \<Rightarrow> jwt_lib \<Rightarrow> unicode_tables \<Rightarrow> AuthService \<Rightarrow> 'a base_scheme \<Rightarrow> string \<Rightarrow>
   (go_error + uuid \<times> UserRole list \<times> string \<times> string) \<times> 'a base_scheme" where
  "validateRefreshToken E J U s w refreshToken =
     (case ParseToken E J (as_jwtManager s) w refreshToken TokenTypeRefresh of
        Inl err \<Rightarrow> (Inl err, w)
      | Inr claims \<Rightarrow>
          (case uuid_Parse E (Cl_Subject claims) of
             None \<Rightarrow> (Inl (Auth ErrInvalidSubject), w)
           | Some userID \<Rightarrow>
               if Cl_ID claims = '''' then (Inl (Auth ErrInvalidJTI), w)
               else
                 (case ParseUserRolesClaims U (Cl_UserRoles claims) of
                    Inl err \<Rightarrow> (Inl err, w)
                  | Inr roles \<Rightarrow>
                      (case IsSessionActive E w userID (Cl_SessionID claims) of
                         (Inl err, w1) \<Rightarrow> (Inl (Auth ErrSessionValidationFailed), w1)
                       | (Inr active, w1) \<Rightarrow>
                           if \<not> active then (Inl (Auth ErrTokenRevoked), w1)
                           else (Inr (userID, roles, Cl_ID claims, Cl_SessionID claims), w1)))))"

definition generateTokenPair ::
  "'e env_scheme \<Rightarrow> jwt_lib \<Rightarrow> AuthService \<Rightarrow> 'a base_scheme \<Rightarrow> uuid \<Rightarrow> UserRole list \<Rightarrow> string \<Rightarrow> string \<Rightarrow>
   go_error + string \<times> string" where
  "generateTokenPair E J s w userID roles refreshJTI sessionID =
     (case GenerateAccessToken E J (as_jwtManager s) w userID roles sessionID of
        Inl err \<Rightarrow> Inl err
      | Inr accessToken \<Rightarrow>
          (case GenerateRefreshToken E J (as_jwtManager s) w userID roles refreshJTI sessionID of
             Inl err \<Rightarrow> Inl err
           | Inr refreshToken \<Rightarrow> Inr (accessToken, refreshToken)))"

definition rotateTokens ::
  "'e env_scheme \<Rightarrow> jwt_lib \<Rightarrow> AuthService \<Rightarrow> 'a base_scheme \<Rightarrow> uuid \<Rightarrow> UserRole list \<Rightarrow> string \<Rightarrow> string \<Rightarrow>
   (go_error + string \<times> string) \<times> 'a base_scheme" where
  "rotateTokens E J s w userID roles oldJTI oldSessionID =
     (let newJTI = uuid_String E (env_uuid E (tick w)); newSessionID = oldSessionID in
      case generateTokenPair E J s w userID roles newJTI newSessionID of
        Inl err \<Rightarrow> (Inl err, w)
      | Inr tokens \<Rightarrow>
          (case Rotate E w (as_refreshTTL s) userID oldJTI oldSessionID newJTI newSessionID of
             (Inl err, w1) \<Rightarrow> (Inl (Auth ErrSaveTokenFailed), w1)
           | (Inr rotated, w1) \<Rightarrow>
               if \<not> rotated then (Inl (Auth ErrTokenRevoked), w1) else (Inr tokens, w1)))"

definition Refresh ::
  "'e env_scheme \<Rightarrow> jwt_lib \<Rightarrow> unicode_tables \<Rightarrow> AuthService \<Rightarrow> 'a base_scheme \<Rightarrow> string \<Rightarrow>
   (go_error + string \<times> string) \<times> 'a base_scheme" where
  "Refresh E J U s w refreshToken =
     (case validateRefreshToken E J U s w refreshToken of
        (Inl err, w1) \<Rightarrow> (Inl err, w1)
      | (Inr (userID, roles, oldJTI, oldSessionID), w1) \<Rightarrow>
          rotateTokens E J s w1 userID roles oldJTI oldSessionID)"

text \<open>The handler. A missing request is \<open>None\<close>; the answer holds the access and the refresh token.\<close>

definition serverAPI_RefreshToken ::
  "'e env_scheme \<Rightarrow> jwt_lib \<Rightarrow> unicode_tables \<Rightarrow> AuthService \<Rightarrow> 'a base_scheme \<Rightarrow> string option \<Rightarrow>
   (go_error + string \<times> string) \<times> 'a base_scheme" where
  "serverAPI_RefreshToken E J U s w request =
     (case request of
        None \<Rightarrow> (Inl (StatusError Code_InvalidArgument ''request is required''), w)
      | Some refreshToken \<Rightarrow>
          if refreshToken = '''' then
            (Inl (StatusError Code_InvalidArgument ''refresh_token is required''), w)
          else
            (case Refresh E J U s w refreshToken of
               (Inl err, w1) \<Rightarrow> (Inl err, w1)
             | (Inr tokens, w1) \<Rightarrow> (Inr tokens, w1)))"

section \<open>The keys of a user\<close>

lemma session_keys_differ [simp]:
  "refreshKey E u j \<noteq> SessionKey E v" "refreshKey E u j \<noteq> currentRefreshKey E v"
  "SessionKey E v \<noteq> refreshKey E u j" "currentRefreshKey E v \<noteq> refreshKey E u j"
  "SessionKey E u \<noteq> currentRefreshKey E v" "currentRefreshKey E v \<noteq> SessionKey E u"
  "refreshKey E u j \<noteq> ''''"
  by (simp_all add: refreshKey_def SessionKey_def currentRefreshKey_def)

lemma refreshKey_inject [simp]: "refreshKey E u j = refreshKey E u j' \<longleftrightarrow> j = j'"
  by (simp add: refreshKey_def)

section \<open>A refresh token is used at most once\<close>

lemma Rotate_cases:
  assumes "Rotate E w ttl u j s j' s' = (r, w')"
  shows "(w' = step w \<and> r \<noteq> Inr True) \<or>
    (\<exists>ks. rotateScript (env_redis_ms E (tick w)) (kv w) (refreshKey E u j) (refreshKey E u j')
        (SessionKey E u) (currentRefreshKey E u) (Milliseconds ttl) s s' = (Inr 1, ks) \<and>
      w' = step (w\<lparr>kv := ks\<rparr>))"
proof -
  have "fst (rotateScript t ks ok nk sk pk ms s s') = Inr 1 \<or>
      (fst (rotateScript t ks ok nk sk pk ms s s') \<in> {Inr 0, Inl invalid_expire} \<and>
       snd (rotateScript t ks ok nk sk pk ms s s') = ks)" for t ks ok nk sk pk ms
    by (simp add: rotateScript_def Let_def)
  from this [of "env_redis_ms E (tick w)" "kv w" "refreshKey E u j" "refreshKey E u j'"
      "SessionKey E u" "currentRefreshKey E u" "Milliseconds ttl"]
  show ?thesis
    using assms
    by (cases "rotateScript (env_redis_ms E (tick w)) (kv w) (refreshKey E u j) (refreshKey E u j')
        (SessionKey E u) (currentRefreshKey E u) (Milliseconds ttl) s s'")
      (auto simp: Rotate_def external_def split: outcome.splits)
qed

lemma rotateScript_Inr:
  assumes "rotateScript t ks ok nk sk pk ms s s' = (Inr 1, ks')"
  shows "redis_GET t ks sk = Some s \<and> redis_GET t ks ok \<noteq> None \<and>
    (redis_GET t ks pk = None \<or> redis_GET t ks pk = Some '''' \<or> redis_GET t ks pk = Some ok) \<and>
    0 < ms \<and> ks' = redis_DEL (redis_SET_PX t (redis_SET_PX t (redis_SET_PX t ks nk ''1'' ms) sk s' ms) pk nk ms) ok"
  using assms by (auto simp: rotateScript_def redis_EXISTS_def Let_def split: if_splits)

lemma Rotate_consumes:
  assumes "Rotate E w ttl u j s j' s' = (r, w')" and "j' \<noteq> j"
  shows "kv w (refreshKey E u j) = None \<Longrightarrow> kv w' (refreshKey E u j) = None \<and> r \<noteq> Inr True"
    and "r = Inr True \<Longrightarrow> kv w' (refreshKey E u j) = None"
  using Rotate_cases [OF assms(1)] assms(2)
  by (auto dest!: rotateScript_Inr simp: redis_GET_def redis_DEL_def split: option.splits)

lemma rotateTokens_Rotate:
  assumes "rotateTokens E J s w u roles j sess = (r, w')"
  shows "(w' = w \<and> \<not> is_ok r) \<or>
    (\<exists>q. Rotate E w (as_refreshTTL s) u j sess (uuid_String E (env_uuid E (tick w))) sess = (q, w') \<and>
       (is_ok r \<longleftrightarrow> q = Inr True))"
  using assms by (auto simp: rotateTokens_def Let_def split: sum.splits prod.splits if_splits)

lemma validateRefreshToken_Inr:
  assumes "validateRefreshToken E J U s w token = (Inr (u, roles, j, sess), w')"
  shows "w' = step w \<and> (\<exists>c. ParseToken E J (as_jwtManager s) w token TokenTypeRefresh = Inr c \<and>
    uuid_Parse E (Cl_Subject c) = Some u \<and> j = Cl_ID c \<and> sess = Cl_SessionID c \<and>
    ParseUserRolesClaims U (Cl_UserRoles c) = Inr roles)"
  using assms cache_Get_world [of E w]
  by (auto simp: validateRefreshToken_def IsSessionActive_def split: sum.splits prod.splits option.splits if_splits)
    (metis snd_conv)+

lemma validateRefreshToken_world:
  "snd (validateRefreshToken E J U s w token) \<in> {w, step w}"
  using cache_Get_world [of E w]
  by (auto simp: validateRefreshToken_def IsSessionActive_def split: sum.splits prod.splits option.splits)
    (metis snd_conv)+

lemma ParseToken_Inr:
  "ParseToken E J m w token ty = Inr c \<Longrightarrow>
     jwt_ParseWithClaims J (env_now E (tick w)) (mgr_secret m) token = Inr c \<and> Cl_TokenType c = ty \<and>
     Cl_Subject c \<noteq> '''' \<and> Cl_SessionID c \<noteq> ''''"
  by (auto simp: ParseToken_def split: sum.splits jwt_error.splits if_splits)

text \<open>
  Attempts to refresh with one token, how many of them succeed, and the world they leave.
  Anything may happen before an attempt and between its check of the session and its rotation,
  other attempts included.
\<close>

fun refresh_run ::
  "'e env_scheme \<Rightarrow> jwt_lib \<Rightarrow> unicode_tables \<Rightarrow> AuthService \<Rightarrow> string \<Rightarrow>
   (('a base_scheme \<Rightarrow> 'a base_scheme) \<times> ('a base_scheme \<Rightarrow> 'a base_scheme)) list \<Rightarrow>
   'a base_scheme \<Rightarrow> nat \<times> 'a base_scheme" where
  "refresh_run E J U s token [] w = (0, w)"
| "refresh_run E J U s token ((f, g) # fs) w =
     (case validateRefreshToken E J U s (f w) token of
        (Inl _, w1) \<Rightarrow> refresh_run E J U s token fs w1
      | (Inr (u, roles, j, sess), w1) \<Rightarrow>
          (case rotateTokens E J s (g w1) u roles j sess of
             (Inl _, w2) \<Rightarrow> refresh_run E J U s token fs w2
           | (Inr _, w2) \<Rightarrow>
               (case refresh_run E J U s token fs w2 of (n, w3) \<Rightarrow> (Suc n, w3))))"

text \<open>Without interference an attempt is \<open>Refresh\<close>.\<close>

lemma refresh_run_Refresh:
  "refresh_run E J U s token ((f, id) # fs) w =
     (case Refresh E J U s (f w) token of
        (Inl _, w2) \<Rightarrow> refresh_run E J U s token fs w2
      | (Inr _, w2) \<Rightarrow> (case refresh_run E J U s token fs w2 of (n, w3) \<Rightarrow> (Suc n, w3)))"
  by (auto simp: Refresh_def split: sum.splits prod.splits)

lemma refresh_run_bounded:
  fixes w :: "'a base_scheme"
  assumes "\<And>n. uuid_String E (env_uuid E n) \<noteq> j"
    and claims: "\<And>(v :: 'a base_scheme) c. ParseToken E J (as_jwtManager s) v token TokenTypeRefresh = Inr c \<Longrightarrow>
      uuid_Parse E (Cl_Subject c) = Some u \<and> Cl_ID c = j"
    and "\<And>f g v. (f, g) \<in> set fs \<Longrightarrow> kv v (refreshKey E u j) = None \<Longrightarrow>
      kv (f v) (refreshKey E u j) = None \<and> kv (g v) (refreshKey E u j) = None"
  shows "fst (refresh_run E J U s token fs w) \<le> (if kv w (refreshKey E u j) = None then 0 else 1)"
  using assms(3)
proof (induction fs arbitrary: w)
  case (Cons x fs)
  obtain f g where x: "x = (f, g)" by force
  let ?k = "refreshKey E u j"
  have IH: "fst (refresh_run E J U s token fs v) \<le> (if kv v ?k = None then 0 else 1)" for v
    using Cons.prems by (intro Cons.IH) auto
  have fg: "kv v ?k = None \<Longrightarrow> kv (f v) ?k = None \<and> kv (g v) ?k = None" for v
    using Cons.prems x by auto
  obtain r w1 where v: "validateRefreshToken E J U s (f w) token = (r, w1)" by force
  then have k1: "kv w1 = kv (f w)"
    using validateRefreshToken_world [of E J U s "f w" token] by auto
  show ?case
  proof (cases r)
    case (Inl e)
    with v x IH [of w1] k1 fg [of w] show ?thesis by (auto split: if_splits)
  next
    case (Inr q)
    obtain u' roles j' sess where q: "q = (u', roles, j', sess)" by (cases q)
    have uj: "u' = u \<and> j' = j"
      using validateRefreshToken_Inr [of E J U s "f w" token u' roles j' sess w1] v Inr q claims [of "f w"]
      by auto
    obtain t w2 where t: "rotateTokens E J s (g w1) u roles j sess = (t, w2)" by force
    from rotateTokens_Rotate [OF t]
    have k2: "kv (g w1) ?k = None \<Longrightarrow> kv w2 ?k = None \<and> \<not> is_ok t" "is_ok t \<Longrightarrow> kv w2 ?k = None"
      using Rotate_consumes [of E "g w1" "as_refreshTTL s" u j sess] assms(1) by blast+
    have none: "kv w ?k = None \<Longrightarrow> kv (g w1) ?k = None"
      using fg [of w] fg [of w1] k1 by simp
    show ?thesis
      using v x Inr q uj t k2 none IH [of w2]
      by (cases t; cases "kv w ?k = None") (auto split: prod.splits if_splits)
  qed
qed simp

text \<open>
  C11. However often, and however interleaved, a refresh token is presented, it is exchanged for
  new tokens at most once, whatever calls to Redis fail, get lost or take effect without an
  answer; as long as nothing else puts the same token back and UUIDs are fresh.
\<close>

theorem refresh_token_used_once:
  assumes "jwt_steady J" and "\<And>n. uuid_String E (env_uuid E n) \<noteq> Cl_ID c"
    and "jwt_ParseWithClaims J t (mgr_secret (as_jwtManager s)) token = Inr c"
    and "uuid_Parse E (Cl_Subject c) = Some u"
    and "\<And>f g v. (f, g) \<in> set fs \<Longrightarrow> kv v (refreshKey E u (Cl_ID c)) = None \<Longrightarrow>
      kv (f v) (refreshKey E u (Cl_ID c)) = None \<and> kv (g v) (refreshKey E u (Cl_ID c)) = None"
  shows "fst (refresh_run E J U s token fs w) \<le> 1"
proof -
  have "uuid_Parse E (Cl_Subject d) = Some u \<and> Cl_ID d = Cl_ID c"
    if "ParseToken E J (as_jwtManager s) v token TokenTypeRefresh = Inr d" for v d
    using ParseToken_Inr [OF that] assms(1,3,4) unfolding jwt_steady_def by metis
  then have "fst (refresh_run E J U s token fs w) \<le>
      (if kv w (refreshKey E u (Cl_ID c)) = None then 0 else 1)"
    by (intro refresh_run_bounded) (use assms(2,5) in blast)+
  then show ?thesis by (simp split: if_splits)
qed

section \<open>Only the token issued last is accepted\<close>

text \<open>What Redis holds after a refresh token has been issued, until it expires.\<close>

definition issued :: "'e env_scheme \<Rightarrow> uuid \<Rightarrow> string \<Rightarrow> string \<Rightarrow> keyspace \<Rightarrow> bool" where
  "issued E u jti sess ks \<longleftrightarrow>
     (\<exists>x. (\<forall>n. env_redis_ms E n < x) \<and> ks (SessionKey E u) = Some (sess, Some x) \<and>
        ks (refreshKey E u jti) = Some (''1'', Some x) \<and>
        ks (currentRefreshKey E u) = Some (refreshKey E u jti, Some x))"

lemma issued_GET:
  "issued E u j s ks \<Longrightarrow> redis_GET (env_redis_ms E n) ks (SessionKey E u) = Some s"
  "issued E u j s ks \<Longrightarrow> redis_GET (env_redis_ms E n) ks (refreshKey E u j) = Some ''1''"
  "issued E u j s ks \<Longrightarrow> redis_GET (env_redis_ms E n) ks (currentRefreshKey E u) = Some (refreshKey E u j)"
  by (auto simp: issued_def redis_GET_def key_live_def)

lemma issued_write:
  assumes "within_ttl E ttl"
  shows "issued E u j s (redis_SET_PX (env_redis_ms E n) (redis_SET_PX (env_redis_ms E n)
    (redis_SET_PX (env_redis_ms E n) ks (refreshKey E u j) ''1'' (Milliseconds ttl))
    (SessionKey E u) s (Milliseconds ttl)) (currentRefreshKey E u) (refreshKey E u j) (Milliseconds ttl))"
  using assms unfolding issued_def within_ttl_def
  by (intro exI [of _ "env_redis_ms E n + Milliseconds ttl"]) (simp add: redis_SET_PX_def)

lemma Replace_issued:
  assumes "within_ttl E ttl" and "Replace E w ttl u j s = (Inr (), w')"
  shows "issued E u j s (kv w')"
  using assms(2) within_ttl_pos(1) [OF assms(1)] issued_write [OF assms(1), of u j s "tick w"]
  by (auto simp: Replace_def replaceScript_def Let_def external_Inr split: sum.splits prod.splits)

lemma Rotate_issued:
  assumes "within_ttl E ttl" and "Rotate E w ttl u j0 s0 j s = (Inr True, w')" and "j0 \<noteq> j"
  shows "issued E u j s (kv w')"
proof -
  obtain ks where ks: "rotateScript (env_redis_ms E (tick w)) (kv w) (refreshKey E u j0) (refreshKey E u j)
      (SessionKey E u) (currentRefreshKey E u) (Milliseconds ttl) s0 s = (Inr 1, ks)" "kv w' = ks"
    using Rotate_cases [OF assms(2)] by auto
  then show ?thesis
    using rotateScript_Inr [OF ks(1)] issued_write [OF assms(1), of u j s "tick w" "kv w"] assms(3)
    by (auto simp: issued_def redis_DEL_def)
qed

lemma issued_Rotate:
  assumes "within_ttl E ttl" and "env_outcome E (tick w) = Success" and "issued E u j s (kv w)"
  shows "fst (Rotate E w ttl u j' s' j'' s'') = Inr (j' = j \<and> s' = s)"
  using issued_GET [OF assms(3)] within_ttl_pos(1) [OF assms(1)] assms(2)
  by (auto simp: Rotate_def rotateScript_def external_Success redis_EXISTS_def Let_def)

text \<open>
  C22. Once a refresh token has been issued to a user, by a login or by a refresh, and until
  it expires or another one is issued, exactly this token with its session is exchanged: every
  other token of the user, issued earlier or for another session, is refused.
\<close>

theorem only_last_refresh_token_accepted:
  assumes "within_ttl E ttl" and "env_outcome E (tick w2) = Success"
    and "Replace E w ttl u j s = (Inr (), w1) \<or>
      (\<exists>j0 s0. j0 \<noteq> j \<and> Rotate E w ttl u j0 s0 j s = (Inr True, w1))"
    and "\<And>k. k \<in> {SessionKey E u, currentRefreshKey E u, refreshKey E u j} \<Longrightarrow> kv w2 k = kv w1 k"
  shows "fst (Rotate E w2 ttl u j' s' j'' s'') = Inr (j' = j \<and> s' = s)"
proof -
  have "issued E u j s (kv w1)"
    using assms(3) Replace_issued [OF assms(1)] Rotate_issued [OF assms(1)] by blast
  then have "issued E u j s (kv w2)"
    using assms(4) by (simp add: issued_def)
  then show ?thesis by (rule issued_Rotate [OF assms(1,2)])
qed

section \<open>Refreshing again and again\<close>

lemma IsSessionActive_issued:
  assumes "issued E u j s (kv w)" and "env_outcome E (tick w) = Success"
  shows "IsSessionActive E w u s' = (Inr (s = s'), step w)"
  using issued_GET(1) [OF assms(1)] assms(2) by (simp add: IsSessionActive_def cache_Get_Success)

text \<open>
  Signing does not fail, every reading of the clocks is within the lifetimes of the tokens after any
  other one, and dates can be written.
\<close>

definition tokens_live :: "'e env_scheme \<Rightarrow> jwt_lib \<Rightarrow> AuthService \<Rightarrow> bool" where
  "tokens_live E J s \<longleftrightarrow> jwt_reads_signed J \<and> jwt_steady J \<and>
     (\<forall>c. jwt_SignedString J (mgr_secret (as_jwtManager s)) c \<noteq> None) \<and>
     (\<forall>m n. env_now E m \<le> env_now E n + mgr_accessTTL (as_jwtManager s) - second \<and>
        env_now E m \<le> env_now E n + mgr_refreshTTL (as_jwtManager s) - second) \<and>
     (\<forall>n. date_range (env_now E n) \<and> date_range (env_now E n + mgr_accessTTL (as_jwtManager s)) \<and>
        date_range (env_now E n + mgr_refreshTTL (as_jwtManager s))) \<and>
     within_ttl E (as_refreshTTL s)"

lemma generateTokenPair_ok:
  assumes "tokens_live E J s" and "token_roles roles"
  shows "is_ok (generateTokenPair E J s w u roles j sess)"
  using assms
proof -
  have "\<exists>y. jwt_SignedString J (mgr_secret (as_jwtManager s)) c = Some y" for c
    using assms(1) by (simp add: tokens_live_def)
  then obtain f where "\<And>c. jwt_SignedString J (mgr_secret (as_jwtManager s)) c = Some (f c)"
    by metis
  then show ?thesis
    by (simp add: generateTokenPair_def GenerateAccessToken_def GenerateRefreshToken_def
        UserRolesToClaims_roles [OF assms(2)] Let_def)
qed

lemma rotateTokens_issued:
  assumes "tokens_live E J s" and "token_roles roles" and "issued E u j sess (kv w)"
    and "env_outcome E (tick w) = Success"
  shows "is_ok (fst (rotateTokens E J s w u roles j' sess')) = (j' = j \<and> sess' = sess)"
proof -
  obtain pair where pair: "generateTokenPair E J s w u roles (uuid_String E (env_uuid E (tick w))) sess' = Inr pair"
    using generateTokenPair_ok [OF assms(1,2)] by (metis is_ok_iff)
  obtain w1 where "Rotate E w (as_refreshTTL s) u j' sess' (uuid_String E (env_uuid E (tick w))) sess' =
      (Inr (j' = j \<and> sess' = sess), w1)"
    using issued_Rotate [OF _ assms(4,3)] assms(1) by (metis prod.collapse tokens_live_def)
  with pair show ?thesis by (simp add: rotateTokens_def Let_def)
qed

lemma Refresh_issued:
  assumes "tokens_live E J s" and "issued E u j sess (kv w)" and "all_success E" and "j \<noteq> ''''"
    and "ParseToken E J (as_jwtManager s) w token TokenTypeRefresh = Inr c"
    and "uuid_Parse E (Cl_Subject c) = Some u" and "ParseUserRolesClaims U (Cl_UserRoles c) = Inr roles"
  shows "is_ok (fst (Refresh E J U s w token)) = (Cl_ID c = j \<and> Cl_SessionID c = sess)"
proof -
  have succ: "env_outcome E n = Success" for n using assms(3) by (simp add: all_success_def)
  have "is_ok (fst (rotateTokens E J s (step w) u roles (Cl_ID c) (Cl_SessionID c))) =
      (Cl_ID c = j \<and> Cl_SessionID c = sess)"
    by (rule rotateTokens_issued [OF assms(1) ParseUserRolesClaims_roles [OF assms(7)] _ succ])
      (simp add: assms(2))
  then show ?thesis
    using assms(4-7) IsSessionActive_issued [OF assms(2) succ]
    by (auto simp: Refresh_def validateRefreshToken_def)
qed

lemma refresh_token_read:
  assumes "jwt_reads_signed J" and "uuid_ok E" and "token_roles roles" and "ascii sess" and "sess \<noteq> ''''" and "ascii j"
    and "GenerateRefreshToken E J m w u roles j sess = Inr token"
    and "env_now E (tick v) \<le> env_now E (tick w) + mgr_refreshTTL m - second"
    and "date_range (env_now E (tick w))" and "date_range (env_now E (tick w) + mgr_refreshTTL m)"
  shows "\<exists>c. ParseToken E J m v token TokenTypeRefresh = Inr c \<and> Cl_Subject c = uuid_String E u \<and>
    Cl_ID c = j \<and> Cl_SessionID c = sess \<and> Cl_UserRoles c = map UserRole_String roles"
proof -
  define c where "c = \<lparr>Cl_ID = j, Cl_Subject = uuid_String E u,
    Cl_IssuedAt = jwt_NewNumericDate J (env_now E (tick w)),
    Cl_ExpiresAt = jwt_NewNumericDate J (env_now E (tick w) + mgr_refreshTTL m),
    Cl_TokenType = TokenTypeRefresh, Cl_SessionID = sess, Cl_UserRoles = map UserRole_String roles\<rparr>"
  have "jwt_SignedString J (mgr_secret m) c = Some token"
    using assms(7) by (auto simp: GenerateRefreshToken_def Let_def UserRolesToClaims_roles [OF assms(3)] c_def
        split: option.splits)
  moreover have "ascii_claims c"
    using assms(2,4,6) by (simp add: ascii_claims_def c_def ascii_uuid_String list_all_iff)
  moreover have "env_now E (tick v) < Cl_ExpiresAt c"
    using assms(1,8) unfolding jwt_reads_signed_def c_def by simp (metis diff_add_cancel less_le_trans add_le_cancel_right le_less_trans)
  moreover have "json_date J (Cl_IssuedAt c)" "json_date J (Cl_ExpiresAt c)"
    using json_date_cut [OF assms(1)] assms(9,10) by (simp_all add: c_def)
  ultimately have "jwt_ParseWithClaims J (env_now E (tick v)) (mgr_secret m) token = Inr c"
    using assms(1) unfolding jwt_reads_signed_def by blast
  moreover have "uuid_String E u \<noteq> ''''" using assms(2) by (simp add: uuid_ok_def)
  ultimately show ?thesis
    using assms(5) by (simp add: ParseToken_def c_def)
qed

lemma Refresh_Inr:
  assumes "Refresh E J U s w token = (Inr (acc, ref), w')"
  shows "\<exists>c u roles. ParseToken E J (as_jwtManager s) w token TokenTypeRefresh = Inr c \<and>
    uuid_Parse E (Cl_Subject c) = Some u \<and> ParseUserRolesClaims U (Cl_UserRoles c) = Inr roles \<and>
    generateTokenPair E J s (step w) u roles (uuid_String E (env_uuid E (Suc (tick w)))) (Cl_SessionID c) =
      Inr (acc, ref) \<and>
    Rotate E (step w) (as_refreshTTL s) u (Cl_ID c) (Cl_SessionID c)
      (uuid_String E (env_uuid E (Suc (tick w)))) (Cl_SessionID c) = (Inr True, w')"
proof -
  obtain u roles j sess w1 where v: "validateRefreshToken E J U s w token = (Inr (u, roles, j, sess), w1)"
    and t: "rotateTokens E J s w1 u roles j sess = (Inr (acc, ref), w')"
    using assms by (auto simp: Refresh_def split: sum.splits prod.splits)
  from validateRefreshToken_Inr [OF v] t show ?thesis
    by (auto simp: rotateTokens_def Let_def split: sum.splits prod.splits if_splits)
qed

text \<open>
  C23. When the services answer and the tokens can be signed, the pair of tokens a refresh returns works,
  as long as every reading of the clocks stays within the lifetimes of the tokens (less the second by
  which a date may be cut) and nothing else has written to Redis: the access token is accepted for
  the same user, the same roles and the same session, the new refresh token can be exchanged in its
  turn, and the old one cannot any more.
\<close>

theorem refreshed_tokens_work:
  assumes "all_success E" and "uuid_ok E" and "tokens_live E J s"
    and "Refresh E J U s w token = (Inr (acc, ref), w1)"
    and "\<And>c. ParseToken E J (as_jwtManager s) w token TokenTypeRefresh = Inr c \<Longrightarrow>
      ascii (Cl_SessionID c) \<and> Cl_ID c \<noteq> uuid_String E (env_uuid E (Suc (tick w)))"
    and "\<And>k. kv w2 k = kv w1 k"
  shows "\<exists>c c' u. ParseToken E J (as_jwtManager s) w token TokenTypeRefresh = Inr c \<and>
    ParseToken E J (as_jwtManager s) w2 acc TokenTypeAccess = Inr c' \<and>
    uuid_Parse E (Cl_Subject c) = Some u \<and> uuid_Parse E (Cl_Subject c') = Some u \<and>
    Cl_SessionID c' = Cl_SessionID c \<and>
    ParseUserRolesClaims U (Cl_UserRoles c') = ParseUserRolesClaims U (Cl_UserRoles c) \<and>
    is_ok (fst (Refresh E J U s w2 ref)) \<and> \<not> is_ok (fst (Refresh E J U s w2 token))"
proof -
  let ?m = "as_jwtManager s" and ?j = "uuid_String E (env_uuid E (Suc (tick w)))"
  obtain c u roles where c: "ParseToken E J ?m w token TokenTypeRefresh = Inr c"
    and u: "uuid_Parse E (Cl_Subject c) = Some u" and roles: "ParseUserRolesClaims U (Cl_UserRoles c) = Inr roles"
    and pair: "generateTokenPair E J s (step w) u roles ?j (Cl_SessionID c) = Inr (acc, ref)"
    and rot: "Rotate E (step w) (as_refreshTTL s) u (Cl_ID c) (Cl_SessionID c) ?j (Cl_SessionID c) = (Inr True, w1)"
    using Refresh_Inr [OF assms(4)] by blast
  have live: "jwt_reads_signed J" "within_ttl E (as_refreshTTL s)" "jwt_steady J"
    "env_now E m \<le> env_now E n + mgr_accessTTL ?m - second"
    "env_now E m \<le> env_now E n + mgr_refreshTTL ?m - second"
    "date_range (env_now E n)" "date_range (env_now E n + mgr_accessTTL ?m)"
    "date_range (env_now E n + mgr_refreshTTL ?m)" for m n
    using assms(3) by (auto simp: tokens_live_def)
  have sess: "ascii (Cl_SessionID c)" "Cl_SessionID c \<noteq> ''''" "Cl_ID c \<noteq> ?j"
    using assms(5) [OF c] ParseToken_Inr [OF c] by auto
  note tr = ParseUserRolesClaims_roles [OF roles]
  have gen: "GenerateAccessToken E J ?m (step w) u roles (Cl_SessionID c) = Inr acc"
    "GenerateRefreshToken E J ?m (step w) u roles ?j (Cl_SessionID c) = Inr ref"
    using pair by (auto simp: generateTokenPair_def split: sum.splits)
  obtain c' where c': "ParseToken E J ?m w2 acc TokenTypeAccess = Inr c'" "Cl_Subject c' = uuid_String E u"
    "Cl_SessionID c' = Cl_SessionID c" "ParseUserRolesClaims U (Cl_UserRoles c') = Inr roles"
    using access_token_read [OF live(1) assms(2) tr sess(1,2) gen(1) live(4,6,7)] by blast
  obtain d where d: "ParseToken E J ?m w2 ref TokenTypeRefresh = Inr d" "Cl_Subject d = uuid_String E u"
    "Cl_ID d = ?j" "Cl_SessionID d = Cl_SessionID c" "Cl_UserRoles d = map UserRole_String roles"
    using refresh_token_read [OF live(1) assms(2) tr sess(1,2) ascii_uuid_String [OF assms(2)] gen(2) live(5,6,8)]
    by blast
  have us: "uuid_Parse E (uuid_String E u) = Some u" "?j \<noteq> ''''"
    using assms(2) by (auto simp: uuid_ok_def)
  have iss: "issued E u ?j (Cl_SessionID c) (kv w2)"
    using Rotate_issued [OF live(2) rot sess(3)] assms(6) by (simp add: issued_def)
  note again = Refresh_issued [OF assms(3) iss assms(1) us(2)]
  have "is_ok (fst (Refresh E J U s w2 ref))"
    using again [OF d(1)] d us ParseUserRolesClaims_String [OF tr] by simp
  moreover have "\<not> is_ok (fst (Refresh E J U s w2 token))"
  proof (cases "ParseToken E J ?m w2 token TokenTypeRefresh")
    case (Inr e)
    then have "e = c"
      using ParseToken_Inr [OF Inr] ParseToken_Inr [OF c] live(3) unfolding jwt_steady_def by metis
    then show ?thesis using again [OF Inr] u roles sess(3) by simp
  qed (simp add: Refresh_def validateRefreshToken_def)
  ultimately show ?thesis using c c' u us roles by auto
qed

end
