(* ===== verification/Readiness.thy ===== *)
theory Readiness
  imports Go_Errors
begin

text \<open>
  The readiness monitor of both services (\<open>shared/infrastructure/health/readiness_monitor.go\<close>):
  probes of the dependencies move the status the health server reports, with hysteresis. What
  a dependency answers to a probe is an argument.
\<close>

section \<open>State\<close>

datatype serving_status = SERVING | NOT_SERVING

record ReadinessMonitorConfig =
  rm_ServiceNames :: "string list"
  rm_CheckInterval :: duration
  rm_CheckTimeout :: duration
  rm_SuccessThreshold :: int
  rm_FailureThreshold :: int

text \<open>The health server is the map from service names to the status last set.\<close>

record ReadinessMonitor =
  rm_cfg :: ReadinessMonitorConfig
  rm_server :: "string \<rightharpoonup> serving_status"
  rm_serving :: bool
  rm_successStreak :: int
  rm_failureStreak :: int
  rm_lastFailure :: string

definition defaultCheckInterval :: duration where "defaultCheckInterval = 10 * 1000000000"
definition defaultCheckTimeout :: duration where "defaultCheckTimeout = 3 * 1000000000"
definition defaultSuccessThreshold :: int where "defaultSuccessThreshold = 1"
definition defaultFailureThreshold :: int where "defaultFailureThreshold = 1"

fun set_statuses :: "string list \<Rightarrow> serving_status \<Rightarrow> (string \<rightharpoonup> serving_status) \<Rightarrow> string \<rightharpoonup> serving_status" where
  "set_statuses [] status server = server"
| "set_statuses (serviceName # names) status server =
     (if serviceName = '''' then set_statuses names status server
      else set_statuses names status (server(serviceName \<mapsto> status)))"

definition setStatus :: "serving_status \<Rightarrow> ReadinessMonitor \<Rightarrow> ReadinessMonitor" where
  "setStatus status m =
     m\<lparr>rm_server := set_statuses (rm_ServiceNames (rm_cfg m)) status ((rm_server m)('''' \<mapsto> status))\<rparr>"

definition NewReadinessMonitor ::
  "(string \<rightharpoonup> serving_status) \<Rightarrow> ReadinessMonitorConfig \<Rightarrow> ReadinessMonitor" where
  "NewReadinessMonitor server cfg =
     (let cfg1 = (if rm_CheckInterval cfg \<le> 0 then cfg\<lparr>rm_CheckInterval := defaultCheckInterval\<rparr> else cfg);
          cfg2 = (if rm_CheckTimeout cfg1 \<le> 0 then cfg1\<lparr>rm_CheckTimeout := defaultCheckTimeout\<rparr> else cfg1);
          cfg3 = (if rm_SuccessThreshold cfg2 \<le> 0
                  then cfg2\<lparr>rm_SuccessThreshold := defaultSuccessThreshold\<rparr> else cfg2);
          cfg4 = (if rm_FailureThreshold cfg3 \<le> 0
                  then cfg3\<lparr>rm_FailureThreshold := defaultFailureThreshold\<rparr> else cfg3)
      in setStatus NOT_SERVING
           \<lparr>rm_cfg = cfg4, rm_server = server, rm_serving = False, rm_successStreak = 0,
            rm_failureStreak = 0, rm_lastFailure = ''''\<rparr>)"

section \<open>Probes\<close>

text \<open>
  A probe asks each dependency once; the list holds a name and the error, if any, of each.
  \<open>strings.Join\<close> puts the failures together.
\<close>

fun join_semicolon :: "string list \<Rightarrow> string" where
  "join_semicolon [] = ''''"
| "join_semicolon [s] = s"
| "join_semicolon (s # ss) = s @ ''; '' @ join_semicolon ss"

definition checkDependencies :: "(string \<times> string option) list \<Rightarrow> string \<times> go_error option" where
  "checkDependencies answers =
     (let failures = map (\<lambda>(name, err). name @ '': '' @ the err) (filter (\<lambda>(_, err). err \<noteq> None) answers) in
      if failures = [] then ('''', None)
      else (let failure = join_semicolon failures in (failure, Some (NewError failure))))"

definition RequireReady ::
  "ReadinessMonitor \<Rightarrow> (string \<times> string option) list \<Rightarrow> (go_error + unit) \<times> ReadinessMonitor" where
  "RequireReady m answers =
     (case checkDependencies answers of
        (failure, Some err) \<Rightarrow>
          (Inl err, setStatus NOT_SERVING
             (m\<lparr>rm_failureStreak := 1, rm_successStreak := 0, rm_lastFailure := failure\<rparr>))
      | (_, None) \<Rightarrow>
          (Inr (), setStatus SERVING
             (m\<lparr>rm_successStreak := 1, rm_failureStreak := 0, rm_lastFailure := '''', rm_serving := True\<rparr>)))"

definition probe :: "ReadinessMonitor \<Rightarrow> (string \<times> string option) list \<Rightarrow> ReadinessMonitor" where
  "probe m answers =
     (case checkDependencies answers of
        (failure, Some err) \<Rightarrow>
          (let m1 = m\<lparr>rm_failureStreak := wrap64 (rm_failureStreak m + 1), rm_successStreak := 0,
                      rm_lastFailure := failure\<rparr>
           in if rm_serving m1 \<and> rm_FailureThreshold (rm_cfg m1) \<le> rm_failureStreak m1
              then setStatus NOT_SERVING (m1\<lparr>rm_serving := False\<rparr>) else m1)
      | (_, None) \<Rightarrow>
          (let m1 = m\<lparr>rm_successStreak := wrap64 (rm_successStreak m + 1), rm_failureStreak := 0,
                      rm_lastFailure := ''''\<rparr>
           in if \<not> rm_serving m1 \<and> rm_SuccessThreshold (rm_cfg m1) \<le> rm_successStreak m1
              then setStatus SERVING (m1\<lparr>rm_serving := True\<rparr>) else m1))"

text \<open>\<open>Watch\<close>: a probe at each tick until the context is done.\<close>

fun Watch :: "ReadinessMonitor \<Rightarrow> (string \<times> string option) list option list \<Rightarrow> ReadinessMonitor" where
  "Watch m [] = m"
| "Watch m (None # ticks) = m"
| "Watch m (Some answers # ticks) = Watch (probe m answers) ticks"

section \<open>Hysteresis\<close>

text \<open>Every name is given the same status.\<close>

definition reports_status :: "ReadinessMonitor \<Rightarrow> serving_status \<Rightarrow> bool" where
  "reports_status m status \<longleftrightarrow>
     list_all (\<lambda>s. rm_server m s = Some status) ('''' # rm_ServiceNames (rm_cfg m))"

text \<open>
  The reference: what the status should be after a history of probes, newest first. It is up
  or down (\<open>start\<close>) at first, and it changes when the newest probes, as many as the threshold,
  all say so. \<open>streak b h\<close> is how many of the newest probes gave \<open>b\<close>.
\<close>

definition streak :: "bool \<Rightarrow> bool list \<Rightarrow> nat" where
  "streak b history = length (takeWhile (\<lambda>x. x = b) history)"

fun should_serve :: "bool \<Rightarrow> int \<Rightarrow> int \<Rightarrow> bool list \<Rightarrow> bool" where
  "should_serve start success failure [] = start"
| "should_serve start success failure (ok # history) =
     (if should_serve start success failure history
      then \<not> failure \<le> int (streak False (ok # history))
      else success \<le> int (streak True (ok # history)))"

text \<open>The monitor follows its history.\<close>

definition follows :: "bool \<Rightarrow> ReadinessMonitor \<Rightarrow> bool list \<Rightarrow> bool" where
  "follows start m history \<longleftrightarrow>
     1 \<le> rm_SuccessThreshold (rm_cfg m) \<and> 1 \<le> rm_FailureThreshold (rm_cfg m) \<and>
     rm_serving m = should_serve start (rm_SuccessThreshold (rm_cfg m)) (rm_FailureThreshold (rm_cfg m)) history \<and>
     rm_successStreak m = int (streak True history) \<and> rm_failureStreak m = int (streak False history) \<and>
     reports_status m (if rm_serving m then SERVING else NOT_SERVING)"

definition healthy_probe :: "(string \<times> string option) list \<Rightarrow> bool" where
  "healthy_probe answers \<longleftrightarrow> list_all (\<lambda>(_, err). err = None) answers"

lemma checkDependencies_healthy: "snd (checkDependencies answers) = None \<longleftrightarrow> healthy_probe answers"
  by (auto simp: checkDependencies_def healthy_probe_def Let_def list_all_iff filter_empty_conv)

lemma set_statuses_apply:
  "set_statuses names status server s =
     (if s \<in> set names \<and> s \<noteq> '''' then Some status else server s)"
  by (induction names status server rule: set_statuses.induct) (auto simp: fun_upd_def)

lemma setStatus_reports [simp]: "reports_status (setStatus status m) status"
  by (auto simp: reports_status_def setStatus_def set_statuses_apply list_all_iff)

lemma setStatus_frame [simp]:
  "rm_cfg (setStatus status m) = rm_cfg m" "rm_serving (setStatus status m) = rm_serving m"
  "rm_successStreak (setStatus status m) = rm_successStreak m"
  "rm_failureStreak (setStatus status m) = rm_failureStreak m"
  by (simp_all add: setStatus_def)

lemma streak_Cons: "streak b (x # h) = (if x = b then Suc (streak b h) else 0)"
  by (simp add: streak_def)

lemma streak_le: "streak b h \<le> length h"
  by (simp add: streak_def length_takeWhile_le)

lemma reports_status_cong:
  "rm_server m' = rm_server m \<Longrightarrow> rm_cfg m' = rm_cfg m \<Longrightarrow> reports_status m' st = reports_status m st"
  by (simp add: reports_status_def)

lemma probe_follows:
  assumes "follows start m history" and "int (length history) < max_int64"
  shows "follows start (probe m answers) (healthy_probe answers # history)"
proof -
  have wrap: "wrap64 (int (streak b history) + 1) = int (streak b history) + 1" for b
    using streak_le [of b history] assms(2) by (intro wrap64_id) (auto simp: min_int64_def max_int64_def)
  obtain failure err where c: "checkDependencies answers = (failure, err)" by force
  then have "err = None \<longleftrightarrow> healthy_probe answers"
    using checkDependencies_healthy [of answers] by simp
  with c assms(1) wrap show ?thesis
    by (cases err)
      (auto simp: probe_def follows_def Let_def streak_Cons add.commute reports_status_def setStatus_def
        set_statuses_apply list_all_iff)
qed

lemma probe_cfg [simp]: "rm_cfg (probe m answers) = rm_cfg m"
  by (simp add: probe_def Let_def split: prod.split option.split)

lemma Watch_cfg [simp]: "rm_cfg (Watch m ticks) = rm_cfg m"
  by (induction m ticks rule: Watch.induct) simp_all

lemma Watch_follows:
  assumes "follows start m history" and "int (length history + length ticks) < max_int64"
  shows "follows start (Watch m (map Some ticks)) (rev (map healthy_probe ticks) @ history)"
  using assms
proof (induction ticks arbitrary: m history)
  case (Cons answers ticks)
  have "follows start (probe m answers) (healthy_probe answers # history)"
    using Cons.prems by (intro probe_follows) simp_all
  from Cons.IH [OF this] Cons.prems(2) show ?case by simp
qed simp

lemma follows_reports:
  "follows start m history \<Longrightarrow> reports_status m
     (if should_serve start (rm_SuccessThreshold (rm_cfg m)) (rm_FailureThreshold (rm_cfg m)) history
      then SERVING else NOT_SERVING)"
  by (simp add: follows_def split: if_splits)

lemma NewReadinessMonitor_thresholds:
  "rm_SuccessThreshold (rm_cfg (NewReadinessMonitor server cfg)) = max 1 (rm_SuccessThreshold cfg)"
  "rm_FailureThreshold (rm_cfg (NewReadinessMonitor server cfg)) = max 1 (rm_FailureThreshold cfg)"
  by (auto simp: NewReadinessMonitor_def Let_def defaultSuccessThreshold_def defaultFailureThreshold_def)

lemma RequireReady_cfg: "rm_cfg (snd (RequireReady m answers)) = rm_cfg m"
  by (simp add: RequireReady_def split: prod.split option.split)

lemma RequireReady_cases:
  "case RequireReady m answers of
     (Inl _, m') \<Rightarrow> \<not> healthy_probe answers \<and> reports_status m' NOT_SERVING
   | (Inr _, m') \<Rightarrow> healthy_probe answers \<and>
       (1 \<le> rm_SuccessThreshold (rm_cfg m) \<and> 1 \<le> rm_FailureThreshold (rm_cfg m) \<longrightarrow>
          follows True m' [True])"
  using checkDependencies_healthy [of answers]
  by (auto simp: RequireReady_def follows_def streak_def split: prod.splits option.splits)

text \<open>
  C25. A service that is not ready at its start says so and does not start. Afterwards, and
  after any number of probes, the monitor reports, under every name and under the empty one,
  what its history calls for: it goes down only when the newest probes, as many as the failure
  threshold, all failed, and up again only when as many as the success threshold were all
  healthy; in between it keeps its status. A threshold that is not positive counts as one.
\<close>

theorem readiness_follows_history:
  assumes "int (Suc (length ticks)) < max_int64"
  shows "case RequireReady (NewReadinessMonitor server cfg) first of
      (Inl _, m) \<Rightarrow> \<not> healthy_probe first \<and> reports_status m NOT_SERVING
    | (Inr _, m) \<Rightarrow> healthy_probe first \<and> reports_status (Watch m (map Some ticks))
        (if should_serve True (max 1 (rm_SuccessThreshold cfg)) (max 1 (rm_FailureThreshold cfg))
            (rev (map healthy_probe ticks) @ [True])
         then SERVING else NOT_SERVING)"
proof -
  obtain r m where m: "RequireReady (NewReadinessMonitor server cfg) first = (r, m)" by force
  then have cfg: "rm_cfg m = rm_cfg (NewReadinessMonitor server cfg)"
    using RequireReady_cfg [of "NewReadinessMonitor server cfg" first] by simp
  show ?thesis
  proof (cases r)
    case (Inl e)
    with m RequireReady_cases [where m = "NewReadinessMonitor server cfg" and answers = first] show ?thesis by simp
  next
    case (Inr x)
    with m RequireReady_cases [where m = "NewReadinessMonitor server cfg" and answers = first]
    have first: "healthy_probe first" and up: "follows True m [True]"
      by (simp_all add: NewReadinessMonitor_thresholds)
    have "follows True (Watch m (map Some ticks)) (rev (map healthy_probe ticks) @ [True])"
      using Watch_follows [OF up, of ticks] assms by simp
    from follows_reports [OF this] have "reports_status (Watch m (map Some ticks))
        (if should_serve True (max 1 (rm_SuccessThreshold cfg)) (max 1 (rm_FailureThreshold cfg))
            (rev (map healthy_probe ticks) @ [True])
         then SERVING else NOT_SERVING)"
      unfolding Watch_cfg cfg NewReadinessMonitor_thresholds .
    with m Inr first show ?thesis by simp
  qed
qed

end
