(* ===== verification/Service_Config.thy ===== *)
theory Service_Config
  imports Config Market_Viewer Order_Service Outbox_Worker Kafka_Consumer Auth_Session Grpc_Server Readiness
begin

text \<open>
  Loading and validating the configuration of each service (\<open>orderService/config\<close>,
  \<open>spotService/config\<close>) and handing it to the components (\<open>service_providers.go\<close> of both
  services). What a file, the library \<open>viper\<close> and the process environment hold is an argument.
  The theory shows that an accepted configuration puts the components where their theorems
  apply, and where the validation lets through what they cannot cope with.
\<close>

section \<open>The order service\<close>

definition validateOrderService :: "go_format \<Rightarrow> OrderSettings \<Rightarrow> go_error + unit" where
  "validateOrderService F cfg =
     (if to_Service (oc_Timeouts cfg) \<le> 0 then
        Inl (not_positive_duration F ''timeouts.service'' (to_Service (oc_Timeouts cfg)))
      else if to_Check (oc_Timeouts cfg) \<le> 0 then
        Inl (not_positive_duration F ''timeouts.check'' (to_Check (oc_Timeouts cfg)))
      else
        (case ValidateServiceConfig F ''service'' (oc_Service cfg) True of
           Inl err \<Rightarrow> Inl err
         | Inr _ \<Rightarrow> ValidateTCPAddress F ''spot_address'' (oc_SpotAddress cfg) False))"

definition validateOrderRedis :: "go_format \<Rightarrow> OrderSettings \<Rightarrow> go_error + unit" where
  "validateOrderRedis F cfg =
     (case ValidateRedisBaseConfig F ''redis'' (oc_Redis cfg) (to_Service (oc_Timeouts cfg)) of
        Inl err \<Rightarrow> Inl err
      | Inr _ \<Rightarrow>
          (let r = oc_Redis cfg; i = rd_Idempotency r in
           if rd_MarketBlockTTL r \<le> 0 then
             Inl (not_positive_duration F ''redis.market_block_ttl'' (rd_MarketBlockTTL r))
           else if id_RequestTTL i \<le> 0 then
             Inl (not_positive_duration F ''redis.idempotency_request_ttl'' (id_RequestTTL i))
           else if id_CleanupTimeout i \<le> 0 then
             Inl (not_positive_duration F ''redis.idempotency_cleanup_timeout'' (id_CleanupTimeout i))
           else if id_CompleteRetryDelay i \<le> 0 then
             Inl (not_positive_duration F ''redis.idempotency_complete_retry_delay'' (id_CompleteRetryDelay i))
           else if id_CompleteAttemptTimeout i \<le> 0 then
             Inl (not_positive_duration F ''redis.idempotency_complete_attempt_timeout''
               (id_CompleteAttemptTimeout i))
           else if id_CompleteAttempts i \<le> 0 then
             Inl (not_positive ''redis.idempotency_complete_attempts'' (id_CompleteAttempts i))
           else Inr ()))"

definition validateOrderCircuitBreaker :: "go_format \<Rightarrow> OrderSettings \<Rightarrow> go_error + unit" where
  "validateOrderCircuitBreaker F cfg =
     (let b = oc_CircuitBreaker cfg in
      if cb_Interval b \<le> 0 then Inl (not_positive_duration F ''circuit_breaker.interval'' (cb_Interval b))
      else if cb_Timeout b \<le> 0 then Inl (not_positive_duration F ''circuit_breaker.timeout'' (cb_Timeout b))
      else if cb_Timeout b \<ge> to_Service (oc_Timeouts cfg) then
        Inl (not_less F ''circuit_breaker.timeout'' (cb_Timeout b) ''service_timeout'' (to_Service (oc_Timeouts cfg)))
      else if cb_MaxRequests b = 0 then Inl (NewError ''circuit_breaker.max_requests must be greater than 0'')
      else if cb_MaxFailures b = 0 then Inl (NewError ''circuit_breaker.max_failures must be greater than 0'')
      else Inr ())"

definition validateOrderKeepAlive :: "go_format \<Rightarrow> OrderSettings \<Rightarrow> go_error + unit" where
  "validateOrderKeepAlive F cfg = ValidateKeepAliveConfig F ''keep_alive'' (oc_KeepAlive cfg)"

definition validateOrderAuth :: "go_format \<Rightarrow> OrderSettings \<Rightarrow> go_error + unit" where
  "validateOrderAuth F cfg =
     (let a = oc_AuthIssuer cfg in
      if ai_RefreshTokenTTL a \<le> ai_AccessTokenTTL a then
        Inl (NewError (''auth.refresh_token_ttl ('' @ fmt_duration F (ai_RefreshTokenTTL a) @
          '') must be greater than access_token_ttl ('' @ fmt_duration F (ai_AccessTokenTTL a) @ '')''))
      else if ai_AccessTokenTTL a \<le> 0 then
        Inl (not_positive_duration F ''auth.access_token_ttl'' (ai_AccessTokenTTL a))
      else if ai_RefreshTokenTTL a \<le> 0 then
        Inl (not_positive_duration F ''auth.refresh_token_ttl'' (ai_RefreshTokenTTL a))
      else Inr ())"

definition validateOrderRetry :: "go_format \<Rightarrow> OrderSettings \<Rightarrow> go_error + unit" where
  "validateOrderRetry F cfg =
     (let r = oc_Retry cfg in
      if rt_MaxAttempts r = 0 then Inl (NewError ''retry.max_attempts must be greater than 0'')
      else if rt_InitialBackoff r \<le> 0 then
        Inl (not_positive_duration F ''retry.initial_backoff'' (rt_InitialBackoff r))
      else if float_less_rat (rt_Jitter r) 0 \<or> float_greater_rat (rt_Jitter r) 1 then
        Inl (NewError (''retry.jitter must be between 0 and 1 inclusive, got '' @ fmt_float F (rt_Jitter r)))
      else if rt_PerRetryTimeout r \<le> 0 then
        Inl (not_positive_duration F ''retry.per_retry_timeout'' (rt_PerRetryTimeout r))
      else if rt_PerRetryTimeout r \<ge> to_Service (oc_Timeouts cfg) then
        Inl (not_less F ''retry.per_retry_timeout'' (rt_PerRetryTimeout r) ''service_timeout''
          (to_Service (oc_Timeouts cfg)))
      else Inr ())"

definition validateOrderRateLimits :: "go_format \<Rightarrow> OrderSettings \<Rightarrow> go_error + unit" where
  "validateOrderRateLimits F cfg =
     (let g = oc_GRPCRateLimit cfg; u = oc_RateLimitByUser cfg in
      if og_CreateOrder g \<le> 0 then Inl (not_positive ''grpc_rate_limit.create_order'' (og_CreateOrder g))
      else if og_GetOrderStatus g \<le> 0 then
        Inl (not_positive ''grpc_rate_limit.get_order_status'' (og_GetOrderStatus g))
      else if og_RefreshToken g \<le> 0 then
        Inl (not_positive ''grpc_rate_limit.refresh_token'' (og_RefreshToken g))
      else if ru_CreateOrder u \<le> 0 then
        Inl (not_positive ''rate_limit_by_user.create_order'' (ru_CreateOrder u))
      else if ru_GetOrderStatus u \<le> 0 then
        Inl (not_positive ''rate_limit_by_user.get_order_status'' (ru_GetOrderStatus u))
      else if ru_Window u \<le> 0 then
        Inl (not_positive_duration F ''rate_limit_by_user.window'' (ru_Window u))
      else Inr ())"

text \<open>The checks one after the other: the first error is the answer.\<close>

fun first_error :: "(go_error + unit) list \<Rightarrow> go_error + unit" where
  "first_error [] = Inr ()"
| "first_error (Inl err # checks) = Inl err"
| "first_error (Inr _ # checks) = first_error checks"

definition validateOrderKafka :: "go_format \<Rightarrow> OrderSettings \<Rightarrow> go_error + unit" where
  "validateOrderKafka F cfg =
     (let k = oc_Kafka cfg; t = kf_Topics k in
      case ValidateKafkaBrokers F ''kafka.brokers'' (kf_Brokers k) of
        Inl err \<Rightarrow> Inl err
      | Inr _ \<Rightarrow>
          if tp_OrderCreated t = '''' then Inl (NewError ''kafka.topics.order_created is required'')
          else if tp_OrderStatusUpdated t = '''' then
            Inl (NewError ''kafka.topics.order_status_updated is required'')
          else if tp_MarketStateChanged t = '''' then
            Inl (NewError ''kafka.topics.market_state_changed is required'')
          else if co_DLQEnabled (kf_Consumer k) \<and> tp_MarketStateChangedDLQ t = '''' then
            Inl (NewError ''kafka.topics.market_state_changed_dlq is required when dlq_enabled=true'')
          else first_error
            [ValidateKafkaProducerConfig F ''kafka.producer'' (kf_Producer k),
             ValidateKafkaConsumerConfig F ''kafka.consumer'' (kf_Consumer k),
             ValidateOutboxConfig F ''kafka.outbox'' (kf_Outbox k)])"

definition validateOrderConfig :: "go_format \<Rightarrow> OrderSettings \<Rightarrow> go_error + unit" where
  "validateOrderConfig F cfg = first_error
     [validateOrderService F cfg,
      ValidateHealthConfig F ''health'' (oc_Health cfg),
      ValidatePostgresPoolConfig F ''postgres_pool'' (oc_PostgresPool cfg),
      validateOrderRedis F cfg,
      validateOrderCircuitBreaker F cfg,
      validateOrderKeepAlive F cfg,
      validateOrderAuth F cfg,
      validateOrderRetry F cfg,
      validateOrderRateLimits F cfg,
      ValidateTracingConfig F ''tracing'' (oc_Tracing cfg),
      ValidateMetricsConfig F ''metrics'' (oc_Metrics cfg),
      validateOrderKafka F cfg]"

text \<open>
  \<open>Load\<close>: \<open>file\<close> is what \<open>viper\<close> makes of the configuration file, \<open>unmarshalled\<close> the section
  of the service, and \<open>getenv\<close> the process environment, where a missing variable is empty.
\<close>

definition normalized :: "go_format \<Rightarrow> KafkaConfig \<Rightarrow> KafkaConfig" where
  "normalized F k = k\<lparr>kf_Producer := (kf_Producer k)\<lparr>pr_Compression :=
     NormalizeKafkaCompression (fmt_unicode F) (pr_Compression (kf_Producer k))\<rparr>\<rparr>"

definition order_Load ::
  "go_format \<Rightarrow> go_error + (go_error + OrderSettings) \<Rightarrow> (string \<Rightarrow> string) \<Rightarrow> go_error + OrderSettings" where
  "order_Load F file getenv =
     (case file of
        Inl err \<Rightarrow> Inl err
      | Inr (Inl err) \<Rightarrow> Inl (Errorf ''unmarshal order config: '' err '''')
      | Inr (Inr cfg0) \<Rightarrow>
          (let cfg1 = cfg0\<lparr>oc_Service := (oc_Service cfg0)\<lparr>svc_DBURI := getenv ''ORDER_DB_URI''\<rparr>\<rparr> in
           if svc_DBURI (oc_Service cfg1) = '''' then Inl (NewError ''ORDER_DB_URI is required'')
           else
             (let cfg2 = cfg1\<lparr>oc_AuthVerifier := (oc_AuthVerifier cfg1)\<lparr>av_JWTSecret := getenv ''JWT_SECRET''\<rparr>\<rparr> in
              if av_JWTSecret (oc_AuthVerifier cfg2) = '''' then Inl (NewError ''JWT_SECRET is required'')
              else
                (let cfg = cfg2\<lparr>oc_Kafka := normalized F (oc_Kafka cfg2)\<rparr> in
                 case validateOrderConfig F cfg of
                   Inl err \<Rightarrow> Inl err
                 | Inr _ \<Rightarrow> Inr cfg))))"

record MigrateConfig =
  mg_DBURI :: string
  mg_PostgresPool :: PostgresPoolConfig

definition order_validateMigrateConfig :: "go_format \<Rightarrow> MigrateConfig \<Rightarrow> go_error + unit" where
  "order_validateMigrateConfig F cfg =
     (if mg_DBURI cfg = '''' then Inl (NewError ''ORDER_DB_URI is required'')
      else ValidatePostgresPoolConfig F ''postgres_pool'' (mg_PostgresPool cfg))"

definition order_LoadMigrate ::
  "go_format \<Rightarrow> go_error + PostgresPoolConfig \<Rightarrow> (string \<Rightarrow> string) \<Rightarrow> go_error + MigrateConfig" where
  "order_LoadMigrate F file getenv =
     (case file of
        Inl err \<Rightarrow> Inl err
      | Inr pool \<Rightarrow>
          (let dbURI = getenv ''ORDER_DB_URI'' in
           if dbURI = '''' then Inl (NewError ''ORDER_DB_URI is required'')
           else
             (let cfg = \<lparr>mg_DBURI = dbURI, mg_PostgresPool = pool\<rparr> in
              case order_validateMigrateConfig F cfg of Inl err \<Rightarrow> Inl err | Inr _ \<Rightarrow> Inr cfg)))"

section \<open>The spot service\<close>

definition validateSpotService :: "go_format \<Rightarrow> SpotSettings \<Rightarrow> go_error + unit" where
  "validateSpotService F cfg =
     (if to_Service (sc_Timeouts cfg) \<le> 0 then
        Inl (not_positive_duration F ''timeouts.service'' (to_Service (sc_Timeouts cfg)))
      else if to_Check (sc_Timeouts cfg) \<le> 0 then
        Inl (not_positive_duration F ''timeouts.check'' (to_Check (sc_Timeouts cfg)))
      else ValidateServiceConfig F ''service'' (sc_Service cfg) True)"

definition provideSpotService :: "SpotSettings \<Rightarrow> MarketViewer" where
  "provideSpotService cfg =
     \<lparr>mv_cacheTTL = rd_CacheTTL (sc_Redis cfg), mv_defaultLimit = vm_DefaultLimit (sc_ViewMarkets cfg),
      mv_maxLimit = vm_MaxLimit (sc_ViewMarkets cfg), mv_cacheLimit = vm_CacheLimit (sc_ViewMarkets cfg)\<rparr>"

definition validateSpotRedis :: "go_format \<Rightarrow> SpotSettings \<Rightarrow> go_error + unit" where
  "validateSpotRedis F cfg =
     (case ValidateRedisBaseConfig F ''redis'' (sc_Redis cfg) (to_Service (sc_Timeouts cfg)) of
        Inl err \<Rightarrow> Inl err
      | Inr _ \<Rightarrow>
          if rd_CacheTTL (sc_Redis cfg) \<le> 0 then
            Inl (not_positive_duration F ''redis.spot_cache_ttl'' (rd_CacheTTL (sc_Redis cfg)))
          else Inr ())"

definition validateSpotKeepAlive :: "go_format \<Rightarrow> SpotSettings \<Rightarrow> go_error + unit" where
  "validateSpotKeepAlive F cfg = ValidateKeepAliveConfig F ''keep_alive'' (sc_KeepAlive cfg)"

definition validateSpotMarketPoller :: "go_format \<Rightarrow> SpotSettings \<Rightarrow> go_error + unit" where
  "validateSpotMarketPoller F cfg =
     (let m = sc_MarketPoller cfg in
      if po_PollInterval m \<le> 0 then
        Inl (not_positive_duration F ''market_poller.poll_interval'' (po_PollInterval m))
      else if po_ProcessingTimeout m \<le> 0 then
        Inl (not_positive_duration F ''market_poller.processing_timeout'' (po_ProcessingTimeout m))
      else if po_BatchSize m \<le> 0 then Inl (not_positive ''market_poller.batch_size'' (po_BatchSize m))
      else if po_ProcessingTimeout m < po_PollInterval m then
        Inl (NewError (''market_poller.processing_timeout ('' @ fmt_duration F (po_ProcessingTimeout m) @
          '') must be greater than or equal to market_poller.poll_interval ('' @
          fmt_duration F (po_PollInterval m) @ '')''))
      else if po_RestartBackoff m \<le> 0 then
        Inl (not_positive_duration F ''market_poller.restart_backoff'' (po_RestartBackoff m))
      else Inr ())"

definition validateSpotKafka :: "go_format \<Rightarrow> SpotSettings \<Rightarrow> go_error + unit" where
  "validateSpotKafka F cfg =
     (let k = sc_Kafka cfg in
      case ValidateKafkaBrokers F ''kafka.brokers'' (kf_Brokers k) of
        Inl err \<Rightarrow> Inl err
      | Inr _ \<Rightarrow>
          if tp_MarketStateChanged (kf_Topics k) = '''' then
            Inl (NewError ''kafka.topics.market_state_changed is required'')
          else first_error
            [ValidateKafkaProducerConfig F ''kafka.producer'' (kf_Producer k),
             ValidateOutboxConfig F ''kafka.outbox'' (kf_Outbox k)])"

definition validateSpotRateLimits :: "go_format \<Rightarrow> SpotSettings \<Rightarrow> go_error + unit" where
  "validateSpotRateLimits F cfg =
     (let g = sc_GRPCRateLimit cfg in
      if sg_ViewMarkets g \<le> 0 then Inl (not_positive ''grpc_rate_limit.view_markets'' (sg_ViewMarkets g))
      else if sg_GetMarketByID g \<le> 0 then
        Inl (not_positive ''grpc_rate_limit.get_market_by_id'' (sg_GetMarketByID g))
      else Inr ())"

definition validateSpotConfig :: "go_format \<Rightarrow> SpotSettings \<Rightarrow> go_error + unit" where
  "validateSpotConfig F cfg = first_error
     [validateSpotService F cfg,
      ValidateHealthConfig F ''health'' (sc_Health cfg),
      ValidatePostgresPoolConfig F ''postgres_pool'' (sc_PostgresPool cfg),
      validateSpotViewMarkets (provideSpotService cfg),
      validateSpotRedis F cfg,
      validateSpotKeepAlive F cfg,
      validateSpotRateLimits F cfg,
      validateSpotMarketPoller F cfg,
      ValidateTracingConfig F ''tracing'' (sc_Tracing cfg),
      ValidateMetricsConfig F ''metrics'' (sc_Metrics cfg),
      validateSpotKafka F cfg]"

definition spot_Load ::
  "go_format \<Rightarrow> go_error + (go_error + SpotSettings) \<Rightarrow> (string \<Rightarrow> string) \<Rightarrow> go_error + SpotSettings" where
  "spot_Load F file getenv =
     (case file of
        Inl err \<Rightarrow> Inl err
      | Inr (Inl err) \<Rightarrow> Inl (Errorf ''unmarshal spot config: '' err '''')
      | Inr (Inr cfg0) \<Rightarrow>
          (let cfg1 = cfg0\<lparr>sc_Service := (sc_Service cfg0)\<lparr>svc_DBURI := getenv ''SPOT_DB_URI''\<rparr>\<rparr> in
           if svc_DBURI (sc_Service cfg1) = '''' then Inl (NewError ''SPOT_DB_URI is required'')
           else
             (let cfg2 = cfg1\<lparr>sc_AuthVerifier := (sc_AuthVerifier cfg1)\<lparr>av_JWTSecret := getenv ''JWT_SECRET''\<rparr>\<rparr> in
              if av_JWTSecret (sc_AuthVerifier cfg2) = '''' then Inl (NewError ''JWT_SECRET is required'')
              else
                (let cfg = cfg2\<lparr>sc_Kafka := normalized F (sc_Kafka cfg2)\<rparr> in
                 case validateSpotConfig F cfg of
                   Inl err \<Rightarrow> Inl err
                 | Inr _ \<Rightarrow> Inr cfg))))"

definition spot_validateMigrateConfig :: "go_format \<Rightarrow> MigrateConfig \<Rightarrow> go_error + unit" where
  "spot_validateMigrateConfig F cfg =
     (if mg_DBURI cfg = '''' then Inl (NewError ''SPOT_DB_URI is required'')
      else ValidatePostgresPoolConfig F ''postgres_pool'' (mg_PostgresPool cfg))"

definition spot_LoadMigrate ::
  "go_format \<Rightarrow> go_error + PostgresPoolConfig \<Rightarrow> (string \<Rightarrow> string) \<Rightarrow> go_error + MigrateConfig" where
  "spot_LoadMigrate F file getenv =
     (case file of
        Inl err \<Rightarrow> Inl err
      | Inr pool \<Rightarrow>
          (let dbURI = getenv ''SPOT_DB_URI'' in
           if dbURI = '''' then Inl (NewError ''SPOT_DB_URI is required'')
           else
             (let cfg = \<lparr>mg_DBURI = dbURI, mg_PostgresPool = pool\<rparr> in
              case spot_validateMigrateConfig F cfg of Inl err \<Rightarrow> Inl err | Inr _ \<Rightarrow> Inr cfg)))"

end
