(* ===== verification/Wiring.thy ===== *)
theory Wiring
  imports Service_Config Market_Poller Kafka_Delivery
begin

text \<open>
  How the providers of the two applications (\<open>application/order\<close>, \<open>application/spot\<close>) put a
  loaded configuration into the components, and how the components that run in the background
  are started and restarted. The theory shows that an accepted configuration puts the
  components where their theorems apply, and what the validation lets through nevertheless.
\<close>

section \<open>The providers of the order service\<close>

definition prefixCreateLimiter :: string where "prefixCreateLimiter = ''rate:order:create:''"
definition prefixGetLimiter :: string where "prefixGetLimiter = ''rate:order:get:''"

definition provideRateLimiters :: "OrderSettings \<Rightarrow> OrderRateLimiter \<times> OrderRateLimiter" where
  "provideRateLimiters cfg =
     (\<lparr>RL_limit = ru_CreateOrder (oc_RateLimitByUser cfg), RL_window = ru_Window (oc_RateLimitByUser cfg),
       RL_prefix = prefixCreateLimiter\<rparr>,
      \<lparr>RL_limit = ru_GetOrderStatus (oc_RateLimitByUser cfg), RL_window = ru_Window (oc_RateLimitByUser cfg),
       RL_prefix = prefixGetLimiter\<rparr>)"

text \<open>What the order service, its idempotency service and its compensation service keep.\<close>

definition provideOrderService :: "OrderSettings \<Rightarrow> OrderConfig" where
  "provideOrderService cfg =
     (let rateLimiters = provideRateLimiters cfg; r = oc_Redis cfg in
      \<lparr>cfg_RequestTTL = id_RequestTTL (rd_Idempotency r),
       cfg_CompleteAttempts = id_CompleteAttempts (rd_Idempotency r),
       cfg_MarketBlockTTL = rd_MarketBlockTTL r,
       cfg_CreateLimiter = fst rateLimiters, cfg_GetLimiter = snd rateLimiters\<rparr>)"

definition order_provideJWTManager :: "OrderSettings \<Rightarrow> Manager" where
  "order_provideJWTManager cfg =
     \<lparr>mgr_secret = av_JWTSecret (oc_AuthVerifier cfg), mgr_accessTTL = ai_AccessTokenTTL (oc_AuthIssuer cfg),
      mgr_refreshTTL = ai_RefreshTokenTTL (oc_AuthIssuer cfg)\<rparr>"

text \<open>The store of refresh tokens has its lifetime from the same setting.\<close>

definition provideAuthService :: "OrderSettings \<Rightarrow> AuthService" where
  "provideAuthService cfg =
     \<lparr>as_jwtManager = order_provideJWTManager cfg, as_refreshTTL = ai_RefreshTokenTTL (oc_AuthIssuer cfg)\<rparr>"

definition provideDLQPublisher :: "OrderSettings \<Rightarrow> string option" where
  "provideDLQPublisher cfg =
     (if \<not> co_DLQEnabled (kf_Consumer (oc_Kafka cfg)) then None
      else Some (tp_MarketStateChangedDLQ (kf_Topics (oc_Kafka cfg))))"

text \<open>The settings of the consumer.\<close>

definition consumer_config :: "OrderSettings \<Rightarrow> ConsumerConfig" where
  "consumer_config cfg =
     (let c = kf_Consumer (oc_Kafka cfg) in
      \<lparr>DLQEnabled = co_DLQEnabled c, DLQPublisher = provideDLQPublisher cfg,
       DLQMaxMessageBytes = co_DLQMaxMessageBytes c, MaxRetries = co_MaxRetries c,
       RetryBackoff = co_RetryBackoff c, RetryJitter = co_RetryJitter c\<rparr>)"

definition outbox_config :: "OutboxSettings \<Rightarrow> OutboxConfig" where
  "outbox_config s =
     \<lparr>ob_PollInterval = os_PollInterval s, ob_BatchSize = os_BatchSize s, ob_MaxRetries = os_MaxRetries s,
      ob_ProcessingTimeout = os_ProcessingTimeout s\<rparr>"

definition provideOutboxWorker :: "OrderSettings \<Rightarrow> OutboxConfig \<times> OrderTopics" where
  "provideOutboxWorker cfg =
     (outbox_config (kf_Outbox (oc_Kafka cfg)),
      \<lparr>Topic_OrderCreated = tp_OrderCreated (kf_Topics (oc_Kafka cfg)),
       Topic_OrderStatusUpdated = tp_OrderStatusUpdated (kf_Topics (oc_Kafka cfg))\<rparr>)"

definition RefreshToken_FullMethodName :: string where
  "RefreshToken_FullMethodName = ''/auth.v1.AuthService/RefreshToken''"

definition OrderUnaryServerInterceptor_limits :: "OrderSettings \<Rightarrow> (string \<times> int) list" where
  "OrderUnaryServerInterceptor_limits cfg =
     [(''/order.v1.OrderService/CreateOrder'', og_CreateOrder (oc_GRPCRateLimit cfg)),
      (''/order.v1.OrderService/GetOrderStatus'', og_GetOrderStatus (oc_GRPCRateLimit cfg)),
      (RefreshToken_FullMethodName, og_RefreshToken (oc_GRPCRateLimit cfg))]"

definition order_provideGRPCServer :: "OrderSettings \<Rightarrow> (string \<Rightarrow> int \<Rightarrow> int \<Rightarrow> nat \<Rightarrow> bool) \<Rightarrow> server" where
  "order_provideGRPCServer cfg allow =
     \<lparr>srv_manager = order_provideJWTManager cfg, srv_skipMethods = av_SkipMethods (oc_AuthVerifier cfg),
      srv_methodsLimit = OrderUnaryServerInterceptor_limits cfg, srv_allow = allow\<rparr>"

definition order_buildReadinessMonitor ::
  "OrderSettings \<Rightarrow> (string \<rightharpoonup> serving_status) \<Rightarrow> ReadinessMonitor" where
  "order_buildReadinessMonitor cfg server = NewReadinessMonitor server
     \<lparr>rm_ServiceNames = [''order.v1.OrderService'', ''auth.v1.AuthService''],
      rm_CheckInterval = hc_CheckInterval (oc_Health cfg), rm_CheckTimeout = to_Check (oc_Timeouts cfg),
      rm_SuccessThreshold = hc_SuccessThreshold (oc_Health cfg),
      rm_FailureThreshold = hc_FailureThreshold (oc_Health cfg)\<rparr>"

section \<open>The providers of the spot service\<close>

definition spot_provideJWTManager :: "SpotSettings \<Rightarrow> Manager" where
  "spot_provideJWTManager cfg =
     \<lparr>mgr_secret = av_JWTSecret (sc_AuthVerifier cfg), mgr_accessTTL = 0, mgr_refreshTTL = 0\<rparr>"

definition provideMarketPoller :: "SpotSettings \<Rightarrow> MarketPoller" where
  "provideMarketPoller cfg =
     \<lparr>mp_cacheRefresher = Some (provideSpotService cfg), mp_batchSize = po_BatchSize (sc_MarketPoller cfg)\<rparr>"

definition provideSpotOutboxWorker :: "SpotSettings \<Rightarrow> OutboxConfig \<times> string" where
  "provideSpotOutboxWorker cfg =
     (outbox_config (kf_Outbox (sc_Kafka cfg)), tp_MarketStateChanged (kf_Topics (sc_Kafka cfg)))"

definition SpotUnaryServerInterceptor_limits :: "SpotSettings \<Rightarrow> (string \<times> int) list" where
  "SpotUnaryServerInterceptor_limits cfg =
     [(''/spot.v1.SpotInstrumentService/ViewMarkets'', sg_ViewMarkets (sc_GRPCRateLimit cfg)),
      (''/spot.v1.SpotInstrumentService/GetMarketByID'', sg_GetMarketByID (sc_GRPCRateLimit cfg))]"

definition spot_provideGRPCServer :: "SpotSettings \<Rightarrow> (string \<Rightarrow> int \<Rightarrow> int \<Rightarrow> nat \<Rightarrow> bool) \<Rightarrow> server" where
  "spot_provideGRPCServer cfg allow =
     \<lparr>srv_manager = spot_provideJWTManager cfg, srv_skipMethods = av_SkipMethods (sc_AuthVerifier cfg),
      srv_methodsLimit = SpotUnaryServerInterceptor_limits cfg, srv_allow = allow\<rparr>"

definition spot_buildReadinessMonitor ::
  "SpotSettings \<Rightarrow> (string \<rightharpoonup> serving_status) \<Rightarrow> ReadinessMonitor" where
  "spot_buildReadinessMonitor cfg server = NewReadinessMonitor server
     \<lparr>rm_ServiceNames = [''spot.v1.SpotInstrumentService''],
      rm_CheckInterval = hc_CheckInterval (sc_Health cfg), rm_CheckTimeout = to_Check (sc_Timeouts cfg),
      rm_SuccessThreshold = hc_SuccessThreshold (sc_Health cfg),
      rm_FailureThreshold = hc_FailureThreshold (sc_Health cfg)\<rparr>"


section \<open>Background work\<close>

text \<open>
  \<open>PanicRecoveryHandler\<close> turns a panic into an error. The consumer of the order service and
  the market poller run under a loop that starts them again after an error, unless their
  context has ended; the outbox workers run once. \<open>fuel\<close> is how many runs are followed, and
  \<open>None\<close> means that the work still goes on after them.
\<close>

definition PanicRecoveryHandler :: "string \<Rightarrow> ('w \<Rightarrow> unit served \<times> 'w) \<Rightarrow> 'w \<Rightarrow> (go_error + unit) \<times> 'w" where
  "PanicRecoveryHandler component function w =
     (case function w of
        (Panics r, w1) \<Rightarrow> (Inl (NewError (component @ '' panic: '' @ r)), w1)
      | (Returned res, w1) \<Rightarrow> (res, w1))"

fun supervise ::
  "'e env_scheme \<Rightarrow> string \<Rightarrow> ('a base_scheme \<Rightarrow> unit served \<times> 'a base_scheme) \<Rightarrow> nat \<Rightarrow>
   'a base_scheme \<Rightarrow> unit option \<times> 'a base_scheme" where
  "supervise E component run 0 w = (None, w)"
| "supervise E component run (Suc fuel) w =
     (case PanicRecoveryHandler component run w of
        (Inr _, w1) \<Rightarrow> (Some (), w1)
      | (Inl err, w1) \<Rightarrow>
          if env_ctx E (tick w1) \<noteq> None then (Some (), step w1)
          else if env_ctx E (Suc (tick w1)) \<noteq> None then (Some (), step (step w1))
          else supervise E component run fuel (step (step w1)))"

definition registerKafkaConsumer ::
  "'e env_scheme \<Rightarrow> ('a base_scheme \<Rightarrow> unit served \<times> 'a base_scheme) \<Rightarrow> nat \<Rightarrow> 'a base_scheme \<Rightarrow>
   unit option \<times> 'a base_scheme" where
  "registerKafkaConsumer E run fuel w = supervise E ''Kafka consumer'' run fuel w"

definition registerMarketPoller ::
  "'e env_scheme \<Rightarrow> ('a spot_world_scheme \<Rightarrow> unit served \<times> 'a spot_world_scheme) \<Rightarrow> nat \<Rightarrow> 'a spot_world_scheme \<Rightarrow>
   (go_error + unit option) \<times> 'a spot_world_scheme" where
  "registerMarketPoller E run fuel w =
     (case poller_Init E True w of
        (Inl err, w1) \<Rightarrow> (Inl err, w1)
      | (Inr _, w1) \<Rightarrow> apfst Inr (supervise E ''Market poller'' run fuel w1))"

text \<open>A worker's goroutine: what is logged when it ends.\<close>

definition registerOutboxWorker ::
  "'e env_scheme \<Rightarrow> ('a base_scheme \<Rightarrow> unit served \<times> 'a base_scheme) \<Rightarrow> 'a base_scheme \<Rightarrow>
   go_error option \<times> 'a base_scheme" where
  "registerOutboxWorker E run w =
     (case PanicRecoveryHandler ''Outbox worker'' run w of
        (Inl err, w1) \<Rightarrow> (if env_ctx E (tick w1) = None then Some err else None, step w1)
      | (Inr _, w1) \<Rightarrow> (None, w1))"

text \<open>
  While its context lasts, a run that fails or panics is started again, every time, from the
  state it left.
\<close>

lemma PanicRecoveryHandler_world [simp]: "snd (PanicRecoveryHandler component run w) = snd (run w)"
  by (auto simp: PanicRecoveryHandler_def split: prod.split served.split)

lemma supervise_restarts:
  assumes "\<And>n. env_ctx E n = None" and "\<And>v. fst (PanicRecoveryHandler component run v) \<noteq> Inr ()"
  shows "supervise E component run fuel w = (None, ((\<lambda>v. step (step (snd (run v)))) ^^ fuel) w)"
proof (induction fuel arbitrary: w)
  case (Suc fuel)
  obtain r w1 where r: "PanicRecoveryHandler component run w = (r, w1)" by force
  then have "w1 = snd (run w)" using PanicRecoveryHandler_world [of component run w] by simp
  moreover obtain err where "r = Inl err"
    using assms(2) [of w] r by (cases r) auto
  ultimately show ?case using r Suc.IH assms(1) by (simp add: funpow_swap1 [symmetric] funpow_Suc_right del: funpow.simps)
qed simp

section \<open>What an accepted configuration guarantees\<close>

lemma first_error_Inr [simp]: "first_error checks = Inr u \<longleftrightarrow> list_all (\<lambda>c. c = Inr ()) checks"
proof (induction checks rule: first_error.induct)
  case (3 v checks)
  then show ?case by (cases v) simp
qed simp_all

lemma unit_sum_cases: "(\<forall>e. r \<noteq> Inl e) \<longleftrightarrow> r = Inr ()"
  by (cases r) auto

lemma ValidateOutboxConfig_Inr:
  "ValidateOutboxConfig F p s = Inr u \<Longrightarrow> 0 < os_PollInterval s \<and> 0 < os_ProcessingTimeout s \<and>
     0 < os_BatchSize s \<and> 0 \<le> os_MaxRetries s \<and> os_BatchTimeout s < os_ProcessingTimeout s"
  by (auto simp: ValidateOutboxConfig_def split: if_splits)

lemma ValidateKafkaConsumerConfig_Inr:
  "ValidateKafkaConsumerConfig F p c = Inr u \<Longrightarrow> 0 < co_RetryBackoff c \<and> 0 \<le> co_MaxRetries c \<and>
     0 < co_MaxMessageBytes c \<and>
     (co_DLQEnabled c \<longrightarrow> 0 < co_DLQMaxMessageBytes c \<and> co_MaxMessageBytes c \<le> co_DLQMaxMessageBytes c) \<and>
     (case co_RetryJitter c of Finite q \<Rightarrow> 0 \<le> q \<and> q \<le> 1 | NaN \<Rightarrow> True | _ \<Rightarrow> False)"
  by (auto simp: ValidateKafkaConsumerConfig_def float_less_rat_def float_greater_rat_def
      split: if_splits float64.splits)

lemma ValidateHealthConfig_Inr:
  "ValidateHealthConfig F p h = Inr u \<Longrightarrow> 0 < hc_SuccessThreshold h \<and> 0 < hc_FailureThreshold h"
  by (auto simp: ValidateHealthConfig_def split: if_splits)

lemma order_Load_Inr:
  assumes "order_Load F file getenv = Inr cfg"
  shows "validateOrderConfig F cfg = Inr ()" and "av_JWTSecret (oc_AuthVerifier cfg) \<noteq> ''''"
    and "svc_DBURI (oc_Service cfg) \<noteq> ''''"
  using assms by (auto simp: order_Load_def Let_def split: sum.splits if_splits)

lemma spot_Load_Inr:
  assumes "spot_Load F file getenv = Inr cfg"
  shows "validateSpotConfig F cfg = Inr ()" and "av_JWTSecret (sc_AuthVerifier cfg) \<noteq> ''''"
    and "svc_DBURI (sc_Service cfg) \<noteq> ''''"
  using assms by (auto simp: spot_Load_def Let_def split: sum.splits if_splits)

text \<open>
  C30. A configuration that \<open>Load\<close> of the order service accepts gives every component what it
  needs: separate key prefixes and positive limits and windows for the two rate limiters; a
  positive lifetime and at least one attempt to complete an idempotency entry; a positive
  lifetime of the blocks; a secret, and access tokens that live shorter than refresh tokens,
  whose entries live as long as they do; with dead letters enabled a topic for them and room
  for the largest message; a jitter between 0 and 1 or one that is not a number, which the validation
  lets through; for the outbox a positive batch, and a topic for both types of events; a positive
  limit for each method.
\<close>

theorem accepted_order_config:
  assumes "order_Load F file getenv = Inr cfg"
  shows "cfg_wired (provideOrderService cfg) \<and> 0 < cfg_CompleteAttempts (provideOrderService cfg) \<and>
    0 < cfg_RequestTTL (provideOrderService cfg) \<and> 0 < cfg_MarketBlockTTL (provideOrderService cfg) \<and>
    (case provideRateLimiters cfg of (create, get) \<Rightarrow>
       0 < RL_limit create \<and> 0 < RL_window create \<and> 0 < RL_limit get \<and> 0 < RL_window get) \<and>
    (let s = provideAuthService cfg; m = as_jwtManager s in
       mgr_secret m \<noteq> '''' \<and> 0 < mgr_accessTTL m \<and> mgr_accessTTL m < mgr_refreshTTL m \<and>
       as_refreshTTL s = mgr_refreshTTL m) \<and>
    (let c = consumer_config cfg in
       (if DLQEnabled c then co_MaxMessageBytes (kf_Consumer (oc_Kafka cfg)) \<le> DLQMaxMessageBytes c \<and>
          0 < DLQMaxMessageBytes c \<and> DLQPublisher c \<noteq> None \<and> DLQPublisher c \<noteq> Some ''''
        else DLQPublisher c = None) \<and>
       0 \<le> MaxRetries c \<and> 0 < RetryBackoff c \<and>
       (case RetryJitter c of Finite q \<Rightarrow> 0 \<le> q \<and> q \<le> 1 | NaN \<Rightarrow> True | _ \<Rightarrow> False)) \<and>
    (case provideOutboxWorker cfg of (worker, topics) \<Rightarrow>
       0 < ob_BatchSize worker \<and> 0 \<le> ob_MaxRetries worker \<and> 0 < ob_PollInterval worker \<and>
       0 < ob_ProcessingTimeout worker \<and>
       messageTopic topics (event\<lparr>Out_EventType := OrderCreatedEventType\<rparr>) \<noteq> '''' \<and>
       messageTopic topics (event\<lparr>Out_EventType := OrderStatusUpdatedEventType\<rparr>) \<noteq> '''') \<and>
    list_all (\<lambda>(fullMethod, rps). 0 < rps) (OrderUnaryServerInterceptor_limits cfg)"
proof -
  note loaded = order_Load_Inr [OF assms]
  have redis: "validateOrderRedis F cfg = Inr ()" and auth: "validateOrderAuth F cfg = Inr ()"
    and limits: "validateOrderRateLimits F cfg = Inr ()" and kafka: "validateOrderKafka F cfg = Inr ()"
    using loaded(1) by (simp_all add: validateOrderConfig_def)
  have r: "0 < rd_MarketBlockTTL (oc_Redis cfg)" "0 < id_RequestTTL (rd_Idempotency (oc_Redis cfg))"
    "0 < id_CompleteAttempts (rd_Idempotency (oc_Redis cfg))"
    using redis by (auto simp: validateOrderRedis_def Let_def split: sum.splits if_splits)
  have a: "0 < ai_AccessTokenTTL (oc_AuthIssuer cfg)"
    "ai_AccessTokenTTL (oc_AuthIssuer cfg) < ai_RefreshTokenTTL (oc_AuthIssuer cfg)"
    using auth by (auto simp: validateOrderAuth_def Let_def split: if_splits)
  note l = limits [unfolded validateOrderRateLimits_def Let_def]
  have k: "tp_OrderCreated (kf_Topics (oc_Kafka cfg)) \<noteq> ''''"
    "tp_OrderStatusUpdated (kf_Topics (oc_Kafka cfg)) \<noteq> ''''"
    "co_DLQEnabled (kf_Consumer (oc_Kafka cfg)) \<Longrightarrow> tp_MarketStateChangedDLQ (kf_Topics (oc_Kafka cfg)) \<noteq> ''''"
    and kc: "ValidateKafkaConsumerConfig F ''kafka.consumer'' (kf_Consumer (oc_Kafka cfg)) = Inr ()"
    and ko: "ValidateOutboxConfig F ''kafka.outbox'' (kf_Outbox (oc_Kafka cfg)) = Inr ()"
    using kafka by (auto simp: validateOrderKafka_def Let_def split: sum.splits if_splits)
  note c = ValidateKafkaConsumerConfig_Inr [OF kc] and ob = ValidateOutboxConfig_Inr [OF ko]
  have "OrderCreatedEventType \<noteq> OrderStatusUpdatedEventType" by code_simp
  with k ob have worker: "case provideOutboxWorker cfg of (worker, topics) \<Rightarrow>
       0 < ob_BatchSize worker \<and> 0 \<le> ob_MaxRetries worker \<and> 0 < ob_PollInterval worker \<and>
       0 < ob_ProcessingTimeout worker \<and>
       messageTopic topics (event\<lparr>Out_EventType := OrderCreatedEventType\<rparr>) \<noteq> '''' \<and>
       messageTopic topics (event\<lparr>Out_EventType := OrderStatusUpdatedEventType\<rparr>) \<noteq> ''''"
    by (simp add: provideOutboxWorker_def outbox_config_def messageTopic_def)
  have consumer: "let c = consumer_config cfg in
       (if DLQEnabled c then co_MaxMessageBytes (kf_Consumer (oc_Kafka cfg)) \<le> DLQMaxMessageBytes c \<and>
          0 < DLQMaxMessageBytes c \<and> DLQPublisher c \<noteq> None \<and> DLQPublisher c \<noteq> Some ''''
        else DLQPublisher c = None) \<and>
       0 \<le> MaxRetries c \<and> 0 < RetryBackoff c \<and>
       (case RetryJitter c of Finite q \<Rightarrow> 0 \<le> q \<and> q \<le> 1 | NaN \<Rightarrow> True | _ \<Rightarrow> False)"
    using c k(3) by (auto simp: consumer_config_def provideDLQPublisher_def Let_def split: float64.split)
  show ?thesis
    using r a l loaded(2) worker consumer
    by (simp add: provideOrderService_def provideRateLimiters_def provideAuthService_def
        order_provideJWTManager_def OrderUnaryServerInterceptor_limits_def cfg_wired_def Let_def
        prefixCreateLimiter_def prefixGetLimiter_def split: if_splits)
qed

text \<open>
  A configuration that \<open>Load\<close> of the spot service accepts gives its components what they
  need: limits of the pages that the viewer's theorems ask for and a positive lifetime of its
  caches; a positive batch of the poller, which refreshes the caches of the same viewer; a
  positive batch and a topic for the outbox; a secret; a positive limit for each method.
\<close>

theorem accepted_spot_config:
  assumes "spot_Load F file getenv = Inr cfg"
  shows "validateSpotViewMarkets (provideSpotService cfg) = Inr () \<and> 0 < mv_cacheTTL (provideSpotService cfg) \<and>
    mp_cacheRefresher (provideMarketPoller cfg) = Some (provideSpotService cfg) \<and>
    0 < mp_batchSize (provideMarketPoller cfg) \<and>
    (case provideSpotOutboxWorker cfg of (worker, topic) \<Rightarrow>
       0 < ob_BatchSize worker \<and> 0 \<le> ob_MaxRetries worker \<and> 0 < ob_PollInterval worker \<and>
       0 < ob_ProcessingTimeout worker \<and> topic \<noteq> '''') \<and>
    mgr_secret (spot_provideJWTManager cfg) \<noteq> '''' \<and>
    list_all (\<lambda>(fullMethod, rps). 0 < rps) (SpotUnaryServerInterceptor_limits cfg)"
proof -
  note loaded = spot_Load_Inr [OF assms]
  have view: "validateSpotViewMarkets (provideSpotService cfg) = Inr ()"
    and redis: "validateSpotRedis F cfg = Inr ()" and limits: "validateSpotRateLimits F cfg = Inr ()"
    and poller: "validateSpotMarketPoller F cfg = Inr ()" and kafka: "validateSpotKafka F cfg = Inr ()"
    using loaded(1) by (simp_all add: validateSpotConfig_def)
  have r: "0 < rd_CacheTTL (sc_Redis cfg)"
    using redis by (auto simp: validateSpotRedis_def Let_def split: sum.splits if_splits)
  have b: "0 < po_BatchSize (sc_MarketPoller cfg)"
    using poller by (auto simp: validateSpotMarketPoller_def Let_def split: if_splits)
  note l = limits [unfolded validateSpotRateLimits_def Let_def]
  have k: "tp_MarketStateChanged (kf_Topics (sc_Kafka cfg)) \<noteq> ''''"
    and ko: "ValidateOutboxConfig F ''kafka.outbox'' (kf_Outbox (sc_Kafka cfg)) = Inr ()"
    using kafka by (auto simp: validateSpotKafka_def Let_def split: sum.splits if_splits)
  show ?thesis
    using view r b l k loaded(2) ValidateOutboxConfig_Inr [OF ko]
    by (simp add: provideSpotService_def provideMarketPoller_def provideSpotOutboxWorker_def
        outbox_config_def spot_provideJWTManager_def SpotUnaryServerInterceptor_limits_def split: if_splits)
qed

section \<open>What the validation lets through\<close>

text \<open>
  The validation of the consumer accepts a number of retries for which the retrying
  middleware never calls its handler: the loop ranges over that number plus one, which wraps
  around. Every message then counts as handled.
\<close>

theorem accepted_retries_skip_the_handler:
  "\<exists>c. ValidateKafkaConsumerConfig F p c = Inr () \<and>
     (\<forall>E handler w msg. RetryMiddleware E (co_MaxRetries c) (co_RetryBackoff c) (Finite 0) handler w msg = (Handled, w))"
proof (intro exI conjI allI)
  let ?c = "\<lparr>co_GroupID = ''g'', co_SessionTimeout = 2, co_HeartbeatInterval = 1, co_MaxRetries = max_int64,
    co_RetryBackoff = 1, co_RetryJitter = Finite 0, co_MaxMessageBytes = 1, co_DLQEnabled = False,
    co_DLQMaxMessageBytes = 0, co_RestartBackoff = 1\<rparr>"
  have "strings_TrimSpace ''g'' \<noteq> ''''" by code_simp
  then show "ValidateKafkaConsumerConfig F p ?c = Inr ()"
    by (simp add: ValidateKafkaConsumerConfig_def float_less_rat_def float_greater_rat_def max_int64_def)
  show "RetryMiddleware E (co_MaxRetries ?c) (co_RetryBackoff ?c) (Finite 0) handler w msg = (Handled, w)"
    for E handler w msg
    by (simp add: RetryMiddleware_def max_int64_def wrap64_def)
qed

text \<open>
  The validation of the page limits accepts a limit of the cache for which no cache can
  be filled: the query asks for one market more than the limit plus one, which wraps around to
  a negative number. Every refresh of the caches then fails.
\<close>

theorem accepted_cache_limit_breaks_refresh:
  "\<exists>s. validateSpotViewMarkets s = Inr () \<and> (\<forall>E w. \<exists>err w'. RefreshAll E s w = (Inl err, w'))"
proof (rule exI, intro conjI allI)
  let ?s = "\<lparr>mv_cacheTTL = 1, mv_defaultLimit = 1, mv_maxLimit = 1, mv_cacheLimit = MaxInt\<rparr>"
  show "validateSpotViewMarkets ?s = Inr ()"
    by (simp add: validateSpotViewMarkets_def MaxInt_def)
  show "\<exists>err w'. RefreshAll E ?s w = (Inl err, w')" for E w
  proof -
    have "sint (MaxInt + 1 + 1 :: 64 word) < 0" by (simp add: MaxInt_def)
    then have "\<exists>err w1. GetMarketsPage E w roleAdminKey (MaxInt + 1) 0 = (Inl err, w1) \<and>
        \<not> errors_Is err (Repository ErrMarketStoreIsEmpty)"
      by (simp add: GetMarketsPage_def loadMarketsPage_def spot_query_def external_def sql_markets_page_def
          Let_def errors_Is_Errorf split: outcome.split)
    then show ?thesis
      by (auto simp: RefreshAll_def cacheRoleKeys_def split: prod.split sum.split)
  qed
qed

text \<open>
  A lifetime of the idempotency entries below a millisecond, which the validation accepts,
  stops all new orders: Redis refuses the entry, and each request without one fails before
  anything is stored.
\<close>

theorem accepted_short_ttl_blocks_orders:
  assumes "id_RequestTTL (rd_Idempotency (oc_Redis cfg)) < millisecond"
    and "kv w (buildKey E u (buildRequestHash E m ot p q)) = None"
  shows "\<exists>err w'. CreateOrder E w (provideOrderService cfg) u m ot p q = (Inl err, w') \<and> db w' = db w"
proof -
  let ?h = "buildRequestHash E m ot p q" and ?ttl = "cfg_RequestTTL (provideOrderService cfg)"
  have "Milliseconds ?ttl \<le> 0"
    using assms(1) by (auto simp: provideOrderService_def Let_def Milliseconds_def millisecond_def)
  then have refused: "\<exists>e w1. acquire_round E (step w) ?ttl u ?h val = (Inl e, w1) \<and> db w1 = db w" for val
    using assms(2)
    by (simp add: acquire_round_def external_def acquireScript_def redis_GET_def split: outcome.split)
  have "\<exists>e w1. acquire E w ?ttl u ?h False = (Inl e, w1) \<and> db w1 = db w"
  proof (cases "entry_Marshal E (processing_entry ?h (env_now E (tick w)))")
    case None
    then show ?thesis by (simp add: acquire_unfold)
  next
    case (Some val)
    obtain e w1 where "acquire_round E (step w) ?ttl u ?h val = (Inl e, w1)" "db w1 = db w"
      using refused by blast
    then show ?thesis using Some by (simp add: acquire_unfold)
  qed
  then show ?thesis
    by (auto simp: CreateOrder_def adapter_Acquire_def Acquire_def Let_def)
qed

end
