(* ===== verification/Logging.thy ===== *)
theory Logging
  imports Grpc_Server Block_Store "HOL-Library.List_Lexorder" "HOL-Library.Char_ord"
begin

text \<open>
  The logger (\<open>shared/interceptors/logging/zap/zap_logger.go\<close>): the fields it takes from a
  request's context, the bounded list of further fields a context may carry, levels, and which
  messages are written. The library \<open>zap\<close> is modelled by the list of entries it was given;
  its encodings are left out.
\<close>

section \<open>Fields, levels and contexts\<close>

datatype zap_field =
    zap_String string string
  | zap_Strings string "string list"
  | zap_Duration string duration

datatype zap_level =
    DebugLevel | InfoLevel | WarnLevel | ErrorLevel | DPanicLevel | PanicLevel | FatalLevel

fun level_number :: "zap_level \<Rightarrow> int" where
  "level_number DebugLevel = -1"
| "level_number InfoLevel = 0"
| "level_number WarnLevel = 1"
| "level_number ErrorLevel = 2"
| "level_number DPanicLevel = 3"
| "level_number PanicLevel = 4"
| "level_number FatalLevel = 5"

text \<open>Levels are compared by their numbers.\<close>

lemma level_number_inject: "level_number a = level_number b \<Longrightarrow> a = b"
  by (cases a; cases b) simp_all

instantiation zap_level :: linorder
begin

definition less_eq_zap_level :: "zap_level \<Rightarrow> zap_level \<Rightarrow> bool" where
  "less_eq_zap_level a b \<longleftrightarrow> level_number a \<le> level_number b"

definition less_zap_level :: "zap_level \<Rightarrow> zap_level \<Rightarrow> bool" where
  "less_zap_level a b \<longleftrightarrow> level_number a < level_number b"

instance
  by standard (auto simp: less_eq_zap_level_def less_zap_level_def level_number_inject)

end

text \<open>
  A request context with what the tracing library has put into it, and the further fields
  (\<open>extraFieldsKey\<close>). A nil context is \<open>None\<close>.
\<close>

record log_ctx = grpc_ctx +
  lc_traceID :: "string option"
  lc_extra :: "zap_field list option"

definition Background :: log_ctx where
  "Background = \<lparr>ctx_incoming = None, ctx_outgoing = None, ctx_userID = None, ctx_userRoles = None,
     lc_traceID = None, lc_extra = None\<rparr>"

definition TraceIDFromContext :: "log_ctx option \<Rightarrow> string option" where
  "TraceIDFromContext ctx = (case ctx of None \<Rightarrow> None | Some c \<Rightarrow> lc_traceID c)"

definition TraceIDField :: string where "TraceIDField = ''trace_id''"
definition TraceIDHeader :: string where "TraceIDHeader = ''x-trace-id''"

section \<open>Loggers\<close>

text \<open>
  \<open>lg_nop\<close> marks the logger of \<open>NewNop\<close>, which writes nothing and has no level to set. A nil
  logger is \<open>None\<close>. The level is shared by a logger and all that are derived from it, so it
  belongs to the state, with the entries written.
\<close>

record Logger =
  lg_nop :: bool
  lg_fields :: "zap_field list"
  lg_contextFieldsMax :: int

record sink =
  sk_level :: zap_level
  sk_entries :: "(zap_level \<times> string \<times> zap_field list) list"

definition normalizeContextFieldsMax :: "int \<Rightarrow> int" where
  "normalizeContextFieldsMax limit = (if limit < 0 then 0 else limit)"

definition parseLevel :: "unicode_tables \<Rightarrow> string \<Rightarrow> zap_level" where
  "parseLevel U levelString =
     (let l = strings_ToLower U (strings_TrimSpace levelString) in
      if l = ''debug'' then DebugLevel
      else if l = ''info'' then InfoLevel
      else if l = ''warn'' \<or> l = ''warning'' then WarnLevel
      else if l = ''error'' then ErrorLevel
      else if l = ''dpanic'' then DPanicLevel
      else if l = ''panic'' then PanicLevel
      else if l = ''fatal'' then FatalLevel
      else InfoLevel)"

definition zap_New :: "unicode_tables \<Rightarrow> string \<Rightarrow> int \<Rightarrow> Logger \<times> sink" where
  "zap_New U levelStr contextFieldsMax =
     (\<lparr>lg_nop = False, lg_fields = [], lg_contextFieldsMax = normalizeContextFieldsMax contextFieldsMax\<rparr>,
      \<lparr>sk_level = parseLevel U levelStr, sk_entries = []\<rparr>)"

definition NewNop :: Logger where
  "NewNop = \<lparr>lg_nop = True, lg_fields = [], lg_contextFieldsMax = 0\<rparr>"

text \<open>A level that was not made by its constructor has no cell behind it.\<close>

definition SetLevel :: "unicode_tables \<Rightarrow> Logger option \<Rightarrow> string \<Rightarrow> sink \<Rightarrow> unit served \<times> sink" where
  "SetLevel U l levelStr s =
     (case l of
        None \<Rightarrow> (Returned (Inr ()), s)
      | Some lg \<Rightarrow>
          if lg_nop lg then (Panics ''invalid memory address or nil pointer dereference'', s)
          else (Returned (Inr ()), s\<lparr>sk_level := parseLevel U levelStr\<rparr>))"

definition isIgnorableSyncError :: "unicode_tables \<Rightarrow> string option \<Rightarrow> bool" where
  "isIgnorableSyncError U err =
     (case err of
        None \<Rightarrow> False
      | Some text \<Rightarrow>
          (let message = strings_ToLower U text in
           strings_Contains message ''sync /dev/stdout: invalid argument'' \<or>
           strings_Contains message ''sync /dev/stderr: invalid argument'' \<or>
           strings_Contains message ''inappropriate ioctl for device''))"

definition zap_Sync :: "unicode_tables \<Rightarrow> Logger option \<Rightarrow> string option \<Rightarrow> string option" where
  "zap_Sync U l err =
     (if l = None then None
      else if err \<noteq> None \<and> isIgnorableSyncError U err then None
      else err)"

definition zap_With :: "Logger option \<Rightarrow> zap_field list \<Rightarrow> Logger option" where
  "zap_With l flds =
     (case l of
        None \<Rightarrow> Some NewNop
      | Some lg \<Rightarrow>
          if flds = [] then l else Some (lg\<lparr>lg_fields := lg_fields lg @ flds\<rparr>))"

section \<open>Fields of a context\<close>

definition WithFields :: "Logger option \<Rightarrow> log_ctx option \<Rightarrow> zap_field list \<Rightarrow> log_ctx option" where
  "WithFields l ctx flds =
     (if flds = [] then ctx
      else
        (case l of
           None \<Rightarrow> ctx
         | Some lg \<Rightarrow>
             if lg_contextFieldsMax lg \<le> 0 then ctx
             else
               (let c = (case ctx of None \<Rightarrow> Background | Some c \<Rightarrow> c);
                    current = (case lc_extra c of None \<Rightarrow> [] | Some fs \<Rightarrow> fs);
                    available = lg_contextFieldsMax lg - int (length current)
                in if available \<le> 0 then Some c
                   else
                     (let toAdd = (if int (length flds) > available then take (nat available) flds else flds)
                      in if toAdd = [] then Some c
                         else Some (c\<lparr>lc_extra := Some (current @ toAdd)\<rparr>)))))"

definition fieldsFromContext :: "'e env_scheme \<Rightarrow> log_ctx option \<Rightarrow> zap_field list" where
  "fieldsFromContext E ctx =
     (case ctx of
        None \<Rightarrow> []
      | Some c \<Rightarrow>
          (case TraceIDFromContext ctx of None \<Rightarrow> [] | Some t \<Rightarrow> [zap_String TraceIDField t]) @
          (case ctx_userID c of None \<Rightarrow> [] | Some u \<Rightarrow> [zap_String ''user_id'' (uuid_String E u)]) @
          (case ctx_userRoles c of
             None \<Rightarrow> []
           | Some roles \<Rightarrow> [zap_Strings ''user_roles'' (sort (map UserRole_String roles))]) @
          (case lc_extra c of None \<Rightarrow> [] | Some fs \<Rightarrow> fs))"

definition WithContext :: "'e env_scheme \<Rightarrow> Logger option \<Rightarrow> log_ctx option \<Rightarrow> Logger option" where
  "WithContext E l ctx =
     (if l = None then Some NewNop
      else
        (let ctxFields = fieldsFromContext E ctx in
         if ctxFields = [] then l else zap_With l ctxFields))"

definition mergeFields :: "'e env_scheme \<Rightarrow> log_ctx option \<Rightarrow> zap_field list \<Rightarrow> zap_field list" where
  "mergeFields E ctx flds =
     (let ctxFields = fieldsFromContext E ctx in
      if ctxFields = [] then flds
      else if flds = [] then ctxFields
      else ctxFields @ flds)"

text \<open>\<open>Debug\<close>, \<open>Info\<close>, \<open>Warn\<close> and \<open>Error\<close>, by their level.\<close>

definition log_at ::
  "'e env_scheme \<Rightarrow> zap_level \<Rightarrow> Logger option \<Rightarrow> log_ctx option \<Rightarrow> string \<Rightarrow> zap_field list \<Rightarrow> sink \<Rightarrow> sink" where
  "log_at E level l ctx message flds s =
     (case l of
        None \<Rightarrow> s
      | Some lg \<Rightarrow>
          if lg_nop lg \<or> level < sk_level s then s
          else s\<lparr>sk_entries := sk_entries s @ [(level, message, lg_fields lg @ mergeFields E ctx flds)]\<rparr>)"

section \<open>The bound on further fields\<close>

definition extra_fields :: "log_ctx option \<Rightarrow> zap_field list" where
  "extra_fields ctx =
     (case ctx of None \<Rightarrow> [] | Some c \<Rightarrow> (case lc_extra c of None \<Rightarrow> [] | Some fs \<Rightarrow> fs))"

lemma extra_fields_WithFields:
  "extra_fields (WithFields (Some lg) ctx fs) = extra_fields ctx @
     take (nat (lg_contextFieldsMax lg - int (length (extra_fields ctx)))) fs"
proof (cases "fs = []")
  case False
  then have "0 < length fs" by simp
  then show ?thesis
    by (auto simp: WithFields_def extra_fields_def Background_def Let_def simp del: length_greater_0_conv split: option.split)
qed (simp add: WithFields_def)

text \<open>
  However often fields are added to a context, it carries the first of them, as many as the
  logger allows, in the order they came; nothing it carried before is lost.
\<close>

theorem context_carries_first_fields:
  "extra_fields (foldl (WithFields (Some lg)) ctx fss) = extra_fields ctx @
     take (nat (lg_contextFieldsMax lg - int (length (extra_fields ctx)))) (concat fss)"
proof (induction fss arbitrary: ctx)
  case (Cons fs fss)
  let ?a = "extra_fields ctx" and ?n = "lg_contextFieldsMax lg"
  have "nat (?n - int (length (?a @ take (nat (?n - int (length ?a))) fs))) =
      nat (?n - int (length ?a)) - length fs"
    by simp
  then show ?case by (simp add: Cons.IH extra_fields_WithFields)
qed simp

text \<open>
  Merging never drops a field: an entry holds those of the logger, of the context and of the
  call, in this order.
\<close>

lemma mergeFields_append [simp]: "mergeFields E ctx flds = fieldsFromContext E ctx @ flds"
  by (simp add: mergeFields_def Let_def)

text \<open>What is written of a sequence of messages: those of the level set or above, in their order.\<close>

lemma log_run:
  assumes "\<not> lg_nop lg"
  shows "sk_entries (foldl (\<lambda>s (level, message, flds). log_at E level (Some lg) ctx message flds s) s ms) =
    sk_entries s @ map (\<lambda>(level, message, flds). (level, message, lg_fields lg @ fieldsFromContext E ctx @ flds))
      (filter (\<lambda>(level, _). sk_level s \<le> level) ms)"
  using assms by (induction ms arbitrary: s) (auto simp: log_at_def not_less)

lemma WithContext_same_entry:
  "log_at E level (WithContext E (Some lg) ctx) None message flds s =
     log_at E level (Some lg) ctx message flds s"
  by (simp add: log_at_def WithContext_def zap_With_def fieldsFromContext_def [of E None] Let_def)

end
