(* ===== verification/Infrastructure.thy ===== *)
theory Infrastructure
  imports Wiring Logging
begin

text \<open>
  The connections of the two services (\<open>infra_providers.go\<close> of both applications,
  \<open>shared/infrastructure/db\<close>): pools of PostgreSQL connections, and the options the libraries
  for Redis, Kafka and logging are given. The libraries are arguments; an option that the code
  does not set keeps the value it has in the default configuration of the library.
\<close>

section \<open>Pools of PostgreSQL connections\<close>

record pgx_Config =
  pgx_MaxConns :: int
  pgx_MinConns :: int
  pgx_MaxConnLifetime :: duration
  pgx_MaxConnIdleTime :: duration

text \<open>
  What the driver and the migration tool answer: to the text of a connection, to the creation of
  a pool, to a ping of it and to the two steps of a migration over it.
\<close>

record pgx_lib =
  pgx_ParseConfig :: "string \<Rightarrow> go_error + pgx_Config"
  pgx_NewWithConfig :: "pgx_Config \<Rightarrow> go_error option"
  pgx_Ping :: "nat \<Rightarrow> go_error option"
  goose_NewProvider :: "nat \<Rightarrow> go_error option"
  goose_Up :: "nat \<Rightarrow> go_error option"

text \<open>The pools of the process: the next to be made, the open ones, and what each was made with.\<close>

record pools =
  pl_fresh :: nat
  pl_open :: "nat list"
  pl_config :: "nat \<rightharpoonup> pgx_Config"

definition applyPoolConfig :: "pgx_Config \<Rightarrow> PostgresPoolConfig \<Rightarrow> pgx_Config" where
  "applyPoolConfig cfg poolConfig = cfg\<lparr>pgx_MaxConns := pg_MaxConnections poolConfig,
     pgx_MinConns := pg_MinConnections poolConfig,
     pgx_MaxConnLifetime := pg_MaxConnLifetime poolConfig,
     pgx_MaxConnIdleTime := pg_MaxConnIdleTime poolConfig\<rparr>"

text \<open>Closing a pool once more does nothing.\<close>

definition pool_Close :: "nat \<Rightarrow> pools \<Rightarrow> pools" where
  "pool_Close p s = s\<lparr>pl_open := filter (\<lambda>q. q \<noteq> p) (pl_open s)\<rparr>"

definition newPostgresPool ::
  "pgx_lib \<Rightarrow> string \<Rightarrow> PostgresPoolConfig \<Rightarrow> pools \<Rightarrow> (go_error + nat) \<times> pools" where
  "newPostgresPool L dbURI config s =
     (let op = ''db.newPostgresPool'' in
      case pgx_ParseConfig L dbURI of
        Inl err \<Rightarrow> (Inl (Errorf (op @ '': parse config: '') err ''''), s)
      | Inr cfg0 \<Rightarrow>
          (let cfg = applyPoolConfig cfg0 config in
           case pgx_NewWithConfig L cfg of
             Some err \<Rightarrow> (Inl (Errorf (op @ '': create pool: '') err ''''), s)
           | None \<Rightarrow>
               (let pool = pl_fresh s;
                    s1 = \<lparr>pl_fresh = Suc pool, pl_open = pool # pl_open s, pl_config = (pl_config s)(pool \<mapsto> cfg)\<rparr>
                in case pgx_Ping L pool of
                     Some err \<Rightarrow> (Inl (Errorf (op @ '': ping db: '') err ''''), pool_Close pool s1)
                   | None \<Rightarrow> (Inr pool, s1))))"

definition OpenPostgres ::
  "pgx_lib \<Rightarrow> string \<Rightarrow> PostgresPoolConfig \<Rightarrow> pools \<Rightarrow> (go_error + nat) \<times> pools" where
  "OpenPostgres L dbURI config s =
     (case newPostgresPool L dbURI config s of
        (Inl err, s1) \<Rightarrow> (Inl (Errorf ''db.OpenPostgres: '' err ''''), s1)
      | (Inr pool, s1) \<Rightarrow> (Inr pool, s1))"

definition migrator_Up :: "pgx_lib \<Rightarrow> nat \<Rightarrow> go_error + unit" where
  "migrator_Up L pool =
     (case goose_NewProvider L pool of
        Some err \<Rightarrow> Inl (Errorf ''goose.NewProvider: '' err '''')
      | None \<Rightarrow> (case goose_Up L pool of Some err \<Rightarrow> Inl err | None \<Rightarrow> Inr ()))"

definition runPostgresMigrations :: "pgx_lib \<Rightarrow> nat \<Rightarrow> go_error + unit" where
  "runPostgresMigrations L pool =
     (case migrator_Up L pool of
        Inl err \<Rightarrow> Inl (Errorf ''db.runPostgresMigrations: run migrations: '' err '''')
      | Inr _ \<Rightarrow> Inr ())"

definition MigratePostgres ::
  "pgx_lib \<Rightarrow> string \<Rightarrow> PostgresPoolConfig \<Rightarrow> pools \<Rightarrow> (go_error + unit) \<times> pools" where
  "MigratePostgres L dbURI config s =
     (case newPostgresPool L dbURI config s of
        (Inl err, s1) \<Rightarrow> (Inl (Errorf ''db.MigratePostgres: '' err ''''), s1)
      | (Inr pool, s1) \<Rightarrow>
          (case runPostgresMigrations L pool of
             Inl err \<Rightarrow> (Inl (Errorf ''db.MigratePostgres: '' err ''''), pool_Close pool (pool_Close pool s1))
           | Inr _ \<Rightarrow> (Inr (), pool_Close pool s1)))"

definition order_providePostgresPool :: "pgx_lib \<Rightarrow> OrderSettings \<Rightarrow> pools \<Rightarrow> (go_error + nat) \<times> pools" where
  "order_providePostgresPool L cfg s = OpenPostgres L (svc_DBURI (oc_Service cfg)) (oc_PostgresPool cfg) s"

definition spot_providePostgresPool :: "pgx_lib \<Rightarrow> SpotSettings \<Rightarrow> pools \<Rightarrow> (go_error + nat) \<times> pools" where
  "spot_providePostgresPool L cfg s = OpenPostgres L (svc_DBURI (sc_Service cfg)) (sc_PostgresPool cfg) s"

text \<open>No pool is open that has not been made yet.\<close>

definition pools_ok :: "pools \<Rightarrow> bool" where
  "pools_ok s \<longleftrightarrow> (\<forall>p \<in> set (pl_open s). p < pl_fresh s)"

lemma pool_Close_fresh:
  "pools_ok s \<Longrightarrow> filter (\<lambda>q. q \<noteq> pl_fresh s) (pl_open s) = pl_open s"
  by (auto simp: pools_ok_def filter_id_conv)

lemma newPostgresPool_cases:
  assumes "pools_ok s" and "newPostgresPool L dbURI config s = (r, s')"
  obtains (failed) err where "r = Inl err" "pl_open s' = pl_open s"
  | (opened) cfg where "r = Inr (pl_fresh s)" "pl_open s' = pl_fresh s # pl_open s"
      "pl_fresh s' = Suc (pl_fresh s)" "pgx_ParseConfig L dbURI = Inr cfg"
      "pl_config s' = (pl_config s)(pl_fresh s \<mapsto> applyPoolConfig cfg config)" "pgx_Ping L (pl_fresh s) = None"
proof (cases "pgx_ParseConfig L dbURI")
  case (Inl err)
  with assms(2) show thesis by (intro failed) (auto simp: newPostgresPool_def)
next
  case parsed: (Inr cfg)
  show thesis
  proof (cases "pgx_NewWithConfig L (applyPoolConfig cfg config)")
    case (Some err)
    with parsed assms(2) show thesis by (intro failed) (auto simp: newPostgresPool_def)
  next
    case created: None
    show thesis
    proof (cases "pgx_Ping L (pl_fresh s)")
      case (Some err)
      with parsed created assms show thesis
        by (intro failed) (auto simp: newPostgresPool_def Let_def pool_Close_def pool_Close_fresh)
    next
      case None
      with parsed created assms(2) show thesis
        by (intro opened) (auto simp: newPostgresPool_def Let_def)
    qed
  qed
qed

text \<open>
  A pool is left open exactly by a start that succeeds: when opening fails at any point, and
  after migrations, however they end, the pools that are open are those that were open
  before. An open pool has answered a ping and has the limits of the configuration.
\<close>

theorem pools_not_leaked:
  assumes "pools_ok s"
  shows "(case OpenPostgres L dbURI config s of
       (Inl _, s') \<Rightarrow> pl_open s' = pl_open s
     | (Inr pool, s') \<Rightarrow> pl_open s' = pool # pl_open s \<and> pool \<notin> set (pl_open s) \<and> pools_ok s' \<and>
         pgx_Ping L pool = None \<and>
         (\<exists>cfg. pl_config s' pool = Some cfg \<and> pgx_MaxConns cfg = pg_MaxConnections config \<and>
            pgx_MinConns cfg = pg_MinConnections config)) \<and>
    pl_open (snd (MigratePostgres L dbURI config s)) = pl_open s"
proof -
  obtain r s' where new: "newPostgresPool L dbURI config s = (r, s')" by force
  from assms new show ?thesis
  proof (cases rule: newPostgresPool_cases)
    case (failed err)
    with new show ?thesis by (simp add: OpenPostgres_def MigratePostgres_def)
  next
    case (opened cfg)
    have "pl_open (pool_Close (pl_fresh s) s') = pl_open s"
      using opened pool_Close_fresh [OF assms] by (simp add: pool_Close_def)
    moreover have "pl_open (pool_Close (pl_fresh s) (pool_Close (pl_fresh s) s')) = pl_open s"
      using opened pool_Close_fresh [OF assms] by (simp add: pool_Close_def)
    moreover have "pl_fresh s \<notin> set (pl_open s)" "pools_ok s'"
      using assms opened by (auto simp: pools_ok_def)
    ultimately show ?thesis
      using new opened
      by (simp add: OpenPostgres_def MigratePostgres_def applyPoolConfig_def split: sum.split)
  qed
qed

section \<open>The connection to the spot service\<close>

text \<open>
  The target and the options of the connection; \<open>cl_RetryCodes\<close> are the codes after which a call
  is tried again. The interceptors run in the order authentication, tracing, retries.
\<close>

record client_Options =
  cl_Target :: string
  cl_RetryMax :: "64 word"
  cl_RetryBackoff :: duration
  cl_RetryJitter :: float64
  cl_RetryCodes :: "grpc_code list"
  cl_PerRetryTimeout :: duration
  cl_KeepaliveTime :: duration
  cl_KeepaliveTimeout :: duration
  cl_PermitWithoutStream :: bool

definition provideClientConnection :: "OrderSettings \<Rightarrow> client_Options" where
  "provideClientConnection cfg =
     \<lparr>cl_Target = oc_SpotAddress cfg,
      cl_RetryMax = rt_MaxAttempts (oc_Retry cfg), cl_RetryBackoff = rt_InitialBackoff (oc_Retry cfg),
      cl_RetryJitter = rt_Jitter (oc_Retry cfg), cl_RetryCodes = [Code_DeadlineExceeded, Code_Unavailable],
      cl_PerRetryTimeout = rt_PerRetryTimeout (oc_Retry cfg),
      cl_KeepaliveTime = ka_PingTime (oc_KeepAlive cfg), cl_KeepaliveTimeout = ka_PingTimeout (oc_KeepAlive cfg),
      cl_PermitWithoutStream = ka_PermitWithoutStream (oc_KeepAlive cfg)\<rparr>"

section \<open>Redis and logging\<close>

record redis_Options =
  ro_Addr :: string
  ro_DialTimeout :: duration
  ro_ReadTimeout :: duration
  ro_WriteTimeout :: duration
  ro_PoolSize :: int
  ro_MinIdleConns :: int
  ro_MaxIdleConns :: int
  ro_MaxActiveConns :: int
  ro_ConnMaxIdleTime :: duration
  ro_ConnMaxLifetime :: duration

definition redis_options :: "RedisConfig \<Rightarrow> redis_Options" where
  "redis_options r =
     \<lparr>ro_Addr = Redis_Address r, ro_DialTimeout = rd_ConnectionTimeout r, ro_ReadTimeout = rd_ConnectionTimeout r,
      ro_WriteTimeout = rd_ConnectionTimeout r, ro_PoolSize = rd_PoolSize r, ro_MinIdleConns = rd_MinIdle r,
      ro_MaxIdleConns = rd_MaxIdle r, ro_MaxActiveConns = rd_MaxActiveConns r, ro_ConnMaxIdleTime = rd_IdleTimeout r,
      ro_ConnMaxLifetime = rd_ConnMaxLifetime r\<rparr>"

definition order_provideRedisClient :: "OrderSettings \<Rightarrow> redis_Options" where
  "order_provideRedisClient cfg = redis_options (oc_Redis cfg)"

definition spot_provideRedisClient :: "SpotSettings \<Rightarrow> redis_Options" where
  "spot_provideRedisClient cfg = redis_options (sc_Redis cfg)"

text \<open>The logger, and whether its entries are JSON; on stop it is synced.\<close>

definition order_provideLogger :: "unicode_tables \<Rightarrow> OrderSettings \<Rightarrow> (Logger \<times> sink) \<times> bool" where
  "order_provideLogger U cfg =
     (zap_New U (log_Level (oc_Log cfg)) (log_ContextFieldsMax (oc_Log cfg)), log_Format (oc_Log cfg) = ''json'')"

definition spot_provideLogger :: "unicode_tables \<Rightarrow> SpotSettings \<Rightarrow> (Logger \<times> sink) \<times> bool" where
  "spot_provideLogger U cfg =
     (zap_New U (log_Level (sc_Log cfg)) (log_ContextFieldsMax (sc_Log cfg)), log_Format (sc_Log cfg) = ''json'')"

section \<open>Kafka\<close>

datatype sarama_acks = NoResponse | WaitForLocal | WaitForAll
datatype sarama_codec = CompressionNone | CompressionGZIP | CompressionSnappy | CompressionLZ4 | CompressionZSTD
datatype sarama_offset = OffsetNewest | OffsetOldest

record sarama_Config =
  sa_ClientID :: string
  sa_ChannelBufferSize :: int
  sa_DialTimeout :: duration
  sa_ReadTimeout :: duration
  sa_WriteTimeout :: duration
  sa_MetadataTimeout :: duration
  sa_MetadataRetryMax :: int
  sa_MetadataRetryBackoff :: duration
  sa_ReturnSuccesses :: bool
  sa_ReturnErrors :: bool
  sa_RequiredAcks :: sarama_acks
  sa_ProducerTimeout :: duration
  sa_ProducerRetryMax :: int
  sa_ProducerRetryBackoff :: duration
  sa_Compression :: sarama_codec
  sa_SessionTimeout :: duration
  sa_HeartbeatInterval :: duration
  sa_OffsetsInitial :: sarama_offset
  sa_FetchMax :: int
  sa_FetchDefault :: int
  sa_ConsumerRetryBackoff :: duration

definition compression_codec :: "string \<Rightarrow> sarama_codec" where
  "compression_codec name =
     (if name = ''gzip'' then CompressionGZIP
      else if name = ''snappy'' then CompressionSnappy
      else if name = ''lz4'' then CompressionLZ4
      else if name = ''zstd'' then CompressionZSTD
      else CompressionNone)"

text \<open>\<open>base\<close> is \<open>sarama.NewConfig()\<close>. Both services make their producer in the same way.\<close>

definition sarama_producer_options ::
  "unicode_tables \<Rightarrow> sarama_Config \<Rightarrow> ServiceConfig \<Rightarrow> ProducerConfig \<Rightarrow> sarama_Config" where
  "sarama_producer_options U base service p = base
     \<lparr>sa_ClientID := svc_Name service,
      sa_ReturnSuccesses := True, sa_ReturnErrors := True, sa_RequiredAcks := WaitForAll,
      sa_ProducerTimeout := pr_Timeout p, sa_ProducerRetryMax := pr_MaxRetries p,
      sa_ProducerRetryBackoff := pr_RetryBackoff p,
      sa_ChannelBufferSize := (if 0 < pr_ChannelBufferSize p then pr_ChannelBufferSize p else sa_ChannelBufferSize base),
      sa_DialTimeout := pr_Timeout p, sa_ReadTimeout := pr_Timeout p, sa_WriteTimeout := pr_Timeout p,
      sa_MetadataTimeout := pr_Timeout p, sa_MetadataRetryMax := pr_MaxRetries p,
      sa_MetadataRetryBackoff := pr_RetryBackoff p,
      sa_Compression := compression_codec (NormalizeKafkaCompression U (pr_Compression p))\<rparr>"

definition order_provideSaramaAsyncProducer ::
  "unicode_tables \<Rightarrow> sarama_Config \<Rightarrow> OrderSettings \<Rightarrow> sarama_Config" where
  "order_provideSaramaAsyncProducer U base cfg =
     sarama_producer_options U base (oc_Service cfg) (kf_Producer (oc_Kafka cfg))"

definition spot_provideSaramaAsyncProducer ::
  "unicode_tables \<Rightarrow> sarama_Config \<Rightarrow> SpotSettings \<Rightarrow> sarama_Config" where
  "spot_provideSaramaAsyncProducer U base cfg =
     sarama_producer_options U base (sc_Service cfg) (kf_Producer (sc_Kafka cfg))"

definition provideConsumerGroup :: "sarama_Config \<Rightarrow> OrderSettings \<Rightarrow> sarama_Config" where
  "provideConsumerGroup base cfg = (let c = kf_Consumer (oc_Kafka cfg) in base
     \<lparr>sa_ClientID := svc_Name (oc_Service cfg),
      sa_SessionTimeout := co_SessionTimeout c, sa_HeartbeatInterval := co_HeartbeatInterval c,
      sa_OffsetsInitial := OffsetOldest,
      sa_FetchMax := co_MaxMessageBytes c, sa_FetchDefault := co_MaxMessageBytes c,
      sa_ConsumerRetryBackoff := co_RetryBackoff c,
      sa_DialTimeout := co_SessionTimeout c, sa_ReadTimeout := co_SessionTimeout c,
      sa_WriteTimeout := co_SessionTimeout c, sa_MetadataTimeout := co_SessionTimeout c,
      sa_MetadataRetryMax := co_MaxRetries c, sa_MetadataRetryBackoff := co_RetryBackoff c\<rparr>)"

text \<open>
  What the library requires of a configuration, as far as the code sets it: positive timeouts,
  no negative counts, a heartbeat shorter than the session, and a fetch that asks for something.
\<close>

definition sarama_producer_ok :: "sarama_Config \<Rightarrow> bool" where
  "sarama_producer_ok c \<longleftrightarrow>
     0 < sa_DialTimeout c \<and> 0 < sa_ReadTimeout c \<and> 0 < sa_WriteTimeout c \<and> 0 \<le> sa_MetadataRetryMax c \<and>
     0 \<le> sa_MetadataRetryBackoff c \<and> 0 < sa_ProducerTimeout c \<and> 0 \<le> sa_ProducerRetryMax c \<and>
     0 \<le> sa_ProducerRetryBackoff c \<and> 0 \<le> sa_ChannelBufferSize c"

definition sarama_group_ok :: "sarama_Config \<Rightarrow> bool" where
  "sarama_group_ok c \<longleftrightarrow>
     0 < sa_DialTimeout c \<and> 0 < sa_ReadTimeout c \<and> 0 < sa_WriteTimeout c \<and> 0 \<le> sa_MetadataRetryMax c \<and>
     0 \<le> sa_MetadataRetryBackoff c \<and> 0 < sa_SessionTimeout c \<and> 0 < sa_HeartbeatInterval c \<and>
     sa_HeartbeatInterval c < sa_SessionTimeout c \<and> 0 < sa_FetchDefault c \<and> 0 \<le> sa_FetchMax c \<and>
     0 \<le> sa_ConsumerRetryBackoff c"

lemma ValidateKafkaProducerConfig_Inr:
  "ValidateKafkaProducerConfig F p c = Inr u \<Longrightarrow> 0 < pr_Timeout c \<and> 0 < pr_RetryBackoff c \<and> 0 \<le> pr_MaxRetries c \<and>
     NormalizeKafkaCompression (fmt_unicode F) (pr_Compression c) \<in>
       {''none'', ''gzip'', ''snappy'', ''lz4'', ''zstd''}"
  by (auto simp: ValidateKafkaProducerConfig_def split: if_splits)

text \<open>
  With an accepted configuration of the order service the Kafka library gets options it
  accepts; the producer waits for all replicas and reports every message back, as the client
  that waits for its acknowledgements needs; a new consumer group starts with the oldest
  message; and no compression is used only where none was asked for.
\<close>

theorem accepted_kafka_options:
  assumes "order_Load F file getenv = Inr cfg" and "0 \<le> sa_ChannelBufferSize base"
  shows "let U = fmt_unicode F; p = order_provideSaramaAsyncProducer U base cfg; g = provideConsumerGroup base cfg
    in sarama_producer_ok p \<and> sa_RequiredAcks p = WaitForAll \<and> sa_ReturnSuccesses p \<and> sa_ReturnErrors p \<and>
      (sa_Compression p = CompressionNone \<longleftrightarrow> NormalizeKafkaCompression U (pr_Compression (kf_Producer (oc_Kafka cfg))) = ''none'') \<and>
      sarama_group_ok g \<and> sa_OffsetsInitial g = OffsetOldest"
proof -
  have "validateOrderKafka F cfg = Inr ()"
    using order_Load_Inr(1) [OF assms(1)] by (simp add: validateOrderConfig_def)
  then have p: "ValidateKafkaProducerConfig F ''kafka.producer'' (kf_Producer (oc_Kafka cfg)) = Inr ()"
    and c: "ValidateKafkaConsumerConfig F ''kafka.consumer'' (kf_Consumer (oc_Kafka cfg)) = Inr ()"
    by (auto simp: validateOrderKafka_def Let_def split: sum.splits if_splits)
  have session: "0 < co_HeartbeatInterval (kf_Consumer (oc_Kafka cfg))"
    "co_HeartbeatInterval (kf_Consumer (oc_Kafka cfg)) < co_SessionTimeout (kf_Consumer (oc_Kafka cfg))"
    using c by (auto simp: ValidateKafkaConsumerConfig_def split: if_splits)
  have "sarama_group_ok (provideConsumerGroup base cfg)"
    using ValidateKafkaConsumerConfig_Inr [OF c] session
    by (simp add: sarama_group_ok_def provideConsumerGroup_def Let_def)
  then show ?thesis
    using ValidateKafkaProducerConfig_Inr [OF p] assms(2)
    by (auto simp: Let_def sarama_producer_ok_def order_provideSaramaAsyncProducer_def
        sarama_producer_options_def provideConsumerGroup_def compression_codec_def)
qed

end
