(* ===== verification/Observability.thy ===== *)
theory Observability
  imports Logging
begin

text \<open>
  The interceptors that observe a request: tracing
  (\<open>shared/interceptors/tracing/grpc_interceptor.go\<close>), metrics
  (\<open>shared/interceptors/metrics/metrics_interceptor.go\<close>) and logging
  (\<open>shared/interceptors/logging/logger.go\<close>), and the whole chain of a server with them. They
  leave the answer and the service alone, every request is counted once with the code its
  client is told, and the order service calls the spot service as the user it answers.
\<close>

section \<open>What is observed\<close>

text \<open>
  The counters of finished requests by service, method and code, the gauge of requests in
  flight, the number of observed durations, the entries of the log and the response headers. What
  the other interceptors log (a panic, a failed call to the spot service) is left out.
\<close>

record observations =
  ob_requests :: "string \<times> string \<times> grpc_code \<Rightarrow> nat"
  ob_inFlight :: "string \<times> string \<Rightarrow> int"
  ob_durations :: "string \<times> string \<Rightarrow> nat"
  ob_sink :: sink
  ob_headers :: "(string \<times> string) list"

type_synonym ('w, 'r) observed_handler =
  "'w \<times> observations \<Rightarrow> log_ctx \<Rightarrow> 'r served \<times> ('w \<times> observations)"

text \<open>
  The tracing library: the identifier of the trace a request belongs to once its metadata has
  been read and a span started, and what it adds to the metadata of a call; and how long the
  request took.
\<close>

record tracer =
  tr_Start :: "metadata \<Rightarrow> string option"
  tr_Inject :: "string option \<Rightarrow> (string \<times> string) list"
  tr_elapsed :: duration

definition code_String :: "grpc_code \<Rightarrow> string" where
  "code_String c =
     (case c of
        Code_OK \<Rightarrow> ''OK'' | Code_Canceled \<Rightarrow> ''Canceled'' | Code_Unknown \<Rightarrow> ''Unknown''
      | Code_InvalidArgument \<Rightarrow> ''InvalidArgument'' | Code_DeadlineExceeded \<Rightarrow> ''DeadlineExceeded''
      | Code_NotFound \<Rightarrow> ''NotFound'' | Code_AlreadyExists \<Rightarrow> ''AlreadyExists''
      | Code_PermissionDenied \<Rightarrow> ''PermissionDenied'' | Code_ResourceExhausted \<Rightarrow> ''ResourceExhausted''
      | Code_FailedPrecondition \<Rightarrow> ''FailedPrecondition'' | Code_Aborted \<Rightarrow> ''Aborted''
      | Code_OutOfRange \<Rightarrow> ''OutOfRange'' | Code_Unimplemented \<Rightarrow> ''Unimplemented''
      | Code_Internal \<Rightarrow> ''Internal'' | Code_Unavailable \<Rightarrow> ''Unavailable'' | Code_DataLoss \<Rightarrow> ''DataLoss''
      | Code_Unauthenticated \<Rightarrow> ''Unauthenticated'')"

text \<open>\<open>path.Base\<close>: what follows the last slash, without trailing ones.\<close>

definition path_Base :: "string \<Rightarrow> string" where
  "path_Base p =
     (if p = '''' then ''.''
      else
        (let q = rev (dropWhile (\<lambda>c. c = CHR ''/'') (rev p)) in
         if q = '''' then ''/'' else rev (takeWhile (\<lambda>c. c \<noteq> CHR ''/'') (rev q))))"

section \<open>The interceptors\<close>

definition answer_error :: "'r served \<Rightarrow> go_error option" where
  "answer_error r = (case r of Returned (Inl err) \<Rightarrow> Some err | _ \<Rightarrow> None)"

definition metrics_UnaryServerInterceptor ::
  "string \<Rightarrow> string \<Rightarrow> ('w, 'r) observed_handler \<Rightarrow> ('w, 'r) observed_handler" where
  "metrics_UnaryServerInterceptor serviceName fullMethod handler s ctx =
     (let inc = (\<lambda>d obs. obs\<lparr>ob_inFlight := (ob_inFlight obs)
            ((serviceName, fullMethod) := ob_inFlight obs (serviceName, fullMethod) + d)\<rparr>);
          count = (\<lambda>code obs. obs
            \<lparr>ob_requests := (ob_requests obs)((serviceName, fullMethod, code) :=
               Suc (ob_requests obs (serviceName, fullMethod, code))),
             ob_durations := (ob_durations obs)((serviceName, fullMethod) :=
               Suc (ob_durations obs (serviceName, fullMethod)))\<rparr>)
      in case handler (apsnd (inc 1) s) ctx of
           (Panics r, s1) \<Rightarrow> (Panics r, apsnd (count Code_Internal \<circ> inc (-1)) s1)
         | (Returned res, s1) \<Rightarrow>
             (Returned res, apsnd (count (CodeFromError (answer_error (Returned res))) \<circ> inc (-1)) s1))"

definition warn_codes :: "grpc_code set" where
  "warn_codes = {Code_NotFound, Code_AlreadyExists, Code_PermissionDenied, Code_ResourceExhausted,
     Code_InvalidArgument, Code_Unauthenticated, Code_FailedPrecondition, Code_Canceled,
     Code_DeadlineExceeded}"

definition logging_UnaryServerInterceptor ::
  "'e env_scheme \<Rightarrow> tracer \<Rightarrow> Logger option \<Rightarrow> string \<Rightarrow> ('w, 'r) observed_handler \<Rightarrow> ('w, 'r) observed_handler" where
  "logging_UnaryServerInterceptor E T l fullMethod handler s ctx =
     (let method = path_Base fullMethod;
          log = (\<lambda>level message flds obs. obs\<lparr>ob_sink := log_at E level l (Some ctx) message flds (ob_sink obs)\<rparr>)
      in case handler (apsnd (log InfoLevel ''gRPC request started'' [zap_String ''method'' method]) s) ctx of
           (Panics r, s1) \<Rightarrow> (Panics r, s1)
         | (Returned (Inr response), s1) \<Rightarrow> (Returned (Inr response), s1)
         | (Returned (Inl err), s1) \<Rightarrow>
             (let code = CodeFromError (Some err);
                  flds = [zap_String ''method'' method, zap_String ''code'' (code_String code),
                    zap_Duration ''duration'' (tr_elapsed T)]
              in (Returned (Inl err),
                  apsnd (log (if code \<in> warn_codes then WarnLevel else ErrorLevel) ''gRPC request failed'' flds) s1)))"

definition addTraceIDToResponse :: "log_ctx option \<Rightarrow> observations \<Rightarrow> observations" where
  "addTraceIDToResponse ctx obs =
     (case TraceIDFromContext ctx of
        None \<Rightarrow> obs
      | Some traceID \<Rightarrow> obs\<lparr>ob_headers := ob_headers obs @ [(TraceIDHeader, traceID)]\<rparr>)"

definition tracing_UnaryServerInterceptor ::
  "tracer \<Rightarrow> ('w, 'r) observed_handler \<Rightarrow> ('w, 'r) observed_handler" where
  "tracing_UnaryServerInterceptor T handler s ctx =
     (let md = (case ctx_incoming ctx of None \<Rightarrow> [] | Some md \<Rightarrow> md);
          ctx1 = ctx\<lparr>lc_traceID := tr_Start T md\<rparr>
      in case handler s ctx1 of
           (Panics r, s1) \<Rightarrow> (Panics r, s1)
         | (Returned res, s1) \<Rightarrow> (Returned res, apsnd (addTraceIDToResponse (Some ctx1)) s1))"

text \<open>On the way out: the carrier of the propagator is the metadata of the call.\<close>

definition carrier_Get :: "unicode_tables \<Rightarrow> metadata \<Rightarrow> string \<Rightarrow> string" where
  "carrier_Get U mc key = (case md_Get mc (strings_ToLower U key) of [] \<Rightarrow> '''' | v # _ \<Rightarrow> v)"

definition carrier_Set :: "unicode_tables \<Rightarrow> metadata \<Rightarrow> string \<Rightarrow> string \<Rightarrow> metadata" where
  "carrier_Set U mc key val = md_Set mc (strings_ToLower U key) [val]"

definition carrier_Keys :: "metadata \<Rightarrow> string list" where
  "carrier_Keys mc = map fst mc"

definition extractOutgoingMetadata :: "log_ctx option \<Rightarrow> metadata" where
  "extractOutgoingMetadata ctx =
     (case ctx of None \<Rightarrow> [] | Some c \<Rightarrow> (case ctx_outgoing c of None \<Rightarrow> [] | Some md \<Rightarrow> md))"

text \<open>The context the call goes out with; its error is passed on.\<close>

definition tracing_UnaryClientInterceptor :: "unicode_tables \<Rightarrow> tracer \<Rightarrow> log_ctx \<Rightarrow> log_ctx" where
  "tracing_UnaryClientInterceptor U T ctx =
     (let carrier = foldl (\<lambda>mc (k, v). carrier_Set U mc k v) (extractOutgoingMetadata (Some ctx))
            (tr_Inject T (lc_traceID ctx))
      in ctx\<lparr>ctx_outgoing := Some carrier\<rparr>)"

section \<open>The chain with its observers\<close>

definition unobserved :: "('w, 'r) grpc_handler \<Rightarrow> ('w, 'r) observed_handler" where
  "unobserved handler s ctx =
     (case handler (fst s) (grpc_ctx.truncate ctx) of (r, w1) \<Rightarrow> (r, (w1, snd s)))"

definition observed_serve ::
  "'e env_scheme \<Rightarrow> jwt_lib \<Rightarrow> unicode_tables \<Rightarrow> server \<Rightarrow> tracer \<Rightarrow> Logger option \<Rightarrow> string \<Rightarrow> string \<Rightarrow>
   string option \<Rightarrow> ('a base_scheme, 'r) grpc_handler \<Rightarrow> 'a base_scheme \<times> observations \<Rightarrow> metadata \<Rightarrow>
   'r served \<times> ('a base_scheme \<times> observations)" where
  "observed_serve E J U srv T l serviceName fullMethod violation handler s md =
     validate_UnaryServerInterceptor violation
       (recovery_UnaryServerInterceptor
         (tracing_UnaryServerInterceptor T
           (metrics_UnaryServerInterceptor serviceName fullMethod
             (logging_UnaryServerInterceptor E T l fullMethod
               (unobserved
                 (errors_Interceptor E
                   (auth_UnaryServerInterceptor E J U (srv_manager srv) (srv_skipMethods srv) fullMethod
                     (ratelimit_UnaryServerInterceptor (srv_allow srv) (srv_methodsLimit srv) fullMethod handler))))))))
       s (Background\<lparr>ctx_incoming := Some md\<rparr>)"

text \<open>One observed call, whatever is inside.\<close>

lemma observed_call:
  fixes h :: "('w, 'r) grpc_handler"
  assumes h: "h w (grpc_ctx.truncate (ctx\<lparr>lc_traceID := tr_Start T md\<rparr>)) = (r, w')"
    and md: "ctx_incoming ctx = Some md"
    and call: "tracing_UnaryServerInterceptor T (metrics_UnaryServerInterceptor sn fm
      (logging_UnaryServerInterceptor E T l fm (unobserved h))) (w, o1) ctx = (r', (w2, o2))"
  shows "r' = r \<and> w2 = w' \<and> ob_inFlight o2 = ob_inFlight o1 \<and>
    (\<forall>k. ob_requests o2 k = ob_requests o1 k +
       (if k = (sn, fm, case r of Panics _ \<Rightarrow> Code_Internal | Returned _ \<Rightarrow> CodeFromError (answer_error r))
        then 1 else 0))"
proof (cases r)
  case (Panics p)
  with h md call show ?thesis
    by (auto simp: tracing_UnaryServerInterceptor_def metrics_UnaryServerInterceptor_def
        logging_UnaryServerInterceptor_def unobserved_def Let_def)
next
  case (Returned x)
  have headers: "ob_requests (addTraceIDToResponse c o') = ob_requests o'"
    "ob_inFlight (addTraceIDToResponse c o') = ob_inFlight o'" for c o'
    by (simp_all add: addTraceIDToResponse_def split: option.split)
  from Returned h md call headers show ?thesis
    by (cases x)
      (auto simp: tracing_UnaryServerInterceptor_def metrics_UnaryServerInterceptor_def
        logging_UnaryServerInterceptor_def unobserved_def Let_def answer_error_def)
qed

text \<open>
  C40. Tracing, metrics and logging change neither the answer to a request nor the state of the
  service; after the request the gauge of requests in flight is as before; and the counters
  have counted it exactly once, with the code its client is told, even when the handler
  panicked, unless it violated the rules of its message and never got that far.
\<close>

theorem requests_counted_as_answered:
  "case observed_serve E J U srv T l serviceName fullMethod violation handler (w, o1) md of
     (r, (w2, o2)) \<Rightarrow>
       (r, w2) = serve E J U srv fullMethod violation handler w md \<and>
       ob_inFlight o2 = ob_inFlight o1 \<and>
       (\<forall>k. ob_requests o2 k = ob_requests o1 k +
          (if violation = None \<and> k = (serviceName, fullMethod, CodeFromError (answer_error r)) then 1 else 0))"
proof (cases violation)
  case (Some what)
  then show ?thesis
    by (simp add: observed_serve_def serve_def validate_UnaryServerInterceptor_def)
next
  case None
  let ?h = "errors_Interceptor E (auth_UnaryServerInterceptor E J U (srv_manager srv) (srv_skipMethods srv) fullMethod
    (ratelimit_UnaryServerInterceptor (srv_allow srv) (srv_methodsLimit srv) fullMethod handler))"
  let ?ctx = "Background\<lparr>ctx_incoming := Some md\<rparr>"
  obtain q w' where h: "?h w (arrived md) = (q, w')" by force
  have trunc: "grpc_ctx.truncate (?ctx\<lparr>lc_traceID := t\<rparr>) = arrived md" for t
    by (simp add: grpc_ctx.defs Background_def)
  obtain r' w2 o2 where call: "tracing_UnaryServerInterceptor T (metrics_UnaryServerInterceptor serviceName fullMethod
      (logging_UnaryServerInterceptor E T l fullMethod (unobserved ?h))) (w, o1) ?ctx = (r', (w2, o2))"
    by (metis prod.collapse)
  have seen: "r' = q" "w2 = w'" "ob_inFlight o2 = ob_inFlight o1"
    "\<And>k. ob_requests o2 k = ob_requests o1 k +
       (if k = (serviceName, fullMethod, case q of Panics _ \<Rightarrow> Code_Internal | Returned _ \<Rightarrow> CodeFromError (answer_error q))
        then 1 else 0)"
    using observed_call [OF _ _ call, where r = q and w' = w' and md = md] h trunc
    by (simp_all add: Background_def del: split_paired_All)
  have "CodeFromError (Some (StatusError Code_Internal x)) = Code_Internal" for x
    by (simp add: CodeFromError_def)
  then show ?thesis
    using None h call seen
    by (cases q) (simp_all add: observed_serve_def serve_def validate_UnaryServerInterceptor_def
      recovery_UnaryServerInterceptor_def answer_error_def)
qed

section \<open>Calls on behalf of a user\<close>

lemma md_Get_Set [simp]:
  "md_Get (md_Set md k vs) k' = (if k' = k then vs else md_Get md k')"
proof -
  have "map_of (filter (\<lambda>(k', _). k' \<noteq> k) md) k' = map_of md k'" if "k' \<noteq> k"
    using that by (induction md) auto
  then show ?thesis by (simp add: md_Get_def md_Set_def)
qed

lemma md_Get_injected:
  assumes "\<forall>(k, v) \<in> set kvs. strings_ToLower U k \<noteq> key"
  shows "md_Get (foldl (\<lambda>mc (k, v). carrier_Set U mc k v) mc kvs) key = md_Get mc key"
  using assms by (induction kvs arbitrary: mc) (auto simp: carrier_Set_def)

text \<open>Only the first value of the header counts.\<close>

lemma authenticated_by_header:
  "authenticated E J U srv w md =
     authenticated E J U srv w (case md_Get md authorizationHeader of [] \<Rightarrow> [] | v # _ \<Rightarrow> [(authorizationHeader, [v])])"
  by (auto simp: authenticated_def bearerTokenFromContext_def md_Get_def [of "[]"]
      md_Get_def [of "[_]"] split: list.split)

text \<open>
  C26. The order service calls the spot service as the user it answers: whatever the request
  carries, and whatever the tracing library adds to the call as long as it does not set the
  header \<open>authorization\<close>, the metadata of the call prove to any server, at any moment, exactly
  the user and the roles which the metadata of the request prove to it.
\<close>

theorem caller_identity_forwarded:
  assumes "\<forall>(k, v) \<in> set (tr_Inject T (lc_traceID ctx)). strings_ToLower U k \<noteq> authorizationHeader"
    and "ctx_incoming ctx = Some md" and "ctx_outgoing ctx = None"
  shows "\<exists>md'. ctx_outgoing (tracing_UnaryClientInterceptor U T (UnaryClientAuthInterceptor ctx)) = Some md' \<and>
    authenticated E J U srv w md' = authenticated E J U srv w md"
proof -
  let ?vs = "md_Get md authorizationHeader"
  have traceID: "lc_traceID (UnaryClientAuthInterceptor ctx) = lc_traceID ctx"
    by (simp add: UnaryClientAuthInterceptor_def Let_def split: option.split list.split)
  obtain md' where out: "ctx_outgoing (tracing_UnaryClientInterceptor U T (UnaryClientAuthInterceptor ctx)) = Some md'"
    and hd: "md_Get md' authorizationHeader =
      md_Get (extractOutgoingMetadata (Some (UnaryClientAuthInterceptor ctx))) authorizationHeader"
    using md_Get_injected [OF assms(1)]
    by (auto simp: tracing_UnaryClientInterceptor_def traceID Let_def)
  have "md_Get (extractOutgoingMetadata (Some (UnaryClientAuthInterceptor ctx))) authorizationHeader = take 1 ?vs"
    using assms(2,3)
    by (auto simp: extractOutgoingMetadata_def UnaryClientAuthInterceptor_def md_Get_def [of "[]"] Let_def
        split: list.split)
  with hd have "authenticated E J U srv w md' = authenticated E J U srv w md"
    by (subst (1 2) authenticated_by_header) (simp split: list.split)
  with out show ?thesis by blast
qed

end
