(* ===== verification/Lifecycle.thy ===== *)
theory Lifecycle
  imports Infrastructure Observability
begin

text \<open>
  Starting and stopping the two services (\<open>lifecycle.go\<close> and \<open>grpc_providers.go\<close> of both
  applications, \<open>shared/metrics/shutdown.go\<close>): the deadline of a service call, the hooks of the
  readiness monitor, of the background work, of the gRPC and the metrics servers, and of the
  connections. The order in which \<open>fx\<close> runs the hooks is not modelled.
\<close>

section \<open>Deadlines\<close>

text \<open>
  The deadline of the context that \<open>contextWithTimeout\<close> returns at an instant, from the deadline
  of the given context, if any; a nil context counts as the background context.
\<close>

definition contextWithTimeout :: "instant \<Rightarrow> instant option \<Rightarrow> duration \<Rightarrow> instant option" where
  "contextWithTimeout now deadline timeout =
     (if timeout \<le> 0 then deadline
      else
        (case deadline of
           Some d \<Rightarrow> if d - now \<le> timeout then Some d else Some (now + timeout)
         | None \<Rightarrow> Some (now + timeout)))"

text \<open>A service call never runs past its caller's deadline, nor past its own timeout.\<close>

lemma contextWithTimeout_min:
  "0 < timeout \<Longrightarrow> contextWithTimeout now deadline timeout =
     Some (case deadline of None \<Rightarrow> now + timeout | Some d \<Rightarrow> min d (now + timeout))"
  by (simp add: contextWithTimeout_def split: option.split)

section \<open>Waiting for work to end\<close>

text \<open>
  The \<open>select\<close> between the end of the work and the end of the stop's context; \<open>pick\<close> chooses
  when both have happened, and nothing is returned while neither has.
\<close>

definition select_done :: "bool \<Rightarrow> fault option \<Rightarrow> bool \<Rightarrow> (go_error + unit) option" where
  "select_done finished ctxErr pick =
     (case ctxErr of
        None \<Rightarrow> if finished then Some (Inr ()) else None
      | Some f \<Rightarrow> if finished \<and> pick then Some (Inr ()) else Some (Inl (fault_error f)))"

text \<open>Background work: whether its context has been cancelled, and the consumer group closed. The
  worker of the spot service is started as that of the order service, under its own name.\<close>

record background =
  bg_cancelled :: bool
  bg_groupClosed :: bool

definition registerOutboxWorker_OnStop ::
  "bool \<Rightarrow> fault option \<Rightarrow> bool \<Rightarrow> background \<Rightarrow> (go_error + unit) option \<times> background" where
  "registerOutboxWorker_OnStop finished ctxErr pick b =
     (select_done finished ctxErr pick, b\<lparr>bg_cancelled := True\<rparr>)"

definition spot_registerOutboxWorker ::
  "'e env_scheme \<Rightarrow> ('a base_scheme \<Rightarrow> unit served \<times> 'a base_scheme) \<Rightarrow> 'a base_scheme \<Rightarrow>
   go_error option \<times> 'a base_scheme" where
  "spot_registerOutboxWorker E run w =
     (case PanicRecoveryHandler ''Spot outbox worker'' run w of
        (Inl err, w1) \<Rightarrow> (if env_ctx E (tick w1) = None then Some err else None, step w1)
      | (Inr _, w1) \<Rightarrow> (None, w1))"

definition spot_registerOutboxWorker_OnStop ::
  "bool \<Rightarrow> fault option \<Rightarrow> bool \<Rightarrow> background \<Rightarrow> (go_error + unit) option \<times> background" where
  "spot_registerOutboxWorker_OnStop finished ctxErr pick b =
     (select_done finished ctxErr pick, b\<lparr>bg_cancelled := True\<rparr>)"

definition registerMarketPoller_OnStop ::
  "bool \<Rightarrow> fault option \<Rightarrow> bool \<Rightarrow> background \<Rightarrow> (go_error + unit) option \<times> background" where
  "registerMarketPoller_OnStop finished ctxErr pick b =
     (select_done finished ctxErr pick, b\<lparr>bg_cancelled := True\<rparr>)"

text \<open>The consumer group is closed as well; an error of that is only logged.\<close>

definition registerKafkaConsumer_OnStop ::
  "bool \<Rightarrow> fault option \<Rightarrow> bool \<Rightarrow> background \<Rightarrow> (go_error + unit) option \<times> background" where
  "registerKafkaConsumer_OnStop finished ctxErr pick b =
     (select_done finished ctxErr pick, b\<lparr>bg_cancelled := True, bg_groupClosed := True\<rparr>)"

section \<open>Readiness\<close>

text \<open>\<open>ar_watching\<close> says whether \<open>OnStart\<close> has got as far as starting the watcher.\<close>

record app_readiness =
  ar_monitor :: ReadinessMonitor
  ar_watching :: bool

definition registerReadiness_OnStart ::
  "(string \<times> string option) list \<Rightarrow> app_readiness \<Rightarrow> (go_error + unit) \<times> app_readiness" where
  "registerReadiness_OnStart answers s =
     (case RequireReady (ar_monitor s) answers of
        (Inl err, m) \<Rightarrow> (Inl err, s\<lparr>ar_monitor := m\<rparr>)
      | (Inr _, m) \<Rightarrow> (Inr (), s\<lparr>ar_monitor := m, ar_watching := True\<rparr>))"

text \<open>\<open>Shutdown\<close> of the health server gives every name it knows the status \<open>NOT_SERVING\<close>.\<close>

definition health_Shutdown :: "ReadinessMonitor \<Rightarrow> ReadinessMonitor" where
  "health_Shutdown m = m\<lparr>rm_server := \<lambda>s. map_option (\<lambda>_. NOT_SERVING) (rm_server m s)\<rparr>"

definition registerReadiness_OnStop ::
  "bool \<Rightarrow> fault option \<Rightarrow> bool \<Rightarrow> app_readiness \<Rightarrow> (go_error + unit) option \<times> app_readiness" where
  "registerReadiness_OnStop finished ctxErr pick s =
     (case (if ar_watching s then select_done finished ctxErr pick else Some (Inr ())) of
        None \<Rightarrow> (None, s)
      | Some (Inl err) \<Rightarrow> (Some (Inl err), s)
      | Some (Inr _) \<Rightarrow> (Some (Inr ()), s\<lparr>ar_monitor := health_Shutdown (ar_monitor s)\<rparr>))"

text \<open>
  A service that stops in time reports that it does not serve, whatever its probes said before,
  and also when it never became ready. When the context of the stop ends first, the hook
  returns an error and leaves the status as it is, which may say that the service serves.
\<close>

lemma reports_health_Shutdown:
  "reports_status m st \<Longrightarrow> reports_status (health_Shutdown m) NOT_SERVING"
  by (simp add: reports_status_def health_Shutdown_def list_all_iff)

lemma setStatus_some [simp]: "Ex (reports_status (setStatus st m))"
  using setStatus_reports by blast

lemma reports_frame:
  "reports_status m st \<Longrightarrow> rm_server m' = rm_server m \<Longrightarrow> rm_cfg m' = rm_cfg m \<Longrightarrow> Ex (reports_status m')"
  by (auto simp: reports_status_def)

lemma probe_reports: "reports_status m st \<Longrightarrow> \<exists>st'. reports_status (probe m answers) st'"
  by (auto simp: probe_def Let_def elim!: reports_frame split: prod.split option.split)

lemma Watch_reports: "reports_status m st \<Longrightarrow> \<exists>st'. reports_status (Watch m ticks) st'"
proof (induction m ticks arbitrary: st rule: Watch.induct)
  case (3 m answers ticks)
  then obtain st1 where "reports_status (probe m answers) st1" using probe_reports by blast
  with 3 show ?case by simp
qed auto

theorem stopped_service_not_serving:
  assumes "registerReadiness_OnStart answers \<lparr>ar_monitor = NewReadinessMonitor server cfg, ar_watching = False\<rparr> = (r, s)"
    and "s' = (if ar_watching s then s\<lparr>ar_monitor := Watch (ar_monitor s) ticks\<rparr> else s)"
  shows "case registerReadiness_OnStop finished ctxErr pick s' of
      (None, s2) \<Rightarrow> r = Inr () \<and> \<not> finished \<and> ctxErr = None
    | (Some (Inr _), s2) \<Rightarrow> reports_status (ar_monitor s2) NOT_SERVING
    | (Some (Inl err), s2) \<Rightarrow> r = Inr () \<and> ctxErr \<noteq> None \<and> s2 = s'"
proof -
  have started: "(ar_watching s \<longleftrightarrow> r = Inr ()) \<and> (\<exists>st. reports_status (ar_monitor s) st)"
  proof (cases "RequireReady (NewReadinessMonitor server cfg) answers")
    case (Pair q m)
    have "\<exists>st. reports_status m st"
      using Pair by (auto simp: RequireReady_def split: prod.splits option.splits)
    with Pair assms(1) show ?thesis
      by (cases q) (auto simp: registerReadiness_OnStart_def)
  qed
  then obtain st where "reports_status (ar_monitor s') st"
    using Watch_reports assms(2) by (metis app_readiness.select_convs(1) app_readiness.surjective
        app_readiness.update_convs(1))
  note down = reports_health_Shutdown [OF this]
  have watching: "ar_watching s' \<longleftrightarrow> r = Inr ()"
    using started assms(2) by simp
  show ?thesis
    using down watching
    by (auto simp: registerReadiness_OnStop_def select_done_def split: option.split sum.split)
qed

section \<open>Servers\<close>

text \<open>
  The gRPC server is stopped gracefully, or by force when the context of the stop ends first;
  the error is formatted with \<open>%v\<close>. The second component says whether it was by force.
\<close>

definition stopGRPCServer ::
  "'e env_scheme \<Rightarrow> string \<Rightarrow> bool \<Rightarrow> fault option \<Rightarrow> bool \<Rightarrow> ((go_error + unit) \<times> bool) option" where
  "stopGRPCServer E serviceName finished ctxErr pick =
     (case select_done finished ctxErr pick of
        None \<Rightarrow> None
      | Some (Inr _) \<Rightarrow> Some (Inr (), False)
      | Some (Inl err) \<Rightarrow>
          Some (Inl (NewError (''gRPC graceful shutdown timed out: service='' @ serviceName @ '': '' @
            error_text (uuid_String E) (duration_String E) err)), True))"

text \<open>
  The reasons of a shutdown. The hook of the metrics server counts the reason \<open>graceful\<close> before
  it knows how the shutdown ends; the other two functions have no caller.
\<close>

definition ShutdownReasonFromContext :: "go_error option option \<Rightarrow> string" where
  "ShutdownReasonFromContext ctx =
     (case ctx of
        None \<Rightarrow> ''graceful''
      | Some None \<Rightarrow> ''graceful''
      | Some (Some err) \<Rightarrow>
          if errors_Is err CtxDeadlineExceeded \<or> errors_Is err CtxCanceled then ''timeout'' else ''graceful'')"

definition ShutdownReasonFromError :: "go_error option \<Rightarrow> string" where
  "ShutdownReasonFromError err =
     (case err of
        None \<Rightarrow> ''graceful''
      | Some e \<Rightarrow>
          if errors_Is e CtxDeadlineExceeded \<or> errors_Is e CtxCanceled then ''timeout'' else ''error'')"

definition registerMetrics_OnStop ::
  "string \<Rightarrow> go_error option \<Rightarrow> (string \<times> string \<Rightarrow> nat) \<Rightarrow> (go_error + unit) \<times> (string \<times> string \<Rightarrow> nat)" where
  "registerMetrics_OnStop serviceName shutdownErr shutdowns =
     (let shutdowns1 = shutdowns((serviceName, ''graceful'') := Suc (shutdowns (serviceName, ''graceful'')))
      in case shutdownErr of
           None \<Rightarrow> (Inr (), shutdowns1)
         | Some err \<Rightarrow> (Inl (Errorf '''' err ''''), shutdowns1))"

text \<open>A shutdown that times out is counted as a graceful one, not by the reason of its error.\<close>

lemma shutdown_timeout_counted_as_graceful:
  "registerMetrics_OnStop n (Some CtxDeadlineExceeded) shutdowns =
     (Inl (Errorf '''' CtxDeadlineExceeded ''''), shutdowns((n, ''graceful'') := Suc (shutdowns (n, ''graceful'')))) \<and>
   ShutdownReasonFromError (Some CtxDeadlineExceeded) \<noteq> ''graceful''"
  by (simp add: registerMetrics_OnStop_def ShutdownReasonFromError_def)

section \<open>Connections\<close>

text \<open>
  The pool is closed; errors of closing Redis and the connection to the spot service are only
  logged.
\<close>

definition registerInfrastructure_OnStop :: "nat \<Rightarrow> pools \<Rightarrow> (go_error + unit) \<times> pools" where
  "registerInfrastructure_OnStop pool s = (Inr (), pool_Close pool s)"

text \<open>What a start opens, the stop closes.\<close>

lemma stop_closes_pool:
  assumes "pools_ok s" and "order_providePostgresPool L cfg s = (Inr pool, s1)"
  shows "pl_open (snd (registerInfrastructure_OnStop pool s1)) = pl_open s"
proof -
  obtain r s' where new: "newPostgresPool L (svc_DBURI (oc_Service cfg)) (oc_PostgresPool cfg) s = (r, s')" by force
  from assms(1) new show ?thesis
  proof (cases rule: newPostgresPool_cases)
    case (failed err)
    with new assms(2) show ?thesis by (simp add: order_providePostgresPool_def OpenPostgres_def)
  next
    case (opened cfg0)
    with new assms show ?thesis
      by (auto simp: order_providePostgresPool_def OpenPostgres_def registerInfrastructure_OnStop_def pool_Close_def
          pool_Close_fresh)
  qed
qed

section \<open>The queue of market updates\<close>

lemma worker_queue:
  fixes w :: "'a order_world_scheme"
  shows "marketBlockQueue (market_block_worker E cfg w) = tl (marketBlockQueue w)"
proof -
  have "marketBlockQueue (snd (SynchronizeState E v ttl i b t)) = marketBlockQueue v"
    for v :: "'a order_world_scheme" and ttl i b t
    by (rule SynchronizeState_preserves [where P = "\<lambda>x. marketBlockQueue x = marketBlockQueue v"])
      (simp_all add: only_key_def)
  then show ?thesis
    by (simp add: market_block_worker_def synchronizeMarketBlock_def split: list.split)
qed

text \<open>
  Closing the order service in time applies every task that is queued; after that nothing can
  be queued any more.
\<close>

theorem close_drains_queue:
  fixes w :: "'a order_world_scheme"
  assumes "Close E cfg w = (Inr (), w')"
  shows "marketBlockQueue w' = [] \<and>
    w' = (market_block_worker E cfg ^^ length (marketBlockQueue w)) (step (w\<lparr>marketBlockClosed := True\<rparr>))"
proof -
  have "marketBlockQueue ((market_block_worker E cfg ^^ n) v) = drop n (marketBlockQueue v)"
    for n and v :: "'a order_world_scheme"
    by (induction n) (simp_all add: worker_queue tl_drop drop_Suc)
  with assms show ?thesis
    by (auto simp: Close_def Let_def step_def split: option.splits)
qed

end
