(* ===== verification/Server_Fixtures.thy ===== *)
theory Server_Fixtures
  imports Spot_Fixtures Order_Handler Spot_Client Lifecycle
begin

text \<open>
  The configuration of the repository (\<open>config.yaml\<close>), a concrete library of tokens and a clock
  that stands still, and the properties of configuration, sessions, gRPC servers, clients and
  readiness applied to them. A token of the library is its secret and the claims, separated by
  bytes outside ASCII.
\<close>

section \<open>The configuration\<close>

definition demo_unicode :: unicode_tables where
  "demo_unicode = \<lparr>uc_ToUpper = map ascii_upper, uc_ToLower = map ascii_lower, uc_Quote = id\<rparr>"

definition demo_format :: go_format where
  "demo_format = \<lparr>fmt_unicode = demo_unicode, fmt_duration = show_int, fmt_float = \<lambda>f. ''NaN''\<rparr>"

definition demo_getenv :: "string \<Rightarrow> string" where
  "demo_getenv v = (if v = ''JWT_SECRET'' then ''secret'' else if v = ''ORDER_DB_URI'' \<or> v = ''SPOT_DB_URI''
     then ''postgres://db'' else '''')"

abbreviation ms :: duration where "ms \<equiv> 1000000"
abbreviation sec :: duration where "sec \<equiv> 1000000000"

definition demo_redis_settings :: RedisConfig where
  "demo_redis_settings = \<lparr>rd_Host = ''myredis'', rd_Port = 6379, rd_ConnectionTimeout = 3 * sec, rd_PoolSize = 10,
     rd_MinIdle = 2, rd_MaxIdle = 10, rd_MaxActiveConns = 15, rd_IdleTimeout = 60 * sec,
     rd_ConnMaxLifetime = 1800 * sec, rd_CacheTTL = 0, rd_MarketBlockTTL = 600 * sec,
     rd_Idempotency = \<lparr>id_RequestTTL = 60 * sec, id_CompleteAttempts = 3, id_CompleteAttemptTimeout = 300 * ms,
       id_CompleteRetryDelay = 50 * ms, id_CleanupTimeout = 300 * ms\<rparr>\<rparr>"

definition demo_kafka_settings :: KafkaConfig where
  "demo_kafka_settings = \<lparr>kf_Brokers = [''kafka:29092''],
     kf_Producer = \<lparr>pr_MaxRetries = 3, pr_RetryBackoff = 200 * ms, pr_Timeout = 5 * sec,
       pr_Compression = '' Snappy'', pr_ChannelBufferSize = 1024\<rparr>,
     kf_Consumer = \<lparr>co_GroupID = ''order-service'', co_SessionTimeout = 30 * sec, co_HeartbeatInterval = 3 * sec,
       co_MaxRetries = 3, co_RetryBackoff = 500 * ms, co_RetryJitter = Finite (1/5), co_MaxMessageBytes = 524288,
       co_DLQEnabled = True, co_DLQMaxMessageBytes = 786432, co_RestartBackoff = 3 * sec\<rparr>,
     kf_Topics = \<lparr>tp_OrderCreated = ''order.created'', tp_OrderStatusUpdated = ''order.status.updated'',
       tp_MarketStateChanged = ''market.state.changed'', tp_MarketStateChangedDLQ = ''market.state.changed.dlq''\<rparr>,
     kf_Outbox = \<lparr>os_PollInterval = sec, os_BatchSize = 100, os_BatchTimeout = 5 * sec, os_MaxRetries = 5,
       os_ProcessingTimeout = 300 * sec\<rparr>\<rparr>"

definition demo_health :: HealthConfig where
  "demo_health = \<lparr>hc_CheckInterval = 10 * sec, hc_SuccessThreshold = 1, hc_FailureThreshold = 2\<rparr>"

definition demo_pool :: PostgresPoolConfig where
  "demo_pool = \<lparr>pg_MaxConnections = 10, pg_MinConnections = 2, pg_MaxConnLifetime = 1800 * sec,
     pg_MaxConnIdleTime = 300 * sec\<rparr>"

definition demo_tracing :: TracingConfig where
  "demo_tracing = \<lparr>tr_CollectorEndpoint = ''otel-collector:4317'', tr_Environment = ''development'',
     tr_ServiceVersion = ''1.0.0''\<rparr>"

definition demo_metrics :: "string \<Rightarrow> MetricsConfig" where
  "demo_metrics addr = \<lparr>mt_HTTPAddress = addr, mt_ReadTimeout = 5 * sec, mt_WriteTimeout = 10 * sec,
     mt_IdleTimeout = 60 * sec, mt_ShutdownTimeout = 10 * sec\<rparr>"

definition demo_keepalive :: KeepAliveConfig where
  "demo_keepalive = \<lparr>ka_PingTime = 20 * sec, ka_PingTimeout = 5 * sec, ka_MinPingInterval = 10 * sec,
     ka_PermitWithoutStream = True\<rparr>"

definition demo_logging :: LoggingConfig where
  "demo_logging = \<lparr>log_Level = ''info'', log_Format = ''console'', log_ContextFieldsMax = 10\<rparr>"

definition health_methods :: "string list" where
  "health_methods = [''/grpc.health.v1.Health/Check'', ''/grpc.health.v1.Health/Watch'']"

definition order_yaml :: OrderSettings where
  "order_yaml = \<lparr>
     oc_Service = \<lparr>svc_Address = '':50051'', svc_Name = ''order-service'', svc_MaxRecvMsgSize = 10485760, svc_DBURI = ''''\<rparr>,
     oc_SpotAddress = ''spot-service:50052'', oc_Timeouts = \<lparr>to_Service = 5 * sec, to_Check = 15 * sec\<rparr>,
     oc_Log = demo_logging,
     oc_AuthVerifier = \<lparr>av_JWTSecret = '''', av_SkipMethods = health_methods @ [RefreshToken_FullMethodName]\<rparr>,
     oc_Health = demo_health, oc_AuthIssuer = \<lparr>ai_AccessTokenTTL = 900 * sec, ai_RefreshTokenTTL = 86400 * sec\<rparr>,
     oc_CircuitBreaker = \<lparr>cb_MaxRequests = 3, cb_Interval = 10 * sec, cb_Timeout = 3 * sec, cb_MaxFailures = 5\<rparr>,
     oc_PostgresPool = demo_pool,
     oc_GRPCRateLimit = \<lparr>og_CreateOrder = 1000, og_GetOrderStatus = 2000, og_RefreshToken = 500\<rparr>,
     oc_RateLimitByUser = \<lparr>ru_CreateOrder = 5, ru_GetOrderStatus = 50, ru_Window = 3600 * sec\<rparr>,
     oc_Redis = demo_redis_settings, oc_Tracing = demo_tracing, oc_Metrics = demo_metrics '':9091'',
     oc_KeepAlive = demo_keepalive,
     oc_Retry = \<lparr>rt_MaxAttempts = 3, rt_InitialBackoff = 100 * ms, rt_Jitter = Finite (1/10),
       rt_PerRetryTimeout = 1500 * ms\<rparr>,
     oc_Kafka = demo_kafka_settings\<rparr>"

definition spot_yaml :: SpotSettings where
  "spot_yaml = \<lparr>
     sc_Service = \<lparr>svc_Address = '':50052'', svc_Name = ''spot-service'', svc_MaxRecvMsgSize = 10485760, svc_DBURI = ''''\<rparr>,
     sc_ViewMarkets = \<lparr>vm_DefaultLimit = 100, vm_MaxLimit = 500, vm_CacheLimit = 500\<rparr>,
     sc_Log = demo_logging, sc_AuthVerifier = \<lparr>av_JWTSecret = '''', av_SkipMethods = health_methods\<rparr>,
     sc_Timeouts = \<lparr>to_Service = 5 * sec, to_Check = 15 * sec\<rparr>, sc_Health = demo_health,
     sc_PostgresPool = demo_pool, sc_GRPCRateLimit = \<lparr>sg_ViewMarkets = 1000, sg_GetMarketByID = 2000\<rparr>,
     sc_Redis = demo_redis_settings\<lparr>rd_CacheTTL := 300 * sec\<rparr>, sc_Tracing = demo_tracing, sc_Metrics = demo_metrics '':9092'',
     sc_KeepAlive = demo_keepalive, sc_Kafka = demo_kafka_settings,
     sc_MarketPoller = \<lparr>po_PollInterval = sec, po_ProcessingTimeout = 5 * sec, po_BatchSize = 100,
       po_RestartBackoff = 3 * sec\<rparr>\<rparr>"

definition order_loaded :: OrderSettings where
  "order_loaded = projr (order_Load demo_format (Inr (Inr order_yaml)) demo_getenv)"

definition spot_loaded :: SpotSettings where
  "spot_loaded = projr (spot_Load demo_format (Inr (Inr spot_yaml)) demo_getenv)"

text \<open>One evaluation of each, and what the providers make of them.\<close>

definition demo_order_cfg :: OrderConfig where
  "demo_order_cfg = \<lparr>cfg_RequestTTL = 60 * sec, cfg_CompleteAttempts = 3, cfg_MarketBlockTTL = 600 * sec,
     cfg_CreateLimiter = \<lparr>RL_limit = 5, RL_window = 3600 * sec, RL_prefix = ''rate:order:create:''\<rparr>,
     cfg_GetLimiter = \<lparr>RL_limit = 50, RL_window = 3600 * sec, RL_prefix = ''rate:order:get:''\<rparr>\<rparr>"

definition demo_manager :: Manager where
  "demo_manager = \<lparr>mgr_secret = ''secret'', mgr_accessTTL = 900 * sec, mgr_refreshTTL = 86400 * sec\<rparr>"

lemma order_load_run:
  "case order_Load demo_format (Inr (Inr order_yaml)) demo_getenv of
     Inl err \<Rightarrow> False
   | Inr cfg \<Rightarrow>
       provideOrderService cfg = demo_order_cfg \<and> order_provideJWTManager cfg = demo_manager \<and>
       provideAuthService cfg = \<lparr>as_jwtManager = demo_manager, as_refreshTTL = 86400 * sec\<rparr> \<and>
       av_SkipMethods (oc_AuthVerifier cfg) = health_methods @ [RefreshToken_FullMethodName] \<and>
       OrderUnaryServerInterceptor_limits cfg =
         [(''/order.v1.OrderService/CreateOrder'', 1000), (''/order.v1.OrderService/GetOrderStatus'', 2000),
          (RefreshToken_FullMethodName, 500)] \<and>
       pr_Compression (kf_Producer (oc_Kafka cfg)) = ''snappy''"
  by code_simp

lemma spot_load_run:
  "case spot_Load demo_format (Inr (Inr spot_yaml)) demo_getenv of
     Inl err \<Rightarrow> False
   | Inr cfg \<Rightarrow> mv_cacheTTL (provideSpotService cfg) = 300 * sec"
  by code_simp

lemma order_load: "order_Load demo_format (Inr (Inr order_yaml)) demo_getenv = Inr order_loaded"
  using order_load_run by (simp add: order_loaded_def split: sum.splits)

lemma spot_load: "spot_Load demo_format (Inr (Inr spot_yaml)) demo_getenv = Inr spot_loaded"
  using spot_load_run by (simp add: spot_loaded_def split: sum.splits)

lemma order_provided:
  "provideOrderService order_loaded = demo_order_cfg" "order_provideJWTManager order_loaded = demo_manager"
  "provideAuthService order_loaded = \<lparr>as_jwtManager = demo_manager, as_refreshTTL = 86400 * sec\<rparr>"
  "av_SkipMethods (oc_AuthVerifier order_loaded) = health_methods @ [RefreshToken_FullMethodName]"
  "OrderUnaryServerInterceptor_limits order_loaded =
     [(''/order.v1.OrderService/CreateOrder'', 1000), (''/order.v1.OrderService/GetOrderStatus'', 2000),
      (RefreshToken_FullMethodName, 500)]"
  "pr_Compression (kf_Producer (oc_Kafka order_loaded)) = ''snappy''"
  using order_load_run unfolding order_load by simp_all

lemma spot_provided: "mv_cacheTTL (provideSpotService spot_loaded) = 300 * sec"
  using spot_load_run unfolding spot_load by simp

section \<open>Witnesses: configuration\<close>

text \<open>An event of each type finds its topic.\<close>

definition some_event :: OutboxEvent where
  "some_event = \<lparr>Out_ID = 1, Out_EventID = 1, Out_EventType = OrderCreatedEventType, Out_AggregateID = 1,
     Out_Payload = ''p'', Out_Status = OutboxEventStatusPending, Out_RetryCount = 0,
     Out_AvailableAt = 0, Out_CreatedAt = 0, Out_PublishedAt = None,
     Out_FailedAt = None, Out_LockedAt = None, Out_LastError = None\<rparr>"


theorem accepted_order_config_witness:
  "cfg_RequestTTL (provideOrderService order_loaded) = 60 * sec \<and> cfg_wired (provideOrderService order_loaded) \<and>
   (case provideOutboxWorker order_loaded of (worker, topics) \<Rightarrow>
      messageTopic topics (some_event\<lparr>Out_EventType := OrderStatusUpdatedEventType\<rparr>) \<noteq> [])"
proof -
  have "cfg_RequestTTL (provideOrderService order_loaded) = 60 * sec"
    by (simp add: order_provided demo_order_cfg_def)
  with accepted_order_config [OF order_load, of some_event] show ?thesis by (auto split: prod.splits)
qed

theorem accepted_spot_config_witness:
  "mv_cacheTTL (provideSpotService spot_loaded) = 300 * sec \<and>
   validateSpotViewMarkets (provideSpotService spot_loaded) = Inr ()"
  using accepted_spot_config [OF spot_load] spot_provided by blast

text \<open>The same configuration with a lifetime of half a millisecond is accepted as well.\<close>

definition short_yaml :: OrderSettings where
  "short_yaml = order_yaml\<lparr>oc_Redis := demo_redis_settings\<lparr>rd_Idempotency :=
     (rd_Idempotency demo_redis_settings)\<lparr>id_RequestTTL := 500000\<rparr>\<rparr>\<rparr>"

definition short_loaded :: OrderSettings where
  "short_loaded = projr (order_Load demo_format (Inr (Inr short_yaml)) demo_getenv)"

theorem accepted_short_ttl_blocks_orders_witness:
  "is_ok (order_Load demo_format (Inr (Inr short_yaml)) demo_getenv) \<and>
   (\<exists>err w'. CreateOrder demo demo_world (provideOrderService short_loaded) 1 2 OrderTypeLimit (Decimal 5 0) 3 =
      (Inl err, w') \<and> db w' = db demo_world)"
proof -
  have "case order_Load demo_format (Inr (Inr short_yaml)) demo_getenv of
      Inl err \<Rightarrow> False
    | Inr cfg \<Rightarrow> id_RequestTTL (rd_Idempotency (oc_Redis cfg)) < millisecond" by code_simp
  then have "is_ok (order_Load demo_format (Inr (Inr short_yaml)) demo_getenv)"
    "id_RequestTTL (rd_Idempotency (oc_Redis short_loaded)) < millisecond"
    by (auto simp: short_loaded_def split: sum.splits)
  then show ?thesis
    using accepted_short_ttl_blocks_orders [of short_loaded demo_world demo 1 2 OrderTypeLimit "Decimal 5 0" 3]
    by simp
qed

section \<open>Witnesses: readiness\<close>

text \<open>One failed probe does not take the service down, two in a row do.\<close>

abbreviation up :: "(string \<times> string option) list" where "up \<equiv> [(''postgres'', None), (''redis'', None)]"
abbreviation down :: "(string \<times> string option) list" where "down \<equiv> [(''postgres'', None), (''redis'', Some ''timeout'')]"

theorem readiness_follows_history_witness:
  "(case RequireReady (NewReadinessMonitor (\<lambda>s. None)
        \<lparr>rm_ServiceNames = [''order.v1.OrderService''], rm_CheckInterval = 10 * sec, rm_CheckTimeout = 15 * sec,
         rm_SuccessThreshold = 1, rm_FailureThreshold = 2\<rparr>) up of
      (Inl _, m) \<Rightarrow> False
    | (Inr _, m) \<Rightarrow> reports_status (Watch m (map Some [down, up, down])) SERVING \<and>
        reports_status (Watch m (map Some [down, up, down, down])) NOT_SERVING)"
proof -
  let ?cfg = "\<lparr>rm_ServiceNames = [''order.v1.OrderService''], rm_CheckInterval = 10 * sec,
    rm_CheckTimeout = 15 * sec, rm_SuccessThreshold = 1, rm_FailureThreshold = 2\<rparr>"
  have small: "int (Suc (length [down, up, down])) < max_int64" "int (Suc (length [down, up, down, down])) < max_int64"
    by (simp_all add: max_int64_def)
  have "healthy_probe up" "\<not> healthy_probe down" by (simp_all add: healthy_probe_def)
  then show ?thesis
    using readiness_follows_history [OF small(1), where server = "\<lambda>s. None" and cfg = ?cfg and first = up]
      readiness_follows_history [OF small(2), where server = "\<lambda>s. None" and cfg = ?cfg and first = up]
    by (auto simp: streak_def split: prod.splits sum.splits)
qed


section \<open>A library of tokens\<close>

fun join_sep :: "string list \<Rightarrow> string" where
  "join_sep [] = []"
| "join_sep [s] = s"
| "join_sep (s # t # ss) = s @ demo_sep # join_sep (t # ss)"

lemma split_join:
  "ss \<noteq> [] \<Longrightarrow> list_all (\<lambda>s. demo_sep \<notin> set s) ss \<Longrightarrow> split_on demo_sep (join_sep ss) = ss"
  by (induction ss rule: join_sep.induct) (simp_all add: split_on_append split_on_none)

definition write_claims :: "Claims \<Rightarrow> string" where
  "write_claims c = join_sep ([Cl_ID c, Cl_Subject c, show_int (Cl_IssuedAt c), show_int (Cl_ExpiresAt c),
     Cl_TokenType c, Cl_SessionID c] @ Cl_UserRoles c)"

definition read_claims :: "string \<Rightarrow> Claims option" where
  "read_claims s =
     (case split_on demo_sep s of
        i # sub # iat # ex # ty # sess # roles \<Rightarrow>
          (case (parse_int iat, parse_int ex) of
             (Some a, Some b) \<Rightarrow> Some \<lparr>Cl_ID = i, Cl_Subject = sub, Cl_IssuedAt = a, Cl_ExpiresAt = b,
                Cl_TokenType = ty, Cl_SessionID = sess, Cl_UserRoles = roles\<rparr>
           | _ \<Rightarrow> None)
      | _ \<Rightarrow> None)"

lemma read_write_claims: "ascii_claims c \<Longrightarrow> read_claims (write_claims c) = Some c"
  using ascii_no_sep show_int_sep
  by (cases c) (simp add: read_claims_def write_claims_def split_join ascii_claims_def list_all_iff
      del: join_sep.simps)

definition demo_jwt :: jwt_lib where
  "demo_jwt = \<lparr>jwt_NewNumericDate = \<lambda>t. t div sec * sec,
     jwt_SignedString = \<lambda>secret c. Some (secret @ list_sep # write_claims c),
     jwt_ParseWithClaims = \<lambda>t secret token.
       if take (Suc (length secret)) token \<noteq> secret @ [list_sep] then Inl JwtOtherError
       else (case read_claims (drop (Suc (length secret)) token) of
          None \<Rightarrow> Inl JwtOtherError
        | Some c \<Rightarrow> if t < Cl_ExpiresAt c then Inr c else Inl JwtTokenExpired)\<rparr>"

lemma demo_jwt_reads: "jwt_reads_signed demo_jwt"
proof -
  have "t - second < t div sec * sec \<and> t div sec * sec \<le> t" for t :: int
    using div_mult_mod_eq [of t sec] pos_mod_bound [of sec t] pos_mod_sign [of sec t]
    unfolding second_def by linarith
  then show ?thesis by (simp add: jwt_reads_signed_def demo_jwt_def read_write_claims)
qed

lemma demo_jwt_steady: "jwt_steady demo_jwt"
  by (auto simp: jwt_steady_def demo_jwt_def split: if_splits option.splits)

section \<open>Witnesses: sessions\<close>

text \<open>The environment with a clock that stands still, and a user with a first refresh token.\<close>

definition still :: order_env where
  "still = demo\<lparr>env_now := \<lambda>n. 1700000000000000000\<rparr>"

definition demo_auth :: AuthService where
  "demo_auth = provideAuthService order_loaded"

lemma demo_auth_eq [code]: "demo_auth = \<lparr>as_jwtManager = demo_manager, as_refreshTTL = 86400 * sec\<rparr>"
  by (simp add: demo_auth_def order_provided)

lemma still_ok: "all_success still" "uuid_ok still" "within_ttl still (86400 * sec)"
  using demo_success(1) demo_uuid_ok
  by (simp_all add: still_def all_success_def uuid_ok_def within_ttl_def Milliseconds_def millisecond_def demo_def)

lemma still_live: "tokens_live still demo_jwt demo_auth"
  using still_ok(3) demo_jwt_reads demo_jwt_steady
  by (simp add: tokens_live_def demo_auth_eq demo_manager_def second_def)
    (simp add: still_def demo_jwt_def date_range_def second_def)


definition first_claims :: Claims where
  "first_claims = \<lparr>Cl_ID = ''t0'', Cl_Subject = ''1'', Cl_IssuedAt = 1700000000 * sec,
     Cl_ExpiresAt = 1700086400 * sec, Cl_TokenType = ''refresh'', Cl_SessionID = ''s'',
     Cl_UserRoles = [''ROLE_USER'']\<rparr>"

definition first_token :: string where
  "first_token = ''secret'' @ list_sep # write_claims first_claims"

definition logged_in :: order_world where
  "logged_in = snd (Replace still demo_world (86400 * sec) 1 ''t0'' ''s'')"

lemma first_token_parsed: "jwt_ParseWithClaims demo_jwt (1700000000 * sec) ''secret'' first_token = Inr first_claims"
  by code_simp

lemma still_uuid_fresh: "uuid_String still (env_uuid still n) \<noteq> ''t0''"
proof -
  have "\<not> is_digit (CHR ''t'')" "CHR ''t'' \<noteq> CHR ''-''" by code_simp+
  then have "CHR ''t'' \<notin> set (show_int i)" for i
    using show_int_chars [of "CHR ''t''" i] by auto
  then show ?thesis
    by (simp add: still_def demo_def demo_uuid_String_def) (metis list.set_intros(1))
qed

lemma still_parse: "uuid_Parse still (Cl_Subject first_claims) = Some 1"
  by code_simp

lemma first_refresh_ok: "is_ok (fst (Refresh still demo_jwt demo_unicode demo_auth logged_in first_token))"
  by code_simp

theorem refresh_token_used_once_witness:
  "fst (refresh_run still demo_jwt demo_unicode demo_auth first_token [(id, id), (id, id)] logged_in) \<le> 1 \<and>
   is_ok (fst (Refresh still demo_jwt demo_unicode demo_auth logged_in first_token))"
proof -
  have "fst (refresh_run still demo_jwt demo_unicode demo_auth first_token [(id, id), (id, id)] logged_in) \<le> 1"
    using first_token_parsed still_uuid_fresh
    by (intro refresh_token_used_once [OF demo_jwt_steady _ _ still_parse])
      (auto simp: demo_auth_eq demo_manager_def first_claims_def)
  with first_refresh_ok show ?thesis by blast
qed

theorem only_last_refresh_token_accepted_witness:
  "fst (Rotate still logged_in (86400 * sec) 1 ''t0'' ''s'' ''t1'' ''s'') = Inr True \<and>
   fst (Rotate still logged_in (86400 * sec) 1 ''stolen'' ''s'' ''t1'' ''s'') = Inr False"
proof -
  have "env_outcome still (tick logged_in) = Success" by (simp add: still_def demo_def)
  moreover have "Replace still demo_world (86400 * sec) 1 ''t0'' ''s'' = (Inr (), logged_in)"
  proof -
    have "is_ok (fst (Replace still demo_world (86400 * sec) 1 ''t0'' ''s''))" by code_simp
    then show ?thesis by (auto simp: logged_in_def is_ok_iff prod_eq_iff)
  qed
  ultimately show ?thesis
    using only_last_refresh_token_accepted [OF still_ok(3), where w = demo_world and ?w1.0 = logged_in and ?w2.0 = logged_in
        and u = 1 and j = "''t0''" and s = "''s''"]
    by auto
qed

definition refreshed :: "(string \<times> string) \<times> order_world" where
  "refreshed = (case Refresh still demo_jwt demo_unicode demo_auth logged_in first_token of
     (r, w) \<Rightarrow> (projr r, w))"

theorem refreshed_tokens_work_witness:
  "\<not> is_ok (fst (Refresh still demo_jwt demo_unicode demo_auth (snd refreshed) first_token)) \<and>
   is_ok (fst (Refresh still demo_jwt demo_unicode demo_auth (snd refreshed) (snd (fst refreshed))))"
proof -
  have r: "Refresh still demo_jwt demo_unicode demo_auth logged_in first_token =
      (Inr (fst (fst refreshed), snd (fst refreshed)), snd refreshed)"
    using first_refresh_ok by (auto simp: refreshed_def is_ok_iff prod_eq_iff split: prod.split)
  have claims: "ascii (Cl_SessionID c) \<and> Cl_ID c \<noteq> uuid_String still (env_uuid still (Suc (tick logged_in)))"
    if "ParseToken still demo_jwt (as_jwtManager demo_auth) logged_in first_token TokenTypeRefresh = Inr c" for c
  proof -
    have "env_now still (tick logged_in) = 1700000000 * sec" by (simp add: still_def)
    then have "c = first_claims"
      using ParseToken_Inr [OF that] first_token_parsed by (simp add: demo_auth_eq demo_manager_def)
    moreover have "ascii ''s''" by code_simp
    ultimately show ?thesis using still_uuid_fresh by (metis first_claims_def Claims.select_convs(1,6))
  qed
  from refreshed_tokens_work [OF still_ok(1,2) still_live r claims, where ?w2.0 = "snd refreshed"]
  show ?thesis by auto
qed


section \<open>Witnesses: requests and markets over the wire\<close>

definition demo_server :: server where
  "demo_server = order_provideGRPCServer order_loaded (\<lambda>fullMethod rps burst n. True)"

lemma demo_server_code [code]:
  "demo_server = \<lparr>srv_manager = demo_manager, srv_skipMethods = health_methods @ [RefreshToken_FullMethodName],
     srv_methodsLimit = [(''/order.v1.OrderService/CreateOrder'', 1000), (''/order.v1.OrderService/GetOrderStatus'', 2000),
       (RefreshToken_FullMethodName, 500)], srv_allow = \<lambda>fullMethod rps burst n. True\<rparr>"
  by (simp add: demo_server_def order_provideGRPCServer_def order_provided)

definition demo_access :: string where
  "demo_access = ''secret'' @ list_sep # write_claims
     (first_claims\<lparr>Cl_ID := '''', Cl_TokenType := ''access'', Cl_ExpiresAt := 1700000900 * sec\<rparr>)"

definition demo_md :: metadata where
  "demo_md = [(''authorization'', [''Bearer '' @ demo_access])]"

definition demo_request :: "CreateOrderRequest option" where
  "demo_request = Some \<lparr>CR_MarketId = ''2'', CR_OrderType = 1, CR_Price = Some ''5'', CR_Quantity = 3\<rparr>"

abbreviation demo_served :: "(string \<times> int) served \<times> order_world" where
  "demo_served \<equiv> serve_CreateOrder demo demo_jwt demo_unicode demo_server demo_order_cfg None
     demo_world demo_md demo_request"

lemma demo_served_run:
  "length (orders (db (snd demo_served))) = 1 \<and>
   map_option fst (authenticated demo demo_jwt demo_unicode demo_server demo_world demo_md) = Some 1 \<and>
   uuid_Parse demo ''2'' = Some 2 \<and> validatePrice demo demo_request = Inr (Decimal 5 0) \<and>
   authenticated demo demo_jwt demo_unicode demo_server demo_world [(''authorization'', [''Bearer '' @ first_token])] = None"
  by code_simp

theorem orders_only_for_authenticated_user_witness:
  "\<exists>i. order_placed demo 1 2 OrderTypeLimit (Decimal 5 0) 3 (db demo_world) i (db (snd demo_served))"
proof -
  have "db (snd demo_served) \<noteq> db demo_world"
    using demo_served_run by (metis demo_world_simps(3) list.size(3) order_db.select_convs(1) zero_neq_one)
  from orders_only_for_authenticated_user [OF prod.collapse [symmetric] this]
  obtain req u roles m p i where "demo_request = Some req"
    "authenticated demo demo_jwt demo_unicode demo_server demo_world demo_md = Some (u, roles)"
    "uuid_Parse demo (CR_MarketId req) = Some m" "validatePrice demo demo_request = Inr p"
    "order_placed demo u m (TypeFromProto (CR_OrderType req)) p (CR_Quantity req) (db demo_world) i (db (snd demo_served))"
    by blast
  with demo_served_run show ?thesis by (auto simp: demo_request_def TypeFromProto_def)
qed

definition demo_tracer :: tracer where
  "demo_tracer = \<lparr>tr_Start = \<lambda>md. Some ''4bf9'', tr_Inject = \<lambda>t. [(''Traceparent'', case t of None \<Rightarrow> ''0'' | Some x \<Rightarrow> x), (''baggage'', ''a=1'')],
     tr_elapsed = 5 * ms\<rparr>"

definition demo_outgoing :: log_ctx where
  "demo_outgoing = tracing_UnaryClientInterceptor demo_unicode demo_tracer (UnaryClientAuthInterceptor
     (Background\<lparr>ctx_incoming := Some ((''host'', [''spot'']) # demo_md), lc_traceID := Some ''4bf9''\<rparr>))"

theorem caller_identity_forwarded_witness:
  "\<exists>md. ctx_outgoing demo_outgoing = Some md \<and>
     map_option fst (authenticated demo demo_jwt demo_unicode demo_server demo_world md) = Some 1"
proof -
  let ?md = "(''host'', [''spot'']) # demo_md"
  let ?ctx = "Background\<lparr>ctx_incoming := Some ?md, lc_traceID := Some ''4bf9''\<rparr>"
  have "map_option fst (authenticated demo demo_jwt demo_unicode demo_server demo_world ?md) = Some 1" by code_simp
  moreover have "\<forall>(k, v) \<in> set (tr_Inject demo_tracer (lc_traceID ?ctx)). strings_ToLower demo_unicode k \<noteq> authorizationHeader"
    by code_simp
  moreover have "ctx_incoming ?ctx = Some ?md" "ctx_outgoing ?ctx = None" by (simp_all add: Background_def)
  ultimately show ?thesis
    using caller_identity_forwarded [where T = demo_tracer and U = demo_unicode and md = ?md and ctx = ?ctx
        and E = demo and J = demo_jwt and srv = demo_server and w = demo_world]
    unfolding demo_outgoing_def by metis
qed

theorem unauthenticated_request_rejected_witness:
  "serve demo demo_jwt demo_unicode demo_server CreateOrder_FullMethodName None
     (\<lambda>w ctx. (Returned (Inr ()), w\<lparr>kv := (kv w)(''x'' \<mapsto> (''y'', None))\<rparr>)) demo_world
     [(''authorization'', [''Bearer '' @ first_token])] =
   (Returned (Inl (StatusError Code_Unauthenticated ''authentication failed'')), demo_world)"
proof -
  have a: "authenticated demo demo_jwt demo_unicode demo_server demo_world
      [(''authorization'', [''Bearer '' @ first_token])] = None" using demo_served_run by blast
  have s: "\<not> shouldSkip CreateOrder_FullMethodName (makeSkipMethods (srv_skipMethods demo_server))" by code_simp
  from unauthenticated_request_rejected [OF a s prod.collapse [symmetric], where violation = None
      and handler = "\<lambda>w ctx. (Returned (Inr ()), w\<lparr>kv := (kv w)(''x'' \<mapsto> (''y'', None))\<rparr>)"]
  show ?thesis by (simp only: prod_eq_iff fst_conv snd_conv option.case simp_thms)
qed

lemma demo_spot_texts: "uuid_String demo_spot = uuid_String demo" "uuid_Parse demo_spot = uuid_Parse demo"
  by (simp_all add: demo_spot_def)

theorem spot_answers_read_back_witness:
  "client_ViewMarkets demo demo_codec BreakerAdmits
     (\<lambda>l k. case fst (serverAPI_ViewMarkets demo_spot demo_codec demo_viewer demo_spot_world
          (Some [UserRoleUser, UserRoleViewer]) (Some (l, k))) of
        Returned answer \<Rightarrow> answer | Panics _ \<Rightarrow> Inl (StatusError Code_Internal ''internal error'')) 1 0 =
   Inr ([demo_market 1 ''BTC'' True None], 1, True)"
proof -
  have "list_all wire_range [demo_market 1 ''BTC'' True None]"
    by (simp add: wire_range_def demo_market_def zero_time_def max_timestamp_def)
  then show ?thesis
    using demo_viewed_eq spot_answers_read_back [OF demo_uuid_ok demo_codec_is_ok demo_spot_texts,
        where s = demo_viewer and w = demo_spot_world and roles = "Some [UserRoleUser, UserRoleViewer]" and limit = 1 and ofs = 0]
    by blast
qed


text \<open>The order service asks the spot service of the other fixtures through the client.\<close>

definition wire_api :: "string \<Rightarrow> go_error + pb_Market option" where
  "wire_api k = map_sum id Some (fst (serverAPI_GetMarketByID demo_spot demo_codec demo_viewer demo_spot_world
     (Some [UserRoleUser]) (Some k)))"

definition wired :: order_env where
  "wired = demo\<lparr>spot_GetMarketByID := \<lambda>n i. client_GetMarketByID demo demo_codec BreakerAdmits wire_api i\<rparr>"

lemma wired_orders:
  "length (orders (db (snd (CreateOrder wired demo_world demo_cfg 1 1 OrderTypeLimit (Decimal 5 0) 3)))) = 1"
  by code_simp

theorem order_market_served_as_open_witness:
  "\<exists>mk w2. GetMarketByID demo_spot demo_viewer demo_spot_world (Some [UserRoleUser]) 1 = (Inr mk, w2) \<and>
     Market_Enabled mk \<and> Market_DeletedAt mk = None"
proof -
  let ?c = "CreateOrder wired demo_world demo_cfg 1 1 OrderTypeLimit (Decimal 5 0) 3"
  have changed: "db (snd ?c) \<noteq> db demo_world"
    using wired_orders by (metis demo_world_simps(3) list.size(3) order_db.select_convs(1) zero_neq_one)
  have same: "MarketFromProto wired demo_codec = MarketFromProto demo demo_codec"
    by (rule ext) (simp add: MarketFromProto_def wired_def split: option.split)
  have asks: "spot_GetMarketByID wired n i = client_GetMarketByID wired demo_codec BreakerAdmits wire_api i" for n i
    unfolding client_GetMarketByID_def same by (simp add: wired_def client_GetMarketByID_def)
  have answers: "\<exists>pm' w2. pm = Some pm' \<and> serverAPI_GetMarketByID demo_spot demo_codec demo_viewer demo_spot_world
      (Some [UserRoleUser]) (Some k) = (Inr pm', w2)" if "wire_api k = Inr pm" for k pm
    using that
    by (cases "serverAPI_GetMarketByID demo_spot demo_codec demo_viewer demo_spot_world (Some [UserRoleUser]) (Some k)";
        cases "fst (serverAPI_GetMarketByID demo_spot demo_codec demo_viewer demo_spot_world (Some [UserRoleUser]) (Some k))")
      (auto simp: wire_api_def)
  have "uuid_ok wired" "uuid_Parse demo_spot = uuid_Parse wired"
    using demo_uuid_ok by (simp_all add: wired_def uuid_ok_def demo_spot_def)
  from order_market_served_as_open [OF prod.collapse [symmetric] changed asks answers this] show ?thesis by blast
qed

end
