(* ===== verification/Spec2Isabelle.thy ===== *)
theory Spec2Isabelle
  imports Server_Fixtures
begin

text \<open>
  A verification of the spot order services: the order service and the spot service, in Go, with
  the packages they share. Paths are below \<open>src/\<close>.

  \<^bold>\<open>The program.\<close> A user places orders on markets. The order service (\<open>orderService/\<close>) answers
  \<open>CreateOrder\<close>, \<open>GetOrderStatus\<close> and \<open>RefreshToken\<close>. A new order goes through the chain of
  interceptors, the limiter of the user, the idempotency entry of the request in Redis and the
  check of the market, for which the spot service is asked, and is then written to PostgreSQL in
  one transaction with an event for the outbox. A worker sends the outbox to Kafka. The spot
  service (\<open>spotService/\<close>) serves its table of markets page by page and one by one through
  caches in Redis; its poller notices updates of the table by a cursor and writes one event for
  each into its own outbox, whose worker sends them to Kafka. The consumer of the order service
  reads them, cancels the orders of a market that was disabled or deleted, announces the
  cancellations through its outbox, and stores in Redis whether the market is blocked. Messages
  it cannot handle go to a dead letter queue. Both services load one configuration file, and
  report their readiness by probing PostgreSQL and Redis.

  \<^bold>\<open>How the code is modelled.\<close> An operation is a function of an environment, a world and its
  arguments, and returns an error or a result, and the new world; every branch of the code, its
  early returns and its errors are branches of the function. A world is the state outside the
  processes (the Redis keyspace, the tables, the log of the broker) together with the state of
  a process that outlives a call (the queue of market updates, the cursor of the poller). The
  environment (theory \<open>Environment\<close>) is what the code does not decide: clocks, fresh UUIDs, the
  state of contexts and the outcome of every call that leaves the process, each read at the
  number of the step (\<open>tick\<close>), so that it may differ from call to call. An outcome is \<open>Success\<close>, \<open>Lost\<close>
  (an error, and nothing happened) or \<open>Applied\<close> (an error, though the call took effect); a
  theorem that says nothing about outcomes holds for all three, wherever they occur. A panic is
  a value of the type \<open>served\<close>. Integers whose overflow matters are words or wrap explicitly
  (\<open>wrap64\<close>); instants are nanoseconds since the epoch.

  Libraries are arguments. Codecs (UUIDs, JSON of the caches, Protobuf, decimals, tokens) come
  with named hypotheses that state what their documentation promises (\<open>uuid_ok\<close>, \<open>entry_codec_ok\<close>,
  \<open>json_ok\<close>, \<open>codec_ok\<close>, \<open>lua_ok\<close>, \<open>jwt_reads_signed\<close>, \<open>jwt_steady\<close>), and each of them is shown for a concrete
  codec in the fixtures. They hold of the real libraries: JSON makes a text valid UTF-8 (\<open>json_text\<close>) and
  keeps integers of 64 bits, and a token keeps dates as they are written, cut to the precision of the
  library (\<open>json_date\<close>). Floating-point settings are numbers, infinities or not a number (\<open>float64\<close>). The SQL statements and the Lua scripts are code of the repository and are
  translated: statements as functions on lists of rows with their constraints, scripts as functions
  on the keyspace. A transaction works on a copy of the tables that its commit puts in place.

  \<^bold>\<open>The theories.\<close>

  \<^item> \<open>Prelude\<close>, \<open>Domain\<close>, \<open>Go_Errors\<close>, \<open>Go_Strings\<close>, \<open>Environment\<close>: what all components share. The
    models of \<open>orderService/internal/domain/models\<close>, \<open>shared/models\<close>; the errors of \<open>shared/errors\<close> as
    trees with \<open>errors_Is\<close>, their texts, and their mapping to statuses
    (\<open>shared/interceptors/errors\<close>); the parts of the Go library that are used; Redis and the wrapper
    \<open>shared/infrastructure/cache\<close>.
  \<^item> \<open>Idempotency_Store\<close>: \<open>infrastructure/redis/idempotency\<close> and its adapter, with its Lua scripts. Abstract
    specification: a machine with the states free, in process, done and corrupted, which the store
    refines. Interface: the locale \<open>request_guard\<close>, in which mutual exclusion is proved for any
    interleaving of operations, interpreted on the operations and on their single calls to Redis.
  \<^item> \<open>Block_Store\<close>, \<open>Rate_Limiter\<close>: \<open>infrastructure/redis/market\<close> and \<open>infrastructure/redis/order\<close>. Interface: the locale
    \<open>latest_wins\<close>, a register in which the newest update wins.
  \<^item> \<open>Order_Tables\<close>, \<open>Order_Service\<close>: the stores over the tables of \<open>orderService/migrations\<close> (constraints
    included) and \<open>services/order/order_service.go\<close>, \<open>idempotency_service.go\<close>, \<open>services/producer\<close>: \<open>CreateOrder\<close>
    and \<open>GetOrderStatus\<close> with every call they make. Invariant of the tables: \<open>db_ok\<close>. Abstract
    specification of a success: \<open>order_placed\<close>.
  \<^item> \<open>Outbox_Worker\<close>, \<open>Outbox_Delivery\<close>: the outbox store and \<open>infrastructure/kafka/outbox_worker.go\<close> of both services, over
    a table and a publisher that are arguments. Interfaces: the locales \<open>outbox_laws\<close>, \<open>outbox_service\<close>
    and \<open>live_outbox\<close>, interpreted on the outbox of the order service here and on that of the spot
    service in \<open>Market_Delivery\<close>. The relation \<open>evolves\<close> says how a row may change.
  \<^item> \<open>Order_To_Broker\<close>: a new order on its way to the broker, through \<open>CreateOrder\<close>, the outbox and its worker.
  \<^item> \<open>Kafka_Producer\<close>, \<open>Kafka_Consumer\<close>, \<open>Kafka_Delivery\<close>: \<open>shared/infrastructure/kafka\<close>; handing over a message and
    waiting for its verdict, the retrying and the dead letter middleware, the loop over a claim.
    Interface: the locale \<open>message_handler\<close>, interpreted on the handler of market events.
  \<^item> \<open>Producer_Client\<close>: the client of the producer (\<open>kafka/producer/client.go\<close>) as a step relation, its callers, its
    loop of acknowledgements and its end running at the same time, with the invariant \<open>client_ok\<close>. Abstract
    specification: the function \<open>publish\<close> of \<open>Kafka_Producer\<close>, which the services are modelled with. A caller
    may panic on the closed channel of a client that is closing; such a caller gets no answer, and \<open>publish\<close>
    has no panic.
  \<^item> \<open>Market_Event\<close>, \<open>Compensation\<close>: the event on the wire, \<open>services/order/compensation_service.go\<close> and
    \<open>services/consumer\<close>. Abstract specification: \<open>orders_cancelled\<close>.
  \<^item> \<open>Spot_Tables\<close>, \<open>Market_Viewer\<close>, \<open>Market_Pages\<close>: the stores and caches of the spot service,
    \<open>services/spot/market_viewer.go\<close> and its gRPC handler. Reference: \<open>sorted_markets\<close>, the list of the markets a role
    may see.
  \<^item> \<open>Market_Poller\<close>, \<open>Market_Feed\<close>, \<open>Market_Delivery\<close>, \<open>Market_To_Orders\<close>: \<open>services/spot/market_poller.go\<close> with its producer and
    cursor, the worker of the spot service, and the composition of both services from the table of
    markets to the orders. References: \<open>updates_between\<close>, the updates between two cursors, and \<open>feed_run\<close>, the life
    of the poller as a sequence of batches and changes by others, of which every run is one (\<open>lives\<close>).
  \<^item> \<open>Auth_Tokens\<close>, \<open>Auth_Session\<close>, \<open>Grpc_Server\<close>, \<open>Order_Handler\<close>, \<open>Spot_Client\<close>: tokens and refreshing them
    (\<open>shared/auth\<close>, \<open>services/auth\<close>, \<open>infrastructure/redis/auth\<close>), the chain of interceptors
    (\<open>shared/interceptors\<close>, \<open>grpc_providers.go\<close>), the gRPC handlers, and the client by which the order service
    asks the spot service (\<open>shared/client/grpc\<close>).
  \<^item> \<open>Logging\<close>, \<open>Observability\<close>: \<open>shared/interceptors/logging\<close>, \<open>metrics\<close>, \<open>tracing\<close>; the observed chain
    \<open>observed_serve\<close> against the plain one, \<open>serve\<close>.
  \<^item> \<open>Readiness\<close>, \<open>Config\<close>, \<open>Service_Config\<close>, \<open>Wiring\<close>, \<open>Infrastructure\<close>, \<open>Lifecycle\<close>: \<open>shared/infrastructure/health\<close>,
    \<open>shared/config\<close>, \<open>orderService/config\<close>, \<open>spotService/config\<close>, \<open>shared/infrastructure/db\<close> and \<open>application/order\<close>,
    \<open>application/spot\<close>: loading and validating the configuration, what each provider makes of it,
    and how background work, servers and connections are started and stopped. Reference for the
    readiness: \<open>should_serve\<close>, a function of the history of probes.
  \<^item> \<open>Order_Fixtures\<close>, \<open>Event_Fixtures\<close>, \<open>Spot_Fixtures\<close>, \<open>Server_Fixtures\<close>: concrete environments, codecs, worlds and
    the configuration of the repository, to which the theorems are applied; the model is executed
    there, also on runs that go wrong.

  \<^bold>\<open>What is shown.\<close> Numbers are those of the statements (C1 to C40) in the theories.

  \<^item> Orders: at most one for a request however often it is repeated (C1, C9), all or nothing with its
    event (C2), the answer tells what happened (C12), a repetition gets the first answer (C13), only on a
    market reported as open (C24) and, through the client, served as open (C17), only for the
    user of the token (C10), visible to that user only (C37), keeping the invariant of the
    tables (C36), within the limits (C31).
  \<^item> Cancellations: exactly the active orders of a closed market, each announced once (C3), at most
    once for an event (C16), nothing on failure (C20), and the newest state of a market wins (C21).
  \<^item> The feed: no update is skipped over the life of the poller, whatever fails, and each is written once
    and in order when no commit loses its answer (C6), a poll ends and catches up (C27,
    C28), events survive the wire (C33), and a closed market reaches the orders (C4).
  \<^item> Delivery: the event of a new order reaches the broker (C5), published only after it was sent (C8), rows
    evolve (C18), waiting events are published when nothing fails (C29), the concurrent client of the
    broker answers as its model does (C34), an offset is marked only for a message that was settled or is
    in the dead letter queue (C7), and the texts in dead letters are cut properly (C35).
  \<^item> Markets: only the visible ones (C14), the pages list all of them while the table does not change and
    nothing fails (C15), and they arrive at the
    order service as they were sent (C32).
  \<^item> Tokens: a refresh token works once (C11), only the last one works (C22), and the new pair works (C23);
    the order service calls the spot service as its own caller (C26).
  \<^item> Operation: the idempotency store refines its machine (C19), the readiness follows the history (C25),
    an accepted configuration puts the components where these theorems apply (C30), and requests
    are counted once, as they were answered (C40).
  \<^item> What goes wrong: after a commit that took effect though it reported an error, the next success of
    the request places a second order (C38); a claim goes on after it was asked to stop, and passes
    over the message (C39). Two requests that both find a corrupted idempotency entry can both acquire it
    (\<open>corrupted_entry_acquired_twice\<close>), a publish can panic on a closing client (\<open>closing_client_may_panic\<close>), and the
    poller repeats the events of a batch whose commit lost its answer. The validation of the configuration accepts a number of
    retries with which the consumer skips its handler, a limit with which the caches cannot be
    refreshed, and a lifetime with which no order can be placed (theory \<open>Wiring\<close>).

  \<^bold>\<open>Loops and bounds.\<close> Loops over lists are structural. A poll has no bound in the code; \<open>poll\<close> takes
  fuel, \<open>None\<close> is a poll that has not ended within it, and one round more than there are markets is
  shown to be enough whatever the size of a batch. The retrying middleware and the completion of an
  idempotency entry count down from their settings. Workers, the poller and the
  consumer are driven by a list of turns of their \<open>select\<close>, so that their theorems hold for every
  sequence of ticks and ends; \<open>supervise\<close> follows a number of restarts, and its lemma holds
  for every number. A client that reads page after page needs one request more than there are
  markets, which its theorem takes as a bound on the fuel.

  Interleaving: operations of concurrent requests are atomic where the code makes one call to Redis
  or commits one transaction; the mutual exclusion of requests (C9) interleaves the calls, and takes
  for granted that the stored text is not corrupted, when acquiring takes three of them. The table of
  markets may change between the batches of the poller, and within a batch between its query and its
  transaction (C6); an update that commits with a time of update the poller has already passed is
  excluded there, and the code skips it. Theorems about repeated or concurrent operations run over a list of
  operations between which the rest of the world may change (other keys, other tables), as
  their statements say. The goroutines of the Kafka client are interleaved freely.

  \<^bold>\<open>Not modelled.\<close> Generated Protobuf code, mocks and tests. The commands (\<open>cmd/\<close>), which parse flags and
  start the applications, and the development helper that prints tokens. The order in which the
  library \<open>fx\<close> builds the components and runs their hooks, the TCP listeners and the HTTP server of the
  metrics. The set-up of the tracing library, the spans inside the services with their attributes
  (\<open>shared/infrastructure/otel\<close>), and the declarations of the metrics (\<open>shared/metrics/metrics.go\<close>): nothing the
  services answer or store depends on them. Reading the configuration file and the file
  \<open>.env\<close> is \<open>viper\<close> and \<open>godotenv\<close>. Concurrent identical reads that \<open>singleflight\<close> joins are modelled
  as one caller at a time. The circuit breaker of \<open>gobreaker\<close> and the limiters of \<open>x/time/rate\<close> are verdicts
  of the environment, with the settings and the classification of errors the code gives them.
\<close>

end
